(* ===== verification/Prelude.thy ===== *)
theory Prelude
  imports Main "HOL-Library.Word" "HOL-Library.Multiset" "HOL-Library.Monad_Syntax"
begin

text \<open>
  Shared material: the integer types of \<^verbatim>\<open>vmm/types.h\<close>, the collections of facts that
  the component theories fill, and generic lemmas on options, words and maps.
\<close>

unbundle bit_operations_syntax

section \<open>Integer types\<close>

type_synonym u8 = "8 word"
type_synonym u16 = "16 word"
type_synonym u32 = "32 word"
type_synonym u64 = "64 word"

section \<open>Collections\<close>

named_theorems vmcs_enc \<open>the numeric values of the VMCS field encodings\<close>
named_theorems msr_enc \<open>the numeric values of the MSR numbers\<close>
named_theorems bit_defs \<open>the control bits\<close>
named_theorems insn_defs \<open>definitions of the instruction wrappers\<close>
named_theorems frame \<open>what an operation leaves unchanged\<close>

section \<open>Options\<close>

lemma bind_Some_iff: "Option.bind x f = Some z \<longleftrightarrow> (\<exists>y. x = Some y \<and> f y = Some z)"
  by (cases x) auto

section \<open>Words\<close>

lemma and_not_and_self [simp]:
  fixes x y :: "'a::len word"
  shows "(x AND NOT y) AND NOT y = x AND NOT y"
  by (simp add: and.assoc)

lemma and_not_and_zero [simp]:
  fixes x y :: "'a::len word"
  shows "(x AND NOT y) AND y = 0"
  by (simp add: and.assoc)

lemma restore_bits [simp]:
  fixes x y f :: "'a::len word"
  shows "((x AND NOT y) OR (f AND y)) AND y = f AND y"
  by (simp add: bit.conj_disj_distrib2 and.assoc)

lemma or_and_not_cancel:
  fixes x y :: "'a::len word"
  assumes "x AND y = 0"
  shows "(x OR y) AND NOT y = x"
proof (rule bit_word_eqI)
  fix n
  assume "n < LENGTH('a)"
  from assms have "bit (x AND y) n = False" by simp
  then show "bit ((x OR y) AND NOT y) n = bit x n"
    using \<open>n < LENGTH('a)\<close> by (auto simp: bit_simps)
qed

lemma and_zero_not:
  fixes x y :: "'a::len word"
  assumes "x AND y = 0"
  shows "x AND NOT y = x"
  using or_and_not_cancel [OF assms] by (simp only: bit.conj_disj_distrib2 bit.conj_cancel_right or.right_neutral)

lemma word_split_32:
  fixes x :: u64
  shows "push_bit 32 (ucast (ucast (drop_bit 32 x) :: u32)) OR ucast (ucast x :: u32) = x"
  by (rule bit_word_eqI) (auto simp: bit_simps)

section \<open>Multisets as ledgers\<close>

lemma add_remove_ledger [simp]:
  "add_mset x M - {#x#} = M" "x \<in># add_mset x M"
  by simp_all

end
