(* ===== verification/Cpu_Defs.thy ===== *)
theory Cpu_Defs
  imports Prelude
begin

text \<open>
  The constants of \<^verbatim>\<open>vmm/cpu-defs.h\<close>, one definition per macro and under the macro's name:
  MSR numbers are \<^typ>\<open>u32\<close> (the argument type of \<^verbatim>\<open>__rdmsr\<close>), bit masks and VMCS field encodings
  are \<^typ>\<open>u64\<close> (\<^verbatim>\<open>1ull << n\<close>, and the argument type of \<^verbatim>\<open>__vmwrite\<close>).  The last section
  proves what the encodings must satisfy for the rest of the development: the area and the
  width that the processor reads out of an encoding are the ones of the header's comment, and
  no two fields share an encoding.
\<close>

section \<open>Bits\<close>

definition BIT :: "nat \<Rightarrow> u64" where
  "BIT n = push_bit n 1"

lemma bit_BIT [bit_simps]: "bit (BIT n) i \<longleftrightarrow> i = n \<and> n < 64"
  by (auto simp: BIT_def bit_simps)

lemma unat_BIT:
  assumes "n < 64"
  shows "unat (BIT n) = 2 ^ n"
proof -
  from assms have "(2::nat) ^ n < 2 ^ 64" by (intro power_strict_increasing) simp_all
  moreover have "BIT n = of_nat (2 ^ n)" by (simp add: BIT_def push_bit_eq_mult)
  ultimately show ?thesis using assms by (simp only: unsigned_of_nat) (simp add: take_bit_nat_eq_self)
qed

lemma and_BIT_zero: "v AND BIT n = 0 \<longleftrightarrow> \<not> bit v n" if "n < 64"
proof
  assume "v AND BIT n = 0"
  then have "bit (v AND BIT n) n = False" by simp
  then show "\<not> bit v n" using that by (simp add: bit_simps)
next
  assume "\<not> bit v n"
  then show "v AND BIT n = 0" by (intro bit_word_eqI) (auto simp: bit_simps)
qed

lemma push_bit_BIT: "push_bit 32 (BIT n) = BIT (n + 32)" if "n < 32"
  using that by (intro bit_word_eqI) (auto simp: bit_simps)

definition UNUSABLE_AR :: u64 where
  [bit_defs]: "UNUSABLE_AR = 0x10000"

section \<open>Constants\<close>

subsection \<open>MSR numbers\<close>

definition IA32_FEATURE_CONTROL :: u32 where [msr_enc]: "IA32_FEATURE_CONTROL = 0x3a"
definition IA32_SYSENTER_CS :: u32 where [msr_enc]: "IA32_SYSENTER_CS = 0x174"
definition IA32_SYSENTER_ESP :: u32 where [msr_enc]: "IA32_SYSENTER_ESP = 0x175"
definition IA32_SYSENTER_EIP :: u32 where [msr_enc]: "IA32_SYSENTER_EIP = 0x176"
definition IA32_FS_BASE :: u32 where [msr_enc]: "IA32_FS_BASE = 0xc0000100"
definition IA32_GS_BASE :: u32 where [msr_enc]: "IA32_GS_BASE = 0xc0000101"
definition IA32_VMX_BASIC :: u32 where [msr_enc]: "IA32_VMX_BASIC = 0x480"
definition IA32_VMX_PINBASED_CTLS :: u32 where [msr_enc]: "IA32_VMX_PINBASED_CTLS = 0x481"
definition IA32_VMX_PROCBASED_CTLS :: u32 where [msr_enc]: "IA32_VMX_PROCBASED_CTLS = 0x482"
definition IA32_VMX_EXIT_CTLS :: u32 where [msr_enc]: "IA32_VMX_EXIT_CTLS = 0x483"
definition IA32_VMX_ENTRY_CTLS :: u32 where [msr_enc]: "IA32_VMX_ENTRY_CTLS = 0x484"
definition IA32_VMX_MSR_MISC :: u32 where [msr_enc]: "IA32_VMX_MSR_MISC = 0x485"
definition IA32_VMX_CR0_FIXED0 :: u32 where [msr_enc]: "IA32_VMX_CR0_FIXED0 = 0x486"
definition IA32_VMX_CR0_FIXED1 :: u32 where [msr_enc]: "IA32_VMX_CR0_FIXED1 = 0x487"
definition IA32_VMX_CR4_FIXED0 :: u32 where [msr_enc]: "IA32_VMX_CR4_FIXED0 = 0x488"
definition IA32_VMX_CR4_FIXED1 :: u32 where [msr_enc]: "IA32_VMX_CR4_FIXED1 = 0x489"
definition IA32_VMX_VMCS_ENUM :: u32 where [msr_enc]: "IA32_VMX_VMCS_ENUM = 0x48a"
definition IA32_VMX_PROCBASED_CTLS2 :: u32 where [msr_enc]: "IA32_VMX_PROCBASED_CTLS2 = 0x48b"
definition IA32_VMX_EPT_VPID_CAP :: u32 where [msr_enc]: "IA32_VMX_EPT_VPID_CAP = 0x48c"
definition IA32_VMX_TRUE_PINBASED_CTLS :: u32 where [msr_enc]: "IA32_VMX_TRUE_PINBASED_CTLS = 0x48d"
definition IA32_VMX_TRUE_PROCBASED_CTLS :: u32 where [msr_enc]: "IA32_VMX_TRUE_PROCBASED_CTLS = 0x48e"
definition IA32_VMX_TRUE_EXIT_CTLS :: u32 where [msr_enc]: "IA32_VMX_TRUE_EXIT_CTLS = 0x48f"
definition IA32_VMX_TRUE_ENTRY_CTLS :: u32 where [msr_enc]: "IA32_VMX_TRUE_ENTRY_CTLS = 0x490"
definition IA32_VMX_VMFUNC :: u32 where [msr_enc]: "IA32_VMX_VMFUNC = 0x491"

subsection \<open>Fields of IA32_FEATURE_CONTROL MSR\<close>

definition FEATURE_CONTROL_LOCK_BIT :: u64 where [bit_defs]: "FEATURE_CONTROL_LOCK_BIT = BIT 0"
definition FEATURE_CONTROL_VMX_OUTSIDE_SMX_ENABLE_BIT :: u64 where [bit_defs]: "FEATURE_CONTROL_VMX_OUTSIDE_SMX_ENABLE_BIT = BIT 2"

subsection \<open>Pin-based VM-execution controls\<close>

definition VMX_PIN_CTL_EXT_INTERRUPT_EXITING :: u64 where [bit_defs]: "VMX_PIN_CTL_EXT_INTERRUPT_EXITING = BIT 0"
definition VMX_PIN_CTL_NMI_EXITING :: u64 where [bit_defs]: "VMX_PIN_CTL_NMI_EXITING = BIT 3"
definition VMX_PIN_CTL_VIRTUAL_NMIS :: u64 where [bit_defs]: "VMX_PIN_CTL_VIRTUAL_NMIS = BIT 5"
definition VMX_PIN_CTL_ACTIVATE_PTIMER :: u64 where [bit_defs]: "VMX_PIN_CTL_ACTIVATE_PTIMER = BIT 6"
definition VMX_PIN_CTL_PROC_POSTED_INTERRUPTS :: u64 where [bit_defs]: "VMX_PIN_CTL_PROC_POSTED_INTERRUPTS = BIT 7"

subsection \<open>Primary proc-based VM-execution controls\<close>

definition VMX_PROC_CTL_INTERRUPT_WINDOW_EXITING :: u64 where [bit_defs]: "VMX_PROC_CTL_INTERRUPT_WINDOW_EXITING = BIT 2"
definition VMX_PROC_CTL_USE_TSC_OFFSETTING :: u64 where [bit_defs]: "VMX_PROC_CTL_USE_TSC_OFFSETTING = BIT 3"
definition VMX_PROC_CTL_HLT_EXITING :: u64 where [bit_defs]: "VMX_PROC_CTL_HLT_EXITING = BIT 7"
definition VMX_PROC_CTL_INVLPG_EXITING :: u64 where [bit_defs]: "VMX_PROC_CTL_INVLPG_EXITING = BIT 9"
definition VMX_PROC_CTL_MWAIT_EXITING :: u64 where [bit_defs]: "VMX_PROC_CTL_MWAIT_EXITING = BIT 10"
definition VMX_PROC_CTL_RDPMC_EXITING :: u64 where [bit_defs]: "VMX_PROC_CTL_RDPMC_EXITING = BIT 11"
definition VMX_PROC_CTL_RDTSC_EXITING :: u64 where [bit_defs]: "VMX_PROC_CTL_RDTSC_EXITING = BIT 12"
definition VMX_PROC_CTL_CR3_LOAD_EXITING :: u64 where [bit_defs]: "VMX_PROC_CTL_CR3_LOAD_EXITING = BIT 15"
definition VMX_PROC_CTL_CR3_STORE_EXITING :: u64 where [bit_defs]: "VMX_PROC_CTL_CR3_STORE_EXITING = BIT 16"
definition VMX_PROC_CTL_CR8_LOAD_EXITING :: u64 where [bit_defs]: "VMX_PROC_CTL_CR8_LOAD_EXITING = BIT 19"
definition VMX_PROC_CTL_CR8_STORE_EXITING :: u64 where [bit_defs]: "VMX_PROC_CTL_CR8_STORE_EXITING = BIT 20"
definition VMX_PROC_CTL_USE_TPR_SHADOW :: u64 where [bit_defs]: "VMX_PROC_CTL_USE_TPR_SHADOW = BIT 21"
definition VMX_PROC_CTL_NMI_WINDOW_EXITING :: u64 where [bit_defs]: "VMX_PROC_CTL_NMI_WINDOW_EXITING = BIT 22"
definition VMX_PROC_CTL_MOV_DR_EXITING :: u64 where [bit_defs]: "VMX_PROC_CTL_MOV_DR_EXITING = BIT 23"
definition VMX_PROC_CTL_UNCONDITIONAL_IO_EXITING :: u64 where [bit_defs]: "VMX_PROC_CTL_UNCONDITIONAL_IO_EXITING = BIT 24"
definition VMX_PROC_CTL_USE_IO_BITMAPS :: u64 where [bit_defs]: "VMX_PROC_CTL_USE_IO_BITMAPS = BIT 25"
definition VMX_PROC_CTL_MONITOR_TRAP_FLAG :: u64 where [bit_defs]: "VMX_PROC_CTL_MONITOR_TRAP_FLAG = BIT 27"
definition VMX_PROC_CTL_USE_MSR_BITMAPS :: u64 where [bit_defs]: "VMX_PROC_CTL_USE_MSR_BITMAPS = BIT 28"
definition VMX_PROC_CTL_MONITOR_EXITING :: u64 where [bit_defs]: "VMX_PROC_CTL_MONITOR_EXITING = BIT 29"
definition VMX_PROC_CTL_PAUSE_EXITING :: u64 where [bit_defs]: "VMX_PROC_CTL_PAUSE_EXITING = BIT 30"
definition VMX_PROC_CTL_ACTIVATE_SECONDARY_CTLS :: u64 where [bit_defs]: "VMX_PROC_CTL_ACTIVATE_SECONDARY_CTLS = BIT 31"

subsection \<open>Secondary proc-based VM-execution controls\<close>

definition VMX_PROC_CTL2_VIRTUALIZE_APIC :: u64 where [bit_defs]: "VMX_PROC_CTL2_VIRTUALIZE_APIC = BIT 0"
definition VMX_PROC_CTL2_ENABLE_EPT :: u64 where [bit_defs]: "VMX_PROC_CTL2_ENABLE_EPT = BIT 1"
definition VMX_PROC_CTL2_DESCR_TABLE_EXITING :: u64 where [bit_defs]: "VMX_PROC_CTL2_DESCR_TABLE_EXITING = BIT 2"
definition VMX_PROC_CTL2_ENABLE_RDTSCP :: u64 where [bit_defs]: "VMX_PROC_CTL2_ENABLE_RDTSCP = BIT 3"
definition VMX_PROC_CTL2_VIRTUALIZE_X2APIC :: u64 where [bit_defs]: "VMX_PROC_CTL2_VIRTUALIZE_X2APIC = BIT 4"
definition VMX_PROC_CTL2_ENABLE_VPID :: u64 where [bit_defs]: "VMX_PROC_CTL2_ENABLE_VPID = BIT 5"
definition VMX_PROC_CTL2_WBINVD_EXITING :: u64 where [bit_defs]: "VMX_PROC_CTL2_WBINVD_EXITING = BIT 6"
definition VMX_PROC_CTL2_URESTRICTED_GUEST :: u64 where [bit_defs]: "VMX_PROC_CTL2_URESTRICTED_GUEST = BIT 7"
definition VMX_PROC_CTL2_APIC_REGISTER_VIRT :: u64 where [bit_defs]: "VMX_PROC_CTL2_APIC_REGISTER_VIRT = BIT 8"
definition VMX_PROC_CTL2_VIRTUAL_INTERRUPTS :: u64 where [bit_defs]: "VMX_PROC_CTL2_VIRTUAL_INTERRUPTS = BIT 9"
definition VMX_PROC_CTL2_PAUSE_LOOP_EXITING :: u64 where [bit_defs]: "VMX_PROC_CTL2_PAUSE_LOOP_EXITING = BIT 10"
definition VMX_PROC_CTL2_RDRAND_EXITING :: u64 where [bit_defs]: "VMX_PROC_CTL2_RDRAND_EXITING = BIT 11"
definition VMX_PROC_CTL2_ENABLE_INVPCID :: u64 where [bit_defs]: "VMX_PROC_CTL2_ENABLE_INVPCID = BIT 12"
definition VMX_PROC_CTL2_ENABLE_VMFUNC :: u64 where [bit_defs]: "VMX_PROC_CTL2_ENABLE_VMFUNC = BIT 13"
definition VMX_PROC_CTL2_VMCS_SHADOWING :: u64 where [bit_defs]: "VMX_PROC_CTL2_VMCS_SHADOWING = BIT 14"
definition VMX_PROC_CTL2_ENCLS_EXITING :: u64 where [bit_defs]: "VMX_PROC_CTL2_ENCLS_EXITING = BIT 15"
definition VMX_PROC_CTL2_RDSEED_EXITING :: u64 where [bit_defs]: "VMX_PROC_CTL2_RDSEED_EXITING = BIT 16"
definition VMX_PROC_CTL2_ENABLE_PML :: u64 where [bit_defs]: "VMX_PROC_CTL2_ENABLE_PML = BIT 17"
definition VMX_PROC_CTL2_EPT_VIOLATION_VE :: u64 where [bit_defs]: "VMX_PROC_CTL2_EPT_VIOLATION_VE = BIT 18"
definition VMX_PROC_CTL2_CONCEAL_NONROOT_FROM_PT :: u64 where [bit_defs]: "VMX_PROC_CTL2_CONCEAL_NONROOT_FROM_PT = BIT 19"
definition VMX_PROC_CTL2_ENABLE_XSAVES_XRSTORS :: u64 where [bit_defs]: "VMX_PROC_CTL2_ENABLE_XSAVES_XRSTORS = BIT 20"
definition VMX_PROC_CTL2_MODE_BASED_EPT_CONTROL :: u64 where [bit_defs]: "VMX_PROC_CTL2_MODE_BASED_EPT_CONTROL = BIT 22"
definition VMX_PROC_CTL2_USE_TSC_SCALING :: u64 where [bit_defs]: "VMX_PROC_CTL2_USE_TSC_SCALING = BIT 25"

subsection \<open>VM exit controls\<close>

definition VMCS_VMEXIT_CTL_SAVE_DBG_CTLS :: u64 where [bit_defs]: "VMCS_VMEXIT_CTL_SAVE_DBG_CTLS = BIT 2"
definition VMCS_VMEXIT_CTL_HOST_ADDR_SPACE_SIZE :: u64 where [bit_defs]: "VMCS_VMEXIT_CTL_HOST_ADDR_SPACE_SIZE = BIT 9"
definition VMCS_VMEXIT_CTL_LOAD_IA32_PERF_GLOBAL_CTRL :: u64 where [bit_defs]: "VMCS_VMEXIT_CTL_LOAD_IA32_PERF_GLOBAL_CTRL = BIT 12"
definition VMCS_VMEXIT_CTL_ACK_INTERRUPT_ON_EXIT :: u64 where [bit_defs]: "VMCS_VMEXIT_CTL_ACK_INTERRUPT_ON_EXIT = BIT 15"
definition VMCS_VMEXIT_CTL_SAVE_IA32_PAT :: u64 where [bit_defs]: "VMCS_VMEXIT_CTL_SAVE_IA32_PAT = BIT 18"
definition VMCS_VMEXIT_CTL_LOAD_IA32_PAT :: u64 where [bit_defs]: "VMCS_VMEXIT_CTL_LOAD_IA32_PAT = BIT 19"
definition VMCS_VMEXIT_CTL_SAVE_IA32_EFER :: u64 where [bit_defs]: "VMCS_VMEXIT_CTL_SAVE_IA32_EFER = BIT 20"
definition VMCS_VMEXIT_CTL_LOAD_IA32_EFER :: u64 where [bit_defs]: "VMCS_VMEXIT_CTL_LOAD_IA32_EFER = BIT 21"
definition VMCS_VMEXIT_CTL_SAVE_PTIMER_VAL :: u64 where [bit_defs]: "VMCS_VMEXIT_CTL_SAVE_PTIMER_VAL = BIT 22"
definition VMCS_VMEXIT_CTL_CLEAR_IA32_BNDCFGS :: u64 where [bit_defs]: "VMCS_VMEXIT_CTL_CLEAR_IA32_BNDCFGS = BIT 23"
definition VMCS_VMEXIT_CTL_CONCEAL_VMEXIT_FROM_PT :: u64 where [bit_defs]: "VMCS_VMEXIT_CTL_CONCEAL_VMEXIT_FROM_PT = BIT 24"

subsection \<open>VM entry controls\<close>

definition VMCS_VMENTRY_CTL_LOAD_DBG_CTLS :: u64 where [bit_defs]: "VMCS_VMENTRY_CTL_LOAD_DBG_CTLS = BIT 2"
definition VMCS_VMENTRY_CTL_IA32E_MODE_GUEST :: u64 where [bit_defs]: "VMCS_VMENTRY_CTL_IA32E_MODE_GUEST = BIT 9"
definition VMCS_VMENTRY_CTL_ENTRY_TO_SMM :: u64 where [bit_defs]: "VMCS_VMENTRY_CTL_ENTRY_TO_SMM = BIT 10"
definition VMCS_VMENTRY_CTL_DEACTIVATE_DUAL_MONITOR_TREATEMENT :: u64 where [bit_defs]: "VMCS_VMENTRY_CTL_DEACTIVATE_DUAL_MONITOR_TREATEMENT = BIT 11"
definition VMCS_VMENTRY_CTL_LOAD_IA32_PERF_GLOBAL_CTRL :: u64 where [bit_defs]: "VMCS_VMENTRY_CTL_LOAD_IA32_PERF_GLOBAL_CTRL = BIT 13"
definition VMCS_VMENTRY_CTL_LOAD_IA32_PAT :: u64 where [bit_defs]: "VMCS_VMENTRY_CTL_LOAD_IA32_PAT = BIT 14"
definition VMCS_VMENTRY_CTL_LOAD_IA32_EFER :: u64 where [bit_defs]: "VMCS_VMENTRY_CTL_LOAD_IA32_EFER = BIT 15"
definition VMCS_VMENTRY_CTL_LOAD_IA32_BNDCFGS :: u64 where [bit_defs]: "VMCS_VMENTRY_CTL_LOAD_IA32_BNDCFGS = BIT 16"
definition VMCS_VMENTRY_CTL_CONCEAL_VMENTRY_FROM_PT :: u64 where [bit_defs]: "VMCS_VMENTRY_CTL_CONCEAL_VMENTRY_FROM_PT = BIT 17"

subsection \<open>CPUID bits\<close>

definition CPUID_1_ECX_VMX :: u64 where [bit_defs]: "CPUID_1_ECX_VMX = BIT 5"

subsection \<open>Control registers\<close>

definition CR4_VMXE :: u64 where [bit_defs]: "CR4_VMXE = BIT 13"

subsection \<open>RFLAGS fields\<close>

definition RFLAGS_CF :: u64 where [bit_defs]: "RFLAGS_CF = BIT 0"
definition RFLAGS_ZF :: u64 where [bit_defs]: "RFLAGS_ZF = BIT 6"

subsection \<open>VMCS guest state\<close>


subsection \<open>16-bit guest state\<close>

definition VMCS_GUEST_ES :: u64 where [vmcs_enc]: "VMCS_GUEST_ES = 0x0800"
definition VMCS_GUEST_CS :: u64 where [vmcs_enc]: "VMCS_GUEST_CS = 0x0802"
definition VMCS_GUEST_SS :: u64 where [vmcs_enc]: "VMCS_GUEST_SS = 0x0804"
definition VMCS_GUEST_DS :: u64 where [vmcs_enc]: "VMCS_GUEST_DS = 0x0806"
definition VMCS_GUEST_FS :: u64 where [vmcs_enc]: "VMCS_GUEST_FS = 0x0808"
definition VMCS_GUEST_GS :: u64 where [vmcs_enc]: "VMCS_GUEST_GS = 0x080a"
definition VMCS_GUEST_LDTR :: u64 where [vmcs_enc]: "VMCS_GUEST_LDTR = 0x080c"
definition VMCS_GUEST_TR :: u64 where [vmcs_enc]: "VMCS_GUEST_TR = 0x080e"

subsection \<open>64-bit guest state\<close>

definition VMCS_VMCS_LINK_PTR :: u64 where [vmcs_enc]: "VMCS_VMCS_LINK_PTR = 0x2800"
definition VMCS_GUEST_IA32_DEBUGCTL :: u64 where [vmcs_enc]: "VMCS_GUEST_IA32_DEBUGCTL = 0x2802"

subsection \<open>32-bit guest state\<close>

definition VMCS_GUEST_ES_LIMIT :: u64 where [vmcs_enc]: "VMCS_GUEST_ES_LIMIT = 0x4800"
definition VMCS_GUEST_CS_LIMIT :: u64 where [vmcs_enc]: "VMCS_GUEST_CS_LIMIT = 0x4802"
definition VMCS_GUEST_SS_LIMIT :: u64 where [vmcs_enc]: "VMCS_GUEST_SS_LIMIT = 0x4804"
definition VMCS_GUEST_DS_LIMIT :: u64 where [vmcs_enc]: "VMCS_GUEST_DS_LIMIT = 0x4806"
definition VMCS_GUEST_FS_LIMIT :: u64 where [vmcs_enc]: "VMCS_GUEST_FS_LIMIT = 0x4808"
definition VMCS_GUEST_GS_LIMIT :: u64 where [vmcs_enc]: "VMCS_GUEST_GS_LIMIT = 0x480a"
definition VMCS_GUEST_LDTR_LIMIT :: u64 where [vmcs_enc]: "VMCS_GUEST_LDTR_LIMIT = 0x480c"
definition VMCS_GUEST_TR_LIMIT :: u64 where [vmcs_enc]: "VMCS_GUEST_TR_LIMIT = 0x480e"
definition VMCS_GUEST_GDTR_LIMIT :: u64 where [vmcs_enc]: "VMCS_GUEST_GDTR_LIMIT = 0x4810"
definition VMCS_GUEST_IDTR_LIMIT :: u64 where [vmcs_enc]: "VMCS_GUEST_IDTR_LIMIT = 0x4812"
definition VMCS_GUEST_ES_ACCESS_RIGHTS :: u64 where [vmcs_enc]: "VMCS_GUEST_ES_ACCESS_RIGHTS = 0x4814"
definition VMCS_GUEST_CS_ACCESS_RIGHTS :: u64 where [vmcs_enc]: "VMCS_GUEST_CS_ACCESS_RIGHTS = 0x4816"
definition VMCS_GUEST_SS_ACCESS_RIGHTS :: u64 where [vmcs_enc]: "VMCS_GUEST_SS_ACCESS_RIGHTS = 0x4818"
definition VMCS_GUEST_DS_ACCESS_RIGHTS :: u64 where [vmcs_enc]: "VMCS_GUEST_DS_ACCESS_RIGHTS = 0x481a"
definition VMCS_GUEST_FS_ACCESS_RIGHTS :: u64 where [vmcs_enc]: "VMCS_GUEST_FS_ACCESS_RIGHTS = 0x481c"
definition VMCS_GUEST_GS_ACCESS_RIGHTS :: u64 where [vmcs_enc]: "VMCS_GUEST_GS_ACCESS_RIGHTS = 0x481e"
definition VMCS_GUEST_LDTR_ACCESS_RIGHTS :: u64 where [vmcs_enc]: "VMCS_GUEST_LDTR_ACCESS_RIGHTS = 0x4820"
definition VMCS_GUEST_TR_ACCESS_RIGHTS :: u64 where [vmcs_enc]: "VMCS_GUEST_TR_ACCESS_RIGHTS = 0x4822"
definition VMCS_GUEST_INTERRUPTIBILITY_STATE :: u64 where [vmcs_enc]: "VMCS_GUEST_INTERRUPTIBILITY_STATE = 0x4824"
definition VMCS_GUEST_ACTIVITY_STATE :: u64 where [vmcs_enc]: "VMCS_GUEST_ACTIVITY_STATE = 0x4826"
definition VMCS_GUEST_SMBASE :: u64 where [vmcs_enc]: "VMCS_GUEST_SMBASE = 0x4828"
definition VMCS_GUEST_IA32_SYSENTER_CS :: u64 where [vmcs_enc]: "VMCS_GUEST_IA32_SYSENTER_CS = 0x482a"

subsection \<open>Natural-width guest state\<close>

definition VMCS_GUEST_CR0 :: u64 where [vmcs_enc]: "VMCS_GUEST_CR0 = 0x6800"
definition VMCS_GUEST_CR3 :: u64 where [vmcs_enc]: "VMCS_GUEST_CR3 = 0x6802"
definition VMCS_GUEST_CR4 :: u64 where [vmcs_enc]: "VMCS_GUEST_CR4 = 0x6804"
definition VMCS_GUEST_ES_BASE :: u64 where [vmcs_enc]: "VMCS_GUEST_ES_BASE = 0x6806"
definition VMCS_GUEST_CS_BASE :: u64 where [vmcs_enc]: "VMCS_GUEST_CS_BASE = 0x6808"
definition VMCS_GUEST_SS_BASE :: u64 where [vmcs_enc]: "VMCS_GUEST_SS_BASE = 0x680a"
definition VMCS_GUEST_DS_BASE :: u64 where [vmcs_enc]: "VMCS_GUEST_DS_BASE = 0x680c"
definition VMCS_GUEST_FS_BASE :: u64 where [vmcs_enc]: "VMCS_GUEST_FS_BASE = 0x680e"
definition VMCS_GUEST_GS_BASE :: u64 where [vmcs_enc]: "VMCS_GUEST_GS_BASE = 0x6810"
definition VMCS_GUEST_LDTR_BASE :: u64 where [vmcs_enc]: "VMCS_GUEST_LDTR_BASE = 0x6812"
definition VMCS_GUEST_TR_BASE :: u64 where [vmcs_enc]: "VMCS_GUEST_TR_BASE = 0x6814"
definition VMCS_GUEST_GDTR_BASE :: u64 where [vmcs_enc]: "VMCS_GUEST_GDTR_BASE = 0x6816"
definition VMCS_GUEST_IDTR_BASE :: u64 where [vmcs_enc]: "VMCS_GUEST_IDTR_BASE = 0x6818"
definition VMCS_GUEST_DR7 :: u64 where [vmcs_enc]: "VMCS_GUEST_DR7 = 0x681a"
definition VMCS_GUEST_RSP :: u64 where [vmcs_enc]: "VMCS_GUEST_RSP = 0x681c"
definition VMCS_GUEST_RIP :: u64 where [vmcs_enc]: "VMCS_GUEST_RIP = 0x681e"
definition VMCS_GUEST_RFLAGS :: u64 where [vmcs_enc]: "VMCS_GUEST_RFLAGS = 0x6820"
definition VMCS_GUEST_PENDING_DBG_EXCEPTION :: u64 where [vmcs_enc]: "VMCS_GUEST_PENDING_DBG_EXCEPTION = 0x6822"
definition VMCS_GUEST_IA32_SYSENTER_ESP :: u64 where [vmcs_enc]: "VMCS_GUEST_IA32_SYSENTER_ESP = 0x6824"
definition VMCS_GUEST_IA32_SYSENTER_EIP :: u64 where [vmcs_enc]: "VMCS_GUEST_IA32_SYSENTER_EIP = 0x6826"

subsection \<open>VMCS host state\<close>


subsection \<open>16-bit host state\<close>

definition VMCS_HOST_ES :: u64 where [vmcs_enc]: "VMCS_HOST_ES = 0x0c00"
definition VMCS_HOST_CS :: u64 where [vmcs_enc]: "VMCS_HOST_CS = 0x0c02"
definition VMCS_HOST_SS :: u64 where [vmcs_enc]: "VMCS_HOST_SS = 0x0c04"
definition VMCS_HOST_DS :: u64 where [vmcs_enc]: "VMCS_HOST_DS = 0x0c06"
definition VMCS_HOST_FS :: u64 where [vmcs_enc]: "VMCS_HOST_FS = 0x0c08"
definition VMCS_HOST_GS :: u64 where [vmcs_enc]: "VMCS_HOST_GS = 0x0c0a"
definition VMCS_HOST_TR :: u64 where [vmcs_enc]: "VMCS_HOST_TR = 0x0c0c"

subsection \<open>32-bit host state\<close>

definition VMCS_HOST_IA32_SYSENTER_CS :: u64 where [vmcs_enc]: "VMCS_HOST_IA32_SYSENTER_CS = 0x4c00"

subsection \<open>Natural-width host state\<close>

definition VMCS_HOST_CR0 :: u64 where [vmcs_enc]: "VMCS_HOST_CR0 = 0x6c00"
definition VMCS_HOST_CR3 :: u64 where [vmcs_enc]: "VMCS_HOST_CR3 = 0x6c02"
definition VMCS_HOST_CR4 :: u64 where [vmcs_enc]: "VMCS_HOST_CR4 = 0x6c04"
definition VMCS_HOST_FS_BASE :: u64 where [vmcs_enc]: "VMCS_HOST_FS_BASE = 0x6c06"
definition VMCS_HOST_GS_BASE :: u64 where [vmcs_enc]: "VMCS_HOST_GS_BASE = 0x6c08"
definition VMCS_HOST_TR_BASE :: u64 where [vmcs_enc]: "VMCS_HOST_TR_BASE = 0x6c0a"
definition VMCS_HOST_GDTR_BASE :: u64 where [vmcs_enc]: "VMCS_HOST_GDTR_BASE = 0x6c0c"
definition VMCS_HOST_IDTR_BASE :: u64 where [vmcs_enc]: "VMCS_HOST_IDTR_BASE = 0x6c0e"
definition VMCS_HOST_IA32_SYSENTER_ESP :: u64 where [vmcs_enc]: "VMCS_HOST_IA32_SYSENTER_ESP = 0x6c10"
definition VMCS_HOST_IA32_SYSENTER_EIP :: u64 where [vmcs_enc]: "VMCS_HOST_IA32_SYSENTER_EIP = 0x6c12"
definition VMCS_HOST_RSP :: u64 where [vmcs_enc]: "VMCS_HOST_RSP = 0x6c14"
definition VMCS_HOST_RIP :: u64 where [vmcs_enc]: "VMCS_HOST_RIP = 0x6c16"

subsection \<open>VMCS controls\<close>


subsection \<open>64-bit control fields\<close>

definition VMCS_IO_BITMAP_A_ADDR :: u64 where [vmcs_enc]: "VMCS_IO_BITMAP_A_ADDR = 0x2000"
definition VMCS_IO_BITMAP_B_ADDR :: u64 where [vmcs_enc]: "VMCS_IO_BITMAP_B_ADDR = 0x2002"
definition VMCS_EXEC_VMCS_PTR :: u64 where [vmcs_enc]: "VMCS_EXEC_VMCS_PTR = 0x200c"
definition VMCS_TSC_OFFSET :: u64 where [vmcs_enc]: "VMCS_TSC_OFFSET = 0x2010"

subsection \<open>32-bit control fields\<close>

definition VMCS_PIN_BASED_VM_CTLS :: u64 where [vmcs_enc]: "VMCS_PIN_BASED_VM_CTLS = 0x4000"
definition VMCS_PROC_BASED_VM_CTLS :: u64 where [vmcs_enc]: "VMCS_PROC_BASED_VM_CTLS = 0x4002"
definition VMCS_EXCEPTION_BITMAP :: u64 where [vmcs_enc]: "VMCS_EXCEPTION_BITMAP = 0x4004"
definition VMCS_PF_ECODE_MASK :: u64 where [vmcs_enc]: "VMCS_PF_ECODE_MASK = 0x4006"
definition VMCS_PF_ECODE_MATCH :: u64 where [vmcs_enc]: "VMCS_PF_ECODE_MATCH = 0x4008"
definition VMCS_CR3_TARGET_CNT :: u64 where [vmcs_enc]: "VMCS_CR3_TARGET_CNT = 0x400a"
definition VMCS_VMEXIT_CTLS :: u64 where [vmcs_enc]: "VMCS_VMEXIT_CTLS = 0x400c"
definition VMCS_VMEXIT_MSR_STORE_CNT :: u64 where [vmcs_enc]: "VMCS_VMEXIT_MSR_STORE_CNT = 0x400e"
definition VMCS_VMEXIT_MSR_LOAD_CNT :: u64 where [vmcs_enc]: "VMCS_VMEXIT_MSR_LOAD_CNT = 0x4010"
definition VMCS_VMENTRY_CTLS :: u64 where [vmcs_enc]: "VMCS_VMENTRY_CTLS = 0x4012"
definition VMCS_VMENTRY_MSR_LOAD_CNT :: u64 where [vmcs_enc]: "VMCS_VMENTRY_MSR_LOAD_CNT = 0x4014"
definition VMCS_VMENTRY_INT_INFO :: u64 where [vmcs_enc]: "VMCS_VMENTRY_INT_INFO = 0x4016"
definition VMCS_VMENTRY_ECODE :: u64 where [vmcs_enc]: "VMCS_VMENTRY_ECODE = 0x4018"
definition VMCS_VMENTRY_INSTR_LEN :: u64 where [vmcs_enc]: "VMCS_VMENTRY_INSTR_LEN = 0x401a"

subsection \<open>Natural-width control fields\<close>

definition VMCS_CR0_GUEST_HOST_MASK :: u64 where [vmcs_enc]: "VMCS_CR0_GUEST_HOST_MASK = 0x6000"
definition VMCS_CR4_GUEST_HOST_MASK :: u64 where [vmcs_enc]: "VMCS_CR4_GUEST_HOST_MASK = 0x6002"
definition VMCS_CR0_READ_SHADOW :: u64 where [vmcs_enc]: "VMCS_CR0_READ_SHADOW = 0x6004"
definition VMCS_CR4_READ_SHADOW :: u64 where [vmcs_enc]: "VMCS_CR4_READ_SHADOW = 0x6006"
definition VMCS_CR3_TARGET_VALUE_0 :: u64 where [vmcs_enc]: "VMCS_CR3_TARGET_VALUE_0 = 0x6008"
definition VMCS_CR3_TARGET_VALUE_1 :: u64 where [vmcs_enc]: "VMCS_CR3_TARGET_VALUE_1 = 0x600a"
definition VMCS_CR3_TARGET_VALUE_2 :: u64 where [vmcs_enc]: "VMCS_CR3_TARGET_VALUE_2 = 0x600c"
definition VMCS_CR3_TARGET_VALUE_3 :: u64 where [vmcs_enc]: "VMCS_CR3_TARGET_VALUE_3 = 0x600e"

subsection \<open>32-bit read only data fields\<close>

definition VMCS_VM_INSTRUCTION_ERROR :: u64 where [vmcs_enc]: "VMCS_VM_INSTRUCTION_ERROR = 0x4400"
definition VMCS_EXIT_REASON :: u64 where [vmcs_enc]: "VMCS_EXIT_REASON = 0x4402"
definition VMCS_VM_EXIT_INT_INFO :: u64 where [vmcs_enc]: "VMCS_VM_EXIT_INT_INFO = 0x4404"
definition VMCS_VM_EXIT_INT_ECODE :: u64 where [vmcs_enc]: "VMCS_VM_EXIT_INT_ECODE = 0x4406"
definition VMCS_IDT_VECTORING_INFO :: u64 where [vmcs_enc]: "VMCS_IDT_VECTORING_INFO = 0x4408"
definition VMCS_IDT_VECTORING_ECODE :: u64 where [vmcs_enc]: "VMCS_IDT_VECTORING_ECODE = 0x440a"
definition VMCS_VM_EXIT_INSTR_LENGTH :: u64 where [vmcs_enc]: "VMCS_VM_EXIT_INSTR_LENGTH = 0x440c"
definition VMCS_VM_EXIT_INSTR_INFO :: u64 where [vmcs_enc]: "VMCS_VM_EXIT_INSTR_INFO = 0x440e"

subsection \<open>Natural width read only data fields\<close>

definition VMCS_EXIT_QUAL :: u64 where [vmcs_enc]: "VMCS_EXIT_QUAL = 0x6400"
definition VMCS_IO_RCX :: u64 where [vmcs_enc]: "VMCS_IO_RCX = 0x6402"
definition VMCS_IO_RSI :: u64 where [vmcs_enc]: "VMCS_IO_RSI = 0x6404"
definition VMCS_IO_RDI :: u64 where [vmcs_enc]: "VMCS_IO_RDI = 0x6406"
definition VMCS_IO_RIP :: u64 where [vmcs_enc]: "VMCS_IO_RIP = 0x6408"
definition VMCS_GUEST_LINADDR :: u64 where [vmcs_enc]: "VMCS_GUEST_LINADDR = 0x640a"
definition VMEXIT_CPUID :: int where [bit_defs]: "VMEXIT_CPUID = 10"

section \<open>Layout of the VMCS fields\<close>

text \<open>
  The header groups the encodings by area and by width.  The processor reads both out of the
  encoding itself: bits 14:13 are the width, bits 11:10 the area, bits 9:1 an index and bit 0
  selects the high half of a 64-bit field.
\<close>

datatype vmcs_area = Control | Read_Only | Guest_State | Host_State
datatype vmcs_width = W16 | W64 | W32 | Natural

definition enc_area :: "u64 \<Rightarrow> vmcs_area" where
  "enc_area f =
     (let a = drop_bit 10 f AND 3 in
      if a = 0 then Control else if a = 1 then Read_Only else if a = 2 then Guest_State else Host_State)"

definition enc_width :: "u64 \<Rightarrow> vmcs_width" where
  "enc_width f =
     (let w = drop_bit 13 f AND 3 in
      if w = 0 then W16 else if w = 1 then W64 else if w = 2 then W32 else Natural)"

definition vmcs_layout :: "(vmcs_area \<times> vmcs_width \<times> u64 list) list" where
  "vmcs_layout = [
    (Guest_State, W16,
      [VMCS_GUEST_ES, VMCS_GUEST_CS, VMCS_GUEST_SS, VMCS_GUEST_DS, VMCS_GUEST_FS,
       VMCS_GUEST_GS, VMCS_GUEST_LDTR, VMCS_GUEST_TR]),
    (Guest_State, W64,
      [VMCS_VMCS_LINK_PTR, VMCS_GUEST_IA32_DEBUGCTL]),
    (Guest_State, W32,
      [VMCS_GUEST_ES_LIMIT, VMCS_GUEST_CS_LIMIT, VMCS_GUEST_SS_LIMIT, VMCS_GUEST_DS_LIMIT,
       VMCS_GUEST_FS_LIMIT, VMCS_GUEST_GS_LIMIT, VMCS_GUEST_LDTR_LIMIT, VMCS_GUEST_TR_LIMIT,
       VMCS_GUEST_GDTR_LIMIT, VMCS_GUEST_IDTR_LIMIT, VMCS_GUEST_ES_ACCESS_RIGHTS,
       VMCS_GUEST_CS_ACCESS_RIGHTS, VMCS_GUEST_SS_ACCESS_RIGHTS,
       VMCS_GUEST_DS_ACCESS_RIGHTS, VMCS_GUEST_FS_ACCESS_RIGHTS,
       VMCS_GUEST_GS_ACCESS_RIGHTS, VMCS_GUEST_LDTR_ACCESS_RIGHTS,
       VMCS_GUEST_TR_ACCESS_RIGHTS, VMCS_GUEST_INTERRUPTIBILITY_STATE,
       VMCS_GUEST_ACTIVITY_STATE, VMCS_GUEST_SMBASE, VMCS_GUEST_IA32_SYSENTER_CS]),
    (Guest_State, Natural,
      [VMCS_GUEST_CR0, VMCS_GUEST_CR3, VMCS_GUEST_CR4, VMCS_GUEST_ES_BASE,
       VMCS_GUEST_CS_BASE, VMCS_GUEST_SS_BASE, VMCS_GUEST_DS_BASE, VMCS_GUEST_FS_BASE,
       VMCS_GUEST_GS_BASE, VMCS_GUEST_LDTR_BASE, VMCS_GUEST_TR_BASE, VMCS_GUEST_GDTR_BASE,
       VMCS_GUEST_IDTR_BASE, VMCS_GUEST_DR7, VMCS_GUEST_RSP, VMCS_GUEST_RIP,
       VMCS_GUEST_RFLAGS, VMCS_GUEST_PENDING_DBG_EXCEPTION, VMCS_GUEST_IA32_SYSENTER_ESP,
       VMCS_GUEST_IA32_SYSENTER_EIP]),
    (Host_State, W16,
      [VMCS_HOST_ES, VMCS_HOST_CS, VMCS_HOST_SS, VMCS_HOST_DS, VMCS_HOST_FS, VMCS_HOST_GS,
       VMCS_HOST_TR]),
    (Host_State, W32,
      [VMCS_HOST_IA32_SYSENTER_CS]),
    (Host_State, Natural,
      [VMCS_HOST_CR0, VMCS_HOST_CR3, VMCS_HOST_CR4, VMCS_HOST_FS_BASE, VMCS_HOST_GS_BASE,
       VMCS_HOST_TR_BASE, VMCS_HOST_GDTR_BASE, VMCS_HOST_IDTR_BASE,
       VMCS_HOST_IA32_SYSENTER_ESP, VMCS_HOST_IA32_SYSENTER_EIP, VMCS_HOST_RSP,
       VMCS_HOST_RIP]),
    (Control, W64,
      [VMCS_IO_BITMAP_A_ADDR, VMCS_IO_BITMAP_B_ADDR, VMCS_EXEC_VMCS_PTR, VMCS_TSC_OFFSET]),
    (Control, W32,
      [VMCS_PIN_BASED_VM_CTLS, VMCS_PROC_BASED_VM_CTLS, VMCS_EXCEPTION_BITMAP,
       VMCS_PF_ECODE_MASK, VMCS_PF_ECODE_MATCH, VMCS_CR3_TARGET_CNT, VMCS_VMEXIT_CTLS,
       VMCS_VMEXIT_MSR_STORE_CNT, VMCS_VMEXIT_MSR_LOAD_CNT, VMCS_VMENTRY_CTLS,
       VMCS_VMENTRY_MSR_LOAD_CNT, VMCS_VMENTRY_INT_INFO, VMCS_VMENTRY_ECODE,
       VMCS_VMENTRY_INSTR_LEN]),
    (Control, Natural,
      [VMCS_CR0_GUEST_HOST_MASK, VMCS_CR4_GUEST_HOST_MASK, VMCS_CR0_READ_SHADOW,
       VMCS_CR4_READ_SHADOW, VMCS_CR3_TARGET_VALUE_0, VMCS_CR3_TARGET_VALUE_1,
       VMCS_CR3_TARGET_VALUE_2, VMCS_CR3_TARGET_VALUE_3]),
    (Read_Only, W32,
      [VMCS_VM_INSTRUCTION_ERROR, VMCS_EXIT_REASON, VMCS_VM_EXIT_INT_INFO,
       VMCS_VM_EXIT_INT_ECODE, VMCS_IDT_VECTORING_INFO, VMCS_IDT_VECTORING_ECODE,
       VMCS_VM_EXIT_INSTR_LENGTH, VMCS_VM_EXIT_INSTR_INFO]),
    (Read_Only, Natural,
      [VMCS_EXIT_QUAL, VMCS_IO_RCX, VMCS_IO_RSI, VMCS_IO_RDI, VMCS_IO_RIP,
       VMCS_GUEST_LINADDR])]"

definition vmcs_fields_declared :: "u64 list" where
  "vmcs_fields_declared = concat (map (\<lambda>(a, w, fs). fs) vmcs_layout)"

definition enc_ok :: "vmcs_area \<Rightarrow> vmcs_width \<Rightarrow> u64 \<Rightarrow> bool" where
  "enc_ok a w f \<longleftrightarrow> enc_area f = a \<and> enc_width f = w \<and> f AND 1 = 0 \<and> f < 0x8000"

lemma layout_decodes: "list_all (\<lambda>(a, w, fs). list_all (enc_ok a w) fs) vmcs_layout"
  by code_simp

lemma layout_groups: "distinct (map (\<lambda>(a, w, fs). (a, w)) vmcs_layout)"
  by code_simp

lemma layout_increasing_step: "list_all (\<lambda>(a, w, fs). successively (<) fs) vmcs_layout"
  by code_simp

lemma layout_group_ok:
  assumes "(a, w, fs) \<in> set vmcs_layout" and "f \<in> set fs"
  shows "enc_ok a w f"
  using bspec [OF layout_decodes [unfolded list_all_iff] assms(1)] assms(2)
  by (simp add: list_all_iff)

lemma layout_group_sorted:
  assumes "(a, w, fs) \<in> set vmcs_layout"
  shows "sorted_wrt (<) fs"
  using bspec [OF layout_increasing_step [unfolded list_all_iff] assms]
  by (simp add: successively_conv_sorted_wrt transp_on_less)

text \<open>
  Two fields of different groups differ in area or width, two fields of one group differ because
  the header lists each group in increasing order.
\<close>

lemma layout_group_inj:
  assumes "(a, w, fs) \<in> set vmcs_layout" and "(a', w', fs') \<in> set vmcs_layout"
    and "f \<in> set fs" and "f \<in> set fs'"
  shows "a = a' \<and> w = w'"
  using layout_group_ok [OF assms(1,3)] layout_group_ok [OF assms(2,4)]
  by (simp add: enc_ok_def)

text \<open>No encoding is declared twice.\<close>

lemma layout_nonempty: "list_all (\<lambda>(a, w, fs). fs \<noteq> []) vmcs_layout"
  by code_simp

lemma layout_distinct: "distinct vmcs_fields_declared"
proof -
  have "inj_on (\<lambda>(a, w, fs). fs) (set vmcs_layout)"
  proof (rule inj_onI, clarsimp)
    fix a w fs a' w'
    assume x: "(a, w, fs) \<in> set vmcs_layout" "(a', w', fs) \<in> set vmcs_layout"
    then obtain f where "f \<in> set fs"
      using layout_nonempty unfolding list_all_iff by (cases fs) auto
    then show "a = a' \<and> w = w'" using layout_group_inj [OF x] by blast
  qed
  then have d: "distinct (map (\<lambda>(a, w, fs). fs) vmcs_layout)"
    using layout_groups by (simp add: distinct_map)
  show ?thesis
    unfolding vmcs_fields_declared_def
  proof (rule distinct_concat [OF d])
    fix ys
    assume "ys \<in> set (map (\<lambda>(a, w, fs). fs) vmcs_layout)"
    then show "distinct ys" using layout_group_sorted by (auto simp: strict_sorted_iff)
  next
    fix ys zs
    assume y: "ys \<in> set (map (\<lambda>(a, w, fs). fs) vmcs_layout)" and z: "zs \<in> set (map (\<lambda>(a, w, fs). fs) vmcs_layout)"
      and ne: "ys \<noteq> zs"
    obtain a w a' w' where g: "(a, w, ys) \<in> set vmcs_layout" "(a', w', zs) \<in> set vmcs_layout"
      using y z by auto
    have "a \<noteq> a' \<or> w \<noteq> w'"
      using ne g layout_groups by (auto simp: distinct_map inj_on_def)
    then show "set ys \<inter> set zs = {}" using layout_group_inj [OF g] by blast
  qed
qed

section \<open>The numbers of the fields\<close>

text \<open>
  The manual numbers the fields of an area and a width: segment registers in the order ES, CS, SS, DS, FS, GS, LDTR, TR, and
  so on.  \<open>encoding\<close> makes the encoding from the three, and the header's names are in that order.
\<close>

definition area_code :: "vmcs_area \<Rightarrow> u64" where
  "area_code a = (case a of Control \<Rightarrow> 0 | Read_Only \<Rightarrow> 1 | Guest_State \<Rightarrow> 2 | Host_State \<Rightarrow> 3)"

definition width_code :: "vmcs_width \<Rightarrow> u64" where
  "width_code w = (case w of W16 \<Rightarrow> 0 | W64 \<Rightarrow> 1 | W32 \<Rightarrow> 2 | Natural \<Rightarrow> 3)"

definition encoding :: "vmcs_area \<Rightarrow> vmcs_width \<Rightarrow> nat \<Rightarrow> u64" where
  "encoding a w i = push_bit 13 (width_code w) OR push_bit 10 (area_code a) OR push_bit 1 (of_nat i)"

lemma layout_numbers:
  "map (encoding Guest_State W16) [0..<8] = [VMCS_GUEST_ES, VMCS_GUEST_CS, VMCS_GUEST_SS, VMCS_GUEST_DS, VMCS_GUEST_FS,
     VMCS_GUEST_GS, VMCS_GUEST_LDTR, VMCS_GUEST_TR]"
  "map (encoding Guest_State W32) [0..<22] = [VMCS_GUEST_ES_LIMIT, VMCS_GUEST_CS_LIMIT, VMCS_GUEST_SS_LIMIT, VMCS_GUEST_DS_LIMIT,
     VMCS_GUEST_FS_LIMIT, VMCS_GUEST_GS_LIMIT, VMCS_GUEST_LDTR_LIMIT, VMCS_GUEST_TR_LIMIT,
     VMCS_GUEST_GDTR_LIMIT, VMCS_GUEST_IDTR_LIMIT, VMCS_GUEST_ES_ACCESS_RIGHTS, VMCS_GUEST_CS_ACCESS_RIGHTS,
     VMCS_GUEST_SS_ACCESS_RIGHTS, VMCS_GUEST_DS_ACCESS_RIGHTS, VMCS_GUEST_FS_ACCESS_RIGHTS, VMCS_GUEST_GS_ACCESS_RIGHTS,
     VMCS_GUEST_LDTR_ACCESS_RIGHTS, VMCS_GUEST_TR_ACCESS_RIGHTS, VMCS_GUEST_INTERRUPTIBILITY_STATE,
     VMCS_GUEST_ACTIVITY_STATE, VMCS_GUEST_SMBASE, VMCS_GUEST_IA32_SYSENTER_CS]"
  "map (encoding Guest_State Natural) [0..<20] = [VMCS_GUEST_CR0, VMCS_GUEST_CR3, VMCS_GUEST_CR4, VMCS_GUEST_ES_BASE,
     VMCS_GUEST_CS_BASE, VMCS_GUEST_SS_BASE, VMCS_GUEST_DS_BASE, VMCS_GUEST_FS_BASE, VMCS_GUEST_GS_BASE, VMCS_GUEST_LDTR_BASE,
     VMCS_GUEST_TR_BASE, VMCS_GUEST_GDTR_BASE, VMCS_GUEST_IDTR_BASE, VMCS_GUEST_DR7, VMCS_GUEST_RSP, VMCS_GUEST_RIP,
     VMCS_GUEST_RFLAGS, VMCS_GUEST_PENDING_DBG_EXCEPTION, VMCS_GUEST_IA32_SYSENTER_ESP, VMCS_GUEST_IA32_SYSENTER_EIP]"
  "map (encoding Host_State W16) [0..<7] = [VMCS_HOST_ES, VMCS_HOST_CS, VMCS_HOST_SS, VMCS_HOST_DS, VMCS_HOST_FS, VMCS_HOST_GS,
     VMCS_HOST_TR]"
  "map (encoding Host_State W32) [0..<1] = [VMCS_HOST_IA32_SYSENTER_CS]"
  "map (encoding Host_State Natural) [0..<12] = [VMCS_HOST_CR0, VMCS_HOST_CR3, VMCS_HOST_CR4, VMCS_HOST_FS_BASE, VMCS_HOST_GS_BASE,
     VMCS_HOST_TR_BASE, VMCS_HOST_GDTR_BASE, VMCS_HOST_IDTR_BASE, VMCS_HOST_IA32_SYSENTER_ESP, VMCS_HOST_IA32_SYSENTER_EIP,
     VMCS_HOST_RSP, VMCS_HOST_RIP]"
  "map (encoding Control W32) [0..<14] = [VMCS_PIN_BASED_VM_CTLS, VMCS_PROC_BASED_VM_CTLS, VMCS_EXCEPTION_BITMAP,
     VMCS_PF_ECODE_MASK, VMCS_PF_ECODE_MATCH, VMCS_CR3_TARGET_CNT, VMCS_VMEXIT_CTLS, VMCS_VMEXIT_MSR_STORE_CNT,
     VMCS_VMEXIT_MSR_LOAD_CNT, VMCS_VMENTRY_CTLS, VMCS_VMENTRY_MSR_LOAD_CNT, VMCS_VMENTRY_INT_INFO, VMCS_VMENTRY_ECODE,
     VMCS_VMENTRY_INSTR_LEN]"
  "map (encoding Control Natural) [0..<8] = [VMCS_CR0_GUEST_HOST_MASK, VMCS_CR4_GUEST_HOST_MASK, VMCS_CR0_READ_SHADOW,
     VMCS_CR4_READ_SHADOW, VMCS_CR3_TARGET_VALUE_0, VMCS_CR3_TARGET_VALUE_1, VMCS_CR3_TARGET_VALUE_2, VMCS_CR3_TARGET_VALUE_3]"
  "map (encoding Guest_State W64) [0..<2] = [VMCS_VMCS_LINK_PTR, VMCS_GUEST_IA32_DEBUGCTL]"
  "map (encoding Control W64) [0, 1, 6, 8] = [VMCS_IO_BITMAP_A_ADDR, VMCS_IO_BITMAP_B_ADDR, VMCS_EXEC_VMCS_PTR, VMCS_TSC_OFFSET]"
  by code_simp+

text \<open>How wide a field is, in bits.\<close>

definition enc_bits :: "u64 \<Rightarrow> nat" where
  "enc_bits f = (case enc_width f of W16 \<Rightarrow> 16 | W32 \<Rightarrow> 32 | _ \<Rightarrow> 64)"

end
