(* ===== verification/State.thy ===== *)
theory State
  imports Cpu_Defs
begin

text \<open>
  The data of the program and the state it runs in.

  The structures of \<^verbatim>\<open>vmm/vmx.h\<close>, \<^verbatim>\<open>vmm/api.h\<close> and \<^verbatim>\<open>vmm/asm-inlines.h\<close> are records with the source's
  fields.  The state of the machine is a record too: the registers that the inline assembly
  reads and writes, the VMX part of the processor, byte-addressed physical memory, and the part
  of the operating system that the three ports of \<^verbatim>\<open>vmm/api.h\<close> change.  What neither the
  source nor the instruction set fixes (answers of the kernel, contents of descriptor tables,
  outcome of a VM entry, cycle counts, link addresses) is the parameter \<open>env\<close>.
\<close>

section \<open>Structures of the program\<close>

record descriptor =
  limit :: u16
  base :: u64

text \<open>
  \<^verbatim>\<open>vmpage_t\<close>: the public fields and the one private field, the kernel's handle of the page
  (\<^verbatim>\<open>struct page *\<close>, \<^verbatim>\<open>IOBufferMemoryDescriptor *\<close> or \<^verbatim>\<open>MDL *\<close>); 0 is \<^verbatim>\<open>NULL\<close>.
\<close>

record vmpage =
  vp_p :: u64
  vp_pa :: u64
  vp_handle :: u64

definition vmpage_zero :: vmpage where
  "vmpage_zero = \<lparr>vp_p = 0, vp_pa = 0, vp_handle = 0\<rparr>"

text \<open>
  \<^verbatim>\<open>irq_flags_t\<close>: the saved flags (\<^verbatim>\<open>unsigned long\<close> on Linux, \<^verbatim>\<open>eflags\<close> on Windows,
  \<^verbatim>\<open>interrupt_state\<close> on Mac OS), Windows' \<^verbatim>\<open>irql\<close> and Mac OS's \<^verbatim>\<open>lock\<close>.
\<close>

record irq_flags =
  iq_flags :: u64
  iq_irql :: u8
  iq_lock :: u64

record vm_monitor =
  ia32_vmx_basic :: u64
  vmcs_revision_id :: u32
  has_true_ctls :: bool
  ia32_vmx_pinbased_ctls :: u64
  ia32_vmx_true_pinbased_ctls :: u64
  pinbased_allowed0 :: u32
  pinbased_allowed1 :: u32
  ia32_vmx_procbased_ctls :: u64
  ia32_vmx_true_procbased_ctls :: u64
  procbased_allowed0 :: u32
  procbased_allowed1 :: u32
  ia32_vmx_exit_ctls :: u64
  ia32_vmx_true_exit_ctls :: u64
  exit_ctls_allowed0 :: u32
  exit_ctls_allowed1 :: u32
  ia32_vmx_entry_ctls :: u64
  ia32_vmx_true_entry_ctls :: u64
  entry_ctls_allowed0 :: u32
  entry_ctls_allowed1 :: u32
  vmxon_region :: vmpage
  vmcs :: vmpage
  io_bitmap_a :: vmpage
  io_bitmap_b :: vmpage
  msr_bitmap :: vmpage
  old_vmxe :: u64
  our_vmxon :: bool

definition vm_monitor_zero :: vm_monitor where
  "vm_monitor_zero =
     \<lparr>ia32_vmx_basic = 0, vmcs_revision_id = 0, has_true_ctls = False,
      ia32_vmx_pinbased_ctls = 0, ia32_vmx_true_pinbased_ctls = 0,
      pinbased_allowed0 = 0, pinbased_allowed1 = 0,
      ia32_vmx_procbased_ctls = 0, ia32_vmx_true_procbased_ctls = 0,
      procbased_allowed0 = 0, procbased_allowed1 = 0,
      ia32_vmx_exit_ctls = 0, ia32_vmx_true_exit_ctls = 0,
      exit_ctls_allowed0 = 0, exit_ctls_allowed1 = 0,
      ia32_vmx_entry_ctls = 0, ia32_vmx_true_entry_ctls = 0,
      entry_ctls_allowed0 = 0, entry_ctls_allowed1 = 0,
      vmxon_region = vmpage_zero, vmcs = vmpage_zero,
      io_bitmap_a = vmpage_zero, io_bitmap_b = vmpage_zero, msr_bitmap = vmpage_zero,
      old_vmxe = 0, our_vmxon = False\<rparr>"

text \<open>\<^verbatim>\<open>host_state_t\<close> of \<^verbatim>\<open>vmm/vmx.c\<close>.\<close>

record host_state =
  hs_gdt :: descriptor
  hs_idt :: descriptor

section \<open>State of the machine\<close>

record cpu =
  r_es :: u16
  r_cs :: u16
  r_ss :: u16
  r_ds :: u16
  r_fs :: u16
  r_gs :: u16
  r_ldtr :: u16
  r_tr :: u16
  r_gdtr :: descriptor
  r_idtr :: descriptor
  r_cr0 :: u64
  r_cr3 :: u64
  r_cr4 :: u64
  r_dr7 :: u64
  r_rflags :: u64
  r_rsp :: u64
  r_msrs :: "u32 \<rightharpoonup> u64"
  r_tsc :: u64

text \<open>
  The VMX part: whether the processor is in VMX root operation and since when with which
  VMXON region, the current VMCS, and for every VMCS region (by physical address) its fields and
  its launch state.  \<open>vm_entries\<close> counts the VM entries that reached the guest.
\<close>

record vmx_state =
  vmx_on :: bool
  vmxon_ptr :: u64
  cur_vmcs :: "u64 option"
  vmcs_fields :: "u64 \<Rightarrow> u64 \<Rightarrow> u64"
  launched :: "u64 \<Rightarrow> bool"
  vm_entries :: nat

text \<open>
  The operating system: ledgers of the page objects, mappings, MDL structures and locks obtained
  and not yet given back, the interrupt nesting, the count of kernel calls answered so far, the
  two logs, and the driver and device objects of the Windows port.
\<close>

record os_state =
  os_pages :: "u64 multiset"
  os_maps :: "u64 multiset"
  os_mdls :: "u64 multiset"
  os_locks :: "u64 multiset"
  os_preempt :: int
  os_irql :: u8
  os_calls :: nat
  os_klog :: "string list"
  os_evlog :: "string list"
  os_devices :: "u64 multiset"
  os_g_device :: u64
  os_drv_device :: u64
  os_drv_unload :: bool

record mstate =
  m_cpu :: cpu
  m_vmx :: vmx_state
  m_mem :: "u64 \<Rightarrow> u8"
  m_os :: os_state

section \<open>Parameters\<close>

datatype os_target = Linux | MacOS | Windows

text \<open>
  The outcome of the checks of a VM entry and of the guest's run: \<open>Entry_Fail n\<close>, VMLAUNCH or
  VMRESUME fails with error \<open>n\<close> and the next instruction runs; \<open>Entry_Bad_Guest r\<close>, the guest
  state is refused, which loads the host state like a VM exit and leaves the launch state alone;
  \<open>Entry_Exit r\<close>, the guest ran and left with exit reason \<open>r\<close>.
\<close>

datatype entry_outcome = Entry_Fail u64 | Entry_Bad_Guest u32 | Entry_Exit u32

record env =
  e_target :: os_target
  e_cpuid :: "u32 \<Rightarrow> u32 \<Rightarrow> u32 \<times> u32 \<times> u32 \<times> u32"
  e_lar :: "u16 \<Rightarrow> u32"
  e_lsl :: "u16 \<Rightarrow> u16"
  e_maxphyaddr :: nat
  e_v2p :: "u64 \<Rightarrow> u64"
  e_entry :: "mstate \<Rightarrow> entry_outcome"
  e_cycles :: "mstate \<Rightarrow> u64"
  e_guest_code :: u64
  e_vmx_exit :: u64
  e_alloc :: "nat \<Rightarrow> u64"
  e_map :: "u64 \<Rightarrow> u64"
  e_phys :: "u64 \<Rightarrow> u64"
  e_prepare :: "nat \<Rightarrow> bool"
  e_lock :: "nat \<Rightarrow> u64"
  e_evlog :: "nat \<Rightarrow> bool"
  e_max_msg_ch :: nat
  e_device :: "nat \<Rightarrow> u32 \<times> u64"

text \<open>
  The operations of \<^verbatim>\<open>vmm/api.h\<close>, as linked into \<^verbatim>\<open>vmm/vmx.c\<close>.  A C function that takes a pointer and
  fills what it points to takes the old value and returns the new one; \<^const>\<open>None\<close> is an
  execution that does not come back (a processor exception, or an access through \<^verbatim>\<open>NULL\<close>).
\<close>

record platform =
  allocate_vmpage :: "vmpage \<Rightarrow> mstate \<Rightarrow> (int \<times> vmpage \<times> mstate) option"
  free_vmpage :: "vmpage \<Rightarrow> mstate \<Rightarrow> (vmpage \<times> mstate) option"
  vmlatency_preempt_disable :: "irq_flags \<Rightarrow> mstate \<Rightarrow> (irq_flags \<times> mstate) option"
  vmlatency_preempt_enable :: "irq_flags \<Rightarrow> mstate \<Rightarrow> (irq_flags \<times> mstate) option"
  vmlatency_printm :: "string \<Rightarrow> mstate \<Rightarrow> mstate option"

text \<open>The macro \<^verbatim>\<open>vmlatency_printk\<close>: the tag is put before the format string.\<close>

definition vmlatency_printk :: "platform \<Rightarrow> string \<Rightarrow> mstate \<Rightarrow> mstate option" where
  "vmlatency_printk pf s m = vmlatency_printm pf (''[vmlatency] '' @ s) m"

section \<open>Access to the parts of the state\<close>

abbreviation set_cpu :: "(cpu \<Rightarrow> cpu) \<Rightarrow> mstate \<Rightarrow> mstate" where
  "set_cpu f m \<equiv> m\<lparr>m_cpu := f (m_cpu m)\<rparr>"

abbreviation set_vmx :: "(vmx_state \<Rightarrow> vmx_state) \<Rightarrow> mstate \<Rightarrow> mstate" where
  "set_vmx f m \<equiv> m\<lparr>m_vmx := f (m_vmx m)\<rparr>"

abbreviation set_os :: "(os_state \<Rightarrow> os_state) \<Rightarrow> mstate \<Rightarrow> mstate" where
  "set_os f m \<equiv> m\<lparr>m_os := f (m_os m)\<rparr>"

end
