(* ===== verification/Machine.thy ===== *)
theory Machine
  imports State
begin

text \<open>
  The instructions that the inline assembly and the assembly files execute, with the effect the
  processor's manual gives them on the state of \<^verbatim>\<open>State\<close>.  \<^const>\<open>None\<close> is a processor
  exception.  A VMX instruction reports VMsucceed, VMfailInvalid or VMfailValid in the
  flags CF and ZF; the flags are returned as a result, and \<open>r_rflags\<close> holds the other flags.
\<close>

section \<open>Memory\<close>

definition load_le :: "nat \<Rightarrow> (u64 \<Rightarrow> u64) \<Rightarrow> u64 \<Rightarrow> (u64 \<Rightarrow> u8) \<Rightarrow> u64" where
  "load_le n tr a mem =
     foldr (\<lambda>i acc. push_bit 8 acc OR ucast (mem (tr (a + of_nat i)))) [0..<n] 0"

definition load64 :: "env \<Rightarrow> u64 \<Rightarrow> mstate \<Rightarrow> u64" where
  "load64 e va m = load_le 8 (e_v2p e) va (m_mem m)"

definition phys32 :: "u64 \<Rightarrow> mstate \<Rightarrow> u32" where
  "phys32 pa m = ucast (load_le 4 id pa (m_mem m))"

definition store32 :: "env \<Rightarrow> u64 \<Rightarrow> u32 \<Rightarrow> mstate \<Rightarrow> mstate" where
  "store32 e va v m = m\<lparr>m_mem := (m_mem m)
     (e_v2p e va := ucast v,
      e_v2p e (va + 1) := ucast (drop_bit 8 v),
      e_v2p e (va + 2) := ucast (drop_bit 16 v),
      e_v2p e (va + 3) := ucast (drop_bit 24 v))\<rparr>"

definition zero_phys :: "u64 \<Rightarrow> mstate \<Rightarrow> mstate" where
  "zero_phys pa m = m\<lparr>m_mem := (\<lambda>a. if a - pa < 0x1000 then 0 else m_mem m a)\<rparr>"

text \<open>A virtual range of one page is backed by one physical page.\<close>

definition maps_page :: "env \<Rightarrow> u64 \<Rightarrow> u64 \<Rightarrow> bool" where
  "maps_page e va pa \<longleftrightarrow> (\<forall>i < 0x1000. e_v2p e (va + i) = pa + i)"

lemma maps_pageD: "maps_page e va pa \<Longrightarrow> i < 0x1000 \<Longrightarrow> e_v2p e (va + i) = pa + i"
  by (simp add: maps_page_def)

lemma store32_frame [frame]:
  "m_cpu (store32 e va v m) = m_cpu m"
  "m_vmx (store32 e va v m) = m_vmx m"
  "m_os (store32 e va v m) = m_os m"
  by (simp_all add: store32_def)

lemma zero_phys_frame [frame]:
  "m_cpu (zero_phys pa m) = m_cpu m"
  "m_vmx (zero_phys pa m) = m_vmx m"
  "m_os (zero_phys pa m) = m_os m"
  by (simp_all add: zero_phys_def)

section \<open>Flags\<close>

definition FLAG_IF :: u64 where
  "FLAG_IF = 0x200"

definition status_flags :: u64 where
  "status_flags = 0x8d5"

datatype vmx_result = VMsucceed | VMfailInvalid | VMfailValid

fun result_flags :: "vmx_result \<Rightarrow> u64" where
  "result_flags VMsucceed = 0"
| "result_flags VMfailInvalid = RFLAGS_CF"
| "result_flags VMfailValid = RFLAGS_ZF"

text \<open>What \<^verbatim>\<open>pushfq; popq\<close> right after a VMX instruction reads.\<close>

definition flags_after :: "vmx_result \<Rightarrow> mstate \<Rightarrow> u64" where
  "flags_after r m = (r_rflags (m_cpu m) AND NOT status_flags) OR result_flags r"

definition int_enabled :: "mstate \<Rightarrow> bool" where
  "int_enabled m \<longleftrightarrow> r_rflags (m_cpu m) AND FLAG_IF \<noteq> 0"

section \<open>Machine state registers and control registers\<close>

definition insn_rdmsr :: "u32 \<Rightarrow> mstate \<Rightarrow> u64 option" where
  "insn_rdmsr n m = r_msrs (m_cpu m) n"

text \<open>Leaving CR4.VMXE clear while in VMX operation is a general protection fault.\<close>

definition insn_mov_cr4 :: "u64 \<Rightarrow> mstate \<Rightarrow> mstate option" where
  "insn_mov_cr4 v m =
     (if vmx_on (m_vmx m) \<and> v AND CR4_VMXE = 0 then None
      else Some (set_cpu (\<lambda>c. c\<lparr>r_cr4 := v\<rparr>) m))"

text \<open>CR0 and CR4 must agree with the fixed-bit MSRs for VMX operation.\<close>

definition fixed_ok :: "u64 option \<Rightarrow> u64 option \<Rightarrow> u64 \<Rightarrow> bool" where
  "fixed_ok f0 f1 v \<longleftrightarrow>
     (case (f0, f1) of (Some a, Some b) \<Rightarrow> v AND a = a \<and> v AND NOT b = 0 | _ \<Rightarrow> False)"

definition cr_fixed_ok :: "cpu \<Rightarrow> bool" where
  "cr_fixed_ok c \<longleftrightarrow>
     fixed_ok (r_msrs c IA32_VMX_CR0_FIXED0) (r_msrs c IA32_VMX_CR0_FIXED1) (r_cr0 c) \<and>
     fixed_ok (r_msrs c IA32_VMX_CR4_FIXED0) (r_msrs c IA32_VMX_CR4_FIXED1) (r_cr4 c)"

definition vmx_permitted :: "u64 \<Rightarrow> bool" where
  "vmx_permitted fc \<longleftrightarrow> bit fc 0 \<and> bit fc 2"

section \<open>VMX instructions\<close>

definition set_vmcs_field :: "u64 \<Rightarrow> u64 \<Rightarrow> u64 \<Rightarrow> mstate \<Rightarrow> mstate" where
  "set_vmcs_field pa f v =
     set_vmx (\<lambda>x. x\<lparr>vmcs_fields := (vmcs_fields x)(pa := (vmcs_fields x pa)(f := v))\<rparr>)"

text \<open>VMfail: with an error number where there is a current VMCS to hold it.\<close>

definition vm_fail :: "u64 \<Rightarrow> mstate \<Rightarrow> vmx_result \<times> mstate" where
  "vm_fail n m =
     (case cur_vmcs (m_vmx m) of
        None \<Rightarrow> (VMfailInvalid, m)
      | Some pa \<Rightarrow> (VMfailValid, set_vmcs_field pa VMCS_VM_INSTRUCTION_ERROR n m))"

definition pa_ok :: "env \<Rightarrow> u64 \<Rightarrow> bool" where
  "pa_ok e pa \<longleftrightarrow> pa AND 0xfff = 0 \<and> drop_bit (e_maxphyaddr e) pa = 0"

text \<open>The processor's VMCS revision identifier: bits 30:0 of IA32_VMX_BASIC; bit 31 of a region must be 0.\<close>

definition cpu_revision :: "cpu \<Rightarrow> u32" where
  "cpu_revision c = (case r_msrs c IA32_VMX_BASIC of None \<Rightarrow> 0 | Some b \<Rightarrow> ucast (b AND 0x7fffffff))"

definition revision_ok :: "u64 \<Rightarrow> mstate \<Rightarrow> bool" where
  "revision_ok pa m \<longleftrightarrow> phys32 pa m = cpu_revision (m_cpu m)"

definition insn_vmxon :: "env \<Rightarrow> u64 \<Rightarrow> mstate \<Rightarrow> (vmx_result \<times> mstate) option" where
  "insn_vmxon e pa m =
     (if r_cr4 (m_cpu m) AND CR4_VMXE = 0 then None
      else if vmx_on (m_vmx m) then Some (vm_fail 15 m)
      else case r_msrs (m_cpu m) IA32_FEATURE_CONTROL of
        None \<Rightarrow> None
      | Some fc \<Rightarrow>
          if \<not> vmx_permitted fc \<or> \<not> cr_fixed_ok (m_cpu m) then None
          else if \<not> pa_ok e pa \<or> \<not> revision_ok pa m then Some (VMfailInvalid, m)
          else Some (VMsucceed,
                 set_vmx (\<lambda>x. x\<lparr>vmx_on := True, vmxon_ptr := pa, cur_vmcs := None\<rparr>) m))"

definition insn_vmxoff :: "mstate \<Rightarrow> (vmx_result \<times> mstate) option" where
  "insn_vmxoff m =
     (if \<not> vmx_on (m_vmx m) then None
      else Some (VMsucceed, set_vmx (\<lambda>x. x\<lparr>vmx_on := False, cur_vmcs := None\<rparr>) m))"

definition insn_vmptrld :: "env \<Rightarrow> u64 \<Rightarrow> mstate \<Rightarrow> (vmx_result \<times> mstate) option" where
  "insn_vmptrld e pa m =
     (if \<not> vmx_on (m_vmx m) then None
      else if \<not> pa_ok e pa then Some (vm_fail 9 m)
      else if pa = vmxon_ptr (m_vmx m) then Some (vm_fail 10 m)
      else if \<not> revision_ok pa m then Some (vm_fail 11 m)
      else Some (VMsucceed, set_vmx (\<lambda>x. x\<lparr>cur_vmcs := Some pa\<rparr>) m))"

definition insn_vmclear :: "env \<Rightarrow> u64 \<Rightarrow> mstate \<Rightarrow> (vmx_result \<times> mstate) option" where
  "insn_vmclear e pa m =
     (if \<not> vmx_on (m_vmx m) then None
      else if \<not> pa_ok e pa then Some (vm_fail 2 m)
      else if pa = vmxon_ptr (m_vmx m) then Some (vm_fail 3 m)
      else Some (VMsucceed,
             set_vmx (\<lambda>x. x\<lparr>launched := (launched x)(pa := False),
               cur_vmcs := (if cur_vmcs x = Some pa then None else cur_vmcs x)\<rparr>) m))"

text \<open>
  VMREAD without a current VMCS leaves its destination as it was; the program's destination is an
  uninitialised variable, so this is \<^const>\<open>None\<close>.  A VMWRITE without a current VMCS fails and changes
  nothing.  Every field the program names is a field of the VMCS.
\<close>

definition insn_vmread :: "u64 \<Rightarrow> mstate \<Rightarrow> u64 option" where
  "insn_vmread f m =
     (if \<not> vmx_on (m_vmx m) then None
      else case cur_vmcs (m_vmx m) of
        None \<Rightarrow> None
      | Some pa \<Rightarrow> Some (vmcs_fields (m_vmx m) pa f))"

definition insn_vmwrite :: "u64 \<Rightarrow> u64 \<Rightarrow> mstate \<Rightarrow> mstate option" where
  "insn_vmwrite f v m =
     (if \<not> vmx_on (m_vmx m) then None
      else case cur_vmcs (m_vmx m) of
        None \<Rightarrow> Some m
      | Some pa \<Rightarrow> Some (set_vmcs_field pa f v m))"

section \<open>VM entry and VM exit\<close>

text \<open>
  A VM exit loads the host state from the host-state area: control registers, selectors, the base
  addresses (FS and GS through their MSRs), the SYSENTER MSRs and RSP.  The limits of GDTR and IDTR become
  0xffff, LDTR becomes null, RFLAGS becomes 2, DR7 becomes 0x400 and IA32_DEBUGCTL becomes 0.
\<close>

definition IA32_DEBUGCTL :: u32 where [msr_enc]: "IA32_DEBUGCTL = 0x1d9"

definition load_host_state :: "(u64 \<Rightarrow> u64) \<Rightarrow> cpu \<Rightarrow> cpu" where
  "load_host_state v c = c\<lparr>
     r_es := ucast (v VMCS_HOST_ES), r_cs := ucast (v VMCS_HOST_CS),
     r_ss := ucast (v VMCS_HOST_SS), r_ds := ucast (v VMCS_HOST_DS),
     r_fs := ucast (v VMCS_HOST_FS), r_gs := ucast (v VMCS_HOST_GS),
     r_ldtr := 0, r_tr := ucast (v VMCS_HOST_TR),
     r_gdtr := \<lparr>limit = 0xffff, base = v VMCS_HOST_GDTR_BASE\<rparr>,
     r_idtr := \<lparr>limit = 0xffff, base = v VMCS_HOST_IDTR_BASE\<rparr>,
     r_cr0 := v VMCS_HOST_CR0, r_cr3 := v VMCS_HOST_CR3, r_cr4 := v VMCS_HOST_CR4,
     r_dr7 := 0x400, r_rflags := 2, r_rsp := v VMCS_HOST_RSP,
     r_msrs := (r_msrs c)
       (IA32_FS_BASE \<mapsto> v VMCS_HOST_FS_BASE, IA32_GS_BASE \<mapsto> v VMCS_HOST_GS_BASE,
        IA32_SYSENTER_CS \<mapsto> v VMCS_HOST_IA32_SYSENTER_CS,
        IA32_SYSENTER_ESP \<mapsto> v VMCS_HOST_IA32_SYSENTER_ESP,
        IA32_SYSENTER_EIP \<mapsto> v VMCS_HOST_IA32_SYSENTER_EIP, IA32_DEBUGCTL \<mapsto> 0)\<rparr>"

definition vm_exit :: "u64 \<Rightarrow> u32 \<Rightarrow> mstate \<Rightarrow> mstate" where
  "vm_exit pa r m =
     (let m = set_vmcs_field pa VMCS_EXIT_REASON (ucast r) m
      in set_cpu (load_host_state (vmcs_fields (m_vmx m) pa)) m)"

text \<open>
  VMLAUNCH (\<open>l\<close> true) and VMRESUME.  The result is \<open>Inl\<close> of a failed instruction, after which the next
  instruction runs, or \<open>Inr\<close> of the address where the host resumes after the exit.  The time between two
  reads of the time stamp counter is the time of the VM entries in between.
\<close>

definition tick :: "env \<Rightarrow> mstate \<Rightarrow> mstate" where
  "tick e m = set_cpu (\<lambda>c. c\<lparr>r_tsc := r_tsc c + e_cycles e m\<rparr>) m"

definition insn_vmentry :: "env \<Rightarrow> bool \<Rightarrow> mstate \<Rightarrow> ((vmx_result + u64) \<times> mstate) option" where
  "insn_vmentry e l m =
     (if \<not> vmx_on (m_vmx m) then None
      else case cur_vmcs (m_vmx m) of
        None \<Rightarrow> Some (Inl VMfailInvalid, tick e m)
      | Some pa \<Rightarrow>
          let v = vmcs_fields (m_vmx m) pa;
              fails = (\<lambda>n. Some (Inl VMfailValid,
                        set_vmcs_field pa VMCS_VM_INSTRUCTION_ERROR n (tick e m)))
          in if l \<and> launched (m_vmx m) pa then fails 4
             else if \<not> l \<and> \<not> launched (m_vmx m) pa then fails 5
             else case e_entry e m of
               Entry_Fail n \<Rightarrow> fails n
             | Entry_Bad_Guest r \<Rightarrow> Some (Inr (v VMCS_HOST_RIP), vm_exit pa r (tick e m))
             | Entry_Exit r \<Rightarrow>
                 Some (Inr (v VMCS_HOST_RIP),
                   set_vmx (\<lambda>x. x\<lparr>launched := (launched x)(pa := True),
                     vm_entries := vm_entries x + 1\<rparr>) (vm_exit pa r (tick e m))))"

lemma zero_phys_clears: "i < 0x1000 \<Longrightarrow> m_mem (zero_phys pa m) (pa + i) = 0"
  by (simp add: zero_phys_def)

end
