(* ===== verification/Asm_Inlines.thy ===== *)
theory Asm_Inlines
  imports Machine
begin

text \<open>
  The wrappers of \<^verbatim>\<open>vmm/asm-inlines.h\<close>, \<^verbatim>\<open>asm_x\<close> for the source's \<^verbatim>\<open>__x\<close>, with both branches of
  the source's \<^verbatim>\<open>#ifdef WIN32\<close> where they compute differently.  The Windows branches call
  compiler intrinsics, which return 0 for VMsucceed, 1 for VMfailValid and 2 for VMfailInvalid.
  The bodies of \<^verbatim>\<open>win/amd64/primitives.asm\<close> execute the same instructions as the GNU
  branches.  The lemmas give each wrapper in terms of the state.
\<close>

definition win32 :: "env \<Rightarrow> bool" where
  "win32 e \<longleftrightarrow> e_target e = Windows"

fun intrinsic_status :: "vmx_result \<Rightarrow> u8" where
  "intrinsic_status VMsucceed = 0"
| "intrinsic_status VMfailValid = 1"
| "intrinsic_status VMfailInvalid = 2"

section \<open>CPUID, time stamp counter, MSRs\<close>

definition asm_cpuid_all :: "env \<Rightarrow> u32 \<Rightarrow> u32 \<Rightarrow> u32 \<times> u32 \<times> u32 \<times> u32" where
  "asm_cpuid_all e leaf subleaf = e_cpuid e leaf subleaf"

definition asm_cpuid_ecx :: "env \<Rightarrow> u32 \<Rightarrow> u32 \<Rightarrow> u32" where
  "asm_cpuid_ecx e leaf subleaf = (case asm_cpuid_all e leaf subleaf of (eax, ebx, ecx, edx) \<Rightarrow> ecx)"

text \<open>RDTSC and RDMSR deliver the halves of a 64-bit value in EDX and EAX.\<close>

definition edx_eax :: "u64 \<Rightarrow> u32 \<times> u32" where
  "edx_eax v = (ucast (drop_bit 32 v), ucast v)"

definition asm_get_tsc :: "env \<Rightarrow> mstate \<Rightarrow> u64" where
  "asm_get_tsc e m =
     (if win32 e then r_tsc (m_cpu m)
      else case edx_eax (r_tsc (m_cpu m)) of (edx, eax) \<Rightarrow> push_bit 32 (ucast edx) OR ucast eax)"

definition asm_rdmsr :: "env \<Rightarrow> u32 \<Rightarrow> mstate \<Rightarrow> u64 option" where
  "asm_rdmsr e msr_num m =
     (if win32 e then insn_rdmsr msr_num m
      else do {
        v \<leftarrow> insn_rdmsr msr_num m;
        let (edx, eax) = edx_eax v;
        Some (push_bit 32 (ucast edx) OR ucast eax)
      })"

lemma asm_get_tsc [simp]: "asm_get_tsc e m = r_tsc (m_cpu m)"
  by (simp add: asm_get_tsc_def edx_eax_def word_split_32)

lemma asm_rdmsr [simp]: "asm_rdmsr e n m = r_msrs (m_cpu m) n"
  by (cases "r_msrs (m_cpu m) n")
     (simp_all add: asm_rdmsr_def insn_rdmsr_def edx_eax_def word_split_32)

section \<open>VMX instructions\<close>

definition asm_vmxon :: "env \<Rightarrow> u64 \<Rightarrow> mstate \<Rightarrow> (int \<times> mstate) option" where
  "asm_vmxon e vmxon_region_pa m = do {
     (r, m) \<leftarrow> insn_vmxon e vmxon_region_pa m;
     if win32 e then Some (if intrinsic_status r \<noteq> 0 then -1 else 0, m)
     else
       let rflags = flags_after r m AND (RFLAGS_CF OR RFLAGS_ZF) in
       Some (if rflags = RFLAGS_CF then -1
             else if rflags = (RFLAGS_CF OR RFLAGS_ZF) then 1
             else 0, m)
   }"

definition asm_vmxoff :: "mstate \<Rightarrow> mstate option" where
  "asm_vmxoff m = do { (r, m) \<leftarrow> insn_vmxoff m; Some m }"

definition asm_vmclear :: "env \<Rightarrow> u64 \<Rightarrow> mstate \<Rightarrow> (int \<times> mstate) option" where
  "asm_vmclear e vmcs_pa m = do {
     (r, m) \<leftarrow> insn_vmclear e vmcs_pa m;
     if win32 e then Some (if intrinsic_status r \<noteq> 0 then -1 else 0, m)
     else Some (if flags_after r m AND (RFLAGS_CF OR RFLAGS_ZF) \<noteq> 0 then -1 else 0, m)
   }"

definition asm_vmptrld :: "env \<Rightarrow> u64 \<Rightarrow> mstate \<Rightarrow> (int \<times> mstate) option" where
  "asm_vmptrld e vmcs_pa m = do {
     (r, m) \<leftarrow> insn_vmptrld e vmcs_pa m;
     if win32 e then Some (if intrinsic_status r \<noteq> 0 then -1 else 0, m)
     else Some (if flags_after r m AND (RFLAGS_CF OR RFLAGS_ZF) \<noteq> 0 then -1 else 0, m)
   }"

definition asm_vmread :: "u64 \<Rightarrow> mstate \<Rightarrow> u64 option" where
  "asm_vmread field m = insn_vmread field m"

definition asm_vmwrite :: "u64 \<Rightarrow> u64 \<Rightarrow> mstate \<Rightarrow> mstate option" where
  "asm_vmwrite field value m = insn_vmwrite field value m"

lemma cf_zf_values:
  "RFLAGS_CF = 1" "RFLAGS_ZF = 0x40" "RFLAGS_CF OR RFLAGS_ZF = 0x41"
  by (simp_all add: bit_defs BIT_def)

lemma flags_after_mask: "flags_after r m AND 0x41 = result_flags r"
proof -
  have s: "NOT status_flags AND 0x41 = 0"
    by (simp add: status_flags_def)
  have r: "result_flags r AND 0x41 = result_flags r"
    by (cases r) (simp_all add: cf_zf_values)
  show ?thesis
    unfolding flags_after_def bit.conj_disj_distrib2 and.assoc s r by simp
qed

lemma status_zero_iff [simp]:
  "intrinsic_status r = 0 \<longleftrightarrow> r = VMsucceed" "result_flags r = 0 \<longleftrightarrow> r = VMsucceed"
  by (cases r; simp add: cf_zf_values)+

lemma asm_vmxon_eq:
  "asm_vmxon e pa m = map_option
     (\<lambda>(r, m'). (case r of VMsucceed \<Rightarrow> 0 | VMfailInvalid \<Rightarrow> -1
        | VMfailValid \<Rightarrow> (if win32 e then -1 else 0), m')) (insn_vmxon e pa m)"
  by (cases "insn_vmxon e pa m")
     (auto simp: asm_vmxon_def cf_zf_values flags_after_mask Let_def
       split: prod.splits vmx_result.splits)

lemma asm_vmclear_eq:
  "asm_vmclear e pa m = map_option (\<lambda>(r, m'). (if r = VMsucceed then 0 else -1, m')) (insn_vmclear e pa m)"
  by (cases "insn_vmclear e pa m")
     (auto simp: asm_vmclear_def cf_zf_values flags_after_mask split: prod.splits)

lemma asm_vmptrld_eq:
  "asm_vmptrld e pa m = map_option (\<lambda>(r, m'). (if r = VMsucceed then 0 else -1, m')) (insn_vmptrld e pa m)"
  by (cases "insn_vmptrld e pa m")
     (auto simp: asm_vmptrld_def cf_zf_values flags_after_mask split: prod.splits)

section \<open>Registers\<close>

definition asm_get_idt :: "mstate \<Rightarrow> descriptor" where
  [insn_defs]: "asm_get_idt m = r_idtr (m_cpu m)"

definition asm_set_idt :: "descriptor \<Rightarrow> mstate \<Rightarrow> mstate" where
  [insn_defs]: "asm_set_idt idtr m = set_cpu (\<lambda>c. c\<lparr>r_idtr := idtr\<rparr>) m"

definition asm_lsl :: "env \<Rightarrow> u16 \<Rightarrow> u16" where
  [insn_defs]: "asm_lsl e seg = e_lsl e seg"

definition asm_get_cr3 :: "mstate \<Rightarrow> u64" where
  [insn_defs]: "asm_get_cr3 m = r_cr3 (m_cpu m)"

definition asm_get_cr0 :: "mstate \<Rightarrow> u64" where
  [insn_defs]: "asm_get_cr0 m = r_cr0 (m_cpu m)"

definition asm_get_cr4 :: "mstate \<Rightarrow> u64" where
  [insn_defs]: "asm_get_cr4 m = r_cr4 (m_cpu m)"

definition asm_set_cr4 :: "u64 \<Rightarrow> mstate \<Rightarrow> mstate option" where
  "asm_set_cr4 cr4 m = insn_mov_cr4 cr4 m"

definition asm_get_rflags :: "mstate \<Rightarrow> u64" where
  [insn_defs]: "asm_get_rflags m = r_rflags (m_cpu m)"

definition asm_get_es :: "mstate \<Rightarrow> u16" where [insn_defs]: "asm_get_es m = r_es (m_cpu m)"
definition asm_get_cs :: "mstate \<Rightarrow> u16" where [insn_defs]: "asm_get_cs m = r_cs (m_cpu m)"
definition asm_get_ss :: "mstate \<Rightarrow> u16" where [insn_defs]: "asm_get_ss m = r_ss (m_cpu m)"
definition asm_get_ds :: "mstate \<Rightarrow> u16" where [insn_defs]: "asm_get_ds m = r_ds (m_cpu m)"
definition asm_get_fs :: "mstate \<Rightarrow> u16" where [insn_defs]: "asm_get_fs m = r_fs (m_cpu m)"
definition asm_get_gs :: "mstate \<Rightarrow> u16" where [insn_defs]: "asm_get_gs m = r_gs (m_cpu m)"

text \<open>
  For a selector that LAR refuses, the instruction leaves the variable of \<^verbatim>\<open>__lar\<close> unwritten; \<open>e_lar\<close> then stands for what the variable happens
  to hold.
\<close>

definition asm_lar :: "env \<Rightarrow> u16 \<Rightarrow> u32" where
  [insn_defs]: "asm_lar e seg = e_lar e seg"

definition asm_sldt :: "mstate \<Rightarrow> u16" where
  [insn_defs]: "asm_sldt m = r_ldtr (m_cpu m)"

definition asm_get_gdt :: "mstate \<Rightarrow> descriptor" where
  [insn_defs]: "asm_get_gdt m = r_gdtr (m_cpu m)"

definition asm_set_gdt :: "descriptor \<Rightarrow> mstate \<Rightarrow> mstate" where
  [insn_defs]: "asm_set_gdt gdtr m = set_cpu (\<lambda>c. c\<lparr>r_gdtr := gdtr\<rparr>) m"

definition asm_str :: "mstate \<Rightarrow> u16" where
  [insn_defs]: "asm_str m = r_tr (m_cpu m)"

end
