(* ===== verification/Vmm_Api.thy ===== *)
theory Vmm_Api
  imports Machine
begin

text \<open>
  The interface \<^verbatim>\<open>vmm/api.h\<close> between the monitor and the three operating systems.  First the
  kernel services that the ports call, with what their documentation says of the ledgers; the
  answers are parameters (\<open>e_alloc\<close>, \<open>e_map\<close>, \<open>e_phys\<close>).  Then the contract of the
  interface as two locales; the theories \<open>Linux_Api\<close>, \<open>Mac_Api\<close> and \<open>Win_Api\<close> interpret them.
\<close>

section \<open>Kernel services\<close>

definition k_alloc_page :: "env \<Rightarrow> mstate \<Rightarrow> u64 \<times> mstate" where
  "k_alloc_page e m =
     (let h = e_alloc e (os_calls (m_os m));
          m = set_os (\<lambda>s. s\<lparr>os_calls := os_calls s + 1\<rparr>) m
      in (h, if h = 0 then m else set_os (\<lambda>s. s\<lparr>os_pages := add_mset h (os_pages s)\<rparr>) m))"

text \<open>Giving back what is not held is \<^const>\<open>None\<close>: the documentation leaves it undefined.\<close>

definition k_free_page :: "u64 \<Rightarrow> mstate \<Rightarrow> mstate option" where
  "k_free_page h m =
     (if h \<in># os_pages (m_os m)
      then Some (set_os (\<lambda>s. s\<lparr>os_pages := os_pages s - {#h#}\<rparr>) m) else None)"

definition k_map :: "u64 \<Rightarrow> mstate \<Rightarrow> mstate" where
  "k_map h = set_os (\<lambda>s. s\<lparr>os_maps := add_mset h (os_maps s)\<rparr>)"

definition k_unmap :: "u64 \<Rightarrow> mstate \<Rightarrow> mstate option" where
  "k_unmap h m =
     (if h \<in># os_maps (m_os m)
      then Some (set_os (\<lambda>s. s\<lparr>os_maps := os_maps s - {#h#}\<rparr>) m) else None)"

definition k_log :: "string \<Rightarrow> mstate \<Rightarrow> mstate" where
  "k_log s = set_os (\<lambda>x. x\<lparr>os_klog := os_klog x @ [s]\<rparr>)"

definition cli :: "mstate \<Rightarrow> mstate" where
  "cli = set_cpu (\<lambda>c. c\<lparr>r_rflags := r_rflags c AND NOT FLAG_IF\<rparr>)"

text \<open>Set the interrupt flag to the one saved in \<open>f\<close>.\<close>

definition restore_if :: "u64 \<Rightarrow> mstate \<Rightarrow> mstate" where
  "restore_if f = set_cpu (\<lambda>c. c\<lparr>r_rflags := (r_rflags c AND NOT FLAG_IF) OR (f AND FLAG_IF)\<rparr>)"

section \<open>What the interface keeps\<close>

definition page_ledger :: "mstate \<Rightarrow> u64 multiset \<times> u64 multiset" where
  "page_ledger m = (os_pages (m_os m), os_maps (m_os m))"

definition irq_ledger :: "mstate \<Rightarrow> int \<times> u8 \<times> u64 multiset" where
  "irq_ledger m = (os_preempt (m_os m), os_irql (m_os m), os_locks (m_os m))"

definition dev_ledger :: "mstate \<Rightarrow> u64 multiset \<times> u64 \<times> u64 \<times> bool" where
  "dev_ledger m = (os_devices (m_os m), os_g_device (m_os m), os_drv_device (m_os m), os_drv_unload (m_os m))"

definition klog :: "mstate \<Rightarrow> string list" where
  "klog m = os_klog (m_os m)"

text \<open>A step of the operating system that the processor does not notice.\<close>

definition os_step :: "mstate \<Rightarrow> mstate \<Rightarrow> bool" where
  "os_step m m' \<longleftrightarrow> m_cpu m' = m_cpu m \<and> m_vmx m' = m_vmx m \<and>
     irq_ledger m' = irq_ledger m \<and> dev_ledger m' = dev_ledger m"

lemmas ledger_defs = page_ledger_def irq_ledger_def dev_ledger_def klog_def

lemma os_step_refl [simp]: "os_step m m"
  by (simp add: os_step_def)

section \<open>The contract\<close>

locale vmm_api =
  fixes pf :: platform
  assumes alloc_total: "\<exists>r p' m'. allocate_vmpage pf p m = Some (r, p', m')"
    and alloc_ret: "allocate_vmpage pf p m = Some (r, p', m') \<Longrightarrow> r = 0 \<or> r = -1"
    and alloc_ok: "allocate_vmpage pf p m = Some (0, p', m') \<Longrightarrow> vp_handle p' \<noteq> 0 \<and>
      page_ledger m' = (add_mset (vp_handle p') (fst (page_ledger m)), add_mset (vp_handle p') (snd (page_ledger m)))"
    and alloc_fail: "allocate_vmpage pf p m = Some (-1, p', m') \<Longrightarrow> page_ledger m' = page_ledger m"
    and alloc_frame: "allocate_vmpage pf p m = Some (r, p', m') \<Longrightarrow> os_step m m' \<and> klog m' = klog m"
    and free_ok: "vp_handle p \<in># fst (page_ledger m) \<Longrightarrow> vp_handle p \<in># snd (page_ledger m) \<Longrightarrow>
      \<exists>m'. free_vmpage pf p m = Some (vmpage_zero, m') \<and> os_step m m' \<and> m_mem m' = m_mem m \<and> klog m' = klog m \<and>
        page_ledger m' = (fst (page_ledger m) - {#vp_handle p#}, snd (page_ledger m) - {#vp_handle p#})"
    and printm_ok: "\<exists>m'. vmlatency_printm pf s m = Some m' \<and> os_step m m' \<and> m_mem m' = m_mem m \<and>
      page_ledger m' = page_ledger m \<and> klog m' = klog m @ [s]"
    and disable_ok: "vmlatency_preempt_disable pf f m = Some (f', m') \<Longrightarrow> \<not> int_enabled m' \<and>
      (\<exists>x. m_cpu m' = (m_cpu m)\<lparr>r_rflags := x\<rparr>) \<and> m_vmx m' = m_vmx m \<and> m_mem m' = m_mem m \<and>
      page_ledger m' = page_ledger m \<and> dev_ledger m' = dev_ledger m \<and> klog m' = klog m"
    and enable_ok: "vmlatency_preempt_disable pf f m = Some (f', m1) \<Longrightarrow> irq_ledger m2 = irq_ledger m1 \<Longrightarrow>
      \<exists>f'' m3. vmlatency_preempt_enable pf f' m2 = Some (f'', m3) \<and> int_enabled m3 = int_enabled m \<and>
        irq_ledger m3 = irq_ledger m \<and> (\<exists>x. m_cpu m3 = (m_cpu m2)\<lparr>r_rflags := x\<rparr>) \<and>
        m_vmx m3 = m_vmx m2 \<and> m_mem m3 = m_mem m2 \<and>
        page_ledger m3 = page_ledger m2 \<and> dev_ledger m3 = dev_ledger m2 \<and> klog m3 = klog m2"
    and free_frame: "free_vmpage pf p m = Some (p', m') \<Longrightarrow> m_vmx m' = m_vmx m"
    and enable_frame: "vmlatency_preempt_enable pf f m = Some (f', m') \<Longrightarrow> m_vmx m' = m_vmx m"
begin

lemma printk_ok:
  "\<exists>m'. vmlatency_printk pf s m = Some m' \<and> os_step m m' \<and> m_mem m' = m_mem m \<and>
     page_ledger m' = page_ledger m \<and> klog m' = klog m @ [''[vmlatency] '' @ s]"
  using printm_ok [of "''[vmlatency] '' @ s" m] by (simp add: vmlatency_printk_def)

lemma alloc_cases:
  obtains (ok) p' m' where "allocate_vmpage pf p m = Some (0, p', m')"
  | (fail) p' m' where "allocate_vmpage pf p m = Some (-1, p', m')"
  using alloc_total [of p m] alloc_ret [of p m] by blast

end

text \<open>A port on which disabling preemption always comes back.\<close>

locale vmm_api_total = vmm_api +
  assumes disable_total: "\<exists>f' m'. vmlatency_preempt_disable pf f m = Some (f', m')"

text \<open>
  A port whose operations write memory only to clear a new page, and lose at most the structure of one MDL with it.
\<close>

definition mem_mdls :: "mstate \<Rightarrow> (u64 \<Rightarrow> u8) \<times> u64 multiset" where
  "mem_mdls m = (m_mem m, os_mdls (m_os m))"

locale vmm_api_frame = vmm_api +
  assumes alloc_mdls: "allocate_vmpage pf p m = Some (r, p', m') \<Longrightarrow>
      \<exists>hs. length hs \<le> 1 \<and> os_mdls (m_os m') = mset hs + os_mdls (m_os m)"
    and free_mem_mdls: "free_vmpage pf p m = Some (p', m') \<Longrightarrow> mem_mdls m' = mem_mdls m"
    and disable_mem_mdls: "vmlatency_preempt_disable pf f m = Some (f', m') \<Longrightarrow> mem_mdls m' = mem_mdls m"
    and enable_mem_mdls: "vmlatency_preempt_enable pf f m = Some (f', m') \<Longrightarrow> mem_mdls m' = mem_mdls m"
    and printm_mem_mdls: "vmlatency_printm pf s m = Some m' \<Longrightarrow> mem_mdls m' = mem_mdls m"

text \<open>
  A port on which a page is the kernel's next one: its handle is the answer to the first call that
  \<open>allocate_vmpage\<close> makes, and its addresses are those the kernel gives for the handle.  The law
  \<open>alloc_succeeds\<close> says when there is a page, and \<open>alloc_mem\<close> that only this page is written, if it is mapped where
  the kernel says.
\<close>

definition kernel_memory :: "env \<Rightarrow> bool" where
  "kernel_memory e \<longleftrightarrow> (\<forall>k. e_alloc e k \<noteq> 0 \<and> e_prepare e k) \<and> (\<forall>h. h \<noteq> 0 \<longrightarrow> e_map e h \<noteq> 0)"

locale vmm_api_pages = vmm_api +
  fixes e :: env and page_pa :: "u64 \<Rightarrow> u64"
  assumes alloc_page: "allocate_vmpage pf p m = Some (0, p', m') \<Longrightarrow>
      vp_handle p' = e_alloc e (os_calls (m_os m)) \<and> vp_p p' = e_map e (vp_handle p') \<and>
      vp_pa p' = page_pa (vp_handle p') \<and> os_calls (m_os m') \<in> {os_calls (m_os m) + 1, os_calls (m_os m) + 2}"
    and alloc_succeeds: "kernel_memory e \<Longrightarrow> \<exists>p' m'. allocate_vmpage pf p m = Some (0, p', m')"
    and alloc_mem: "allocate_vmpage pf p m = Some (r, p', m') \<Longrightarrow>
      maps_page e (e_map e (e_alloc e (os_calls (m_os m)))) (page_pa (e_alloc e (os_calls (m_os m)))) \<Longrightarrow>
      \<not> x - page_pa (e_alloc e (os_calls (m_os m))) < 0x1000 \<Longrightarrow> m_mem m' x = m_mem m x"

end
