(* ===== verification/Vmx_Memory.thy ===== *)
theory Vmx_Memory
  imports Asm_Inlines Vmm_Api
begin

text \<open>
  The helpers of \<^verbatim>\<open>vmm/vmx.c\<close> around the measurement: saving and restoring the descriptor-table
  registers, and the five pages of the monitor.
\<close>

section \<open>Host descriptor tables\<close>

definition save_host_state :: "mstate \<Rightarrow> host_state" where
  "save_host_state m = \<lparr>hs_gdt = asm_get_gdt m, hs_idt = asm_get_idt m\<rparr>"

definition restore_host_state :: "host_state \<Rightarrow> mstate \<Rightarrow> mstate" where
  "restore_host_state s m = asm_set_idt (hs_idt s) (asm_set_gdt (hs_gdt s) m)"

lemma restore_host_state_eq:
  "restore_host_state s m = set_cpu (\<lambda>c. c\<lparr>r_gdtr := hs_gdt s, r_idtr := hs_idt s\<rparr>) m"
  by (simp add: restore_host_state_def insn_defs)

section \<open>The five pages\<close>

definition allocate_memory :: "platform \<Rightarrow> vm_monitor \<Rightarrow> mstate \<Rightarrow> (int \<times> vm_monitor \<times> mstate) option" where
  "allocate_memory pf vmm m = do {
     let cnt = 0;
     (r, p, m) \<leftarrow> allocate_vmpage pf (vmxon_region vmm) m;
     let vmm = vmm\<lparr>vmxon_region := p\<rparr>;
     if r \<noteq> 0 then Some (- cnt, vmm, m) else do {
     let cnt = cnt + 1;
     (r, p, m) \<leftarrow> allocate_vmpage pf (vmcs vmm) m;
     let vmm = vmm\<lparr>vmcs := p\<rparr>;
     if r \<noteq> 0 then Some (- cnt, vmm, m) else do {
     let cnt = cnt + 1;
     (r, p, m) \<leftarrow> allocate_vmpage pf (io_bitmap_a vmm) m;
     let vmm = vmm\<lparr>io_bitmap_a := p\<rparr>;
     if r \<noteq> 0 then Some (- cnt, vmm, m) else do {
     let cnt = cnt + 1;
     (r, p, m) \<leftarrow> allocate_vmpage pf (io_bitmap_b vmm) m;
     let vmm = vmm\<lparr>io_bitmap_b := p\<rparr>;
     if r \<noteq> 0 then Some (- cnt, vmm, m) else do {
     let cnt = cnt + 1;
     (r, p, m) \<leftarrow> allocate_vmpage pf (msr_bitmap vmm) m;
     let vmm = vmm\<lparr>msr_bitmap := p\<rparr>;
     if r \<noteq> 0 then Some (- cnt, vmm, m) else do {
     let cnt = cnt + 1;
     Some (cnt, vmm, m)
     }}}}}
   }"

definition free_memory :: "platform \<Rightarrow> vm_monitor \<Rightarrow> int \<Rightarrow> mstate \<Rightarrow> (vm_monitor \<times> mstate) option" where
  "free_memory pf vmm cnt m = do {
     (vmm, cnt, m) \<leftarrow> (if cnt = 5
       then do { (p, m) \<leftarrow> free_vmpage pf (msr_bitmap vmm) m; Some (vmm\<lparr>msr_bitmap := p\<rparr>, cnt - 1, m) }
       else Some (vmm, cnt, m));
     (vmm, cnt, m) \<leftarrow> (if cnt = 4
       then do { (p, m) \<leftarrow> free_vmpage pf (io_bitmap_b vmm) m; Some (vmm\<lparr>io_bitmap_b := p\<rparr>, cnt - 1, m) }
       else Some (vmm, cnt, m));
     (vmm, cnt, m) \<leftarrow> (if cnt = 3
       then do { (p, m) \<leftarrow> free_vmpage pf (io_bitmap_a vmm) m; Some (vmm\<lparr>io_bitmap_a := p\<rparr>, cnt - 1, m) }
       else Some (vmm, cnt, m));
     (vmm, cnt, m) \<leftarrow> (if cnt = 2
       then do { (p, m) \<leftarrow> free_vmpage pf (vmxon_region vmm) m; Some (vmm\<lparr>vmxon_region := p\<rparr>, cnt - 1, m) }
       else Some (vmm, cnt, m));
     (vmm, cnt, m) \<leftarrow> (if cnt = 1
       then do { (p, m) \<leftarrow> free_vmpage pf (vmcs vmm) m; Some (vmm\<lparr>vmcs := p\<rparr>, cnt - 1, m) }
       else Some (vmm, cnt, m));
     Some (vmm, m)
   }"

text \<open>The handles of the monitor's pages, in the order of allocation.\<close>

definition vmm_handles :: "vm_monitor \<Rightarrow> u64 list" where
  "vmm_handles vmm = [vp_handle (vmxon_region vmm), vp_handle (vmcs vmm), vp_handle (io_bitmap_a vmm),
     vp_handle (io_bitmap_b vmm), vp_handle (msr_bitmap vmm)]"

text \<open>The state's ledgers hold \<open>hs\<close> in addition to those of \<open>m\<close>.\<close>

definition ledger_plus :: "mstate \<Rightarrow> u64 list \<Rightarrow> mstate \<Rightarrow> bool" where
  "ledger_plus m hs m' \<longleftrightarrow>
     page_ledger m' = (mset hs + fst (page_ledger m), mset hs + snd (page_ledger m))"

text \<open>Everything of the monitor but its five pages.\<close>

definition same_but_pages :: "vm_monitor \<Rightarrow> vm_monitor \<Rightarrow> bool" where
  "same_but_pages v v' \<longleftrightarrow>
     v' = v\<lparr>vmxon_region := vmxon_region v', vmcs := vmcs v', io_bitmap_a := io_bitmap_a v',
            io_bitmap_b := io_bitmap_b v', msr_bitmap := msr_bitmap v'\<rparr>"

context vmm_api
begin

lemma alloc_Some:
  assumes "allocate_vmpage pf p m = Some (r, p', m')"
  shows "(r = 0 \<and> page_ledger m' = (add_mset (vp_handle p') (fst (page_ledger m)), add_mset (vp_handle p') (snd (page_ledger m)))
      \<or> r = -1 \<and> page_ledger m' = page_ledger m) \<and> os_step m m' \<and> klog m' = klog m"
  using assms alloc_ret [OF assms] alloc_ok [of p m p' m'] alloc_fail [of p m p' m'] alloc_frame [OF assms]
  by auto

text \<open>
  All five allocations succeed and the result is 5, or the first \<open>k < 5\<close> succeed, the next
  fails, and the result is \<open>- k\<close>; the \<open>k\<close> pages obtained are held in either case.
\<close>

lemma allocate_memory_outcome:
  "\<exists>k cnt vmm' m'. allocate_memory pf vmm m = Some (cnt, vmm', m') \<and>
     (k = 5 \<and> cnt = 5 \<or> k < 5 \<and> cnt = - int k) \<and>
     ledger_plus m (take k (vmm_handles vmm')) m' \<and>
     same_but_pages vmm vmm' \<and> os_step m m' \<and> klog m' = klog m"
proof -
  obtain r1 p1 m1 where a1: "allocate_vmpage pf (vmxon_region vmm) m = Some (r1, p1, m1)"
    using alloc_total by blast
  obtain r2 p2 m2 where a2: "allocate_vmpage pf (vmcs vmm) m1 = Some (r2, p2, m2)"
    using alloc_total by blast
  obtain r3 p3 m3 where a3: "allocate_vmpage pf (io_bitmap_a vmm) m2 = Some (r3, p3, m3)"
    using alloc_total by blast
  obtain r4 p4 m4 where a4: "allocate_vmpage pf (io_bitmap_b vmm) m3 = Some (r4, p4, m4)"
    using alloc_total by blast
  obtain r5 p5 m5 where a5: "allocate_vmpage pf (msr_bitmap vmm) m4 = Some (r5, p5, m5)"
    using alloc_total by blast
  note s = alloc_Some [OF a1] alloc_Some [OF a2] alloc_Some [OF a3] alloc_Some [OF a4] alloc_Some [OF a5]
  note d = allocate_memory_def a1 a2 a3 a4 a5 ledger_plus_def vmm_handles_def same_but_pages_def os_step_def
    add_mset_commute
  consider "r1 \<noteq> 0" | "r1 = 0" "r2 \<noteq> 0" | "r1 = 0" "r2 = 0" "r3 \<noteq> 0"
    | "r1 = 0" "r2 = 0" "r3 = 0" "r4 \<noteq> 0" | "r1 = 0" "r2 = 0" "r3 = 0" "r4 = 0" "r5 \<noteq> 0"
    | "r1 = 0" "r2 = 0" "r3 = 0" "r4 = 0" "r5 = 0"
    by blast
  then show ?thesis
  proof cases
    case 1
    then show ?thesis using s by (intro exI [of _ "0::nat"]) (auto simp: d)
  next
    case 2
    then show ?thesis using s by (intro exI [of _ "Suc 0"]) (auto simp: d)
  next
    case 3
    then show ?thesis using s by (intro exI [of _ "2::nat"]) (auto simp: d)
  next
    case 4
    then show ?thesis using s by (intro exI [of _ "3::nat"]) (auto simp: d)
  next
    case 5
    then show ?thesis using s by (intro exI [of _ "4::nat"]) (auto simp: d)
  next
    case 6
    then show ?thesis using s by (intro exI [of _ "5::nat"]) (auto simp: d)
  qed
qed

text \<open>With nothing to free, \<open>free_memory\<close> does nothing.\<close>

lemma free_memory_nonpos: "cnt \<le> 0 \<Longrightarrow> free_memory pf vmm cnt m = Some (vmm, m)"
  by (simp add: free_memory_def)

lemma free_page_step:
  assumes "ledger_plus m0 (vp_handle p # hs) m"
  shows "\<exists>m'. free_vmpage pf p m = Some (vmpage_zero, m') \<and> ledger_plus m0 hs m' \<and>
    os_step m m' \<and> m_mem m' = m_mem m \<and> klog m' = klog m"
  using assms free_ok [of p m] by (auto simp: ledger_plus_def)

text \<open>Called with 5, it gives back the five pages and nothing else.\<close>

lemma free_memory_five:
  assumes "ledger_plus m0 (vmm_handles vmm) m"
  shows "\<exists>vmm' m'. free_memory pf vmm 5 m = Some (vmm', m') \<and> page_ledger m' = page_ledger m0 \<and>
    os_step m m' \<and> m_mem m' = m_mem m \<and> klog m' = klog m"
proof -
  have l: "ledger_plus m0 [vp_handle (msr_bitmap vmm), vp_handle (io_bitmap_b vmm), vp_handle (io_bitmap_a vmm),
      vp_handle (vmxon_region vmm), vp_handle (vmcs vmm)] m"
    using assms by (simp add: ledger_plus_def vmm_handles_def ac_simps)
  obtain m1 where f1: "free_vmpage pf (msr_bitmap vmm) m = Some (vmpage_zero, m1)"
    and l1: "ledger_plus m0 [vp_handle (io_bitmap_b vmm), vp_handle (io_bitmap_a vmm),
      vp_handle (vmxon_region vmm), vp_handle (vmcs vmm)] m1"
    and s1: "os_step m m1" "m_mem m1 = m_mem m" "klog m1 = klog m"
    using free_page_step [OF l] by blast
  obtain m2 where f2: "free_vmpage pf (io_bitmap_b vmm) m1 = Some (vmpage_zero, m2)"
    and l2: "ledger_plus m0 [vp_handle (io_bitmap_a vmm), vp_handle (vmxon_region vmm), vp_handle (vmcs vmm)] m2"
    and s2: "os_step m1 m2" "m_mem m2 = m_mem m1" "klog m2 = klog m1"
    using free_page_step [OF l1] by blast
  obtain m3 where f3: "free_vmpage pf (io_bitmap_a vmm) m2 = Some (vmpage_zero, m3)"
    and l3: "ledger_plus m0 [vp_handle (vmxon_region vmm), vp_handle (vmcs vmm)] m3"
    and s3: "os_step m2 m3" "m_mem m3 = m_mem m2" "klog m3 = klog m2"
    using free_page_step [OF l2] by blast
  obtain m4 where f4: "free_vmpage pf (vmxon_region vmm) m3 = Some (vmpage_zero, m4)"
    and l4: "ledger_plus m0 [vp_handle (vmcs vmm)] m4"
    and s4: "os_step m3 m4" "m_mem m4 = m_mem m3" "klog m4 = klog m3"
    using free_page_step [OF l3] by blast
  obtain m5 where f5: "free_vmpage pf (vmcs vmm) m4 = Some (vmpage_zero, m5)"
    and l5: "ledger_plus m0 [] m5"
    and s5: "os_step m4 m5" "m_mem m5 = m_mem m4" "klog m5 = klog m4"
    using free_page_step [OF l4] by blast
  have "free_memory pf vmm 5 m = Some (vmm\<lparr>msr_bitmap := vmpage_zero, io_bitmap_b := vmpage_zero,
      io_bitmap_a := vmpage_zero, vmxon_region := vmpage_zero, vmcs := vmpage_zero\<rparr>, m5)"
    by (simp add: free_memory_def f1 f2 f3 f4 f5)
  moreover have "os_step m m5" using s1 s2 s3 s4 s5 by (simp add: os_step_def)
  ultimately show ?thesis using l5 s1 s2 s3 s4 s5 by (simp add: ledger_plus_def)
qed

end

context vmm_api
begin

text \<open>Allocating and freeing: all or, after a failure halfway, nothing is given back.\<close>

lemma allocate_free_balance:
  "\<exists>k cnt vmm' m'. allocate_memory pf vmm m = Some (cnt, vmm', m') \<and>
     ledger_plus m (take k (vmm_handles vmm')) m' \<and> m_cpu m' = m_cpu m \<and>
     ((k = 5 \<and> cnt = 5 \<and> (\<exists>vmm'' m''. free_memory pf vmm' cnt m' = Some (vmm'', m'') \<and> page_ledger m'' = page_ledger m)) \<or>
      (k < 5 \<and> cnt = - int k \<and> free_memory pf vmm' cnt m' = Some (vmm', m')))"
proof -
  obtain k cnt vmm' m' where a: "allocate_memory pf vmm m = Some (cnt, vmm', m')"
    and k: "k = 5 \<and> cnt = 5 \<or> k < 5 \<and> cnt = - int k"
    and l: "ledger_plus m (take k (vmm_handles vmm')) m'" and o: "os_step m m'"
    using allocate_memory_outcome [of vmm m] by blast
  have c: "m_cpu m' = m_cpu m" using o by (simp add: os_step_def)
  from k show ?thesis
  proof
    assume k5: "k = 5 \<and> cnt = 5"
    then have "ledger_plus m (vmm_handles vmm') m'" using l by (simp add: vmm_handles_def)
    from free_memory_five [OF this] show ?thesis using a l c k5 by blast
  next
    assume k': "k < 5 \<and> cnt = - int k"
    then have "free_memory pf vmm' cnt m' = Some (vmm', m')" by (intro free_memory_nonpos) simp
    then show ?thesis using a l c k' by blast
  qed
qed

end

section \<open>A reference for the allocation\<close>

text \<open>Allocating a list of pages in order, up to the first failure: how many were obtained, the pages, the state.\<close>

fun allocate_seq :: "platform \<Rightarrow> vmpage list \<Rightarrow> mstate \<Rightarrow> (nat \<times> vmpage list \<times> mstate) option" where
  "allocate_seq pf [] m = Some (0, [], m)"
| "allocate_seq pf (p # ps) m = do {
     (r, p, m) \<leftarrow> allocate_vmpage pf p m;
     if r \<noteq> 0 then Some (0, p # ps, m) else do {
       (k, ps, m) \<leftarrow> allocate_seq pf ps m;
       Some (k + 1, p # ps, m)
     }
   }"

definition vmm_pages :: "vm_monitor \<Rightarrow> vmpage list" where
  "vmm_pages vmm = [vmxon_region vmm, vmcs vmm, io_bitmap_a vmm, io_bitmap_b vmm, msr_bitmap vmm]"

definition set_vmm_pages :: "vmpage list \<Rightarrow> vm_monitor \<Rightarrow> vm_monitor" where
  "set_vmm_pages ps vmm = vmm\<lparr>vmxon_region := ps ! 0, vmcs := ps ! 1, io_bitmap_a := ps ! 2, io_bitmap_b := ps ! 3,
     msr_bitmap := ps ! 4\<rparr>"

lemma nth_5:
  "(a # ps) ! 0 = a" "(a # b # ps) ! 1 = b" "(a # b # c # ps) ! 2 = c" "(a # b # c # d # ps) ! 3 = d"
  "(a # b # c # d # x # ps) ! 4 = x"
  by simp_all

lemma allocate_memory_seq:
  "allocate_memory pf vmm m = map_option
     (\<lambda>(k, ps, m). (if k = 5 then 5 else - int k, set_vmm_pages ps vmm, m)) (allocate_seq pf (vmm_pages vmm) m)"
  unfolding allocate_memory_def vmm_pages_def
  by (cases vmm) (auto simp: set_vmm_pages_def nth_5 split: option.splits prod.splits bind_splits)

end
