(* ===== verification/Printf.thy ===== *)
theory Printf
  imports State
begin

text \<open>
  The conversions of \<^verbatim>\<open>printf\<close> that the program's messages use: \<^verbatim>\<open>%d\<close>, \<^verbatim>\<open>%6d\<close>, \<^verbatim>\<open>%lld\<close>, \<^verbatim>\<open>%-30s\<close>,
  \<^verbatim>\<open>%#x\<close>, \<^verbatim>\<open>%#lx\<close> and \<^verbatim>\<open>%#018llx\<close>.  The Linux kernel prints the prefix of \<^verbatim>\<open>%#x\<close> for zero too,
  the C standard does not.
\<close>

abbreviation nl :: string where
  "nl \<equiv> [CHR 0x0A]"

definition digit_char :: "nat \<Rightarrow> char" where
  "digit_char d = ''0123456789abcdef'' ! d"

fun digits_base :: "nat \<Rightarrow> nat \<Rightarrow> string" where
  "digits_base b n =
     (if b < 2 \<or> n < b then [digit_char n] else digits_base b (n div b) @ [digit_char (n mod b)])"

declare digits_base.simps [simp del]

definition pad_left :: "char \<Rightarrow> nat \<Rightarrow> string \<Rightarrow> string" where
  "pad_left c w s = replicate (w - length s) c @ s"

definition pad_right :: "nat \<Rightarrow> string \<Rightarrow> string" where
  "pad_right w s = s @ replicate (w - length s) (CHR '' '')"

definition fmt_int :: "int \<Rightarrow> string" where
  "fmt_int i = (if i < 0 then ''-'' @ digits_base 10 (nat (- i)) else digits_base 10 (nat i))"

text \<open>\<^verbatim>\<open>%6d\<close> reads the low half of the 64-bit argument \<^verbatim>\<open>__BIT(n)\<close> as an \<^verbatim>\<open>int\<close>.\<close>

definition fmt_6d :: "u64 \<Rightarrow> string" where
  "fmt_6d v = pad_left (CHR '' '') 6 (fmt_int (sint (ucast v :: u32)))"

definition fmt_lld :: "u64 \<Rightarrow> string" where
  "fmt_lld v = fmt_int (sint v)"

definition fmt_s30 :: "string \<Rightarrow> string" where
  "fmt_s30 s = pad_right 30 s"

definition hex_prefix :: "env \<Rightarrow> nat \<Rightarrow> string" where
  "hex_prefix e v = (if v = 0 \<and> e_target e \<noteq> Linux then '''' else ''0x'')"

definition fmt_hex :: "env \<Rightarrow> nat \<Rightarrow> string" where
  "fmt_hex e v = hex_prefix e v @ digits_base 16 v"

definition fmt_018llx :: "env \<Rightarrow> u64 \<Rightarrow> string" where
  "fmt_018llx e v =
     (let p = hex_prefix e (unat v)
      in p @ pad_left (CHR ''0'') (18 - length p) (digits_base 16 (unat v)))"

text \<open>\<^verbatim>\<open>%#lx\<close>: \<^verbatim>\<open>long\<close> has 32 bits on Windows.\<close>

definition fmt_lx :: "env \<Rightarrow> u64 \<Rightarrow> string" where
  "fmt_lx e v = fmt_hex e (if e_target e = Windows then unat (ucast v :: u32) else unat v)"

section \<open>Reading the numbers back\<close>

definition digit_value :: "char \<Rightarrow> nat" where
  "digit_value c =
     (let k = (of_char c :: nat) in if 97 \<le> k then k - 87 else k - 48)"

definition read_base :: "nat \<Rightarrow> string \<Rightarrow> nat" where
  "read_base b s = foldl (\<lambda>acc c. acc * b + digit_value c) 0 s"

lemma digit_value_char: "d < 16 \<Longrightarrow> digit_value (digit_char d) = d"
proof -
  have "\<forall>d \<in> set [0..<16]. digit_value (digit_char d) = d"
    by code_simp
  then show "d < 16 \<Longrightarrow> digit_value (digit_char d) = d" by simp
qed

lemma read_base_snoc: "read_base b (s @ [c]) = read_base b s * b + digit_value c"
  by (simp add: read_base_def)

lemma read_digits_base:
  assumes "2 \<le> b" and "b \<le> 16"
  shows "read_base b (digits_base b n) = n"
  using assms
proof (induction b n rule: digits_base.induct)
  case (1 b n)
  show ?case
  proof (cases "n < b")
    case True
    then have "n < 16" using "1.prems" by simp
    then show ?thesis
      using True by (simp add: digits_base.simps [of b n] read_base_def digit_value_char)
  next
    case False
    then have "read_base b (digits_base b (n div b)) = n div b"
      using "1.IH" "1.prems" by simp
    moreover have "n mod b < 16"
      using "1.prems" mod_less_divisor [of b n] by linarith
    ultimately show ?thesis
      using False "1.prems" by (simp add: digits_base.simps [of b n] read_base_snoc digit_value_char)
  qed
qed

lemma length_digits_base:
  assumes "2 \<le> b" and "n < b ^ k" and "0 < k"
  shows "length (digits_base b n) \<le> k"
  using assms(2,3)
proof (induction k arbitrary: n)
  case (Suc k)
  show ?case
  proof (cases "n < b")
    case True
    then show ?thesis by (simp add: digits_base.simps [of b n])
  next
    case False
    then have "0 < k" using Suc.prems by (cases k) auto
    moreover have "n div b < b ^ k"
      using Suc.prems assms(1) by (simp add: less_mult_imp_div_less mult.commute)
    ultimately have "length (digits_base b (n div b)) \<le> k" by (rule Suc.IH [rotated])
    then show ?thesis using False assms(1) by (simp add: digits_base.simps [of b n])
  qed
qed simp

lemma fmt_lld_nonneg:
  assumes "v < 2 ^ 63"
  shows "fmt_lld v = digits_base 10 (unat v)"
proof -
  have u: "uint v < 2 ^ 63" using assms by (simp add: word_less_def)
  then have "sint v = uint v"
    unfolding sint_uint by (intro signed_take_bit_int_eq_self) (auto intro: order.trans [OF _ uint_ge_0])
  then show ?thesis by (simp add: fmt_lld_def fmt_int_def)
qed

lemma fmt_6d_power:
  assumes "n < 31"
  shows "fmt_6d (BIT n) = pad_left (CHR '' '') 6 (digits_base 10 (2 ^ n))"
proof -
  have p: "(2::int) ^ n < 2 ^ 31" using assms by (intro power_strict_increasing) simp_all
  have "(ucast (BIT n) :: u32) = of_nat (unat (BIT n))" by simp
  then have "(ucast (BIT n) :: u32) = of_nat (2 ^ n)" using unat_BIT [of n] assms by simp
  then have "sint (ucast (BIT n) :: u32) = signed_take_bit 31 (2 ^ n)"
    by (simp only: signed_of_nat) simp
  also have "\<dots> = 2 ^ n"
    using p by (intro signed_take_bit_int_eq_self) (auto intro: order.trans [of _ 0])
  finally show ?thesis by (simp add: fmt_6d_def fmt_int_def nat_power_eq)
qed

end
