(* ===== verification/Vmx_Caps.thy ===== *)
theory Vmx_Caps
  imports Asm_Inlines Vmm_Api Printf
begin

text \<open>
  The capability part of \<^verbatim>\<open>vmm/vmx.c\<close>: whether VMX is there and enabled, the VMCS revision
  identifier, the report of the capability MSRs, and the copy of the capabilities in the monitor.
  Reading an MSR that does not exist is a general protection fault, \<^const>\<open>None\<close>.
\<close>

section \<open>VMX support\<close>

definition has_vmx :: "env \<Rightarrow> bool" where
  "has_vmx e = (let ecx = asm_cpuid_ecx e 1 0 in (ucast ecx :: u64) AND CPUID_1_ECX_VMX \<noteq> 0)"

definition vmx_enabled :: "platform \<Rightarrow> env \<Rightarrow> mstate \<Rightarrow> (bool \<times> mstate) option" where
  "vmx_enabled pf e m =
     (if \<not> has_vmx e then do {
        m \<leftarrow> vmlatency_printk pf (''VMX is not supported'' @ nl) m;
        Some (False, m)
      }
      else do {
        feature_control \<leftarrow> asm_rdmsr e IA32_FEATURE_CONTROL m;
        if feature_control AND FEATURE_CONTROL_LOCK_BIT = 0 \<or>
           feature_control AND FEATURE_CONTROL_VMX_OUTSIDE_SMX_ENABLE_BIT = 0
        then do {
          m \<leftarrow> vmlatency_printk pf (''VMX is not enabled in BIOS'' @ nl) m;
          Some (False, m)
        }
        else Some (True, m)
      })"

definition get_vmcs_revision_identifier :: "env \<Rightarrow> mstate \<Rightarrow> u32 option" where
  "get_vmcs_revision_identifier e m = do {
     b \<leftarrow> asm_rdmsr e IA32_VMX_BASIC m;
     Some (ucast (0x8fffffff AND b))
   }"

section \<open>The report\<close>

definition le_bytes32 :: "u32 \<Rightarrow> u8 list" where
  "le_bytes32 v = map (\<lambda>i. ucast (drop_bit (8 * i) v)) [0..<4]"

definition brand_string :: "env \<Rightarrow> u8 list" where
  "brand_string e = concat (map (\<lambda>i.
     case asm_cpuid_all e (0x80000002 + of_nat i) 0 of
       (eax, ebx, ecx, edx) \<Rightarrow> concat (map le_bytes32 [eax, ebx, ecx, edx])) [0..<3])"

text \<open>\<^verbatim>\<open>%s\<close> stops at the terminating zero byte; without one it would run past the 48 bytes.\<close>

definition c_string :: "u8 list \<Rightarrow> string option" where
  "c_string bs = (if 0 \<in> set bs then Some (map (\<lambda>b. char_of (unat b)) (takeWhile (\<lambda>b. b \<noteq> 0) bs)) else None)"

definition print_vmxcap_msr :: "platform \<Rightarrow> env \<Rightarrow> string \<times> u32 \<Rightarrow> mstate \<Rightarrow> mstate option" where
  "print_vmxcap_msr pf e nm m = do {
     v \<leftarrow> asm_rdmsr e (snd nm) m;
     vmlatency_printk pf
       (fmt_s30 (fst nm) @ '' ('' @ fmt_hex e (unat (snd nm)) @ ''): '' @ fmt_018llx e v @ nl) m
   }"

fun print_vmxcap_msrs :: "platform \<Rightarrow> env \<Rightarrow> (string \<times> u32) list \<Rightarrow> mstate \<Rightarrow> mstate option" where
  "print_vmxcap_msrs pf e [] m = Some m"
| "print_vmxcap_msrs pf e (nm # nms) m = do {
     m \<leftarrow> print_vmxcap_msr pf e nm m;
     print_vmxcap_msrs pf e nms m
   }"

definition cap_msrs :: "(string \<times> u32) list" where
  "cap_msrs = [
     (''IA32_VMX_BASIC'', IA32_VMX_BASIC),
     (''IA32_VMX_PINBASED_CTLS'', IA32_VMX_PINBASED_CTLS),
     (''IA32_VMX_PROCBASED_CTLS'', IA32_VMX_PROCBASED_CTLS),
     (''IA32_VMX_EXIT_CTLS'', IA32_VMX_EXIT_CTLS),
     (''IA32_VMX_ENTRY_CTLS'', IA32_VMX_ENTRY_CTLS),
     (''IA32_VMX_MSR_MISC'', IA32_VMX_MSR_MISC),
     (''IA32_VMX_CR0_FIXED0'', IA32_VMX_CR0_FIXED0),
     (''IA32_VMX_CR0_FIXED1'', IA32_VMX_CR0_FIXED1),
     (''IA32_VMX_CR4_FIXED0'', IA32_VMX_CR4_FIXED0),
     (''IA32_VMX_CR4_FIXED1'', IA32_VMX_CR4_FIXED1),
     (''IA32_VMX_VMCS_ENUM'', IA32_VMX_VMCS_ENUM)]"

definition true_ctl_msrs :: "(string \<times> u32) list" where
  "true_ctl_msrs = [
     (''IA32_VMX_TRUE_PINBASED_CTLS'', IA32_VMX_TRUE_PINBASED_CTLS),
     (''IA32_VMX_TRUE_PROCBASED_CTLS'', IA32_VMX_TRUE_PROCBASED_CTLS),
     (''IA32_VMX_TRUE_EXIT_CTLS'', IA32_VMX_TRUE_EXIT_CTLS),
     (''IA32_VMX_TRUE_ENTRY_CTLS'', IA32_VMX_TRUE_ENTRY_CTLS)]"

definition print_vmx_info :: "platform \<Rightarrow> env \<Rightarrow> mstate \<Rightarrow> mstate option" where
  "print_vmx_info pf e m = do {
     s \<leftarrow> c_string (brand_string e);
     m \<leftarrow> vmlatency_printk pf (s @ nl) m;
     b \<leftarrow> asm_rdmsr e IA32_VMX_BASIC m;
     let has_true_ctls = (b AND BIT 55 \<noteq> 0);
     m \<leftarrow> print_vmxcap_msrs pf e cap_msrs m;
     pb \<leftarrow> asm_rdmsr e IA32_VMX_PROCBASED_CTLS m;
     let has_secondary_ctls = (pb AND push_bit 32 VMX_PROC_CTL_ACTIVATE_SECONDARY_CTLS \<noteq> 0);
     m \<leftarrow> (if has_secondary_ctls then do {
         m \<leftarrow> print_vmxcap_msr pf e (''IA32_VMX_PROCBASED_CTLS2'', IA32_VMX_PROCBASED_CTLS2) m;
         pb2 \<leftarrow> asm_rdmsr e IA32_VMX_PROCBASED_CTLS2 m;
         let has_ept = (pb2 AND push_bit 32 VMX_PROC_CTL2_ENABLE_EPT \<noteq> 0);
         if has_ept
         then print_vmxcap_msr pf e (''IA32_VMX_EPT_VPID_CAP'', IA32_VMX_EPT_VPID_CAP) m
         else Some m
       } else Some m);
     m \<leftarrow> (if has_true_ctls then print_vmxcap_msrs pf e true_ctl_msrs m else Some m);
     (if has_secondary_ctls then do {
         pb2 \<leftarrow> asm_rdmsr e IA32_VMX_PROCBASED_CTLS2 m;
         let has_vmfunc = (pb2 AND push_bit 32 VMX_PROC_CTL2_ENABLE_VMFUNC \<noteq> 0);
         if has_vmfunc
         then print_vmxcap_msr pf e (''IA32_VMX_VMFUNC'', IA32_VMX_VMFUNC) m
         else Some m
       } else Some m)
   }"

section \<open>Caching the capabilities\<close>

definition cache_vmx_capabilities :: "env \<Rightarrow> vm_monitor \<Rightarrow> mstate \<Rightarrow> vm_monitor option" where
  "cache_vmx_capabilities e vmm m = do {
     v \<leftarrow> asm_rdmsr e IA32_VMX_BASIC m;
     let vmm = vmm\<lparr>ia32_vmx_basic := v\<rparr>;
     let vmm = vmm\<lparr>vmcs_revision_id := ucast (ia32_vmx_basic vmm AND 0x8fffffff)\<rparr>;
     let vmm = vmm\<lparr>has_true_ctls := (ia32_vmx_basic vmm AND BIT 55 \<noteq> 0)\<rparr>;
     v \<leftarrow> asm_rdmsr e IA32_VMX_PINBASED_CTLS m;
     let vmm = vmm\<lparr>ia32_vmx_pinbased_ctls := v\<rparr>;
     v \<leftarrow> asm_rdmsr e IA32_VMX_PROCBASED_CTLS m;
     let vmm = vmm\<lparr>ia32_vmx_procbased_ctls := v\<rparr>;
     v \<leftarrow> asm_rdmsr e IA32_VMX_EXIT_CTLS m;
     let vmm = vmm\<lparr>ia32_vmx_exit_ctls := v\<rparr>;
     v \<leftarrow> asm_rdmsr e IA32_VMX_ENTRY_CTLS m;
     let vmm = vmm\<lparr>ia32_vmx_entry_ctls := v\<rparr>;
     vmm \<leftarrow> (if has_true_ctls vmm then do {
         v \<leftarrow> asm_rdmsr e IA32_VMX_TRUE_PINBASED_CTLS m;
         let vmm = vmm\<lparr>ia32_vmx_true_pinbased_ctls := v\<rparr>;
         v \<leftarrow> asm_rdmsr e IA32_VMX_PROCBASED_CTLS m;
         let vmm = vmm\<lparr>ia32_vmx_true_procbased_ctls := v\<rparr>;
         v \<leftarrow> asm_rdmsr e IA32_VMX_TRUE_EXIT_CTLS m;
         let vmm = vmm\<lparr>ia32_vmx_true_exit_ctls := v\<rparr>;
         v \<leftarrow> asm_rdmsr e IA32_VMX_TRUE_ENTRY_CTLS m;
         Some (vmm\<lparr>ia32_vmx_true_entry_ctls := v\<rparr>)
       } else Some vmm);
     let ctl = (if has_true_ctls vmm then ia32_vmx_true_pinbased_ctls vmm else ia32_vmx_pinbased_ctls vmm);
     let vmm = vmm\<lparr>pinbased_allowed0 := ucast (0xffffffff AND ctl)\<rparr>;
     let vmm = vmm\<lparr>pinbased_allowed1 := ucast (drop_bit 32 ctl)\<rparr>;
     let ctl = (if has_true_ctls vmm then ia32_vmx_true_procbased_ctls vmm else ia32_vmx_procbased_ctls vmm);
     let vmm = vmm\<lparr>procbased_allowed0 := ucast (0xffffffff AND ctl)\<rparr>;
     let vmm = vmm\<lparr>procbased_allowed1 := ucast (drop_bit 32 ctl)\<rparr>;
     let ctl = (if has_true_ctls vmm then ia32_vmx_true_exit_ctls vmm else ia32_vmx_exit_ctls vmm);
     let vmm = vmm\<lparr>exit_ctls_allowed0 := ucast (0xffffffff AND ctl)\<rparr>;
     let vmm = vmm\<lparr>exit_ctls_allowed1 := ucast (drop_bit 32 ctl)\<rparr>;
     let ctl = (if has_true_ctls vmm then ia32_vmx_true_entry_ctls vmm else ia32_vmx_entry_ctls vmm);
     let vmm = vmm\<lparr>entry_ctls_allowed0 := ucast (0xffffffff AND ctl)\<rparr>;
     Some (vmm\<lparr>entry_ctls_allowed1 := ucast (drop_bit 32 ctl)\<rparr>)
   }"

section \<open>Which MSRs exist\<close>

text \<open>
  The processor's documentation: where CPUID reports VMX, the eleven basic capability MSRs exist; the
  secondary controls exist if the primary ones allow them to be activated, the EPT and VMFUNC MSRs if
  the secondary controls allow EPT and VM functions, and the TRUE MSRs if bit 55 of IA32_VMX_BASIC is set.
\<close>

definition msr_bit :: "cpu \<Rightarrow> u32 \<Rightarrow> nat \<Rightarrow> bool" where
  "msr_bit c n i \<longleftrightarrow> (case r_msrs c n of None \<Rightarrow> False | Some v \<Rightarrow> bit v i)"

definition vmx_msrs_present :: "cpu \<Rightarrow> bool" where
  "vmx_msrs_present c \<longleftrightarrow>
     list_all (\<lambda>nm. r_msrs c (snd nm) \<noteq> None) cap_msrs \<and>
     (msr_bit c IA32_VMX_PROCBASED_CTLS 63 \<longrightarrow>
        r_msrs c IA32_VMX_PROCBASED_CTLS2 \<noteq> None \<and>
        (msr_bit c IA32_VMX_PROCBASED_CTLS2 33 \<longrightarrow> r_msrs c IA32_VMX_EPT_VPID_CAP \<noteq> None) \<and>
        (msr_bit c IA32_VMX_PROCBASED_CTLS2 45 \<longrightarrow> r_msrs c IA32_VMX_VMFUNC \<noteq> None)) \<and>
     (msr_bit c IA32_VMX_BASIC 55 \<longrightarrow> list_all (\<lambda>nm. r_msrs c (snd nm) \<noteq> None) true_ctl_msrs)"

text \<open>The MSRs that a processor with capabilities \<open>c\<close> has reported, in order, and the lines.\<close>

definition reported_msrs :: "cpu \<Rightarrow> (string \<times> u32) list" where
  "reported_msrs c = cap_msrs @
     (if msr_bit c IA32_VMX_PROCBASED_CTLS 63 then
        (''IA32_VMX_PROCBASED_CTLS2'', IA32_VMX_PROCBASED_CTLS2) #
        (if msr_bit c IA32_VMX_PROCBASED_CTLS2 33 then [(''IA32_VMX_EPT_VPID_CAP'', IA32_VMX_EPT_VPID_CAP)] else [])
      else []) @
     (if msr_bit c IA32_VMX_BASIC 55 then true_ctl_msrs else []) @
     (if msr_bit c IA32_VMX_PROCBASED_CTLS 63 \<and> msr_bit c IA32_VMX_PROCBASED_CTLS2 45
      then [(''IA32_VMX_VMFUNC'', IA32_VMX_VMFUNC)] else [])"

definition msr_line :: "env \<Rightarrow> cpu \<Rightarrow> string \<times> u32 \<Rightarrow> string" where
  "msr_line e c nm =
     fmt_s30 (fst nm) @ '' ('' @ fmt_hex e (unat (snd nm)) @ ''): '' @ fmt_018llx e (the (r_msrs c (snd nm))) @ nl"

definition tagged :: "string \<Rightarrow> string" where
  "tagged s = ''[vmlatency] '' @ s"

text \<open>The MSR that holds the allowed settings of a kind of control.\<close>

definition chosen_ctl :: "vm_monitor \<Rightarrow> (vm_monitor \<Rightarrow> u64) \<Rightarrow> (vm_monitor \<Rightarrow> u64) \<Rightarrow> u64" where
  "chosen_ctl vmm t p = (if has_true_ctls vmm then t vmm else p vmm)"

definition halves_of :: "u64 \<Rightarrow> u32 \<times> u32" where
  "halves_of v = (ucast v, ucast (drop_bit 32 v))"

lemma ucast_mask_and: "(ucast (0xffffffff AND v :: u64) :: u32) = ucast v"
proof -
  have m: "(0xffffffff :: u64) = mask 32"
    by (simp add: mask_eq_exp_minus_1)
  show ?thesis unfolding m by (rule bit_word_eqI) (simp add: bit_simps)
qed

definition with_allowed :: "vm_monitor \<Rightarrow> vm_monitor" where
  "with_allowed vmm =
     (let pi = chosen_ctl vmm ia32_vmx_true_pinbased_ctls ia32_vmx_pinbased_ctls;
          pb = chosen_ctl vmm ia32_vmx_true_procbased_ctls ia32_vmx_procbased_ctls;
          ex = chosen_ctl vmm ia32_vmx_true_exit_ctls ia32_vmx_exit_ctls;
          en = chosen_ctl vmm ia32_vmx_true_entry_ctls ia32_vmx_entry_ctls
      in vmm\<lparr>pinbased_allowed0 := ucast pi, pinbased_allowed1 := ucast (drop_bit 32 pi),
           procbased_allowed0 := ucast pb, procbased_allowed1 := ucast (drop_bit 32 pb),
           exit_ctls_allowed0 := ucast ex, exit_ctls_allowed1 := ucast (drop_bit 32 ex),
           entry_ctls_allowed0 := ucast en, entry_ctls_allowed1 := ucast (drop_bit 32 en)\<rparr>)"

lemma cache_closed_false:
  assumes "r_msrs (m_cpu m) IA32_VMX_BASIC = Some b" and "\<not> bit b 55"
    and "r_msrs (m_cpu m) IA32_VMX_PINBASED_CTLS = Some pi" and "r_msrs (m_cpu m) IA32_VMX_PROCBASED_CTLS = Some pb"
    and "r_msrs (m_cpu m) IA32_VMX_EXIT_CTLS = Some ex" and "r_msrs (m_cpu m) IA32_VMX_ENTRY_CTLS = Some en"
  shows "cache_vmx_capabilities e vmm m = Some (with_allowed (vmm\<lparr>ia32_vmx_basic := b,
      vmcs_revision_id := ucast (b AND 0x8fffffff), has_true_ctls := False,
      ia32_vmx_pinbased_ctls := pi, ia32_vmx_procbased_ctls := pb,
      ia32_vmx_exit_ctls := ex, ia32_vmx_entry_ctls := en\<rparr>))"
  using assms
  by (simp add: cache_vmx_capabilities_def and_BIT_zero with_allowed_def chosen_ctl_def ucast_mask_and Let_def)

lemma cache_closed_true:
  assumes "r_msrs (m_cpu m) IA32_VMX_BASIC = Some b" and "bit b 55"
    and "r_msrs (m_cpu m) IA32_VMX_PINBASED_CTLS = Some pi" and "r_msrs (m_cpu m) IA32_VMX_PROCBASED_CTLS = Some pb"
    and "r_msrs (m_cpu m) IA32_VMX_EXIT_CTLS = Some ex" and "r_msrs (m_cpu m) IA32_VMX_ENTRY_CTLS = Some en"
    and "r_msrs (m_cpu m) IA32_VMX_TRUE_PINBASED_CTLS = Some tpi" 
    and "r_msrs (m_cpu m) IA32_VMX_TRUE_EXIT_CTLS = Some tex" and "r_msrs (m_cpu m) IA32_VMX_TRUE_ENTRY_CTLS = Some ten"
  shows "cache_vmx_capabilities e vmm m = Some (with_allowed (vmm\<lparr>ia32_vmx_basic := b,
      vmcs_revision_id := ucast (b AND 0x8fffffff), has_true_ctls := True,
      ia32_vmx_pinbased_ctls := pi, ia32_vmx_procbased_ctls := pb,
      ia32_vmx_exit_ctls := ex, ia32_vmx_entry_ctls := en,
      ia32_vmx_true_pinbased_ctls := tpi, ia32_vmx_true_procbased_ctls := pb,
      ia32_vmx_true_exit_ctls := tex, ia32_vmx_true_entry_ctls := ten\<rparr>))"
  using assms
  by (simp add: cache_vmx_capabilities_def and_BIT_zero with_allowed_def chosen_ctl_def ucast_mask_and Let_def)

lemma with_allowed_halves:
  "(pinbased_allowed0 (with_allowed v), pinbased_allowed1 (with_allowed v)) =
     halves_of (chosen_ctl v ia32_vmx_true_pinbased_ctls ia32_vmx_pinbased_ctls)"
  "(procbased_allowed0 (with_allowed v), procbased_allowed1 (with_allowed v)) =
     halves_of (chosen_ctl v ia32_vmx_true_procbased_ctls ia32_vmx_procbased_ctls)"
  "(exit_ctls_allowed0 (with_allowed v), exit_ctls_allowed1 (with_allowed v)) =
     halves_of (chosen_ctl v ia32_vmx_true_exit_ctls ia32_vmx_exit_ctls)"
  "(entry_ctls_allowed0 (with_allowed v), entry_ctls_allowed1 (with_allowed v)) =
     halves_of (chosen_ctl v ia32_vmx_true_entry_ctls ia32_vmx_entry_ctls)"
  by (simp_all add: with_allowed_def halves_of_def Let_def)

text \<open>The MSR whose halves are cached for each kind of control, as the code reads them.\<close>

definition ctl_msr :: "cpu \<Rightarrow> u32 \<Rightarrow> u32 \<Rightarrow> u64" where
  "ctl_msr c t p = the (r_msrs c (if msr_bit c IA32_VMX_BASIC 55 then t else p))"

lemma cache_present:
  assumes "vmx_msrs_present (m_cpu m)"
  shows "\<exists>vmm'. cache_vmx_capabilities e vmm m = Some vmm' \<and>
    (pinbased_allowed0 vmm', pinbased_allowed1 vmm') =
      halves_of (ctl_msr (m_cpu m) IA32_VMX_TRUE_PINBASED_CTLS IA32_VMX_PINBASED_CTLS) \<and>
    (procbased_allowed0 vmm', procbased_allowed1 vmm') = halves_of (the (r_msrs (m_cpu m) IA32_VMX_PROCBASED_CTLS)) \<and>
    (exit_ctls_allowed0 vmm', exit_ctls_allowed1 vmm') =
      halves_of (ctl_msr (m_cpu m) IA32_VMX_TRUE_EXIT_CTLS IA32_VMX_EXIT_CTLS) \<and>
    (entry_ctls_allowed0 vmm', entry_ctls_allowed1 vmm') =
      halves_of (ctl_msr (m_cpu m) IA32_VMX_TRUE_ENTRY_CTLS IA32_VMX_ENTRY_CTLS) \<and>
    vmcs_revision_id vmm' = ucast (the (r_msrs (m_cpu m) IA32_VMX_BASIC) AND 0x8fffffff)"
proof -
  obtain b pi pb ex en where
    base: "r_msrs (m_cpu m) IA32_VMX_BASIC = Some b" "r_msrs (m_cpu m) IA32_VMX_PINBASED_CTLS = Some pi"
    "r_msrs (m_cpu m) IA32_VMX_PROCBASED_CTLS = Some pb" "r_msrs (m_cpu m) IA32_VMX_EXIT_CTLS = Some ex"
    "r_msrs (m_cpu m) IA32_VMX_ENTRY_CTLS = Some en"
    using assms by (auto simp: vmx_msrs_present_def cap_msrs_def)
  note d = ctl_msr_def msr_bit_def base with_allowed_halves chosen_ctl_def
  have rev: "vmcs_revision_id (with_allowed v) = vmcs_revision_id v" for v
    by (simp add: with_allowed_def Let_def)
  show ?thesis
  proof (cases "bit b 55")
    case False
    show ?thesis
      unfolding cache_closed_false [OF base(1) False base(2-5)] using False by (simp add: d rev)
  next
    case True
    obtain tpi tex ten where
      t: "r_msrs (m_cpu m) IA32_VMX_TRUE_PINBASED_CTLS = Some tpi"
      "r_msrs (m_cpu m) IA32_VMX_TRUE_EXIT_CTLS = Some tex" "r_msrs (m_cpu m) IA32_VMX_TRUE_ENTRY_CTLS = Some ten"
      using assms True base by (auto simp: vmx_msrs_present_def msr_bit_def true_ctl_msrs_def)
    show ?thesis
      unfolding cache_closed_true [OF base(1) True base(2-5) t] using True by (simp add: d t rev)
  qed
qed

text \<open>What the copy reads, and what it does not: IA32_VMX_TRUE_PROCBASED_CTLS.\<close>

lemma cache_reads:
  assumes "cache_vmx_capabilities e vmm m = Some v"
  shows "\<exists>b pi pb ex en. r_msrs (m_cpu m) IA32_VMX_BASIC = Some b \<and>
      r_msrs (m_cpu m) IA32_VMX_PINBASED_CTLS = Some pi \<and> r_msrs (m_cpu m) IA32_VMX_PROCBASED_CTLS = Some pb \<and>
      r_msrs (m_cpu m) IA32_VMX_EXIT_CTLS = Some ex \<and> r_msrs (m_cpu m) IA32_VMX_ENTRY_CTLS = Some en \<and>
      (bit b 55 \<longrightarrow> r_msrs (m_cpu m) IA32_VMX_TRUE_PINBASED_CTLS \<noteq> None \<and>
        r_msrs (m_cpu m) IA32_VMX_TRUE_EXIT_CTLS \<noteq> None \<and> r_msrs (m_cpu m) IA32_VMX_TRUE_ENTRY_CTLS \<noteq> None)"
proof -
  note d = cache_vmx_capabilities_def Let_def and_BIT_zero
  obtain b where b: "r_msrs (m_cpu m) IA32_VMX_BASIC = Some b"
    using assms by (cases "r_msrs (m_cpu m) IA32_VMX_BASIC") (simp_all add: d)
  obtain pi where pi: "r_msrs (m_cpu m) IA32_VMX_PINBASED_CTLS = Some pi"
    using assms b by (cases "r_msrs (m_cpu m) IA32_VMX_PINBASED_CTLS") (simp_all add: d)
  obtain pb where pb: "r_msrs (m_cpu m) IA32_VMX_PROCBASED_CTLS = Some pb"
    using assms b pi by (cases "r_msrs (m_cpu m) IA32_VMX_PROCBASED_CTLS") (simp_all add: d)
  obtain ex where ex: "r_msrs (m_cpu m) IA32_VMX_EXIT_CTLS = Some ex"
    using assms b pi pb by (cases "r_msrs (m_cpu m) IA32_VMX_EXIT_CTLS") (simp_all add: d)
  obtain en where en: "r_msrs (m_cpu m) IA32_VMX_ENTRY_CTLS = Some en"
    using assms b pi pb ex by (cases "r_msrs (m_cpu m) IA32_VMX_ENTRY_CTLS") (simp_all add: d)
  note p = b pi pb ex en
  have "r_msrs (m_cpu m) IA32_VMX_TRUE_PINBASED_CTLS \<noteq> None" if "bit b 55"
    using assms p that by (cases "r_msrs (m_cpu m) IA32_VMX_TRUE_PINBASED_CTLS") (simp_all add: d)
  moreover have "r_msrs (m_cpu m) IA32_VMX_TRUE_EXIT_CTLS \<noteq> None" if "bit b 55"
    using assms p that
    by (cases "r_msrs (m_cpu m) IA32_VMX_TRUE_PINBASED_CTLS"; cases "r_msrs (m_cpu m) IA32_VMX_TRUE_EXIT_CTLS") (simp_all add: d)
  moreover have "r_msrs (m_cpu m) IA32_VMX_TRUE_ENTRY_CTLS \<noteq> None" if "bit b 55"
    using assms p that
    by (cases "r_msrs (m_cpu m) IA32_VMX_TRUE_PINBASED_CTLS"; cases "r_msrs (m_cpu m) IA32_VMX_TRUE_EXIT_CTLS";
        cases "r_msrs (m_cpu m) IA32_VMX_TRUE_ENTRY_CTLS") (simp_all add: d)
  ultimately show ?thesis using p by blast
qed

lemma cache_copies_procbased:
  assumes "cache_vmx_capabilities e vmm m = Some v" and "has_true_ctls v"
  shows "Some (ia32_vmx_true_procbased_ctls v) = r_msrs (m_cpu m) IA32_VMX_PROCBASED_CTLS"
proof -
  obtain b pi pb ex en where p: "r_msrs (m_cpu m) IA32_VMX_BASIC = Some b"
      "r_msrs (m_cpu m) IA32_VMX_PINBASED_CTLS = Some pi" "r_msrs (m_cpu m) IA32_VMX_PROCBASED_CTLS = Some pb"
      "r_msrs (m_cpu m) IA32_VMX_EXIT_CTLS = Some ex" "r_msrs (m_cpu m) IA32_VMX_ENTRY_CTLS = Some en"
    and t: "bit b 55 \<Longrightarrow> \<exists>tp te tn. r_msrs (m_cpu m) IA32_VMX_TRUE_PINBASED_CTLS = Some tp \<and>
        r_msrs (m_cpu m) IA32_VMX_TRUE_EXIT_CTLS = Some te \<and> r_msrs (m_cpu m) IA32_VMX_TRUE_ENTRY_CTLS = Some tn"
    using cache_reads [OF assms(1)] unfolding not_None_eq by blast
  show ?thesis
  proof (cases "bit b 55")
    case True
    then obtain tp te tn where "r_msrs (m_cpu m) IA32_VMX_TRUE_PINBASED_CTLS = Some tp"
      "r_msrs (m_cpu m) IA32_VMX_TRUE_EXIT_CTLS = Some te" "r_msrs (m_cpu m) IA32_VMX_TRUE_ENTRY_CTLS = Some tn"
      using t by blast
    from cache_closed_true [OF p(1) True p(2-5) this, of e vmm] show ?thesis
      using assms(1) p(3) by (auto simp: with_allowed_def Let_def)
  next
    case False
    from cache_closed_false [OF p(1) False p(2-5), of e vmm] show ?thesis
      using assms by (auto simp: with_allowed_def Let_def)
  qed
qed

lemma cache_cong:
  assumes "\<And>n. n \<noteq> IA32_VMX_TRUE_PROCBASED_CTLS \<Longrightarrow> r_msrs (m_cpu m') n = r_msrs (m_cpu m) n"
  shows "cache_vmx_capabilities e vmm m' = cache_vmx_capabilities e vmm m"
proof -
  have r: "r_msrs (m_cpu m') IA32_VMX_BASIC = r_msrs (m_cpu m) IA32_VMX_BASIC"
    "r_msrs (m_cpu m') IA32_VMX_PINBASED_CTLS = r_msrs (m_cpu m) IA32_VMX_PINBASED_CTLS"
    "r_msrs (m_cpu m') IA32_VMX_PROCBASED_CTLS = r_msrs (m_cpu m) IA32_VMX_PROCBASED_CTLS"
    "r_msrs (m_cpu m') IA32_VMX_EXIT_CTLS = r_msrs (m_cpu m) IA32_VMX_EXIT_CTLS"
    "r_msrs (m_cpu m') IA32_VMX_ENTRY_CTLS = r_msrs (m_cpu m) IA32_VMX_ENTRY_CTLS"
    "r_msrs (m_cpu m') IA32_VMX_TRUE_PINBASED_CTLS = r_msrs (m_cpu m) IA32_VMX_TRUE_PINBASED_CTLS"
    "r_msrs (m_cpu m') IA32_VMX_TRUE_EXIT_CTLS = r_msrs (m_cpu m) IA32_VMX_TRUE_EXIT_CTLS"
    "r_msrs (m_cpu m') IA32_VMX_TRUE_ENTRY_CTLS = r_msrs (m_cpu m) IA32_VMX_TRUE_ENTRY_CTLS"
    by (rule assms, simp add: msr_enc)+
  show ?thesis
    unfolding cache_vmx_capabilities_def asm_rdmsr r by (rule refl)
qed

text \<open>A step that only logs.\<close>

definition log_step :: "string list \<Rightarrow> mstate \<Rightarrow> mstate \<Rightarrow> bool" where
  "log_step ls m m' \<longleftrightarrow> os_step m m' \<and> m_mem m' = m_mem m \<and> page_ledger m' = page_ledger m \<and>
     klog m' = klog m @ map tagged ls"

lemma log_step_refl [simp]: "log_step [] m m"
  by (simp add: log_step_def)

lemma log_step_trans: "log_step a m m1 \<Longrightarrow> log_step b m1 m2 \<Longrightarrow> log_step (a @ b) m m2"
  by (simp add: log_step_def os_step_def)

lemma log_step_cpu: "log_step a m m' \<Longrightarrow> m_cpu m' = m_cpu m"
  by (simp add: log_step_def os_step_def)

context vmm_api
begin

lemma printk_log: "\<exists>m'. vmlatency_printk pf s m = Some m' \<and> log_step [s] m m'"
  using printk_ok [of s m] by (auto simp: log_step_def tagged_def)

lemma print_vmxcap_msr_log:
  assumes "r_msrs (m_cpu m) (snd nm) \<noteq> None"
  shows "\<exists>m'. print_vmxcap_msr pf e nm m = Some m' \<and> log_step [msr_line e (m_cpu m) nm] m m'"
  using assms printk_log [of "msr_line e (m_cpu m) nm" m]
  by (auto simp: print_vmxcap_msr_def msr_line_def)

lemma print_vmxcap_msrs_log:
  assumes "list_all (\<lambda>nm. r_msrs (m_cpu m) (snd nm) \<noteq> None) nms"
  shows "\<exists>m'. print_vmxcap_msrs pf e nms m = Some m' \<and> log_step (map (msr_line e (m_cpu m)) nms) m m'"
  using assms
proof (induction nms arbitrary: m)
  case (Cons nm nms)
  then obtain m1 where m1: "print_vmxcap_msr pf e nm m = Some m1" "log_step [msr_line e (m_cpu m) nm] m m1"
    using print_vmxcap_msr_log [of m nm e] by auto
  then obtain m2 where "print_vmxcap_msrs pf e nms m1 = Some m2"
    "log_step (map (msr_line e (m_cpu m)) nms) m1 m2"
    using Cons.IH [of m1] Cons.prems by (auto simp: log_step_cpu)
  with m1 show ?case using log_step_trans [OF m1(2)] by auto
qed simp

lemma print_opt_log:
  assumes "P \<Longrightarrow> r_msrs (m_cpu m) (snd nm) \<noteq> None"
  shows "\<exists>m'. (if P then print_vmxcap_msr pf e nm m else Some m) = Some m' \<and>
    log_step (map (msr_line e (m_cpu m)) (if P then [nm] else [])) m m'"
  using assms print_vmxcap_msr_log [of m nm e] by (cases P) auto

lemma print_opts_log:
  assumes "P \<Longrightarrow> list_all (\<lambda>nm. r_msrs (m_cpu m) (snd nm) \<noteq> None) nms"
  shows "\<exists>m'. (if P then print_vmxcap_msrs pf e nms m else Some m) = Some m' \<and>
    log_step (map (msr_line e (m_cpu m)) (if P then nms else [])) m m'"
  using assms print_vmxcap_msrs_log [of m nms e] by (cases P) auto

text \<open>The report comes back, and prints the brand string and one line for each reported MSR.\<close>

lemma print_vmx_info_log:
  assumes present: "vmx_msrs_present (m_cpu m)"
    and brand: "c_string (brand_string e) = Some s"
  shows "\<exists>m'. print_vmx_info pf e m = Some m' \<and>
    log_step ((s @ nl) # map (msr_line e (m_cpu m)) (reported_msrs (m_cpu m))) m m'"
proof -
  let ?c = "m_cpu m"
  have caps: "list_all (\<lambda>nm. r_msrs ?c (snd nm) \<noteq> None) cap_msrs"
    using present by (simp add: vmx_msrs_present_def)
  then obtain b pb where b: "r_msrs ?c IA32_VMX_BASIC = Some b"
    and pb: "r_msrs ?c IA32_VMX_PROCBASED_CTLS = Some pb"
    by (auto simp: cap_msrs_def)
  have tru: "bit b 55 \<Longrightarrow> list_all (\<lambda>nm. r_msrs ?c (snd nm) \<noteq> None) true_ctl_msrs"
    using present b by (simp add: vmx_msrs_present_def msr_bit_def)
  obtain m1 where m1: "vmlatency_printk pf (s @ nl) m = Some m1" and l1: "log_step [s @ nl] m m1"
    using printk_log by blast
  note c1 = log_step_cpu [OF l1]
  obtain m2 where m2: "print_vmxcap_msrs pf e cap_msrs m1 = Some m2"
    and l2: "log_step (map (msr_line e ?c) cap_msrs) m1 m2"
    using print_vmxcap_msrs_log [of m1 cap_msrs e] caps c1 by auto
  have c2: "m_cpu m2 = ?c" using log_step_cpu [OF l2] c1 by simp
  note l12 = log_step_trans [OF l1 l2]
  note bits = bit_defs push_bit_BIT and_BIT_zero Let_def
  show ?thesis
  proof (cases "bit pb 63")
    case False
    obtain m3 where m3: "(if bit b 55 then print_vmxcap_msrs pf e true_ctl_msrs m2 else Some m2) = Some m3"
      and l3: "log_step (map (msr_line e ?c) (if bit b 55 then true_ctl_msrs else [])) m2 m3"
      using print_opts_log [of "bit b 55" m2 true_ctl_msrs e] tru c2 by auto
    have "print_vmx_info pf e m = Some m3"
      using False by (simp add: print_vmx_info_def brand m1 m2 m3 b pb c1 c2 bits)
    then show ?thesis
      using log_step_trans [OF l12 l3] False by (simp add: reported_msrs_def msr_bit_def b pb)
  next
    case True
    obtain v2 where v2: "r_msrs ?c IA32_VMX_PROCBASED_CTLS2 = Some v2"
      using present pb True by (auto simp: vmx_msrs_present_def msr_bit_def)
    have ept: "bit v2 33 \<Longrightarrow> r_msrs ?c IA32_VMX_EPT_VPID_CAP \<noteq> None"
      and vmf: "bit v2 45 \<Longrightarrow> r_msrs ?c IA32_VMX_VMFUNC \<noteq> None"
      using present pb v2 True by (auto simp: vmx_msrs_present_def msr_bit_def)
    let ?two = "(''IA32_VMX_PROCBASED_CTLS2'', IA32_VMX_PROCBASED_CTLS2)"
    let ?ept = "(''IA32_VMX_EPT_VPID_CAP'', IA32_VMX_EPT_VPID_CAP)"
    let ?vmf = "(''IA32_VMX_VMFUNC'', IA32_VMX_VMFUNC)"
    obtain m3 where m3: "print_vmxcap_msr pf e ?two m2 = Some m3"
      and l3: "log_step [msr_line e ?c ?two] m2 m3"
      using print_vmxcap_msr_log [of m2 ?two e] v2 c2 by auto
    have c3: "m_cpu m3 = ?c" using log_step_cpu [OF l3] c2 by simp
    obtain m4 where m4: "(if bit v2 33 then print_vmxcap_msr pf e ?ept m3 else Some m3) = Some m4"
      and l4: "log_step (map (msr_line e ?c) (if bit v2 33 then [?ept] else [])) m3 m4"
      using print_opt_log [of "bit v2 33" m3 ?ept e] ept c3 by auto
    have c4: "m_cpu m4 = ?c" using log_step_cpu [OF l4] c3 by simp
    obtain m5 where m5: "(if bit b 55 then print_vmxcap_msrs pf e true_ctl_msrs m4 else Some m4) = Some m5"
      and l5: "log_step (map (msr_line e ?c) (if bit b 55 then true_ctl_msrs else [])) m4 m5"
      using print_opts_log [of "bit b 55" m4 true_ctl_msrs e] tru c4 by auto
    have c5: "m_cpu m5 = ?c" using log_step_cpu [OF l5] c4 by simp
    obtain m6 where m6: "(if bit v2 45 then print_vmxcap_msr pf e ?vmf m5 else Some m5) = Some m6"
      and l6: "log_step (map (msr_line e ?c) (if bit v2 45 then [?vmf] else [])) m5 m6"
      using print_opt_log [of "bit v2 45" m5 ?vmf e] vmf c5 by auto
    have "print_vmx_info pf e m = Some m6"
      using True by (simp add: print_vmx_info_def brand m1 m2 m3 m4 m5 m6 b pb v2 c1 c2 c3 c4 c5 bits)
    then show ?thesis
      using log_step_trans [OF log_step_trans [OF log_step_trans [OF log_step_trans [OF l12 l3] l4] l5] l6] True
      by (simp add: reported_msrs_def msr_bit_def b pb v2)
  qed
qed

end

end
