(* ===== verification/Vmx_Ops.thy ===== *)
theory Vmx_Ops
  imports Vmx_Memory Vmx_Caps
begin

text \<open>
  The operations of \<^verbatim>\<open>vmm/vmx.c\<close> that switch VMX operation and the current VMCS, and the set-up of
  the two regions before they are used.
\<close>

section \<open>Revision identifiers\<close>

definition vmxon_setup_revision_id :: "env \<Rightarrow> vm_monitor \<Rightarrow> mstate \<Rightarrow> mstate option" where
  "vmxon_setup_revision_id e vmm m = do {
     r \<leftarrow> get_vmcs_revision_identifier e m;
     Some (store32 e (vp_p (vmxon_region vmm)) r m)
   }"

definition vmcs_setup_revision_id :: "env \<Rightarrow> vm_monitor \<Rightarrow> mstate \<Rightarrow> mstate option" where
  "vmcs_setup_revision_id e vmm m = do {
     r \<leftarrow> get_vmcs_revision_identifier e m;
     Some (store32 e (vp_p (vmcs vmm)) r m)
   }"

text \<open>What is stored through the mapping of a page is what the processor reads at its address.\<close>

lemma phys32_bytes:
  "phys32 pa m = ucast (m_mem m pa) OR push_bit 8 (ucast (m_mem m (pa + 1)))
     OR push_bit 16 (ucast (m_mem m (pa + 2))) OR push_bit 24 (ucast (m_mem m (pa + 3)))"
proof -
  have l: "[0..<4] = [0, 1, 2, 3]" by (simp add: upt_rec)
  show ?thesis
    unfolding phys32_def load_le_def l
    by (rule bit_word_eqI) (auto simp: bit_simps)
qed

lemma phys32_store32_same:
  assumes "maps_page e va pa"
  shows "phys32 pa (store32 e va v m) = v"
proof -
  have tr: "e_v2p e va = pa" "e_v2p e (va + 1) = pa + 1" "e_v2p e (va + 2) = pa + 2" "e_v2p e (va + 3) = pa + 3"
    using maps_pageD [OF assms, of 0] maps_pageD [OF assms, of 1] maps_pageD [OF assms, of 2]
      maps_pageD [OF assms, of 3] by simp_all
  show ?thesis
    unfolding phys32_bytes store32_def tr
  proof (rule bit_word_eqI, goal_cases)
    case (1 n)
    then show ?case by (cases "24 \<le> n"; cases "16 \<le> n") (auto simp: bit_simps)
  qed
qed

text \<open>Storing into one page leaves the others alone.\<close>

lemma page_part:
  fixes pa i :: u64
  assumes "pa AND 0xfff = 0" and "i < 0x1000"
  shows "(pa + i) AND NOT 0xfff = pa"
proof -
  have m: "(0xfff :: u64) = mask 12" by (simp add: mask_eq_exp_minus_1)
  have "unat i < 2 ^ 12" using assms(2) by (simp add: word_less_nat_alt)
  then have "take_bit 12 i = i"
    by (simp add: word_unat_eq_iff unsigned_take_bit_eq take_bit_nat_eq_self)
  then have i: "i AND 0xfff = i" by (simp add: m take_bit_eq_mask)
  have pn: "pa AND NOT 0xfff = pa"
    by (rule and_zero_not [OF assms(1)])
  have "pa AND i = (pa AND 0xfff) AND i" using i by (simp only: and.assoc and.commute [of "0xfff" i])
  also have "\<dots> = 0" unfolding assms(1) by simp
  finally have "pa AND i = 0" .
  then have "pa + i = pa OR i" using word_plus_and_or [of pa i] by simp
  moreover have "i AND NOT 0xfff = (i AND 0xfff) AND NOT 0xfff" by (simp only: i)
  then have "i AND NOT 0xfff = 0" by (simp only: and.assoc bit.conj_cancel_right and_zero_eq)
  ultimately show ?thesis using pn by (simp only: bit.conj_disj_distrib2 or.right_neutral)
qed

lemma page_offset_inj:
  fixes pa pa' i j :: u64
  assumes "pa AND 0xfff = 0" and "pa' AND 0xfff = 0" and "i < 0x1000" and "j < 0x1000" and "pa + i = pa' + j"
  shows "pa = pa'"
  using page_part [OF assms(1,3)] page_part [OF assms(2,4)] assms(5) by simp

lemma phys32_store32_other:
  assumes "maps_page e va pa" and "pa \<noteq> pa'" and "pa AND 0xfff = 0" and "pa' AND 0xfff = 0"
  shows "phys32 pa' (store32 e va v m) = phys32 pa' m"
proof -
  have tr: "e_v2p e va = pa + 0" "e_v2p e (va + 1) = pa + 1" "e_v2p e (va + 2) = pa + 2" "e_v2p e (va + 3) = pa + 3"
    using maps_pageD [OF assms(1), of 0] maps_pageD [OF assms(1), of 1] maps_pageD [OF assms(1), of 2]
      maps_pageD [OF assms(1), of 3] by simp_all
  have ne: "pa' + i \<noteq> pa + j" if "i < 0x1000" "j < 0x1000" for i j
    using page_offset_inj [OF assms(4,3) that] assms(2) by blast
  show ?thesis
    unfolding phys32_bytes store32_def tr
    using ne [of 0 0] ne [of 0 1] ne [of 0 2] ne [of 0 3] ne [of 1 0] ne [of 1 1] ne [of 1 2] ne [of 1 3]
      ne [of 2 0] ne [of 2 1] ne [of 2 2] ne [of 2 3] ne [of 3 0] ne [of 3 1] ne [of 3 2] ne [of 3 3]
    by simp
qed

section \<open>VMXON, VMXOFF, VMPTRLD, VMCLEAR\<close>

definition do_vmxon :: "platform \<Rightarrow> env \<Rightarrow> vm_monitor \<Rightarrow> mstate \<Rightarrow> (int \<times> vm_monitor \<times> mstate) option" where
  "do_vmxon pf e vmm m = do {
     let old_cr4 = asm_get_cr4 m;
     let vmm = vmm\<lparr>old_vmxe := old_cr4 AND CR4_VMXE\<rparr>;
     m \<leftarrow> (if old_vmxe vmm = 0 then asm_set_cr4 (old_cr4 OR CR4_VMXE) m else Some m);
     (ret, m) \<leftarrow> asm_vmxon e (vp_pa (vmxon_region vmm)) m;
     if ret = -1 then do {
       m \<leftarrow> vmlatency_printk pf (''VMXON failed'' @ nl) m;
       Some (-1, vmm, m)
     }
     else Some (0, vmm\<lparr>our_vmxon := (ret = 0)\<rparr>, m)
   }"

definition do_vmxoff :: "vm_monitor \<Rightarrow> mstate \<Rightarrow> mstate option" where
  "do_vmxoff vmm m = do {
     m \<leftarrow> (if our_vmxon vmm then asm_vmxoff m else Some m);
     if old_vmxe vmm = 0 then asm_set_cr4 (asm_get_cr4 m AND NOT CR4_VMXE) m else Some m
   }"

definition do_vmptrld :: "platform \<Rightarrow> env \<Rightarrow> vm_monitor \<Rightarrow> mstate \<Rightarrow> (int \<times> mstate) option" where
  "do_vmptrld pf e vmm m = do {
     (r, m) \<leftarrow> asm_vmptrld e (vp_pa (vmcs vmm)) m;
     if r \<noteq> 0 then do {
       m \<leftarrow> vmlatency_printk pf (''VMPTRLD failed'' @ nl) m;
       Some (-1, m)
     }
     else Some (0, m)
   }"

definition do_vmclear :: "platform \<Rightarrow> env \<Rightarrow> vm_monitor \<Rightarrow> mstate \<Rightarrow> (int \<times> mstate) option" where
  "do_vmclear pf e vmm m = do {
     (r, m) \<leftarrow> asm_vmclear e (vp_pa (vmcs vmm)) m;
     if r \<noteq> 0 then do {
       m \<leftarrow> vmlatency_printk pf (''VMCLEAR failed'' @ nl) m;
       Some (-1, m)
     }
     else Some (0, m)
   }"

section \<open>What they do\<close>

definition with_vmxe :: "mstate \<Rightarrow> mstate" where
  "with_vmxe m = set_cpu (\<lambda>c. c\<lparr>r_cr4 := r_cr4 c OR CR4_VMXE\<rparr>) m"

text \<open>The processor is outside VMX operation and would accept a VMXON once CR4.VMXE is set.\<close>

definition vmx_ready :: "mstate \<Rightarrow> bool" where
  "vmx_ready m \<longleftrightarrow> \<not> vmx_on (m_vmx m) \<and>
     (case r_msrs (m_cpu m) IA32_FEATURE_CONTROL of None \<Rightarrow> False | Some fc \<Rightarrow> vmx_permitted fc) \<and>
     cr_fixed_ok (m_cpu (with_vmxe m))"

definition region_ok :: "env \<Rightarrow> u64 \<Rightarrow> mstate \<Rightarrow> bool" where
  "region_ok e pa m \<longleftrightarrow> pa_ok e pa \<and> revision_ok pa m"

definition enter_vmx :: "u64 \<Rightarrow> mstate \<Rightarrow> mstate" where
  "enter_vmx pa = set_vmx (\<lambda>x. x\<lparr>vmx_on := True, vmxon_ptr := pa, cur_vmcs := None\<rparr>)"

definition leave_vmx :: "mstate \<Rightarrow> mstate" where
  "leave_vmx = set_vmx (\<lambda>x. x\<lparr>vmx_on := False, cur_vmcs := None\<rparr>)"

lemma CR4_VMXE_BIT: "CR4_VMXE = BIT 13"
  by (simp add: bit_defs)

lemma CR4_VMXE_nonzero [simp]: "CR4_VMXE \<noteq> 0"
  by (simp add: CR4_VMXE_BIT BIT_def)

lemma vmxe_set: "x AND CR4_VMXE \<noteq> 0 \<Longrightarrow> x OR CR4_VMXE = x"
  by (rule bit_word_eqI) (auto simp: CR4_VMXE_BIT and_BIT_zero bit_simps bit_BIT)

lemma with_vmxe_frame [frame]:
  "m_vmx (with_vmxe m) = m_vmx m" "m_mem (with_vmxe m) = m_mem m" "m_os (with_vmxe m) = m_os m"
  "r_msrs (m_cpu (with_vmxe m)) = r_msrs (m_cpu m)" "r_cr4 (m_cpu (with_vmxe m)) = r_cr4 (m_cpu m) OR CR4_VMXE"
  by (simp_all add: with_vmxe_def)

text \<open>Setting CR4.VMXE where it is clear gives the same state as setting it always.\<close>

lemma set_vmxe:
  "(if r_cr4 (m_cpu m) AND CR4_VMXE = 0 then asm_set_cr4 (r_cr4 (m_cpu m) OR CR4_VMXE) m else Some m)
     = Some (with_vmxe m)"
  by (simp add: asm_set_cr4_def insn_mov_cr4_def with_vmxe_def vmxe_set)

lemma insn_vmxon_ready:
  assumes "vmx_ready m"
  shows "insn_vmxon e pa (with_vmxe m) =
    Some (if region_ok e pa m then (VMsucceed, enter_vmx pa (with_vmxe m)) else (VMfailInvalid, with_vmxe m))"
  using assms
  by (auto simp: vmx_ready_def insn_vmxon_def frame region_ok_def revision_ok_def cpu_revision_def phys32_def
      enter_vmx_def split: option.splits)

text \<open>VMXON in VMX operation fails and leaves the state to the one who is in it.\<close>

lemma insn_vmxon_on:
  assumes "vmx_on (m_vmx m)"
  shows "insn_vmxon e pa (with_vmxe m) = Some (vm_fail 15 (with_vmxe m))"
  using assms by (simp add: insn_vmxon_def frame)

lemma do_vmxoff_leaves:
  assumes "our_vmxon vmm" and "vmx_on (m_vmx m)"
  shows "do_vmxoff vmm m = Some (if old_vmxe vmm = 0
    then set_cpu (\<lambda>c. c\<lparr>r_cr4 := r_cr4 c AND NOT CR4_VMXE\<rparr>) (leave_vmx m) else leave_vmx m)"
  using assms
  by (simp add: do_vmxoff_def asm_vmxoff_def insn_vmxoff_def asm_set_cr4_def insn_mov_cr4_def asm_get_cr4_def
      leave_vmx_def)

lemma do_vmptrld_insn:
  "do_vmptrld pf e vmm m = Option.bind (insn_vmptrld e (vp_pa (vmcs vmm)) m)
     (\<lambda>(r, m). if r = VMsucceed then Some (0, m)
        else Option.bind (vmlatency_printk pf (''VMPTRLD failed'' @ nl) m) (\<lambda>m. Some (-1, m)))"
  by (cases "insn_vmptrld e (vp_pa (vmcs vmm)) m") (auto simp: do_vmptrld_def asm_vmptrld_eq)

lemma do_vmclear_insn:
  "do_vmclear pf e vmm m = Option.bind (insn_vmclear e (vp_pa (vmcs vmm)) m)
     (\<lambda>(r, m). if r = VMsucceed then Some (0, m)
        else Option.bind (vmlatency_printk pf (''VMCLEAR failed'' @ nl) m) (\<lambda>m. Some (-1, m)))"
  by (cases "insn_vmclear e (vp_pa (vmcs vmm)) m") (auto simp: do_vmclear_def asm_vmclear_eq)

lemma do_vmclear_ok:
  assumes "vmx_on (m_vmx m)" and "pa_ok e (vp_pa (vmcs vmm))" and "vp_pa (vmcs vmm) \<noteq> vmxon_ptr (m_vmx m)"
    and "cur_vmcs (m_vmx m) = Some (vp_pa (vmcs vmm))"
  shows "do_vmclear pf e vmm m = Some (0, set_vmx (\<lambda>x. x\<lparr>launched := (launched x)(vp_pa (vmcs vmm) := False),
    cur_vmcs := None\<rparr>) m)"
  using assms by (simp add: do_vmclear_insn insn_vmclear_def)

context vmm_api
begin

text \<open>With a good region the monitor enters VMX operation; otherwise it logs, and CR4.VMXE stays set.\<close>

lemma do_vmxon_good:
  assumes "vmx_ready m" and "region_ok e (vp_pa (vmxon_region vmm)) m"
  shows "do_vmxon pf e vmm m = Some (0, vmm\<lparr>old_vmxe := r_cr4 (m_cpu m) AND CR4_VMXE, our_vmxon := True\<rparr>,
    enter_vmx (vp_pa (vmxon_region vmm)) (with_vmxe m))"
  using assms by (simp add: do_vmxon_def asm_get_cr4_def Let_def set_vmxe asm_vmxon_eq insn_vmxon_ready)

lemma do_vmxon_bad:
  assumes "vmx_ready m" and "\<not> region_ok e (vp_pa (vmxon_region vmm)) m"
  shows "\<exists>m'. do_vmxon pf e vmm m = Some (-1, vmm\<lparr>old_vmxe := r_cr4 (m_cpu m) AND CR4_VMXE\<rparr>, m') \<and>
    log_step [''VMXON failed'' @ nl] (with_vmxe m) m'"
  using assms printk_log [of "''VMXON failed'' @ nl" "with_vmxe m"]
  by (auto simp: do_vmxon_def asm_get_cr4_def Let_def set_vmxe asm_vmxon_eq insn_vmxon_ready)

text \<open>In VMX operation with a current VMCS, the GNU branch of \<open>asm_vmxon\<close> takes the failure for a success.\<close>

lemma do_vmxon_nested:
  assumes "vmx_on (m_vmx m)" and "cur_vmcs (m_vmx m) = Some pa" and "\<not> win32 e"
  shows "do_vmxon pf e vmm m = Some (0, vmm\<lparr>old_vmxe := r_cr4 (m_cpu m) AND CR4_VMXE, our_vmxon := True\<rparr>,
    set_vmcs_field pa VMCS_VM_INSTRUCTION_ERROR 15 (with_vmxe m))"
  using assms by (simp add: do_vmxon_def asm_get_cr4_def Let_def set_vmxe asm_vmxon_eq insn_vmxon_on vm_fail_def frame)

end

end
