(* ===== verification/Vmentry.thy ===== *)
theory Vmentry
  imports Asm_Inlines
begin

text \<open>
  The assembly files \<^verbatim>\<open>linux/vmentry.S\<close>, \<^verbatim>\<open>mac/vmentry.S\<close> and \<^verbatim>\<open>win/amd64/vmentry.asm\<close>: their eleven instructions with the labels as addresses, a step function, a run
  that stops at \<^verbatim>\<open>ret\<close>, and the two functions that C calls.  The run follows the processor:
  a VM entry that fails continues with the next instruction, a VM exit continues at the
  host RIP of the VMCS, which is in this file only if it is the address of \<^verbatim>\<open>vmx_exit\<close>.
\<close>

section \<open>The program\<close>

datatype asm_insn =
    Mov_imm_rax u64
  | Vmwrite_rsp_rax
  | Vmlaunch
  | Vmresume
  | Jmp nat
  | Xor_rax_rax
  | Ret

definition lbl_do_vmlaunch :: nat where "lbl_do_vmlaunch = 0"
definition lbl_do_vmresume :: nat where "lbl_do_vmresume = 4"
definition lbl_entry_error :: nat where "lbl_entry_error = 7"
definition lbl_vmx_exit :: nat where "lbl_vmx_exit = 9"
definition lbl_vmx_return :: nat where "lbl_vmx_return = 10"

definition vmentry_prepare :: "asm_insn list" where
  "vmentry_prepare = [Mov_imm_rax VMCS_HOST_RSP, Vmwrite_rsp_rax]"

definition vmentry_code :: "asm_insn list" where
  "vmentry_code =
     \<comment> \<open>do_vmlaunch\<close>
     vmentry_prepare @ [Vmlaunch, Jmp lbl_entry_error] @
     \<comment> \<open>do_vmresume\<close>
     vmentry_prepare @ [Vmresume] @
     \<comment> \<open>entry_error\<close>
     [Mov_imm_rax 1, Jmp lbl_vmx_return] @
     \<comment> \<open>vmx_exit\<close>
     [Xor_rax_rax] @
     \<comment> \<open>vmx_return\<close>
     [Ret]"

text \<open>The Mac OS file.\<close>

definition mac_vmentry_prepare :: "asm_insn list" where
  "mac_vmentry_prepare = [Mov_imm_rax VMCS_HOST_RSP, Vmwrite_rsp_rax]"

definition mac_vmentry_code :: "asm_insn list" where
  "mac_vmentry_code =
     \<comment> \<open>_do_vmlaunch\<close>
     mac_vmentry_prepare @ [Vmlaunch, Jmp lbl_entry_error] @
     \<comment> \<open>_do_vmresume\<close>
     mac_vmentry_prepare @ [Vmresume] @
     \<comment> \<open>entry_error\<close>
     [Mov_imm_rax 1, Jmp lbl_vmx_return] @
     \<comment> \<open>_vmx_exit\<close>
     [Xor_rax_rax] @
     \<comment> \<open>vmx_return\<close>
     [Ret]"

text \<open>The Windows file does not include \<^verbatim>\<open>cpu-defs.h\<close> and has a constant of its own.\<close>

definition win_VMCS_HOST_RSP :: u64 where
  "win_VMCS_HOST_RSP = 0x6c14"

definition win_vmentry_prepare :: "asm_insn list" where
  "win_vmentry_prepare = [Mov_imm_rax win_VMCS_HOST_RSP, Vmwrite_rsp_rax]"

definition win_vmentry_code :: "asm_insn list" where
  "win_vmentry_code =
     \<comment> \<open>do_vmlaunch\<close>
     win_vmentry_prepare @ [Vmlaunch, Jmp lbl_entry_error] @
     \<comment> \<open>do_vmresume\<close>
     win_vmentry_prepare @ [Vmresume] @
     \<comment> \<open>entry_error\<close>
     [Mov_imm_rax 1, Jmp lbl_vmx_return] @
     \<comment> \<open>vmx_exit\<close>
     [Xor_rax_rax] @
     \<comment> \<open>vmx_return\<close>
     [Ret]"

text \<open>The program that is linked in.\<close>

definition vmentry_program :: "env \<Rightarrow> asm_insn list" where
  "vmentry_program e =
     (case e_target e of Linux \<Rightarrow> vmentry_code | MacOS \<Rightarrow> mac_vmentry_code | Windows \<Rightarrow> win_vmentry_code)"

lemma vmentry_program_same [simp]: "vmentry_program e = vmentry_code"
  by (simp add: vmentry_program_def vmentry_code_def mac_vmentry_code_def win_vmentry_code_def vmentry_prepare_def
      mac_vmentry_prepare_def win_vmentry_prepare_def win_VMCS_HOST_RSP_def vmcs_enc split: os_target.split)

section \<open>Execution\<close>

record asm_state =
  a_pc :: nat
  a_rax :: u64
  a_m :: mstate

definition asm_entry :: "env \<Rightarrow> bool \<Rightarrow> asm_state \<Rightarrow> asm_state option" where
  "asm_entry e l s = do {
     (r, m) \<leftarrow> insn_vmentry e l (a_m s);
     case r of
       Inl _ \<Rightarrow> Some (s\<lparr>a_pc := a_pc s + 1, a_m := m\<rparr>)
     | Inr rip \<Rightarrow> if rip = e_vmx_exit e then Some (s\<lparr>a_pc := lbl_vmx_exit, a_m := m\<rparr>) else None
   }"

fun asm_step :: "env \<Rightarrow> asm_insn \<Rightarrow> asm_state \<Rightarrow> asm_state option" where
  "asm_step e (Mov_imm_rax v) s = Some (s\<lparr>a_pc := a_pc s + 1, a_rax := v\<rparr>)"
| "asm_step e Vmwrite_rsp_rax s = do {
     m \<leftarrow> insn_vmwrite (a_rax s) (r_rsp (m_cpu (a_m s))) (a_m s);
     Some (s\<lparr>a_pc := a_pc s + 1, a_m := m\<rparr>)
   }"
| "asm_step e Vmlaunch s = asm_entry e True s"
| "asm_step e Vmresume s = asm_entry e False s"
| "asm_step e (Jmp l) s = Some (s\<lparr>a_pc := l\<rparr>)"
| "asm_step e Xor_rax_rax s = Some (s\<lparr>a_pc := a_pc s + 1, a_rax := a_rax s XOR a_rax s\<rparr>)"
| "asm_step e Ret s = None"

text \<open>The run ends at \<^verbatim>\<open>ret\<close>; no path has more than seven instructions.\<close>

fun asm_run :: "env \<Rightarrow> nat \<Rightarrow> asm_state \<Rightarrow> asm_state option" where
  "asm_run e 0 s = None"
| "asm_run e (Suc fuel) s =
     (if a_pc s < length (vmentry_program e) then
        (if vmentry_program e ! a_pc s = Ret then Some s
         else do {
           s \<leftarrow> asm_step e (vmentry_program e ! a_pc s) s;
           asm_run e fuel s
         })
      else None)"

text \<open>
  A call from C: the function comes back to its caller if RSP at the \<^verbatim>\<open>ret\<close> is RSP at the entry, and the
  \<^verbatim>\<open>int\<close> result is in EAX.  RAX holds any value at the entry.
\<close>

definition asm_call :: "env \<Rightarrow> nat \<Rightarrow> u64 \<Rightarrow> mstate \<Rightarrow> (int \<times> mstate) option" where
  "asm_call e l rax m = do {
     s \<leftarrow> asm_run e 8 \<lparr>a_pc = l, a_rax = rax, a_m = m\<rparr>;
     if r_rsp (m_cpu (a_m s)) = r_rsp (m_cpu m)
     then Some (sint (ucast (a_rax s) :: u32), a_m s) else None
   }"

definition do_vmlaunch :: "env \<Rightarrow> mstate \<Rightarrow> (int \<times> mstate) option" where
  "do_vmlaunch e m = asm_call e lbl_do_vmlaunch 0 m"

definition do_vmresume :: "env \<Rightarrow> mstate \<Rightarrow> (int \<times> mstate) option" where
  "do_vmresume e m = asm_call e lbl_do_vmresume 0 m"

section \<open>The contract of the two functions\<close>

text \<open>
  With a current VMCS: RSP goes to its host-state area; the function returns 1 where the
  processor refuses the entry and 0 after a VM exit.
\<close>

definition vm_enter :: "env \<Rightarrow> bool \<Rightarrow> u64 \<Rightarrow> mstate \<Rightarrow> int \<times> mstate" where
  "vm_enter e l pa m =
     (let m = set_vmcs_field pa VMCS_HOST_RSP (r_rsp (m_cpu m)) m;
          fails = (\<lambda>n. (1, set_vmcs_field pa VMCS_VM_INSTRUCTION_ERROR n (tick e m)))
      in if l \<and> launched (m_vmx m) pa then fails 4
         else if \<not> l \<and> \<not> launched (m_vmx m) pa then fails 5
         else case e_entry e m of
           Entry_Fail n \<Rightarrow> fails n
         | Entry_Bad_Guest r \<Rightarrow> (0, vm_exit pa r (tick e m))
         | Entry_Exit r \<Rightarrow>
             (0, set_vmx (\<lambda>x. x\<lparr>launched := (launched x)(pa := True),
                   vm_entries := vm_entries x + 1\<rparr>) (vm_exit pa r (tick e m))))"

definition has_vmcs :: "env \<Rightarrow> u64 \<Rightarrow> mstate \<Rightarrow> bool" where
  "has_vmcs e pa m \<longleftrightarrow> vmx_on (m_vmx m) \<and> cur_vmcs (m_vmx m) = Some pa \<and>
     vmcs_fields (m_vmx m) pa VMCS_HOST_RIP = e_vmx_exit e"

lemmas vmentry_labels = lbl_do_vmlaunch_def lbl_do_vmresume_def lbl_entry_error_def lbl_vmx_exit_def
  lbl_vmx_return_def

lemma vmentry_code_at:
  "length vmentry_code = 11"
  "vmentry_code ! 0 = Mov_imm_rax VMCS_HOST_RSP" "vmentry_code ! Suc 0 = Vmwrite_rsp_rax"
  "vmentry_code ! 2 = Vmlaunch" "vmentry_code ! 3 = Jmp 7"
  "vmentry_code ! 4 = Mov_imm_rax VMCS_HOST_RSP" "vmentry_code ! 5 = Vmwrite_rsp_rax"
  "vmentry_code ! 6 = Vmresume" "vmentry_code ! 7 = Mov_imm_rax 1"
  "vmentry_code ! 8 = Jmp 10" "vmentry_code ! 9 = Xor_rax_rax" "vmentry_code ! 10 = Ret"
  by (simp_all add: vmentry_code_def vmentry_prepare_def vmentry_labels)

lemma set_vmcs_field_frame [frame]:
  "m_cpu (set_vmcs_field pa f v m) = m_cpu m"
  "m_mem (set_vmcs_field pa f v m) = m_mem m"
  "m_os (set_vmcs_field pa f v m) = m_os m"
  "vmx_on (m_vmx (set_vmcs_field pa f v m)) = vmx_on (m_vmx m)"
  "vmxon_ptr (m_vmx (set_vmcs_field pa f v m)) = vmxon_ptr (m_vmx m)"
  "cur_vmcs (m_vmx (set_vmcs_field pa f v m)) = cur_vmcs (m_vmx m)"
  "launched (m_vmx (set_vmcs_field pa f v m)) = launched (m_vmx m)"
  "vm_entries (m_vmx (set_vmcs_field pa f v m)) = vm_entries (m_vmx m)"
  by (simp_all add: set_vmcs_field_def)

lemma vmcs_fields_set:
  "vmcs_fields (m_vmx (set_vmcs_field pa f v m)) pa g = (if g = f then v else vmcs_fields (m_vmx m) pa g)"
  "vmcs_fields (m_vmx (set_vmcs_field pa f v m)) = (vmcs_fields (m_vmx m))(pa := (vmcs_fields (m_vmx m) pa)(f := v))"
  by (simp_all add: set_vmcs_field_def)

lemma tick_frame [frame]:
  "m_vmx (tick e m) = m_vmx m" "m_mem (tick e m) = m_mem m" "m_os (tick e m) = m_os m"
  "r_rsp (m_cpu (tick e m)) = r_rsp (m_cpu m)"
  by (simp_all add: tick_def)

lemma vm_exit_frame [frame]:
  "m_mem (vm_exit pa r m) = m_mem m" "m_os (vm_exit pa r m) = m_os m"
  "m_vmx (vm_exit pa r m) = m_vmx (set_vmcs_field pa VMCS_EXIT_REASON (ucast r) m)"
  by (simp_all add: vm_exit_def Let_def frame)

lemma vm_exit_cpu:
  "m_cpu (vm_exit pa r m) =
     load_host_state ((vmcs_fields (m_vmx m) pa)(VMCS_EXIT_REASON := ucast r)) (m_cpu m)"
  by (simp add: vm_exit_def Let_def frame vmcs_fields_set)

lemma vm_exit_rsp:
  "r_rsp (m_cpu (vm_exit pa r m)) = vmcs_fields (m_vmx m) pa VMCS_HOST_RSP"
  by (simp add: vm_exit_cpu load_host_state_def vmcs_enc)

text \<open>The run through each stretch of straight code.\<close>

lemma asm_run_prepare:
  assumes "vmx_on (m_vmx m)" and "cur_vmcs (m_vmx m) = Some pa" and "l = 0 \<or> l = 4"
  shows "asm_run e (Suc (Suc n)) \<lparr>a_pc = l, a_rax = rax, a_m = m\<rparr> =
    asm_run e n \<lparr>a_pc = l + 2, a_rax = VMCS_HOST_RSP,
      a_m = set_vmcs_field pa VMCS_HOST_RSP (r_rsp (m_cpu m)) m\<rparr>"
  using assms by (auto simp: vmentry_code_at insn_vmwrite_def)

lemma asm_run_error:
  "asm_run e (Suc (Suc (Suc n))) \<lparr>a_pc = 7, a_rax = rax, a_m = m\<rparr> = Some \<lparr>a_pc = 10, a_rax = 1, a_m = m\<rparr>"
  by (simp add: vmentry_code_at)

lemma asm_run_vmx_exit:
  "asm_run e (Suc (Suc n)) \<lparr>a_pc = 9, a_rax = rax, a_m = m\<rparr> = Some \<lparr>a_pc = 10, a_rax = 0, a_m = m\<rparr>"
  by (simp add: vmentry_code_at)

lemma asm_run_vmlaunch:
  "l = 2 \<Longrightarrow> asm_run e (Suc n) \<lparr>a_pc = l, a_rax = rax, a_m = m\<rparr> =
    Option.bind (asm_entry e True \<lparr>a_pc = l, a_rax = rax, a_m = m\<rparr>) (asm_run e n)"
  "l = 3 \<Longrightarrow> asm_run e (Suc n) \<lparr>a_pc = l, a_rax = rax, a_m = m\<rparr> = asm_run e n \<lparr>a_pc = 7, a_rax = rax, a_m = m\<rparr>"
  by (simp_all add: vmentry_code_at)

lemma asm_run_vmresume:
  "asm_run e (Suc n) \<lparr>a_pc = 6, a_rax = rax, a_m = m\<rparr> =
    Option.bind (asm_entry e False \<lparr>a_pc = 6, a_rax = rax, a_m = m\<rparr>) (asm_run e n)"
  by (simp add: vmentry_code_at)

declare asm_run.simps(2) [simp del]

text \<open>The entry itself, after RSP has been saved, agrees with the contract.\<close>

lemma insn_vmentry_contract:
  assumes "has_vmcs e pa m"
  shows "insn_vmentry e l (set_vmcs_field pa VMCS_HOST_RSP (r_rsp (m_cpu m)) m) =
    Some (if fst (vm_enter e l pa m) = 0 then Inr (e_vmx_exit e) else Inl VMfailValid, snd (vm_enter e l pa m))"
  using assms
  by (simp add: insn_vmentry_def vm_enter_def has_vmcs_def Let_def frame vmcs_fields_set vmcs_enc
      split: entry_outcome.splits)

lemma vm_enter_result: "fst (vm_enter e l pa m) = 0 \<or> fst (vm_enter e l pa m) = 1"
  by (simp add: vm_enter_def Let_def split: entry_outcome.splits)

lemma vm_enter_rsp: "r_rsp (m_cpu (snd (vm_enter e l pa m))) = r_rsp (m_cpu m)"
  by (simp add: vm_enter_def Let_def frame vm_exit_rsp vmcs_fields_set split: entry_outcome.splits)

lemma asm_call_contract:
  assumes "has_vmcs e pa m"
  shows "asm_call e lbl_do_vmlaunch rax m = Some (vm_enter e True pa m)"
    and "asm_call e lbl_do_vmresume rax m = Some (vm_enter e False pa m)"
proof -
  have on: "vmx_on (m_vmx m)" "cur_vmcs (m_vmx m) = Some pa"
    using assms by (simp_all add: has_vmcs_def)
  have fuel: "8 = Suc (Suc (Suc (Suc (Suc (Suc (Suc (Suc 0)))))))"
    by simp
  show "asm_call e lbl_do_vmlaunch rax m = Some (vm_enter e True pa m)"
    using vm_enter_result [of e True pa m] vm_enter_rsp [of e True pa m]
    by (auto simp: asm_call_def vmentry_labels fuel asm_run_prepare [OF on] asm_run_vmlaunch asm_entry_def
        insn_vmentry_contract [OF assms] asm_run_error asm_run_vmx_exit prod_eq_iff)
  show "asm_call e lbl_do_vmresume rax m = Some (vm_enter e False pa m)"
    using vm_enter_result [of e False pa m] vm_enter_rsp [of e False pa m]
    by (auto simp: asm_call_def vmentry_labels fuel asm_run_prepare [OF on] asm_run_vmresume asm_entry_def
        insn_vmentry_contract [OF assms] asm_run_error asm_run_vmx_exit prod_eq_iff)
qed

lemma do_vmlaunch_eq: "has_vmcs e pa m \<Longrightarrow> do_vmlaunch e m = Some (vm_enter e True pa m)"
  by (simp add: do_vmlaunch_def asm_call_contract)

lemma do_vmresume_eq: "has_vmcs e pa m \<Longrightarrow> do_vmresume e m = Some (vm_enter e False pa m)"
  by (simp add: do_vmresume_def asm_call_contract)

end
