(* ===== verification/Vmx_Vmcs.thy ===== *)
theory Vmx_Vmcs
  imports Vmx_Memory Vmx_Caps Vmentry
begin

text \<open>
  \<^verbatim>\<open>initialize_vmcs\<close> of \<^verbatim>\<open>vmm/vmx.c\<close>: the VMCS that makes the guest a copy of the host.  The function
  is a long sequence of VMWRITEs; it is shown to write a list of fields, \<open>vmcs_image\<close>, that is
  computed from the registers before it starts.
\<close>

definition get_segment_ar :: "env \<Rightarrow> u16 \<Rightarrow> u64" where
  "get_segment_ar e seg = ucast (drop_bit 8 (asm_lar e seg) AND 0xf0ff)"

text \<open>The base address in the two halves of a system-segment descriptor of the GDT.\<close>

definition tr_base :: "u64 \<Rightarrow> u64 \<Rightarrow> u64" where
  "tr_base trdesc_lo trdesc_hi =
     (let trbase = (drop_bit 16 trdesc_lo AND 0xffffff) OR push_bit 24 (drop_bit 56 trdesc_lo AND 0xff)
      in trbase OR push_bit 32 trdesc_hi)"

definition initialize_vmcs :: "env \<Rightarrow> vm_monitor \<Rightarrow> mstate \<Rightarrow> mstate option" where
  "initialize_vmcs e vmm m = do {
     \<comment> \<open>Segment registers\<close>
     let val16 = asm_get_es m;
     m \<leftarrow> asm_vmwrite VMCS_HOST_ES (ucast val16 AND NOT 7) m;
     m \<leftarrow> asm_vmwrite VMCS_GUEST_ES (ucast val16) m;
     m \<leftarrow> asm_vmwrite VMCS_GUEST_ES_BASE 0 m;
     m \<leftarrow> asm_vmwrite VMCS_GUEST_ES_LIMIT 0xffffffff m;
     m \<leftarrow> asm_vmwrite VMCS_GUEST_ES_ACCESS_RIGHTS UNUSABLE_AR m;

     let val16 = asm_get_cs m;
     let segment_ar = get_segment_ar e val16;
     let segment_limit = (if segment_ar AND BIT 15 \<noteq> 0 then 0xffffffff else 0xffff :: u32);
     m \<leftarrow> asm_vmwrite VMCS_HOST_CS (ucast val16 AND NOT 7) m;
     m \<leftarrow> asm_vmwrite VMCS_GUEST_CS (ucast val16) m;
     m \<leftarrow> asm_vmwrite VMCS_GUEST_CS_BASE 0 m;
     m \<leftarrow> asm_vmwrite VMCS_GUEST_CS_LIMIT (ucast segment_limit) m;
     m \<leftarrow> asm_vmwrite VMCS_GUEST_CS_ACCESS_RIGHTS segment_ar m;

     let val16 = asm_get_ss m;
     let segment_ar = get_segment_ar e val16;
     let segment_limit = (if segment_ar AND BIT 15 \<noteq> 0 then 0xffffffff else 0xffff :: u32);
     m \<leftarrow> asm_vmwrite VMCS_HOST_SS (ucast val16 AND NOT 7) m;
     m \<leftarrow> asm_vmwrite VMCS_GUEST_SS (ucast val16) m;
     m \<leftarrow> asm_vmwrite VMCS_GUEST_SS_BASE 0 m;
     m \<leftarrow> asm_vmwrite VMCS_GUEST_SS_LIMIT (ucast segment_limit) m;
     m \<leftarrow> asm_vmwrite VMCS_GUEST_SS_ACCESS_RIGHTS segment_ar m;

     let val16 = asm_get_ds m;
     m \<leftarrow> asm_vmwrite VMCS_HOST_DS (ucast val16 AND NOT 7) m;
     m \<leftarrow> asm_vmwrite VMCS_GUEST_DS (ucast val16) m;
     m \<leftarrow> asm_vmwrite VMCS_GUEST_DS_BASE 0 m;
     m \<leftarrow> asm_vmwrite VMCS_GUEST_DS_LIMIT 0xffffffff m;
     m \<leftarrow> asm_vmwrite VMCS_GUEST_DS_ACCESS_RIGHTS UNUSABLE_AR m;

     let val16 = asm_get_fs m;
     m \<leftarrow> asm_vmwrite VMCS_HOST_FS (ucast val16 AND NOT 7) m;
     m \<leftarrow> asm_vmwrite VMCS_GUEST_FS (ucast val16) m;
     fs_base \<leftarrow> asm_rdmsr e IA32_FS_BASE m;
     m \<leftarrow> asm_vmwrite VMCS_GUEST_FS_BASE fs_base m;
     m \<leftarrow> asm_vmwrite VMCS_HOST_FS_BASE fs_base m;
     m \<leftarrow> asm_vmwrite VMCS_GUEST_FS_LIMIT 0xffffffff m;
     m \<leftarrow> asm_vmwrite VMCS_GUEST_FS_ACCESS_RIGHTS UNUSABLE_AR m;

     let val16 = asm_get_gs m;
     m \<leftarrow> asm_vmwrite VMCS_HOST_GS (ucast val16 AND NOT 7) m;
     m \<leftarrow> asm_vmwrite VMCS_GUEST_GS (ucast val16) m;
     gs_base \<leftarrow> asm_rdmsr e IA32_GS_BASE m;
     m \<leftarrow> asm_vmwrite VMCS_GUEST_GS_BASE gs_base m;
     m \<leftarrow> asm_vmwrite VMCS_HOST_GS_BASE gs_base m;
     m \<leftarrow> asm_vmwrite VMCS_GUEST_GS_LIMIT 0xffffffff m;
     m \<leftarrow> asm_vmwrite VMCS_GUEST_GS_ACCESS_RIGHTS UNUSABLE_AR m;

     let val16 = asm_sldt m;
     m \<leftarrow> asm_vmwrite VMCS_GUEST_LDTR (ucast val16) m;
     m \<leftarrow> asm_vmwrite VMCS_GUEST_LDTR_BASE 0 m;
     m \<leftarrow> asm_vmwrite VMCS_GUEST_LDTR_LIMIT 0xffffffff m;
     m \<leftarrow> asm_vmwrite VMCS_GUEST_LDTR_ACCESS_RIGHTS UNUSABLE_AR m;

     let gdtr = asm_get_gdt m;
     m \<leftarrow> asm_vmwrite VMCS_GUEST_GDTR_LIMIT (ucast (limit gdtr)) m;
     m \<leftarrow> asm_vmwrite VMCS_GUEST_GDTR_BASE (base gdtr) m;
     m \<leftarrow> asm_vmwrite VMCS_HOST_GDTR_BASE (base gdtr) m;

     let idtr = asm_get_idt m;
     m \<leftarrow> asm_vmwrite VMCS_GUEST_IDTR_LIMIT (ucast (limit idtr)) m;
     m \<leftarrow> asm_vmwrite VMCS_GUEST_IDTR_BASE (base idtr) m;
     m \<leftarrow> asm_vmwrite VMCS_HOST_IDTR_BASE (base idtr) m;

     let tr = asm_str m;
     let tr_limit = asm_lsl e tr;
     m \<leftarrow> asm_vmwrite VMCS_GUEST_TR (ucast tr AND NOT 7) m;
     m \<leftarrow> asm_vmwrite VMCS_HOST_TR (ucast tr) m;
     m \<leftarrow> asm_vmwrite VMCS_GUEST_TR_LIMIT (ucast tr_limit) m;
     m \<leftarrow> asm_vmwrite VMCS_GUEST_TR_ACCESS_RIGHTS (get_segment_ar e tr) m;
     \<comment> \<open>Extracting TR.base from GDT\<close>
     let trdesc_lo = load64 e (base gdtr + ucast tr) m;
     let trdesc_hi = load64 e (base gdtr + ucast tr + 8) m;
     let trbase = tr_base trdesc_lo trdesc_hi;
     m \<leftarrow> asm_vmwrite VMCS_GUEST_TR_BASE trbase m;
     m \<leftarrow> asm_vmwrite VMCS_HOST_TR_BASE trbase m;

     \<comment> \<open>64-bit control fields\<close>
     m \<leftarrow> asm_vmwrite VMCS_IO_BITMAP_A_ADDR (vp_pa (io_bitmap_a vmm)) m;
     m \<leftarrow> asm_vmwrite VMCS_IO_BITMAP_B_ADDR (vp_pa (io_bitmap_b vmm)) m;
     m \<leftarrow> asm_vmwrite VMCS_EXEC_VMCS_PTR 0 m;
     m \<leftarrow> asm_vmwrite VMCS_TSC_OFFSET 0 m;

     \<comment> \<open>64-bit guest state\<close>
     m \<leftarrow> asm_vmwrite VMCS_VMCS_LINK_PTR 0xffffffffffffffff m;
     m \<leftarrow> asm_vmwrite VMCS_GUEST_IA32_DEBUGCTL 0 m;

     \<comment> \<open>32-bit control fields\<close>
     m \<leftarrow> asm_vmwrite VMCS_PIN_BASED_VM_CTLS (ucast (pinbased_allowed0 vmm AND pinbased_allowed1 vmm)) m;
     m \<leftarrow> asm_vmwrite VMCS_PROC_BASED_VM_CTLS (ucast (procbased_allowed0 vmm AND procbased_allowed1 vmm)) m;
     m \<leftarrow> asm_vmwrite VMCS_EXCEPTION_BITMAP 0xffffffff m;
     m \<leftarrow> asm_vmwrite VMCS_PF_ECODE_MASK 0 m;
     m \<leftarrow> asm_vmwrite VMCS_PF_ECODE_MATCH 0 m;
     m \<leftarrow> asm_vmwrite VMCS_CR3_TARGET_CNT 0 m;
     m \<leftarrow> asm_vmwrite VMCS_VMEXIT_CTLS
            (ucast (exit_ctls_allowed0 vmm AND exit_ctls_allowed1 vmm) OR VMCS_VMEXIT_CTL_HOST_ADDR_SPACE_SIZE) m;
     m \<leftarrow> asm_vmwrite VMCS_VMEXIT_MSR_STORE_CNT 0 m;
     m \<leftarrow> asm_vmwrite VMCS_VMEXIT_MSR_LOAD_CNT 0 m;
     m \<leftarrow> asm_vmwrite VMCS_VMENTRY_CTLS
            (ucast (entry_ctls_allowed0 vmm AND entry_ctls_allowed1 vmm) OR VMCS_VMENTRY_CTL_IA32E_MODE_GUEST) m;
     m \<leftarrow> asm_vmwrite VMCS_VMENTRY_MSR_LOAD_CNT 0 m;
     m \<leftarrow> asm_vmwrite VMCS_VMENTRY_INT_INFO 0 m;
     m \<leftarrow> asm_vmwrite VMCS_VMENTRY_ECODE 0 m;
     m \<leftarrow> asm_vmwrite VMCS_VMENTRY_INSTR_LEN 0 m;

     m \<leftarrow> asm_vmwrite VMCS_GUEST_INTERRUPTIBILITY_STATE 0 m;
     m \<leftarrow> asm_vmwrite VMCS_GUEST_ACTIVITY_STATE 0 m;
     m \<leftarrow> asm_vmwrite VMCS_GUEST_SMBASE 0 m;

     \<comment> \<open>32-bit guest state\<close>
     v \<leftarrow> asm_rdmsr e IA32_SYSENTER_CS m;
     let ia32_sysenter_cs = (ucast v :: u32);
     m \<leftarrow> asm_vmwrite VMCS_GUEST_IA32_SYSENTER_CS (ucast ia32_sysenter_cs) m;
     m \<leftarrow> asm_vmwrite VMCS_HOST_IA32_SYSENTER_CS (ucast ia32_sysenter_cs) m;

     \<comment> \<open>Control registers\<close>
     let cr0 = asm_get_cr0 m;
     m \<leftarrow> asm_vmwrite VMCS_GUEST_CR0 cr0 m;
     m \<leftarrow> asm_vmwrite VMCS_HOST_CR0 cr0 m;
     m \<leftarrow> asm_vmwrite VMCS_CR0_GUEST_HOST_MASK 0 m;
     m \<leftarrow> asm_vmwrite VMCS_CR0_READ_SHADOW 0 m;

     let cr4 = asm_get_cr4 m;
     m \<leftarrow> asm_vmwrite VMCS_GUEST_CR4 cr4 m;
     m \<leftarrow> asm_vmwrite VMCS_HOST_CR4 cr4 m;
     m \<leftarrow> asm_vmwrite VMCS_CR4_GUEST_HOST_MASK 0 m;
     m \<leftarrow> asm_vmwrite VMCS_CR4_READ_SHADOW 0 m;

     let cr3 = asm_get_cr3 m;
     m \<leftarrow> asm_vmwrite VMCS_GUEST_CR3 cr3 m;
     m \<leftarrow> asm_vmwrite VMCS_HOST_CR3 cr3 m;
     m \<leftarrow> asm_vmwrite VMCS_CR3_TARGET_VALUE_0 0 m;
     m \<leftarrow> asm_vmwrite VMCS_CR3_TARGET_VALUE_1 0 m;
     m \<leftarrow> asm_vmwrite VMCS_CR3_TARGET_VALUE_2 0 m;
     m \<leftarrow> asm_vmwrite VMCS_CR3_TARGET_VALUE_3 0 m;

     \<comment> \<open>Natural-width guest/host state\<close>
     m \<leftarrow> asm_vmwrite VMCS_GUEST_DR7 0x400 m;

     m \<leftarrow> asm_vmwrite VMCS_GUEST_RSP 0 m;

     m \<leftarrow> asm_vmwrite VMCS_GUEST_RIP (e_guest_code e) m;
     m \<leftarrow> asm_vmwrite VMCS_HOST_RIP (e_vmx_exit e) m;

     let rflags = asm_get_rflags m;
     m \<leftarrow> asm_vmwrite VMCS_GUEST_RFLAGS rflags m;

     m \<leftarrow> asm_vmwrite VMCS_GUEST_PENDING_DBG_EXCEPTION 0 m;

     ia32_sysenter_esp \<leftarrow> asm_rdmsr e IA32_SYSENTER_ESP m;
     m \<leftarrow> asm_vmwrite VMCS_GUEST_IA32_SYSENTER_ESP ia32_sysenter_esp m;
     m \<leftarrow> asm_vmwrite VMCS_HOST_IA32_SYSENTER_ESP ia32_sysenter_esp m;

     ia32_sysenter_eip \<leftarrow> asm_rdmsr e IA32_SYSENTER_EIP m;
     m \<leftarrow> asm_vmwrite VMCS_GUEST_IA32_SYSENTER_EIP ia32_sysenter_esp m;
     m \<leftarrow> asm_vmwrite VMCS_HOST_IA32_SYSENTER_EIP ia32_sysenter_eip m;
     Some m
   }"

section \<open>The image that is written\<close>

text \<open>Writes in reverse order: the last one first.\<close>

definition vmw :: "u64 \<Rightarrow> (u64 \<times> u64) list \<Rightarrow> mstate \<Rightarrow> mstate" where
  "vmw pa L m = foldr (\<lambda>(f, v). set_vmcs_field pa f v) L m"

lemma vmw_simps [simp]:
  "vmw pa [] m = m"
  "vmw pa ((f, v) # L) m = set_vmcs_field pa f v (vmw pa L m)"
  by (simp_all add: vmw_def)

lemma vmw_frame [frame]:
  "m_cpu (vmw pa L m) = m_cpu m" "m_mem (vmw pa L m) = m_mem m" "m_os (vmw pa L m) = m_os m"
  "vmx_on (m_vmx (vmw pa L m)) = vmx_on (m_vmx m)"
  "vmxon_ptr (m_vmx (vmw pa L m)) = vmxon_ptr (m_vmx m)"
  "cur_vmcs (m_vmx (vmw pa L m)) = cur_vmcs (m_vmx m)"
  "launched (m_vmx (vmw pa L m)) = launched (m_vmx m)"
  "vm_entries (m_vmx (vmw pa L m)) = vm_entries (m_vmx m)"
  by (induction L) (auto simp: frame)

lemma vmw_fields:
  "vmcs_fields (m_vmx (vmw pa L m)) pa f =
    (case map_of L f of None \<Rightarrow> vmcs_fields (m_vmx m) pa f | Some v \<Rightarrow> v)"
  by (induction L) (auto simp: vmcs_fields_set)

lemma vmwrite_vmw:
  assumes "vmx_on (m_vmx m)" and "cur_vmcs (m_vmx m) = Some pa"
  shows "asm_vmwrite f v (vmw pa L m) = Some (vmw pa ((f, v) # L) m)"
  using assms by (simp add: asm_vmwrite_def insn_vmwrite_def frame)

lemma vmw_reads:
  "asm_get_es (vmw pa L m) = r_es (m_cpu m)" "asm_get_cs (vmw pa L m) = r_cs (m_cpu m)"
  "asm_get_ss (vmw pa L m) = r_ss (m_cpu m)" "asm_get_ds (vmw pa L m) = r_ds (m_cpu m)"
  "asm_get_fs (vmw pa L m) = r_fs (m_cpu m)" "asm_get_gs (vmw pa L m) = r_gs (m_cpu m)"
  "asm_sldt (vmw pa L m) = r_ldtr (m_cpu m)" "asm_str (vmw pa L m) = r_tr (m_cpu m)"
  "asm_get_gdt (vmw pa L m) = r_gdtr (m_cpu m)" "asm_get_idt (vmw pa L m) = r_idtr (m_cpu m)"
  "asm_get_cr0 (vmw pa L m) = r_cr0 (m_cpu m)" "asm_get_cr3 (vmw pa L m) = r_cr3 (m_cpu m)"
  "asm_get_cr4 (vmw pa L m) = r_cr4 (m_cpu m)" "asm_get_rflags (vmw pa L m) = r_rflags (m_cpu m)"
  "asm_rdmsr e n (vmw pa L m) = r_msrs (m_cpu m) n"
  "load64 e a (vmw pa L m) = load64 e a m"
  by (simp_all add: insn_defs frame load64_def)

definition segment_limit :: "env \<Rightarrow> u16 \<Rightarrow> u32" where
  "segment_limit e seg = (if get_segment_ar e seg AND BIT 15 \<noteq> 0 then 0xffffffff else 0xffff)"

definition gdt_tr_base :: "env \<Rightarrow> mstate \<Rightarrow> u64" where
  "gdt_tr_base e m =
     (let a = base (r_gdtr (m_cpu m)) + ucast (r_tr (m_cpu m)) in tr_base (load64 e a m) (load64 e (a + 8) m))"

definition vmcs_image :: "env \<Rightarrow> vm_monitor \<Rightarrow> mstate \<Rightarrow> (u64 \<times> u64) list" where
  "vmcs_image e vmm m = (let c = m_cpu m in [
      (VMCS_HOST_ES, ucast (r_es c) AND NOT 7),
      (VMCS_GUEST_ES, ucast (r_es c)),
      (VMCS_GUEST_ES_BASE, 0),
      (VMCS_GUEST_ES_LIMIT, 0xffffffff),
      (VMCS_GUEST_ES_ACCESS_RIGHTS, UNUSABLE_AR),
      (VMCS_HOST_CS, ucast (r_cs c) AND NOT 7),
      (VMCS_GUEST_CS, ucast (r_cs c)),
      (VMCS_GUEST_CS_BASE, 0),
      (VMCS_GUEST_CS_LIMIT, ucast (segment_limit e (r_cs c))),
      (VMCS_GUEST_CS_ACCESS_RIGHTS, get_segment_ar e (r_cs c)),
      (VMCS_HOST_SS, ucast (r_ss c) AND NOT 7),
      (VMCS_GUEST_SS, ucast (r_ss c)),
      (VMCS_GUEST_SS_BASE, 0),
      (VMCS_GUEST_SS_LIMIT, ucast (segment_limit e (r_ss c))),
      (VMCS_GUEST_SS_ACCESS_RIGHTS, get_segment_ar e (r_ss c)),
      (VMCS_HOST_DS, ucast (r_ds c) AND NOT 7),
      (VMCS_GUEST_DS, ucast (r_ds c)),
      (VMCS_GUEST_DS_BASE, 0),
      (VMCS_GUEST_DS_LIMIT, 0xffffffff),
      (VMCS_GUEST_DS_ACCESS_RIGHTS, UNUSABLE_AR),
      (VMCS_HOST_FS, ucast (r_fs c) AND NOT 7),
      (VMCS_GUEST_FS, ucast (r_fs c)),
      (VMCS_GUEST_FS_BASE, the (r_msrs c IA32_FS_BASE)),
      (VMCS_HOST_FS_BASE, the (r_msrs c IA32_FS_BASE)),
      (VMCS_GUEST_FS_LIMIT, 0xffffffff),
      (VMCS_GUEST_FS_ACCESS_RIGHTS, UNUSABLE_AR),
      (VMCS_HOST_GS, ucast (r_gs c) AND NOT 7),
      (VMCS_GUEST_GS, ucast (r_gs c)),
      (VMCS_GUEST_GS_BASE, the (r_msrs c IA32_GS_BASE)),
      (VMCS_HOST_GS_BASE, the (r_msrs c IA32_GS_BASE)),
      (VMCS_GUEST_GS_LIMIT, 0xffffffff),
      (VMCS_GUEST_GS_ACCESS_RIGHTS, UNUSABLE_AR),
      (VMCS_GUEST_LDTR, ucast (r_ldtr c)),
      (VMCS_GUEST_LDTR_BASE, 0),
      (VMCS_GUEST_LDTR_LIMIT, 0xffffffff),
      (VMCS_GUEST_LDTR_ACCESS_RIGHTS, UNUSABLE_AR),
      (VMCS_GUEST_GDTR_LIMIT, ucast (limit (r_gdtr c))),
      (VMCS_GUEST_GDTR_BASE, base (r_gdtr c)),
      (VMCS_HOST_GDTR_BASE, base (r_gdtr c)),
      (VMCS_GUEST_IDTR_LIMIT, ucast (limit (r_idtr c))),
      (VMCS_GUEST_IDTR_BASE, base (r_idtr c)),
      (VMCS_HOST_IDTR_BASE, base (r_idtr c)),
      (VMCS_GUEST_TR, ucast (r_tr c) AND NOT 7),
      (VMCS_HOST_TR, ucast (r_tr c)),
      (VMCS_GUEST_TR_LIMIT, ucast (e_lsl e (r_tr c))),
      (VMCS_GUEST_TR_ACCESS_RIGHTS, get_segment_ar e (r_tr c)),
      (VMCS_GUEST_TR_BASE, gdt_tr_base e m),
      (VMCS_HOST_TR_BASE, gdt_tr_base e m),
      (VMCS_IO_BITMAP_A_ADDR, vp_pa (io_bitmap_a vmm)),
      (VMCS_IO_BITMAP_B_ADDR, vp_pa (io_bitmap_b vmm)),
      (VMCS_EXEC_VMCS_PTR, 0),
      (VMCS_TSC_OFFSET, 0),
      (VMCS_VMCS_LINK_PTR, 0xffffffffffffffff),
      (VMCS_GUEST_IA32_DEBUGCTL, 0),
      (VMCS_PIN_BASED_VM_CTLS, ucast (pinbased_allowed0 vmm AND pinbased_allowed1 vmm)),
      (VMCS_PROC_BASED_VM_CTLS, ucast (procbased_allowed0 vmm AND procbased_allowed1 vmm)),
      (VMCS_EXCEPTION_BITMAP, 0xffffffff),
      (VMCS_PF_ECODE_MASK, 0),
      (VMCS_PF_ECODE_MATCH, 0),
      (VMCS_CR3_TARGET_CNT, 0),
      (VMCS_VMEXIT_CTLS, ucast (exit_ctls_allowed0 vmm AND exit_ctls_allowed1 vmm) OR VMCS_VMEXIT_CTL_HOST_ADDR_SPACE_SIZE),
      (VMCS_VMEXIT_MSR_STORE_CNT, 0),
      (VMCS_VMEXIT_MSR_LOAD_CNT, 0),
      (VMCS_VMENTRY_CTLS, ucast (entry_ctls_allowed0 vmm AND entry_ctls_allowed1 vmm) OR VMCS_VMENTRY_CTL_IA32E_MODE_GUEST),
      (VMCS_VMENTRY_MSR_LOAD_CNT, 0),
      (VMCS_VMENTRY_INT_INFO, 0),
      (VMCS_VMENTRY_ECODE, 0),
      (VMCS_VMENTRY_INSTR_LEN, 0),
      (VMCS_GUEST_INTERRUPTIBILITY_STATE, 0),
      (VMCS_GUEST_ACTIVITY_STATE, 0),
      (VMCS_GUEST_SMBASE, 0),
      (VMCS_GUEST_IA32_SYSENTER_CS, ucast (ucast (the (r_msrs c IA32_SYSENTER_CS)) :: u32)),
      (VMCS_HOST_IA32_SYSENTER_CS, ucast (ucast (the (r_msrs c IA32_SYSENTER_CS)) :: u32)),
      (VMCS_GUEST_CR0, r_cr0 c),
      (VMCS_HOST_CR0, r_cr0 c),
      (VMCS_CR0_GUEST_HOST_MASK, 0),
      (VMCS_CR0_READ_SHADOW, 0),
      (VMCS_GUEST_CR4, r_cr4 c),
      (VMCS_HOST_CR4, r_cr4 c),
      (VMCS_CR4_GUEST_HOST_MASK, 0),
      (VMCS_CR4_READ_SHADOW, 0),
      (VMCS_GUEST_CR3, r_cr3 c),
      (VMCS_HOST_CR3, r_cr3 c),
      (VMCS_CR3_TARGET_VALUE_0, 0),
      (VMCS_CR3_TARGET_VALUE_1, 0),
      (VMCS_CR3_TARGET_VALUE_2, 0),
      (VMCS_CR3_TARGET_VALUE_3, 0),
      (VMCS_GUEST_DR7, 0x400),
      (VMCS_GUEST_RSP, 0),
      (VMCS_GUEST_RIP, e_guest_code e),
      (VMCS_HOST_RIP, e_vmx_exit e),
      (VMCS_GUEST_RFLAGS, r_rflags c),
      (VMCS_GUEST_PENDING_DBG_EXCEPTION, 0),
      (VMCS_GUEST_IA32_SYSENTER_ESP, the (r_msrs c IA32_SYSENTER_ESP)),
      (VMCS_HOST_IA32_SYSENTER_ESP, the (r_msrs c IA32_SYSENTER_ESP)),
      (VMCS_GUEST_IA32_SYSENTER_EIP, the (r_msrs c IA32_SYSENTER_ESP)),
      (VMCS_HOST_IA32_SYSENTER_EIP, the (r_msrs c IA32_SYSENTER_EIP))])"

definition host_msrs_present :: "cpu \<Rightarrow> bool" where
  "host_msrs_present c \<longleftrightarrow> list_all (\<lambda>n. r_msrs c n \<noteq> None)
     [IA32_FS_BASE, IA32_GS_BASE, IA32_SYSENTER_CS, IA32_SYSENTER_ESP, IA32_SYSENTER_EIP]"

lemma initialize_vmcs_writes:
  assumes on: "vmx_on (m_vmx m)" "cur_vmcs (m_vmx m) = Some pa"
    and msrs: "host_msrs_present (m_cpu m)"
  shows "initialize_vmcs e vmm m = Some (vmw pa (rev (vmcs_image e vmm m)) m)"
proof -
  obtain fsb gsb scs sesp seip where r: "r_msrs (m_cpu m) IA32_FS_BASE = Some fsb"
    "r_msrs (m_cpu m) IA32_GS_BASE = Some gsb" "r_msrs (m_cpu m) IA32_SYSENTER_CS = Some scs"
    "r_msrs (m_cpu m) IA32_SYSENTER_ESP = Some sesp" "r_msrs (m_cpu m) IA32_SYSENTER_EIP = Some seip"
    using msrs by (auto simp: host_msrs_present_def)
  have "initialize_vmcs e vmm (vmw pa [] m) = Some (vmw pa (rev (vmcs_image e vmm m)) m)"
    unfolding initialize_vmcs_def vmcs_image_def
    by (simp add: vmwrite_vmw [OF on] vmw_reads r Let_def gdt_tr_base_def segment_limit_def asm_lsl_def
        del: vmw_simps asm_rdmsr)
  then show ?thesis by simp
qed

section \<open>Fields of the image\<close>

text \<open>The last value written to a field.\<close>

definition image_at :: "env \<Rightarrow> vm_monitor \<Rightarrow> mstate \<Rightarrow> u64 \<Rightarrow> u64 option" where
  "image_at e vmm m f = map_of (rev (vmcs_image e vmm m)) f"

lemmas image_simps = image_at_def vmcs_image_def vmcs_enc Let_def

lemma image_host_selectors:
  "image_at e vmm m VMCS_HOST_ES = Some (ucast (r_es (m_cpu m)) AND NOT 7)"
  "image_at e vmm m VMCS_HOST_CS = Some (ucast (r_cs (m_cpu m)) AND NOT 7)"
  "image_at e vmm m VMCS_HOST_SS = Some (ucast (r_ss (m_cpu m)) AND NOT 7)"
  "image_at e vmm m VMCS_HOST_DS = Some (ucast (r_ds (m_cpu m)) AND NOT 7)"
  "image_at e vmm m VMCS_HOST_FS = Some (ucast (r_fs (m_cpu m)) AND NOT 7)"
  "image_at e vmm m VMCS_HOST_GS = Some (ucast (r_gs (m_cpu m)) AND NOT 7)"
  "image_at e vmm m VMCS_HOST_TR = Some (ucast (r_tr (m_cpu m)))"
  by (simp_all add: image_simps)

lemma image_host_registers:
  "image_at e vmm m VMCS_HOST_CR0 = Some (r_cr0 (m_cpu m))"
  "image_at e vmm m VMCS_HOST_CR3 = Some (r_cr3 (m_cpu m))"
  "image_at e vmm m VMCS_HOST_CR4 = Some (r_cr4 (m_cpu m))"
  "image_at e vmm m VMCS_HOST_GDTR_BASE = Some (base (r_gdtr (m_cpu m)))"
  "image_at e vmm m VMCS_HOST_IDTR_BASE = Some (base (r_idtr (m_cpu m)))"
  "image_at e vmm m VMCS_HOST_TR_BASE = Some (gdt_tr_base e m)"
  "image_at e vmm m VMCS_HOST_FS_BASE = Some (the (r_msrs (m_cpu m) IA32_FS_BASE))"
  "image_at e vmm m VMCS_HOST_GS_BASE = Some (the (r_msrs (m_cpu m) IA32_GS_BASE))"
  "image_at e vmm m VMCS_HOST_IA32_SYSENTER_CS = Some (ucast (ucast (the (r_msrs (m_cpu m) IA32_SYSENTER_CS)) :: u32))"
  "image_at e vmm m VMCS_HOST_IA32_SYSENTER_ESP = Some (the (r_msrs (m_cpu m) IA32_SYSENTER_ESP))"
  "image_at e vmm m VMCS_HOST_IA32_SYSENTER_EIP = Some (the (r_msrs (m_cpu m) IA32_SYSENTER_EIP))"
  "image_at e vmm m VMCS_HOST_RIP = Some (e_vmx_exit e)"
  "image_at e vmm m VMCS_HOST_RSP = None"
  by (simp_all add: image_simps)

lemma image_guest_registers:
  "image_at e vmm m VMCS_GUEST_CR0 = Some (r_cr0 (m_cpu m))"
  "image_at e vmm m VMCS_GUEST_CR3 = Some (r_cr3 (m_cpu m))"
  "image_at e vmm m VMCS_GUEST_CR4 = Some (r_cr4 (m_cpu m))"
  "image_at e vmm m VMCS_GUEST_RFLAGS = Some (r_rflags (m_cpu m))"
  "image_at e vmm m VMCS_GUEST_RIP = Some (e_guest_code e)"
  "image_at e vmm m VMCS_GUEST_GDTR_BASE = Some (base (r_gdtr (m_cpu m)))"
  "image_at e vmm m VMCS_GUEST_GDTR_LIMIT = Some (ucast (limit (r_gdtr (m_cpu m))))"
  "image_at e vmm m VMCS_GUEST_IDTR_BASE = Some (base (r_idtr (m_cpu m)))"
  "image_at e vmm m VMCS_GUEST_IDTR_LIMIT = Some (ucast (limit (r_idtr (m_cpu m))))"
  "image_at e vmm m VMCS_GUEST_FS_BASE = Some (the (r_msrs (m_cpu m) IA32_FS_BASE))"
  "image_at e vmm m VMCS_GUEST_GS_BASE = Some (the (r_msrs (m_cpu m) IA32_GS_BASE))"
  "image_at e vmm m VMCS_GUEST_TR_BASE = Some (gdt_tr_base e m)"
  "image_at e vmm m VMCS_GUEST_IA32_SYSENTER_CS = Some (ucast (ucast (the (r_msrs (m_cpu m) IA32_SYSENTER_CS)) :: u32))"
  "image_at e vmm m VMCS_GUEST_IA32_SYSENTER_ESP = Some (the (r_msrs (m_cpu m) IA32_SYSENTER_ESP))"
  "image_at e vmm m VMCS_GUEST_IA32_SYSENTER_EIP = Some (the (r_msrs (m_cpu m) IA32_SYSENTER_ESP))"
  by (simp_all add: image_simps)

lemma image_guest_selectors:
  "image_at e vmm m VMCS_GUEST_ES = Some (ucast (r_es (m_cpu m)))"
  "image_at e vmm m VMCS_GUEST_CS = Some (ucast (r_cs (m_cpu m)))"
  "image_at e vmm m VMCS_GUEST_SS = Some (ucast (r_ss (m_cpu m)))"
  "image_at e vmm m VMCS_GUEST_DS = Some (ucast (r_ds (m_cpu m)))"
  "image_at e vmm m VMCS_GUEST_FS = Some (ucast (r_fs (m_cpu m)))"
  "image_at e vmm m VMCS_GUEST_GS = Some (ucast (r_gs (m_cpu m)))"
  "image_at e vmm m VMCS_GUEST_LDTR = Some (ucast (r_ldtr (m_cpu m)))"
  "image_at e vmm m VMCS_GUEST_TR = Some (ucast (r_tr (m_cpu m)) AND NOT 7)"
  by (simp_all add: image_simps)

lemma image_guest_segments:
  "image_at e vmm m VMCS_GUEST_ES_ACCESS_RIGHTS = Some UNUSABLE_AR"
  "image_at e vmm m VMCS_GUEST_DS_ACCESS_RIGHTS = Some UNUSABLE_AR"
  "image_at e vmm m VMCS_GUEST_FS_ACCESS_RIGHTS = Some UNUSABLE_AR"
  "image_at e vmm m VMCS_GUEST_GS_ACCESS_RIGHTS = Some UNUSABLE_AR"
  "image_at e vmm m VMCS_GUEST_LDTR_ACCESS_RIGHTS = Some UNUSABLE_AR"
  "image_at e vmm m VMCS_GUEST_CS_ACCESS_RIGHTS = Some (get_segment_ar e (r_cs (m_cpu m)))"
  "image_at e vmm m VMCS_GUEST_SS_ACCESS_RIGHTS = Some (get_segment_ar e (r_ss (m_cpu m)))"
  "image_at e vmm m VMCS_GUEST_CS_LIMIT = Some (ucast (segment_limit e (r_cs (m_cpu m))))"
  "image_at e vmm m VMCS_GUEST_SS_LIMIT = Some (ucast (segment_limit e (r_ss (m_cpu m))))"
  by (simp_all add: image_simps)

text \<open>The access rights have none of the undefined bits, and the limit follows the granularity bit.\<close>

lemma get_segment_ar_bits:
  "get_segment_ar e s = ucast (drop_bit 8 (e_lar e s)) AND 0xf0ff" "get_segment_ar e s AND 0xf00 = 0" "get_segment_ar e s < 0x10000"
  "(ucast (segment_limit e s) :: u64) = (if bit (get_segment_ar e s) 15 then 0xffffffff else 0xffff)"
proof -
  show a: "get_segment_ar e s = ucast (drop_bit 8 (e_lar e s)) AND 0xf0ff"
    by (simp add: get_segment_ar_def asm_lar_def unsigned_and_eq)
  show "get_segment_ar e s AND 0xf00 = 0" unfolding a by (simp add: and.assoc)
  have "get_segment_ar e s \<le> 0xf0ff" unfolding a by (rule word_and_le1)
  then show "get_segment_ar e s < 0x10000" by (rule order.strict_trans1) simp
  show "(ucast (segment_limit e s) :: u64) = (if bit (get_segment_ar e s) 15 then 0xffffffff else 0xffff)"
    by (simp add: segment_limit_def and_BIT_zero)
qed

lemma vm_ctl_bit9:
  "VMCS_VMEXIT_CTL_HOST_ADDR_SPACE_SIZE = BIT 9" "VMCS_VMENTRY_CTL_IA32E_MODE_GUEST = BIT 9"
  by (simp_all add: bit_defs)

lemma image_controls:
  "image_at e vmm m VMCS_PIN_BASED_VM_CTLS = Some (ucast (pinbased_allowed0 vmm AND pinbased_allowed1 vmm))"
  "image_at e vmm m VMCS_PROC_BASED_VM_CTLS = Some (ucast (procbased_allowed0 vmm AND procbased_allowed1 vmm))"
  "image_at e vmm m VMCS_VMEXIT_CTLS =
     Some (ucast (exit_ctls_allowed0 vmm AND exit_ctls_allowed1 vmm) OR VMCS_VMEXIT_CTL_HOST_ADDR_SPACE_SIZE)"
  "image_at e vmm m VMCS_VMENTRY_CTLS =
     Some (ucast (entry_ctls_allowed0 vmm AND entry_ctls_allowed1 vmm) OR VMCS_VMENTRY_CTL_IA32E_MODE_GUEST)"
  by (simp_all add: image_simps)

lemma vmw_image_field:
  "vmcs_fields (m_vmx (vmw pa (rev (vmcs_image e vmm m)) m0)) pa f =
    (case image_at e vmm m f of None \<Rightarrow> vmcs_fields (m_vmx m0) pa f | Some v \<Rightarrow> v)"
  by (simp add: vmw_fields image_at_def)

section \<open>The fields that are written\<close>

text \<open>
  The fields of the header that software initialises before the first VM entry: all but the read-only ones, and
  but the host's stack pointer, which \<^verbatim>\<open>vmentry.S\<close> writes at each entry.
\<close>

definition vmcs_writable :: "u64 \<Rightarrow> bool" where
  "vmcs_writable f \<longleftrightarrow> f \<in> set vmcs_fields_declared \<and> enc_area f \<noteq> Read_Only \<and> f \<noteq> VMCS_HOST_RSP"

definition exit_fields :: "u64 list" where
  "exit_fields = [VMCS_VM_INSTRUCTION_ERROR, VMCS_EXIT_REASON, VMCS_VM_EXIT_INT_INFO, VMCS_VM_EXIT_INT_ECODE,
     VMCS_IDT_VECTORING_INFO, VMCS_IDT_VECTORING_ECODE, VMCS_VM_EXIT_INSTR_LENGTH, VMCS_VM_EXIT_INSTR_INFO,
     VMCS_EXIT_QUAL, VMCS_IO_RCX, VMCS_IO_RSI, VMCS_IO_RDI, VMCS_IO_RIP, VMCS_GUEST_LINADDR]"

lemma image_fields_declared: "list_all (\<lambda>f. f \<in> set vmcs_fields_declared) (map fst (vmcs_image e vmm m))"
  by (simp add: vmcs_image_def Let_def vmcs_fields_declared_def vmcs_layout_def)

lemma image_fields_area: "list_all (\<lambda>f. enc_area f \<noteq> Read_Only \<and> f \<noteq> VMCS_HOST_RSP) (map fst (vmcs_image e vmm m))"
  by (simp add: vmcs_image_def Let_def enc_area_def vmcs_enc)

lemma declared_in_image:
  "list_all (\<lambda>f. f \<in> set (map fst (vmcs_image e vmm m)) \<or> f = VMCS_HOST_RSP \<or> f \<in> set exit_fields) vmcs_fields_declared"
  by (simp add: vmcs_image_def Let_def vmcs_fields_declared_def vmcs_layout_def exit_fields_def)

lemma exit_fields_area: "list_all (\<lambda>f. enc_area f = Read_Only) exit_fields"
  by (simp add: exit_fields_def enc_area_def vmcs_enc)

lemma image_fields: "set (map fst (vmcs_image e vmm m)) = Collect vmcs_writable"
  using image_fields_declared [of e vmm m] image_fields_area [of e vmm m] declared_in_image [of e vmm m] exit_fields_area
  unfolding list_all_iff vmcs_writable_def by auto

lemma image_at_writable: "image_at e vmm m f = None \<longleftrightarrow> \<not> vmcs_writable f"
proof -
  have "vmcs_writable f \<longleftrightarrow> f \<in> fst ` set (rev (vmcs_image e vmm m))"
    using image_fields [of e vmm m] by auto
  then show ?thesis unfolding image_at_def map_of_eq_None_iff by simp
qed

lemma vmcs_image_old: "vmcs_image e vmm (set_vmx g m) = vmcs_image e vmm m"
  by (simp add: vmcs_image_def gdt_tr_base_def load64_def)

section \<open>The VMCS by the numbers of its fields\<close>

text \<open>
  What the VMCS is to contain, by the manual's numbering of the fields: for an area and a width, the numbers of the fields and their
  values.
\<close>

definition vmcs_table :: "env \<Rightarrow> vm_monitor \<Rightarrow> mstate \<Rightarrow> (vmcs_area \<times> vmcs_width \<times> nat list \<times> u64 list) list" where
  "vmcs_table e vmm m = (let c = m_cpu m; msr = (\<lambda>n. the (r_msrs c n));
       sysenter_cs = ucast (ucast (msr IA32_SYSENTER_CS) :: u32); no_limit = 0xffffffff
     in [
      (Guest_State, W16, [0..<8], [ucast (r_es c), ucast (r_cs c), ucast (r_ss c), ucast (r_ds c), ucast (r_fs c), ucast (r_gs c),
         ucast (r_ldtr c), ucast (r_tr c) AND NOT 7]),
      (Guest_State, W64, [0..<2], [0xffffffffffffffff, 0]),
      (Guest_State, W32, [0..<22], [no_limit, ucast (segment_limit e (r_cs c)), ucast (segment_limit e (r_ss c)), no_limit, no_limit,
         no_limit, no_limit, ucast (e_lsl e (r_tr c)), ucast (limit (r_gdtr c)), ucast (limit (r_idtr c)),
         UNUSABLE_AR, get_segment_ar e (r_cs c), get_segment_ar e (r_ss c), UNUSABLE_AR, UNUSABLE_AR, UNUSABLE_AR, UNUSABLE_AR,
         get_segment_ar e (r_tr c), 0, 0, 0, sysenter_cs]),
      (Guest_State, Natural, [0..<20], [r_cr0 c, r_cr3 c, r_cr4 c, 0, 0, 0, 0, msr IA32_FS_BASE, msr IA32_GS_BASE, 0, gdt_tr_base e m,
         base (r_gdtr c), base (r_idtr c), 0x400, 0, e_guest_code e, r_rflags c, 0, msr IA32_SYSENTER_ESP, msr IA32_SYSENTER_ESP]),
      (Host_State, W16, [0..<7], map (\<lambda>s. ucast s AND NOT 7) [r_es c, r_cs c, r_ss c, r_ds c, r_fs c, r_gs c] @ [ucast (r_tr c)]),
      (Host_State, W32, [0..<1], [sysenter_cs]),
      (Host_State, Natural, [0..<10] @ [11], [r_cr0 c, r_cr3 c, r_cr4 c, msr IA32_FS_BASE, msr IA32_GS_BASE, gdt_tr_base e m,
         base (r_gdtr c), base (r_idtr c), msr IA32_SYSENTER_ESP, msr IA32_SYSENTER_EIP, e_vmx_exit e]),
      (Control, W64, [0, 1, 6, 8], [vp_pa (io_bitmap_a vmm), vp_pa (io_bitmap_b vmm), 0, 0]),
      (Control, W32, [0..<14], [ucast (pinbased_allowed0 vmm AND pinbased_allowed1 vmm),
         ucast (procbased_allowed0 vmm AND procbased_allowed1 vmm), 0xffffffff, 0, 0, 0,
         ucast (exit_ctls_allowed0 vmm AND exit_ctls_allowed1 vmm) OR BIT 9, 0, 0,
         ucast (entry_ctls_allowed0 vmm AND entry_ctls_allowed1 vmm) OR BIT 9, 0, 0, 0, 0]),
      (Control, Natural, [0..<8], [0, 0, 0, 0, 0, 0, 0, 0])])"

lemma host_natural_numbers:
  "map (encoding Host_State Natural) ([0..<10] @ [11]) = [VMCS_HOST_CR0, VMCS_HOST_CR3, VMCS_HOST_CR4, VMCS_HOST_FS_BASE,
     VMCS_HOST_GS_BASE, VMCS_HOST_TR_BASE, VMCS_HOST_GDTR_BASE, VMCS_HOST_IDTR_BASE, VMCS_HOST_IA32_SYSENTER_ESP,
     VMCS_HOST_IA32_SYSENTER_EIP, VMCS_HOST_RIP]"
  by code_simp

lemma image_zero_guest:
  "image_at e vmm m VMCS_GUEST_ES_BASE = Some 0" "image_at e vmm m VMCS_GUEST_CS_BASE = Some 0"
  "image_at e vmm m VMCS_GUEST_SS_BASE = Some 0" "image_at e vmm m VMCS_GUEST_DS_BASE = Some 0"
  "image_at e vmm m VMCS_GUEST_LDTR_BASE = Some 0" "image_at e vmm m VMCS_GUEST_RSP = Some 0"
  "image_at e vmm m VMCS_GUEST_PENDING_DBG_EXCEPTION = Some 0" "image_at e vmm m VMCS_GUEST_INTERRUPTIBILITY_STATE = Some 0"
  "image_at e vmm m VMCS_GUEST_ACTIVITY_STATE = Some 0" "image_at e vmm m VMCS_GUEST_SMBASE = Some 0"
  "image_at e vmm m VMCS_GUEST_IA32_DEBUGCTL = Some 0"
  by (simp_all add: image_simps)

lemma image_zero_controls:
  "image_at e vmm m VMCS_EXEC_VMCS_PTR = Some 0" "image_at e vmm m VMCS_TSC_OFFSET = Some 0"
  "image_at e vmm m VMCS_PF_ECODE_MASK = Some 0" "image_at e vmm m VMCS_PF_ECODE_MATCH = Some 0"
  "image_at e vmm m VMCS_CR3_TARGET_CNT = Some 0" "image_at e vmm m VMCS_VMEXIT_MSR_STORE_CNT = Some 0"
  "image_at e vmm m VMCS_VMEXIT_MSR_LOAD_CNT = Some 0" "image_at e vmm m VMCS_VMENTRY_MSR_LOAD_CNT = Some 0"
  "image_at e vmm m VMCS_VMENTRY_INT_INFO = Some 0" "image_at e vmm m VMCS_VMENTRY_ECODE = Some 0"
  "image_at e vmm m VMCS_VMENTRY_INSTR_LEN = Some 0" "image_at e vmm m VMCS_CR0_GUEST_HOST_MASK = Some 0"
  "image_at e vmm m VMCS_CR0_READ_SHADOW = Some 0" "image_at e vmm m VMCS_CR4_GUEST_HOST_MASK = Some 0"
  "image_at e vmm m VMCS_CR4_READ_SHADOW = Some 0" "image_at e vmm m VMCS_CR3_TARGET_VALUE_0 = Some 0"
  "image_at e vmm m VMCS_CR3_TARGET_VALUE_1 = Some 0" "image_at e vmm m VMCS_CR3_TARGET_VALUE_2 = Some 0"
  "image_at e vmm m VMCS_CR3_TARGET_VALUE_3 = Some 0"
  by (simp_all add: image_simps)

lemma image_constants:
  "image_at e vmm m VMCS_GUEST_ES_LIMIT = Some 0xffffffff" "image_at e vmm m VMCS_GUEST_DS_LIMIT = Some 0xffffffff"
  "image_at e vmm m VMCS_GUEST_FS_LIMIT = Some 0xffffffff" "image_at e vmm m VMCS_GUEST_GS_LIMIT = Some 0xffffffff"
  "image_at e vmm m VMCS_GUEST_LDTR_LIMIT = Some 0xffffffff" "image_at e vmm m VMCS_EXCEPTION_BITMAP = Some 0xffffffff"
  "image_at e vmm m VMCS_VMCS_LINK_PTR = Some 0xffffffffffffffff" "image_at e vmm m VMCS_GUEST_DR7 = Some 0x400"
  "image_at e vmm m VMCS_IO_BITMAP_A_ADDR = Some (vp_pa (io_bitmap_a vmm))"
  "image_at e vmm m VMCS_IO_BITMAP_B_ADDR = Some (vp_pa (io_bitmap_b vmm))"
  "image_at e vmm m VMCS_GUEST_TR_LIMIT = Some (ucast (e_lsl e (r_tr (m_cpu m))))"
  "image_at e vmm m VMCS_GUEST_TR_ACCESS_RIGHTS = Some (get_segment_ar e (r_tr (m_cpu m)))"
  by (simp_all add: image_simps)

lemmas image_lookups = image_host_selectors image_host_registers(1-12) image_guest_registers image_guest_selectors
  image_guest_segments image_controls image_zero_guest image_zero_controls image_constants

lemma image_table:
  "list_all (\<lambda>(a, w, ks, vs). map (image_at e vmm m) (map (encoding a w) ks) = map Some vs) (vmcs_table e vmm m)"
  unfolding vmcs_table_def Let_def list.pred_inject prod.case layout_numbers host_natural_numbers
  by (simp only: list.map append.simps image_lookups vm_ctl_bit9 simp_thms list.pred_inject)

lemma image_values:
  "map (image_at e vmm m) fs = map Some vs \<Longrightarrow>
    map (vmcs_fields (m_vmx (vmw pa (rev (vmcs_image e vmm m)) m0)) pa) fs = vs"
  by (induction fs arbitrary: vs) (auto simp: vmw_image_field)

text \<open>Every value fits the width of its field.\<close>

lemma fits_narrow:
  "drop_bit 16 (ucast (x :: u16) :: u64) = 0" "drop_bit 16 (ucast (x :: u16) AND NOT 7 :: u64) = 0"
  "drop_bit 32 (ucast (y :: u32) :: u64) = 0" "drop_bit 32 (ucast (y :: u32) OR BIT 9 :: u64) = 0"
  "drop_bit 32 (ucast (x :: u16) :: u64) = 0" "drop_bit 64 (z :: u64) = 0" "drop_bit 32 (get_segment_ar e s) = 0"
  unfolding get_segment_ar_bits(1) by (rule bit_word_eqI; auto simp: bit_simps BIT_def dest: bit_imp_le_length)+

lemma image_values_fit: "list_all (\<lambda>(f, v). drop_bit (enc_bits f) v = 0) (vmcs_image e vmm m)"
  unfolding vmcs_image_def Let_def list.pred_inject prod.case vm_ctl_bit9
  by (simp add: enc_bits_def enc_width_def vmcs_enc fits_narrow UNUSABLE_AR_def BIT_def)

lemma image_fits:
  assumes "vmcs_writable f"
  shows "drop_bit (enc_bits f) (vmcs_fields (m_vmx (vmw pa (rev (vmcs_image e vmm m)) m0)) pa f) = 0"
proof -
  obtain v where v: "image_at e vmm m f = Some v" using assms image_at_writable [of e vmm m f] by blast
  then have "(f, v) \<in> set (vmcs_image e vmm m)" unfolding image_at_def by (auto dest: map_of_SomeD)
  then show ?thesis using image_values_fit [of e vmm m] v by (auto simp: list_all_iff vmw_image_field)
qed

section \<open>Control fields\<close>

text \<open>A control has every bit of \<open>a0\<close> and no bit outside \<open>a1\<close>.\<close>

definition ctl_ok :: "u32 \<Rightarrow> u32 \<Rightarrow> u64 \<Rightarrow> bool" where
  "ctl_ok a0 a1 v \<longleftrightarrow> v AND ucast a0 = ucast a0 \<and> v AND NOT (ucast a1) = 0"

text \<open>
  The documentation: a bit that must be 1 may be 1.  The two bits that the monitor sets beyond those
  must be allowed.
\<close>

definition consistent_ctls :: "vm_monitor \<Rightarrow> bool" where
  "consistent_ctls vmm \<longleftrightarrow>
     pinbased_allowed0 vmm AND pinbased_allowed1 vmm = pinbased_allowed0 vmm \<and>
     procbased_allowed0 vmm AND procbased_allowed1 vmm = procbased_allowed0 vmm \<and>
     exit_ctls_allowed0 vmm AND exit_ctls_allowed1 vmm = exit_ctls_allowed0 vmm \<and> bit (exit_ctls_allowed1 vmm) 9 \<and>
     entry_ctls_allowed0 vmm AND entry_ctls_allowed1 vmm = entry_ctls_allowed0 vmm \<and> bit (entry_ctls_allowed1 vmm) 9"

lemma sub_bits:
  assumes "a AND b = (a :: u32)"
  shows "bit a n \<Longrightarrow> bit b n"
  using assms by (metis bit_and_iff)

lemma ctl_ok_and:
  assumes "a0 AND a1 = a0"
  shows "ctl_ok a0 a1 (ucast (a0 AND a1))"
  unfolding ctl_ok_def using sub_bits [OF assms]
  by (auto intro!: bit_word_eqI simp: bit_simps)

lemma ctl_ok_and_bit9:
  assumes "a0 AND a1 = a0" and "bit a1 9"
  shows "ctl_ok a0 a1 (ucast (a0 AND a1) OR BIT 9)"
  unfolding ctl_ok_def using sub_bits [OF assms(1)] assms(2)
  by (auto intro!: bit_word_eqI simp: bit_simps)

section \<open>The base of the task register\<close>

text \<open>
  A system-segment descriptor of 64-bit mode: 16 bits of the limit, 24 bits of the base, 16 bits of
  attributes, 8 more bits of the base; then the high half of the base and a reserved half.
\<close>

definition sys_desc_lo :: "u64 \<Rightarrow> u64 \<Rightarrow> u64 \<Rightarrow> u64" where
  "sys_desc_lo lim attr b =
     take_bit 16 lim OR push_bit 16 (take_bit 24 b) OR push_bit 40 (take_bit 16 attr) OR push_bit 56 (drop_bit 24 b)"

definition sys_desc_hi :: "u64 \<Rightarrow> u64 \<Rightarrow> u64" where
  "sys_desc_hi rsv b = drop_bit 32 b OR push_bit 32 rsv"

lemma tr_base_decodes: "tr_base (sys_desc_lo lim attr b) (sys_desc_hi rsv b) = b"
proof -
  have m: "(0xffffff :: u64) = mask 24" "(0xff :: u64) = mask 8" by (simp_all add: mask_eq_exp_minus_1)
  show ?thesis
    unfolding tr_base_def sys_desc_lo_def sys_desc_hi_def Let_def m
  proof (rule bit_word_eqI, goal_cases)
    case (1 n)
    then show ?case
      by (cases "n < 24"; cases "n < 32") (auto simp: bit_simps)
  qed
qed

end
