(* ===== verification/Vmx_Run.thy ===== *)
theory Vmx_Run
  imports Vmx_Measure
begin

text \<open>
  What the VM entries of a measurement do to the machine.  After \<open>initialize_vmcs\<close> the host-state area
  holds the registers of the processor, so every VM exit loads the same state, \<open>after_exit\<close>; this is an
  invariant of VMLAUNCH and of any number of VMRESUMEs.  The loops are unrolled to the states between their
  rounds, and the numbers they record to sums of cycles.
\<close>

section \<open>The state a VM exit loads\<close>

lemma ucast_mask_rpl: "(ucast ((ucast s :: u64) AND NOT 7) :: u16) = s AND NOT 7"
  by (rule bit_word_eqI) (simp add: bit_simps)

lemma ucast_up_down: "(ucast (ucast s :: u64) :: u16) = s"
  by (rule bit_word_eqI) (simp add: bit_simps)

text \<open>
  What is left of a VM exit once the descriptor-table registers are back: the low three bits of the selectors
  are gone, LDTR is null, the high half of IA32_SYSENTER_CS is zero, and DR7 and IA32_DEBUGCTL, which the program neither saves
  nor restores, have the values of a VM exit.
\<close>

definition exit_residue :: "cpu \<Rightarrow> cpu" where
  "exit_residue c = c\<lparr>r_es := r_es c AND NOT 7, r_cs := r_cs c AND NOT 7, r_ss := r_ss c AND NOT 7,
     r_ds := r_ds c AND NOT 7, r_fs := r_fs c AND NOT 7, r_gs := r_gs c AND NOT 7, r_ldtr := 0,
     r_dr7 := 0x400,
     r_msrs := (r_msrs c)(IA32_SYSENTER_CS \<mapsto> ucast (ucast (the (r_msrs c IA32_SYSENTER_CS)) :: u32), IA32_DEBUGCTL \<mapsto> 0)\<rparr>"

definition after_exit :: "cpu \<Rightarrow> cpu" where
  "after_exit c = (exit_residue c)\<lparr>r_gdtr := \<lparr>limit = 0xffff, base = base (r_gdtr c)\<rparr>,
     r_idtr := \<lparr>limit = 0xffff, base = base (r_idtr c)\<rparr>, r_rflags := 2\<rparr>"

text \<open>
  Only the debug registers are left on a host whose selectors have RPL 0 and come from the GDT, that has no LDT, and whose
  IA32_SYSENTER_CS fits in 32 bits.
\<close>

definition plain_host :: "cpu \<Rightarrow> bool" where
  "plain_host c \<longleftrightarrow> list_all (\<lambda>s. s AND 7 = 0) [r_es c, r_cs c, r_ss c, r_ds c, r_fs c, r_gs c] \<and> r_ldtr c = 0 \<and>
     (case r_msrs c IA32_SYSENTER_CS of None \<Rightarrow> False | Some v \<Rightarrow> drop_bit 32 v = 0)"

lemma ucast_low:
  fixes v :: u64
  assumes "drop_bit 32 v = 0"
  shows "ucast (ucast v :: u32) = v"
  using word_split_32 [of v] assms by simp

lemma exit_residue_plain:
  assumes "plain_host c"
  shows "exit_residue c = c\<lparr>r_dr7 := 0x400, r_msrs := (r_msrs c)(IA32_DEBUGCTL \<mapsto> 0)\<rparr>"
proof -
  obtain v where v: "r_msrs c IA32_SYSENTER_CS = Some v" "drop_bit 32 v = 0"
    using assms by (auto simp: plain_host_def split: option.splits)
  have z: "r_es c AND 7 = 0" "r_cs c AND 7 = 0" "r_ss c AND 7 = 0" "r_ds c AND 7 = 0" "r_fs c AND 7 = 0"
    "r_gs c AND 7 = 0" "r_ldtr c = 0"
    using assms by (simp_all add: plain_host_def)
  note s = z(1-6) [THEN and_zero_not]
  show ?thesis
    unfolding exit_residue_def s v(1) option.sel ucast_low [OF v(2)]
    using z(7) v(1) by (intro cpu.equality) (auto simp: fun_upd_idem)
qed

text \<open>The fields \<open>v\<close> hold the image.\<close>

definition image_in :: "env \<Rightarrow> vm_monitor \<Rightarrow> mstate \<Rightarrow> (u64 \<Rightarrow> u64) \<Rightarrow> bool" where
  "image_in e vmm mi v \<longleftrightarrow> (\<forall>f w. image_at e vmm mi f = Some w \<longrightarrow> v f = w)"

lemma host_msrs_same:
  assumes "host_msrs_present c"
  shows "(r_msrs c)(IA32_FS_BASE \<mapsto> the (r_msrs c IA32_FS_BASE), IA32_GS_BASE \<mapsto> the (r_msrs c IA32_GS_BASE),
    IA32_SYSENTER_CS \<mapsto> x, IA32_SYSENTER_ESP \<mapsto> the (r_msrs c IA32_SYSENTER_ESP),
    IA32_SYSENTER_EIP \<mapsto> the (r_msrs c IA32_SYSENTER_EIP), IA32_DEBUGCTL \<mapsto> 0) = (r_msrs c)(IA32_SYSENTER_CS \<mapsto> x, IA32_DEBUGCTL \<mapsto> 0)"
  using assms by (auto simp: host_msrs_present_def fun_eq_iff msr_enc)

lemma load_image:
  assumes v: "image_in e vmm mi v" and "v VMCS_HOST_RSP = r_rsp (m_cpu mi)"
    and p: "host_msrs_present (m_cpu mi)"
    and c: "c = (m_cpu mi)\<lparr>r_tsc := t\<rparr> \<or> c = (after_exit (m_cpu mi))\<lparr>r_tsc := t\<rparr>"
  shows "load_host_state v c = (after_exit (m_cpu mi))\<lparr>r_tsc := t\<rparr>"
proof -
  have h: "v f = w" if "image_at e vmm mi f = Some w" for f w
    using v that by (simp add: image_in_def)
  note fields = image_host_selectors [THEN h] image_host_registers(1-12) [THEN h] assms(2)
  have m: "(r_msrs c)(IA32_FS_BASE \<mapsto> the (r_msrs (m_cpu mi) IA32_FS_BASE), IA32_GS_BASE \<mapsto> the (r_msrs (m_cpu mi) IA32_GS_BASE),
    IA32_SYSENTER_CS \<mapsto> x, IA32_SYSENTER_ESP \<mapsto> the (r_msrs (m_cpu mi) IA32_SYSENTER_ESP),
    IA32_SYSENTER_EIP \<mapsto> the (r_msrs (m_cpu mi) IA32_SYSENTER_EIP), IA32_DEBUGCTL \<mapsto> 0) =
    (r_msrs (m_cpu mi))(IA32_SYSENTER_CS \<mapsto> x, IA32_DEBUGCTL \<mapsto> 0)" for x
    using c host_msrs_same [OF p, of x] p
    by (auto simp: after_exit_def exit_residue_def fun_eq_iff host_msrs_present_def msr_enc)
  show ?thesis
    unfolding load_host_state_def fields m ucast_mask_rpl ucast_up_down
    using c by (elim disjE) (auto simp: after_exit_def exit_residue_def intro!: cpu.equality)
qed

section \<open>The invariant of the VM entries\<close>

lemma image_none:
  "image_at e vmm m VMCS_HOST_RSP = None" "image_at e vmm m VMCS_EXIT_REASON = None"
  "image_at e vmm m VMCS_VM_INSTRUCTION_ERROR = None"
  by (simp_all add: image_simps)

lemma image_in_upd: "image_at e vmm mi f = None \<Longrightarrow> image_in e vmm mi v \<Longrightarrow> image_in e vmm mi (v(f := x))"
  by (auto simp: image_in_def)

text \<open>The processor is as a VM exit left it, or as it was before the first VM entry, but for the time.\<close>

definition exited :: "mstate \<Rightarrow> mstate \<Rightarrow> bool" where
  "exited mi m \<longleftrightarrow> (\<exists>t. m_cpu m = (after_exit (m_cpu mi))\<lparr>r_tsc := t\<rparr>)"

definition untouched :: "mstate \<Rightarrow> mstate \<Rightarrow> bool" where
  "untouched mi m \<longleftrightarrow> (\<exists>t. m_cpu m = (m_cpu mi)\<lparr>r_tsc := t\<rparr>)"

definition run_inv :: "env \<Rightarrow> vm_monitor \<Rightarrow> mstate \<Rightarrow> u64 \<Rightarrow> mstate \<Rightarrow> bool" where
  "run_inv e vmm mi pa m \<longleftrightarrow>
     has_vmcs e pa m \<and> vmxon_ptr (m_vmx m) = vmxon_ptr (m_vmx mi) \<and> m_mem m = m_mem mi \<and>
     image_in e vmm mi (vmcs_fields (m_vmx m) pa) \<and> (untouched mi m \<or> exited mi m)"

lemma run_inv_rsp: "run_inv e vmm mi pa m \<Longrightarrow> r_rsp (m_cpu m) = r_rsp (m_cpu mi)"
  by (auto simp: run_inv_def untouched_def exited_def after_exit_def exit_residue_def)

lemma run_inv_vmcs: "run_inv e vmm mi pa m \<Longrightarrow> has_vmcs e pa m"
  by (simp add: run_inv_def)

lemma vm_exit_exited:
  assumes r: "run_inv e vmm mi pa m" and p: "host_msrs_present (m_cpu mi)"
  shows "exited mi (vm_exit pa x (tick e (set_vmcs_field pa VMCS_HOST_RSP (r_rsp (m_cpu m)) m)))"
proof -
  let ?m = "tick e (set_vmcs_field pa VMCS_HOST_RSP (r_rsp (m_cpu m)) m)"
  let ?v = "(vmcs_fields (m_vmx ?m) pa)(VMCS_EXIT_REASON := ucast x)"
  have "image_in e vmm mi ?v"
    using r by (auto simp: run_inv_def frame vmcs_fields_set intro!: image_in_upd image_none)
  moreover have "?v VMCS_HOST_RSP = r_rsp (m_cpu mi)"
    using run_inv_rsp [OF r] by (simp add: frame vmcs_fields_set vmcs_enc)
  moreover have "\<exists>t. m_cpu ?m = (m_cpu mi)\<lparr>r_tsc := t\<rparr> \<or> m_cpu ?m = (after_exit (m_cpu mi))\<lparr>r_tsc := t\<rparr>"
    using r by (auto simp: run_inv_def untouched_def exited_def tick_def frame)
  ultimately show ?thesis
    using load_image [OF _ _ p] unfolding exited_def vm_exit_cpu by blast
qed

lemma vm_enter_keeps:
  assumes r: "run_inv e vmm mi pa m" and p: "host_msrs_present (m_cpu mi)"
  shows "run_inv e vmm mi pa (snd (vm_enter e l pa m))"
    and "fst (vm_enter e l pa m) = 0 \<Longrightarrow> exited mi (snd (vm_enter e l pa m))"
    and "exited mi m \<Longrightarrow> exited mi (snd (vm_enter e l pa m))"
    and "m_os (snd (vm_enter e l pa m)) = m_os m"
proof -
  let ?m = "set_vmcs_field pa VMCS_HOST_RSP (r_rsp (m_cpu m)) m"
  have u: "untouched mi (tick e ?m) \<or> exited mi (tick e ?m)" "exited mi m \<Longrightarrow> exited mi (tick e ?m)"
    using r by (auto simp: run_inv_def untouched_def exited_def tick_def frame)
  have i: "image_in e vmm mi ((vmcs_fields (m_vmx m) pa)(VMCS_HOST_RSP := a, VMCS_VM_INSTRUCTION_ERROR := b))"
    "image_in e vmm mi ((vmcs_fields (m_vmx m) pa)(VMCS_HOST_RSP := a, VMCS_EXIT_REASON := b))" for a b
    using r by (auto simp: run_inv_def intro!: image_in_upd image_none)
  have h: "vmcs_fields (m_vmx m) pa VMCS_HOST_RIP = e_vmx_exit e" "vmx_on (m_vmx m)" "cur_vmcs (m_vmx m) = Some pa"
    using r by (simp_all add: run_inv_def has_vmcs_def)
  have k: "vmxon_ptr (m_vmx m) = vmxon_ptr (m_vmx mi)" "m_mem m = m_mem mi"
    using r by (simp_all add: run_inv_def)
  have nz: "VMCS_HOST_RIP \<noteq> VMCS_HOST_RSP" "VMCS_HOST_RIP \<noteq> VMCS_VM_INSTRUCTION_ERROR"
    "VMCS_HOST_RIP \<noteq> VMCS_EXIT_REASON"
    by (simp_all add: vmcs_enc)
  note x = vm_exit_exited [OF r p]
  have ux: "untouched mi (set_vmcs_field pa f v n) = untouched mi n" "exited mi (set_vmcs_field pa f v n) = exited mi n"
    for f v n by (simp_all add: untouched_def exited_def frame)
  have ul: "exited mi (n\<lparr>m_vmx := y\<rparr>) = exited mi n" for n y
    by (simp add: exited_def)
  show "run_inv e vmm mi pa (snd (vm_enter e l pa m))"
    using u i h k x nz
    by (auto simp: vm_enter_def Let_def run_inv_def has_vmcs_def frame vmcs_fields_set ux ul split: entry_outcome.splits)
  show "fst (vm_enter e l pa m) = 0 \<Longrightarrow> exited mi (snd (vm_enter e l pa m))"
    using x by (auto simp: vm_enter_def Let_def ux ul split: entry_outcome.splits if_splits)
  show "exited mi m \<Longrightarrow> exited mi (snd (vm_enter e l pa m))"
    using x u by (auto simp: vm_enter_def Let_def ux ul split: entry_outcome.splits if_splits)
  show "m_os (snd (vm_enter e l pa m)) = m_os m"
    by (simp add: vm_enter_def Let_def frame split: entry_outcome.splits)
qed

section \<open>The loops\<close>

definition resume_iter :: "env \<Rightarrow> u64 \<Rightarrow> nat \<Rightarrow> mstate \<Rightarrow> mstate" where
  "resume_iter e pa k m = ((\<lambda>m. snd (vm_enter e False pa m)) ^^ k) m"

lemma resume_iter_simps [simp]:
  "resume_iter e pa 0 m = m"
  "resume_iter e pa (Suc k) m = resume_iter e pa k (snd (vm_enter e False pa m))"
  by (simp_all add: resume_iter_def funpow_Suc_right del: funpow.simps)

lemma resume_iter_add: "resume_iter e pa (i + k) m = resume_iter e pa k (resume_iter e pa i m)"
  by (simp add: resume_iter_def funpow_add add.commute [of i k])

lemma vm_enter_has_vmcs:
  assumes "has_vmcs e pa m"
  shows "has_vmcs e pa (snd (vm_enter e l pa m))"
  using assms
  by (auto simp: vm_enter_def Let_def has_vmcs_def frame vmcs_fields_set vmcs_enc split: entry_outcome.splits)

lemma resume_iter_has_vmcs: "has_vmcs e pa m \<Longrightarrow> has_vmcs e pa (resume_iter e pa k m)"
  by (induction k arbitrary: m) (auto simp: vm_enter_has_vmcs)

lemma resume_loop_iter:
  assumes "has_vmcs e pa m"
  shows "resume_loop e n i m = Some (resume_iter e pa (unat (BIT n) - i) m)"
  using assms
proof (induction "unat (BIT n) - i" arbitrary: i m)
  case 0
  then show ?case by (simp add: resume_loop.simps [of e n i])
next
  case (Suc k)
  then have i: "i < unat (BIT n)" "k = unat (BIT n) - (i + 1)" by linarith+
  have "resume_loop e n (i + 1) (snd (vm_enter e False pa m)) =
      Some (resume_iter e pa (unat (BIT n) - (i + 1)) (snd (vm_enter e False pa m)))"
    by (rule Suc.hyps(1) [OF i(2) vm_enter_has_vmcs [OF Suc.prems]])
  moreover have "unat (BIT n) - i = Suc (unat (BIT n) - (i + 1))" using i by linarith
  ultimately show ?case
    using i by (simp add: resume_loop.simps [of e n i] do_vmresume_eq [OF Suc.prems] split_beta)
qed

text \<open>The state before round \<open>n\<close>, and what round \<open>n\<close> records.\<close>

fun round_state :: "env \<Rightarrow> u64 \<Rightarrow> nat \<Rightarrow> mstate \<Rightarrow> mstate" where
  "round_state e pa 0 m = m"
| "round_state e pa (Suc n) m = resume_iter e pa (2 ^ n) (round_state e pa n m)"

definition round_stat :: "env \<Rightarrow> u64 \<Rightarrow> nat \<Rightarrow> mstate \<Rightarrow> u64" where
  "round_stat e pa n m =
     (r_tsc (m_cpu (round_state e pa (Suc n) m)) - r_tsc (m_cpu (round_state e pa n m))) div BIT n"

lemma round_state_has_vmcs: "has_vmcs e pa m \<Longrightarrow> has_vmcs e pa (round_state e pa n m)"
  by (induction n) (auto simp: resume_iter_has_vmcs)

lemma round_state_iter: "round_state e pa n m = resume_iter e pa (2 ^ n - 1) m"
proof (induction n)
  case (Suc n)
  have "(2 ^ n - 1) + 2 ^ n = (2 ^ Suc n - 1 :: nat)" by simp
  then show ?case using Suc resume_iter_add [of e pa "2 ^ n - 1" "2 ^ n" m] by simp
qed simp

lemma measure_loop_rounds:
  assumes "has_vmcs e pa m" and "length stats = VMX_ITERATIONS" and "n \<le> VMX_ITERATIONS"
    and "take n stats = map (\<lambda>k. Some (round_stat e pa k m)) [0..<n]"
  shows "measure_loop e n stats (round_state e pa n m) =
    Some (map (\<lambda>k. Some (round_stat e pa k m)) [0..<VMX_ITERATIONS], round_state e pa VMX_ITERATIONS m)"
  using assms
proof (induction "VMX_ITERATIONS - n" arbitrary: n stats)
  case 0
  then show ?case by (simp add: measure_loop.simps [of e VMX_ITERATIONS])
next
  case (Suc k)
  then have n: "n < VMX_ITERATIONS" "k = VMX_ITERATIONS - (n + 1)" by linarith+
  let ?s = "stats[n := Some (round_stat e pa n m)]"
  have "n < 64" using n by (simp add: VMX_ITERATIONS_def)
  then have r: "resume_loop e n 0 (round_state e pa n m) = Some (round_state e pa (Suc n) m)"
    using resume_loop_iter [OF round_state_has_vmcs [OF Suc.prems(1)], of n 0 n] unat_BIT [of n] by simp
  have "take (n + 1) ?s = map (\<lambda>k. Some (round_stat e pa k m)) [0..<n + 1]"
    using Suc.prems n by (simp add: take_Suc_conv_app_nth)
  then have "measure_loop e (n + 1) ?s (round_state e pa (n + 1) m) =
      Some (map (\<lambda>k. Some (round_stat e pa k m)) [0..<VMX_ITERATIONS], round_state e pa VMX_ITERATIONS m)"
    using Suc.prems n by (intro Suc.hyps(1)) auto
  then show ?case
    using n r by (simp add: measure_loop.simps [of e n] Let_def round_stat_def)
qed

lemma measure_loop_all:
  assumes "has_vmcs e pa m"
  shows "measure_loop e 0 (replicate VMX_ITERATIONS None) m =
    Some (map (\<lambda>k. Some (round_stat e pa k m)) [0..<VMX_ITERATIONS], round_state e pa VMX_ITERATIONS m)"
  using measure_loop_rounds [OF assms, of "replicate VMX_ITERATIONS None" 0] by simp

section \<open>Cycles\<close>

definition entry_cycles :: "env \<Rightarrow> u64 \<Rightarrow> mstate \<Rightarrow> u64" where
  "entry_cycles e pa m = e_cycles e (set_vmcs_field pa VMCS_HOST_RSP (r_rsp (m_cpu m)) m)"

definition total_cycles :: "env \<Rightarrow> u64 \<Rightarrow> nat \<Rightarrow> mstate \<Rightarrow> nat" where
  "total_cycles e pa k m = (\<Sum>i<k. unat (entry_cycles e pa (resume_iter e pa i m)))"

lemma vm_enter_tsc:
  "r_tsc (m_cpu (snd (vm_enter e l pa m))) = r_tsc (m_cpu m) + entry_cycles e pa m"
  by (simp add: vm_enter_def Let_def frame vm_exit_cpu load_host_state_def tick_def entry_cycles_def
      split: entry_outcome.splits)

lemma resume_iter_tsc:
  "r_tsc (m_cpu (resume_iter e pa k m)) = r_tsc (m_cpu m) + of_nat (total_cycles e pa k m)"
proof (induction k)
  case (Suc k)
  have "resume_iter e pa (Suc k) m = snd (vm_enter e False pa (resume_iter e pa k m))"
    using resume_iter_add [of e pa k 1 m] by simp
  then show ?case using Suc by (simp add: vm_enter_tsc total_cycles_def)
qed (simp add: total_cycles_def)

lemma round_stat_mean:
  assumes "n < 64" and "total_cycles e pa (2 ^ n) (round_state e pa n m) < 2 ^ 64"
  shows "unat (round_stat e pa n m) = total_cycles e pa (2 ^ n) (round_state e pa n m) div 2 ^ n"
proof -
  have "unat (of_nat (total_cycles e pa (2 ^ n) (round_state e pa n m)) :: u64) =
      total_cycles e pa (2 ^ n) (round_state e pa n m)"
    using assms(2) by (simp add: unsigned_of_nat take_bit_nat_eq_self)
  then show ?thesis
    using assms(1) by (simp add: round_stat_def resume_iter_tsc unat_div unat_BIT)
qed

lemma total_cycles_bounds:
  assumes "\<And>m. lo \<le> unat (e_cycles e m) \<and> unat (e_cycles e m) \<le> hi"
  shows "k * lo \<le> total_cycles e pa k m" and "total_cycles e pa k m \<le> k * hi"
proof -
  have "k * lo = (\<Sum>i<k. lo)" "k * hi = (\<Sum>i<k. hi)" by simp_all
  then show "k * lo \<le> total_cycles e pa k m" "total_cycles e pa k m \<le> k * hi"
    unfolding total_cycles_def using assms by (simp_all add: entry_cycles_def sum_mono del: sum_constant)
qed

text \<open>Averages are exact and between the bounds of the cycles, if a round fits in the counter.\<close>

lemma round_stat_exact:
  assumes c: "\<And>m. lo \<le> unat (e_cycles e m) \<and> unat (e_cycles e m) \<le> hi"
    and "hi < 2 ^ 44" and n: "n < VMX_ITERATIONS"
  shows "unat (round_stat e pa n m) = total_cycles e pa (2 ^ n) (resume_iter e pa (2 ^ n - 1) m) div 2 ^ n"
proof -
  let ?t = "total_cycles e pa (2 ^ n) (round_state e pa n m)"
  have n20: "n < 20" using n by (simp add: VMX_ITERATIONS_def)
  then have "(2::nat) ^ n \<le> 2 ^ 20" by (intro power_increasing) simp_all
  then have "2 ^ n * hi \<le> 2 ^ 20 * hi" by (rule mult_right_mono) simp
  then have "?t \<le> 2 ^ 20 * hi" using total_cycles_bounds(2) [OF c] by (rule order.trans [rotated])
  then have "?t < 2 ^ 64" using assms(2) by simp
  then show ?thesis using round_stat_mean n20 unfolding round_state_iter by simp
qed

lemma round_stat_bounds:
  assumes c: "\<And>m. lo \<le> unat (e_cycles e m) \<and> unat (e_cycles e m) \<le> hi"
    and "hi < 2 ^ 44" and n: "n < VMX_ITERATIONS"
  shows "lo \<le> unat (round_stat e pa n m) \<and> unat (round_stat e pa n m) \<le> hi"
proof -
  let ?t = "total_cycles e pa (2 ^ n) (resume_iter e pa (2 ^ n - 1) m)"
  have b: "2 ^ n * lo \<le> ?t" "?t \<le> 2 ^ n * hi" using total_cycles_bounds [OF c] by blast+
  have "lo = (2 ^ n * lo) div 2 ^ n" "hi = (2 ^ n * hi) div 2 ^ n" by simp_all
  then show ?thesis
    unfolding round_stat_exact [OF assms] using div_le_mono [OF b(1), of "2 ^ n"] div_le_mono [OF b(2), of "2 ^ n"] by simp
qed

end
