(* ===== verification/Vmx_Session.thy ===== *)
theory Vmx_Session
  imports Vmx_Run
begin

text \<open>
  The measurement as a whole.  The labels are shown to undo what has been done when they are reached; then each
  way through the function is followed to its end.  \<open>path\<close> names the ways, \<open>vmx_when\<close> says when each one is
  taken, \<open>session_end\<close> what it leaves behind.  All of it holds for every port of \<^verbatim>\<open>vmm/api.h\<close>.
\<close>

section \<open>Handlers and labels\<close>

definition exit_report :: "u64 \<Rightarrow> string list" where
  "exit_report v =
     (let r = v AND 0xffff
      in if r = 10 then []
         else [''Error: VM exit is not caused by CPUID. Basic exit reason '' @ fmt_int (uint r) @ nl])"

definition field_of :: "u64 \<Rightarrow> mstate \<Rightarrow> u64 \<Rightarrow> u64" where
  "field_of pa m f = vmcs_fields (m_vmx m) pa f"

lemma basic_exit_reason:
  fixes v :: u64
  shows "sint ((ucast v :: u32) AND 0xffff) = uint (v AND 0xffff)"
proof -
  have m: "(0xffff :: u32) = mask 16" "(0xffff :: u64) = mask 16" by (simp_all add: mask_eq_exp_minus_1)
  have w: "(ucast v :: u32) AND mask 16 = take_bit 16 (ucast v)" "v AND mask 16 = take_bit 16 v"
    by (simp_all add: take_bit_eq_mask)
  have u: "uint (take_bit 16 (ucast v :: u32)) = uint (take_bit 16 v)"
    by (simp add: unsigned_take_bit_eq unsigned_ucast_eq)
  have "uint (take_bit 16 v) < 2 ^ 16"
    using take_bit_int_less_exp [of 16 "uint v"] by (simp add: unsigned_take_bit_eq)
  moreover have "- 2147483648 \<le> uint (take_bit 16 v)"
    by (rule order.trans [OF _ uint_ge_0]) simp
  ultimately show ?thesis
    unfolding m w sint_uint u by (intro signed_take_bit_int_eq_self) simp_all
qed

context vmm_api
begin

lemma print_stats_log:
  assumes "length vs = VMX_ITERATIONS" and "n \<le> VMX_ITERATIONS"
  shows "\<exists>m'. print_stats pf n (map Some vs) m = Some m' \<and>
    log_step (map (\<lambda>k. result_line k (vs ! k)) [n..<VMX_ITERATIONS]) m m'"
  using assms
proof (induction "VMX_ITERATIONS - n" arbitrary: n m)
  case 0
  then show ?case by (simp add: print_stats.simps [of pf VMX_ITERATIONS])
next
  case (Suc k)
  then have n: "n < VMX_ITERATIONS" "k = VMX_ITERATIONS - (n + 1)" by linarith+
  obtain m1 where m1: "vmlatency_printk pf (result_line n (vs ! n)) m = Some m1"
    and l1: "log_step [result_line n (vs ! n)] m m1"
    using printk_log by blast
  obtain m2 where m2: "print_stats pf (n + 1) (map Some vs) m1 = Some m2"
    and l2: "log_step (map (\<lambda>k. result_line k (vs ! k)) [n + 1..<VMX_ITERATIONS]) m1 m2"
    using Suc.hyps(1) [OF n(2), of m1] Suc.prems n by auto
  show ?case
    using n m1 m2 Suc.prems log_step_trans [OF l1 l2]
    by (simp add: print_stats.simps [of pf n] upt_conv_Cons)
qed

lemma handle_vmexit_log:
  assumes "has_vmcs e pa m"
  shows "\<exists>m'. handle_vmexit pf m = Some (if field_of pa m VMCS_EXIT_REASON AND 0xffff = 10 then 0 else -1, m') \<and>
    log_step (exit_report (field_of pa m VMCS_EXIT_REASON)) m m'"
proof -
  let ?v = "field_of pa m VMCS_EXIT_REASON"
  have r: "asm_vmread VMCS_EXIT_REASON m = Some ?v"
    using assms by (simp add: asm_vmread_def insn_vmread_def has_vmcs_def field_of_def)
  have c: "uint (?v AND 0xffff) = 10 \<longleftrightarrow> ?v AND 0xffff = 10"
    by (simp add: word_uint_eq_iff)
  show ?thesis
    using printk_log [of "''Error: VM exit is not caused by CPUID. Basic exit reason '' @ fmt_int (uint (?v AND 0xffff)) @ nl" m]
    unfolding handle_vmexit_def r Let_def basic_exit_reason exit_report_def
    by (auto simp: c VMEXIT_CPUID_def)
qed

lemma handle_early_exit_log:
  assumes "has_vmcs e pa m"
  shows "\<exists>m'. handle_early_exit pf e m = Some m' \<and>
    log_step [''VM instruciton error: '' @ fmt_lx e (field_of pa m VMCS_VM_INSTRUCTION_ERROR) @ nl] m m'"
proof -
  have r: "asm_vmread VMCS_VM_INSTRUCTION_ERROR m = Some (field_of pa m VMCS_VM_INSTRUCTION_ERROR)"
    using assms by (simp add: asm_vmread_def insn_vmread_def has_vmcs_def field_of_def)
  show ?thesis
    unfolding handle_early_exit_def r
    using printk_log [of "''VM instruciton error: '' @ fmt_lx e (field_of pa m VMCS_VM_INSTRUCTION_ERROR) @ nl" m]
    by simp
qed

text \<open>The labels from the last one upwards, for a monitor that owns its five pages.\<close>

lemma out1_five:
  assumes "ledger_plus m0 (vmm_handles vmm) m"
  shows "\<exists>m'. measure_out1 pf vmm 5 m = Some m' \<and> page_ledger m' = page_ledger m0 \<and>
    os_step m m' \<and> m_mem m' = m_mem m \<and> klog m' = klog m"
  using free_memory_five [OF assms] by (auto simp: measure_out1_def)

end

text \<open>What the labels put back.\<close>

definition restored :: "mstate \<Rightarrow> mstate \<Rightarrow> mstate \<Rightarrow> mstate \<Rightarrow> bool" where
  "restored m0 m1 m m' \<longleftrightarrow>
     page_ledger m' = page_ledger m0 \<and> irq_ledger m' = irq_ledger m1 \<and> int_enabled m' = int_enabled m1 \<and>
     dev_ledger m' = dev_ledger m \<and> klog m' = klog m \<and> m_mem m' = m_mem m"

text \<open>CR4 after \<open>do_vmxoff\<close>.\<close>

definition vmxe_after :: "vm_monitor \<Rightarrow> u64 \<Rightarrow> u64" where
  "vmxe_after vmm v = (if old_vmxe vmm = 0 then v AND NOT CR4_VMXE else v)"

context vmm_api
begin

lemma out2_five:
  assumes l: "ledger_plus m0 (vmm_handles vmm) m"
    and d: "vmlatency_preempt_disable pf f m1 = Some (irq, m2)" and i: "irq_ledger m = irq_ledger m2"
  shows "\<exists>m' x. measure_out2 pf vmm 5 irq m = Some m' \<and> restored m0 m1 m m' \<and>
    m_vmx m' = m_vmx m \<and> m_cpu m' = (m_cpu m)\<lparr>r_rflags := x\<rparr>"
proof -
  obtain irq' m3 x where e3: "vmlatency_preempt_enable pf irq m = Some (irq', m3)"
    "int_enabled m3 = int_enabled m1" "irq_ledger m3 = irq_ledger m1" "m_cpu m3 = (m_cpu m)\<lparr>r_rflags := x\<rparr>"
    "m_vmx m3 = m_vmx m" "m_mem m3 = m_mem m" "page_ledger m3 = page_ledger m" "dev_ledger m3 = dev_ledger m"
    "klog m3 = klog m"
    using enable_ok [OF d i] by auto
  have "ledger_plus m0 (vmm_handles vmm) m3" using l e3 by (simp add: ledger_plus_def)
  then obtain m' where o: "measure_out1 pf vmm 5 m3 = Some m'" "page_ledger m' = page_ledger m0" "os_step m3 m'"
    "m_mem m' = m_mem m3" "klog m' = klog m3"
    using out1_five by blast
  have "m_cpu m' = m_cpu m3" "m_vmx m' = m_vmx m3" "irq_ledger m' = irq_ledger m3" "dev_ledger m' = dev_ledger m3"
    using o(3) by (simp_all add: os_step_def)
  then show ?thesis
    using o e3 by (intro exI [of _ m'] exI [of _ x]) (simp add: measure_out2_def restored_def int_enabled_def)
qed

lemma out3_five:
  assumes l: "ledger_plus m0 (vmm_handles vmm) m"
    and d: "vmlatency_preempt_disable pf f m1 = Some (irq, m2)" and i: "irq_ledger m = irq_ledger m2"
    and on: "our_vmxon vmm" "vmx_on (m_vmx m)"
  shows "\<exists>m' x. measure_out3 pf vmm 5 irq m = Some m' \<and> restored m0 m1 m m' \<and>
    m_vmx m' = (m_vmx m)\<lparr>vmx_on := False, cur_vmcs := None\<rparr> \<and>
    m_cpu m' = (m_cpu m)\<lparr>r_cr4 := vmxe_after vmm (r_cr4 (m_cpu m)), r_rflags := x\<rparr>"
proof -
  let ?m = "set_cpu (\<lambda>c. c\<lparr>r_cr4 := vmxe_after vmm (r_cr4 c)\<rparr>) (leave_vmx m)"
  have o: "do_vmxoff vmm m = Some ?m"
    using do_vmxoff_leaves [OF on] by (simp add: vmxe_after_def leave_vmx_def)
  have "ledger_plus m0 (vmm_handles vmm) ?m" "irq_ledger ?m = irq_ledger m2"
    using l i by (simp_all add: ledger_plus_def ledger_defs leave_vmx_def)
  from out2_five [OF this(1) d this(2)]
  obtain m' x where "measure_out2 pf vmm 5 irq ?m = Some m'" "restored m0 m1 ?m m'"
    "m_vmx m' = m_vmx ?m" "m_cpu m' = (m_cpu ?m)\<lparr>r_rflags := x\<rparr>"
    by blast
  then show ?thesis
    by (intro exI [of _ m'] exI [of _ x]) (simp add: measure_out3_def o restored_def leave_vmx_def ledger_defs)
qed

lemma out4_five:
  assumes l: "ledger_plus m0 (vmm_handles vmm) m"
    and d: "vmlatency_preempt_disable pf f m1 = Some (irq, m2)" and i: "irq_ledger m = irq_ledger m2"
    and on: "our_vmxon vmm" "vmx_on (m_vmx m)" and c: "cur_vmcs (m_vmx m) = Some (vp_pa (vmcs vmm))"
    and pa: "pa_ok e (vp_pa (vmcs vmm))" "vp_pa (vmcs vmm) \<noteq> vmxon_ptr (m_vmx m)"
  shows "\<exists>m' x. measure_out4 pf e vmm 5 irq hs m = Some m' \<and> restored m0 m1 m m' \<and>
    m_vmx m' = (m_vmx m)\<lparr>vmx_on := False, cur_vmcs := None,
      launched := (launched (m_vmx m))(vp_pa (vmcs vmm) := False)\<rparr> \<and>
    m_cpu m' = (m_cpu m)\<lparr>r_gdtr := hs_gdt hs, r_idtr := hs_idt hs,
      r_cr4 := vmxe_after vmm (r_cr4 (m_cpu m)), r_rflags := x\<rparr>"
proof -
  let ?r = "restore_host_state hs m"
  let ?m = "set_vmx (\<lambda>x. x\<lparr>launched := (launched x)(vp_pa (vmcs vmm) := False), cur_vmcs := None\<rparr>) ?r"
  have o: "do_vmclear pf e vmm ?r = Some (0, ?m)"
    by (rule do_vmclear_ok) (simp_all add: restore_host_state_eq on c pa)
  have "ledger_plus m0 (vmm_handles vmm) ?m" "irq_ledger ?m = irq_ledger m2" "vmx_on (m_vmx ?m)"
    using l i on by (simp_all add: ledger_plus_def ledger_defs restore_host_state_eq)
  from out3_five [OF this(1) d this(2) on(1) this(3)]
  obtain m' x where "measure_out3 pf vmm 5 irq ?m = Some m'" "restored m0 m1 ?m m'"
    "m_vmx m' = (m_vmx ?m)\<lparr>vmx_on := False, cur_vmcs := None\<rparr>"
    "m_cpu m' = (m_cpu ?m)\<lparr>r_cr4 := vmxe_after vmm (r_cr4 (m_cpu ?m)), r_rflags := x\<rparr>"
    by blast
  moreover have "measure_out4 pf e vmm 5 irq hs m = measure_out3 pf vmm 5 irq ?m"
    by (simp add: measure_out4_def o)
  ultimately show ?thesis
    by (intro exI [of _ m'] exI [of _ x]) (simp add: restored_def restore_host_state_eq ledger_defs)
qed

end

section \<open>The ways through the function\<close>

datatype path = Vmxon_refused | Vmptrld_refused | Vmlaunch_refused u64 | Measured u64 "u64 list"

fun path_messages :: "env \<Rightarrow> path \<Rightarrow> string list" where
  "path_messages e Vmxon_refused = [''VMXON failed'' @ nl]"
| "path_messages e Vmptrld_refused = [''VMPTRLD failed'' @ nl]"
| "path_messages e (Vmlaunch_refused n) =
     [''VMLAUNCH failed'' @ nl, ''VM instruciton error: '' @ fmt_lx e n @ nl]"
| "path_messages e (Measured r vs) = exit_report r"

text \<open>The processor afterwards, but for the flags and the time.\<close>

fun path_cpu :: "path \<Rightarrow> cpu \<Rightarrow> cpu" where
  "path_cpu Vmxon_refused c = c\<lparr>r_cr4 := r_cr4 c OR CR4_VMXE\<rparr>"
| "path_cpu Vmptrld_refused c = c"
| "path_cpu (Vmlaunch_refused n) c = c"
| "path_cpu (Measured r vs) c = exit_residue c"

fun path_stats :: "path \<Rightarrow> bool \<times> u64 option list" where
  "path_stats (Measured r vs) = (True, map Some vs)"
| "path_stats _ = (False, replicate VMX_ITERATIONS None)"

text \<open>The VMCS as \<open>initialize_vmcs\<close> leaves it.\<close>

definition prepared :: "env \<Rightarrow> vm_monitor \<Rightarrow> mstate \<Rightarrow> mstate" where
  "prepared e vmm m = vmw (vp_pa (vmcs vmm)) (rev (vmcs_image e vmm m)) m"

definition load_vmcs :: "u64 \<Rightarrow> mstate \<Rightarrow> mstate" where
  "load_vmcs pa = set_vmx (\<lambda>x. x\<lparr>cur_vmcs := Some pa\<rparr>)"

text \<open>
  When VMLAUNCH is refused and when it is not; the statistics are those of the rounds that start after the
  exit of the launch has been handled.
\<close>

fun guest_when :: "env \<Rightarrow> vm_monitor \<Rightarrow> mstate \<Rightarrow> path \<Rightarrow> bool" where
  "guest_when e vmm m (Vmlaunch_refused n) =
     (let pa = vp_pa (vmcs vmm); (r, m') = vm_enter e True pa (prepared e vmm m)
      in r = 1 \<and> n = field_of pa m' VMCS_VM_INSTRUCTION_ERROR)"
| "guest_when e vmm m (Measured v vs) =
     (let pa = vp_pa (vmcs vmm); (r, m') = vm_enter e True pa (prepared e vmm m)
      in r = 0 \<and> v = field_of pa m' VMCS_EXIT_REASON \<and>
         (\<exists>m7. has_vmcs e pa m7 \<and> log_step (exit_report v) m' m7 \<and>
            vs = map (\<lambda>k. round_stat e pa k m7) [0..<VMX_ITERATIONS]))"
| "guest_when e vmm m _ = False"

lemma run_inv_prepared:
  assumes "vmx_on (m_vmx m)" and "cur_vmcs (m_vmx m) = Some (vp_pa (vmcs vmm))"
  shows "run_inv e vmm m (vp_pa (vmcs vmm)) (prepared e vmm m)" and "untouched m (prepared e vmm m)"
    and "m_os (prepared e vmm m) = m_os m"
proof -
  have "m_cpu m = (m_cpu m)\<lparr>r_tsc := r_tsc (m_cpu m)\<rparr>" by simp
  then show u: "untouched m (prepared e vmm m)"
    unfolding untouched_def prepared_def frame by (rule exI)
  show "run_inv e vmm m (vp_pa (vmcs vmm)) (prepared e vmm m)"
    using assms u
    by (simp add: run_inv_def has_vmcs_def prepared_def frame vmw_image_field image_in_def image_host_registers(12))
  show "m_os (prepared e vmm m) = m_os m" by (simp add: prepared_def frame)
qed

lemma vm_enter_refused:
  assumes "fst (vm_enter e l pa m) = 1" and "untouched mi m"
  shows "untouched mi (snd (vm_enter e l pa m))"
proof -
  have u: "untouched mi (tick e (set_vmcs_field pa VMCS_HOST_RSP (r_rsp (m_cpu m)) m))"
    using assms(2) by (auto simp: untouched_def tick_def frame)
  have ux: "untouched mi (set_vmcs_field pa f v n) = untouched mi n" for f v n
    by (simp add: untouched_def frame)
  show ?thesis
    using assms(1) u by (auto simp: vm_enter_def Let_def ux split: entry_outcome.splits if_splits)
qed

lemma log_step_inv:
  assumes "log_step ls m m'"
  shows "run_inv e vmm mi pa m' = run_inv e vmm mi pa m" and "exited mi m' = exited mi m"
    and "untouched mi m' = untouched mi m" and "has_vmcs e pa m' = has_vmcs e pa m"
  using assms by (simp_all add: log_step_def os_step_def run_inv_def exited_def untouched_def has_vmcs_def)

lemma log_step_ledgers:
  assumes "log_step ls m m'"
  shows "page_ledger m' = page_ledger m" "irq_ledger m' = irq_ledger m" "dev_ledger m' = dev_ledger m"
    "klog m' = klog m @ map tagged ls"
  using assms by (simp_all add: log_step_def os_step_def)

lemma resume_iter_keeps:
  assumes "run_inv e vmm mi pa m" and "host_msrs_present (m_cpu mi)" and "exited mi m"
  shows "run_inv e vmm mi pa (resume_iter e pa k m) \<and> exited mi (resume_iter e pa k m) \<and>
    m_os (resume_iter e pa k m) = m_os m"
  using assms
proof (induction k arbitrary: m)
  case (Suc k)
  have "run_inv e vmm mi pa (snd (vm_enter e False pa m))" "exited mi (snd (vm_enter e False pa m))"
    "m_os (snd (vm_enter e False pa m)) = m_os m"
    using vm_enter_keeps [OF Suc.prems(1,2)] Suc.prems(3) by blast+
  then show ?case using Suc.IH Suc.prems(2) by simp
qed simp

lemma os_ledgers:
  assumes "m_os m' = m_os m"
  shows "page_ledger m' = page_ledger m" "irq_ledger m' = irq_ledger m" "dev_ledger m' = dev_ledger m" "klog m' = klog m"
  using assms by (simp_all add: ledger_defs)

lemma run_inv_vmx:
  assumes "run_inv e vmm mi pa m"
  shows "vmx_on (m_vmx m)" "cur_vmcs (m_vmx m) = Some pa" "vmxon_ptr (m_vmx m) = vmxon_ptr (m_vmx mi)"
  using assms by (simp_all add: run_inv_def has_vmcs_def)

context vmm_api
begin

lemma guest_refused:
  assumes on: "vmx_on (m_vmx m)" "cur_vmcs (m_vmx m) = Some (vp_pa (vmcs vmm))"
    and pa: "pa_ok e (vp_pa (vmcs vmm))" "vp_pa (vmcs vmm) \<noteq> vmxon_ptr (m_vmx m)" and ours: "our_vmxon vmm"
    and p: "host_msrs_present (m_cpu m)" and l: "ledger_plus m0 (vmm_handles vmm) m"
    and d: "vmlatency_preempt_disable pf f m1 = Some (irq, m2)" and i: "irq_ledger m = irq_ledger m2"
    and r: "fst (vm_enter e True (vp_pa (vmcs vmm)) (prepared e vmm m)) = 1"
  shows "\<exists>n m' x t. measure_guest pf e vmm 5 irq stats m = Some (False, stats, m') \<and>
    guest_when e vmm m (Vmlaunch_refused n) \<and> page_ledger m' = page_ledger m0 \<and> irq_ledger m' = irq_ledger m1 \<and>
    int_enabled m' = int_enabled m1 \<and> dev_ledger m' = dev_ledger m \<and>
    klog m' = klog m @ map tagged (path_messages e (Vmlaunch_refused n)) \<and> \<not> vmx_on (m_vmx m') \<and>
    m_cpu m' = (m_cpu m)\<lparr>r_cr4 := vmxe_after vmm (r_cr4 (m_cpu m)), r_rflags := x, r_tsc := t\<rparr>"
proof -
  let ?pa = "vp_pa (vmcs vmm)" and ?mp = "prepared e vmm m"
  define m6 where "m6 = snd (vm_enter e True ?pa ?mp)"
  define n where "n = field_of ?pa m6 VMCS_VM_INSTRUCTION_ERROR"
  note k = vm_enter_keeps [OF run_inv_prepared(1) [OF on, of e] p, of True, folded m6_def]
  have v: "do_vmlaunch e ?mp = Some (1, m6)"
    using do_vmlaunch_eq [OF run_inv_vmcs [OF run_inv_prepared(1) [OF on, of e]]] r
    by (simp add: m6_def prod_eq_iff)
  have os6: "m_os m6 = m_os m" using k(4) run_inv_prepared(3) [OF on, of e] by simp
  obtain m7 where m7: "vmlatency_printk pf (''VMLAUNCH failed'' @ nl) m6 = Some m7"
    and l7: "log_step [''VMLAUNCH failed'' @ nl] m6 m7"
    using printk_log by blast
  have n7: "field_of ?pa m7 VMCS_VM_INSTRUCTION_ERROR = n"
    using l7 by (simp add: n_def field_of_def log_step_def os_step_def)
  have "has_vmcs e ?pa m7" using log_step_inv(4) [OF l7] k(1) run_inv_vmcs by blast
  from handle_early_exit_log [OF this]
  obtain m8 where m8: "handle_early_exit pf e m7 = Some m8"
    and l8: "log_step [''VM instruciton error: '' @ fmt_lx e n @ nl] m7 m8"
    unfolding n7 by blast
  note l68 = log_step_trans [OF l7 l8]
  have r8: "run_inv e vmm m ?pa m8" using k(1) log_step_inv(1) [OF l68] by blast
  have u8: "untouched m m8"
    using vm_enter_refused [OF r run_inv_prepared(2) [OF on]] log_step_inv(3) [OF l68] by (simp add: m6_def)
  note g8 = log_step_ledgers [OF l68] and g6 = os_ledgers [OF os6]
  have led: "ledger_plus m0 (vmm_handles vmm) m8" "irq_ledger m8 = irq_ledger m2"
    using l i g8 g6 by (simp_all add: ledger_plus_def)
  have ne: "?pa \<noteq> vmxon_ptr (m_vmx m8)" using run_inv_vmx(3) [OF r8] pa(2) by simp
  have hs: "save_host_state ?mp = \<lparr>hs_gdt = r_gdtr (m_cpu m), hs_idt = r_idtr (m_cpu m)\<rparr>"
    by (simp add: save_host_state_def insn_defs prepared_def frame)
  from out4_five [OF led(1) d led(2) ours run_inv_vmx(1,2) [OF r8] pa(1) ne, of "save_host_state ?mp"]
  obtain m' x where o: "measure_out4 pf e vmm 5 irq (save_host_state ?mp) m8 = Some m'" "restored m0 m1 m8 m'"
    "m_vmx m' = (m_vmx m8)\<lparr>vmx_on := False, cur_vmcs := None, launched := (launched (m_vmx m8))(?pa := False)\<rparr>"
    "m_cpu m' = (m_cpu m8)\<lparr>r_gdtr := r_gdtr (m_cpu m), r_idtr := r_idtr (m_cpu m),
      r_cr4 := vmxe_after vmm (r_cr4 (m_cpu m8)), r_rflags := x\<rparr>"
    unfolding hs host_state.simps by blast
  obtain t where t: "m_cpu m8 = (m_cpu m)\<lparr>r_tsc := t\<rparr>" using u8 by (auto simp: untouched_def)
  have "measure_guest pf e vmm 5 irq stats m = Some (False, stats, m')"
    using initialize_vmcs_writes [OF on p, of e vmm] v m7 m8 o(1)
    by (simp add: measure_guest_def prepared_def)
  moreover have "guest_when e vmm m (Vmlaunch_refused n)"
    using r by (simp add: Let_def split_beta n_def m6_def)
  ultimately show ?thesis
    using o(2,3,4) g8 g6
    by (intro exI [of _ n] exI [of _ m'] exI [of _ x] exI [of _ t]) (simp add: restored_def t)
qed

lemma guest_measured:
  assumes on: "vmx_on (m_vmx m)" "cur_vmcs (m_vmx m) = Some (vp_pa (vmcs vmm))"
    and pa: "pa_ok e (vp_pa (vmcs vmm))" "vp_pa (vmcs vmm) \<noteq> vmxon_ptr (m_vmx m)" and ours: "our_vmxon vmm"
    and p: "host_msrs_present (m_cpu m)" and l: "ledger_plus m0 (vmm_handles vmm) m"
    and d: "vmlatency_preempt_disable pf f m1 = Some (irq, m2)" and i: "irq_ledger m = irq_ledger m2"
    and r: "fst (vm_enter e True (vp_pa (vmcs vmm)) (prepared e vmm m)) = 0"
  shows "\<exists>v vs m' x t. measure_guest pf e vmm 5 irq (replicate VMX_ITERATIONS None) m = Some (True, map Some vs, m') \<and>
    guest_when e vmm m (Measured v vs) \<and> page_ledger m' = page_ledger m0 \<and> irq_ledger m' = irq_ledger m1 \<and>
    int_enabled m' = int_enabled m1 \<and> dev_ledger m' = dev_ledger m \<and>
    klog m' = klog m @ map tagged (path_messages e (Measured v vs)) \<and> \<not> vmx_on (m_vmx m') \<and>
    m_cpu m' = (exit_residue (m_cpu m))\<lparr>r_cr4 := vmxe_after vmm (r_cr4 (m_cpu m)), r_rflags := x, r_tsc := t\<rparr>"
proof -
  let ?pa = "vp_pa (vmcs vmm)" and ?mp = "prepared e vmm m"
  define m6 where "m6 = snd (vm_enter e True ?pa ?mp)"
  define v where "v = field_of ?pa m6 VMCS_EXIT_REASON"
  note k = vm_enter_keeps [OF run_inv_prepared(1) [OF on, of e] p, of True, folded m6_def]
  have vl: "do_vmlaunch e ?mp = Some (0, m6)"
    using do_vmlaunch_eq [OF run_inv_vmcs [OF run_inv_prepared(1) [OF on, of e]]] r
    by (simp add: m6_def prod_eq_iff)
  have os6: "m_os m6 = m_os m" using k(4) run_inv_prepared(3) [OF on, of e] by simp
  from handle_vmexit_log [OF run_inv_vmcs [OF k(1)]]
  obtain q m7 where m7: "handle_vmexit pf m6 = Some (q, m7)" and l7: "log_step (exit_report v) m6 m7"
    unfolding v_def by blast
  have i7: "run_inv e vmm m ?pa m7" "exited m m7"
    using k(1,2) r log_step_inv(1,2) [OF l7] by blast+
  define vs where "vs = map (\<lambda>k. round_stat e ?pa k m7) [0..<VMX_ITERATIONS]"
  define m8 where "m8 = round_state e ?pa VMX_ITERATIONS m7"
  have lp: "measure_loop e 0 (replicate VMX_ITERATIONS None) m7 = Some (map Some vs, m8)"
    using measure_loop_all [OF run_inv_vmcs [OF i7(1)]] by (simp add: vs_def m8_def)
  have i8: "run_inv e vmm m ?pa m8" "exited m m8" "m_os m8 = m_os m7"
    using resume_iter_keeps [OF i7(1) p i7(2)] unfolding m8_def round_state_iter by blast+
  note g8 = os_ledgers [OF i8(3)] and g7 = log_step_ledgers [OF l7] and g6 = os_ledgers [OF os6]
  have led: "ledger_plus m0 (vmm_handles vmm) m8" "irq_ledger m8 = irq_ledger m2"
    using l i g8 g7 g6 by (simp_all add: ledger_plus_def)
  have ne: "?pa \<noteq> vmxon_ptr (m_vmx m8)" using run_inv_vmx(3) [OF i8(1)] pa(2) by simp
  have hs: "save_host_state ?mp = \<lparr>hs_gdt = r_gdtr (m_cpu m), hs_idt = r_idtr (m_cpu m)\<rparr>"
    by (simp add: save_host_state_def insn_defs prepared_def frame)
  from out4_five [OF led(1) d led(2) ours run_inv_vmx(1,2) [OF i8(1)] pa(1) ne, of "save_host_state ?mp"]
  obtain m' x where o: "measure_out4 pf e vmm 5 irq (save_host_state ?mp) m8 = Some m'" "restored m0 m1 m8 m'"
    "m_vmx m' = (m_vmx m8)\<lparr>vmx_on := False, cur_vmcs := None, launched := (launched (m_vmx m8))(?pa := False)\<rparr>"
    "m_cpu m' = (m_cpu m8)\<lparr>r_gdtr := r_gdtr (m_cpu m), r_idtr := r_idtr (m_cpu m),
      r_cr4 := vmxe_after vmm (r_cr4 (m_cpu m8)), r_rflags := x\<rparr>"
    unfolding hs host_state.simps by blast
  obtain t where t: "m_cpu m8 = (after_exit (m_cpu m))\<lparr>r_tsc := t\<rparr>" using i8(2) by (auto simp: exited_def)
  have "measure_guest pf e vmm 5 irq (replicate VMX_ITERATIONS None) m = Some (True, map Some vs, m')"
    using initialize_vmcs_writes [OF on p, of e vmm] vl m7 lp o(1)
    by (simp add: measure_guest_def prepared_def)
  moreover have "guest_when e vmm m (Measured v vs)"
    using r l7 run_inv_vmcs [OF i7(1)] by (auto simp: Let_def split_beta v_def vs_def m6_def)
  moreover have "m_cpu m' = (exit_residue (m_cpu m))\<lparr>r_cr4 := vmxe_after vmm (r_cr4 (m_cpu m)), r_rflags := x, r_tsc := t\<rparr>"
    unfolding o(4) t by (rule cpu.equality) (simp_all add: after_exit_def exit_residue_def)
  ultimately show ?thesis
    using o(2,3) g8 g7 g6
    by (intro exI [of _ v] exI [of _ vs] exI [of _ m'] exI [of _ x] exI [of _ t]) (simp add: restored_def)
qed

end

text \<open>The state when the two regions have their revision identifier, and the state when the VMCS is current.\<close>

definition regions_set :: "env \<Rightarrow> vm_monitor \<Rightarrow> mstate \<Rightarrow> mstate" where
  "regions_set e vmm m =
     (let r = ucast (0x8fffffff AND the (r_msrs (m_cpu m) IA32_VMX_BASIC))
      in store32 e (vp_p (vmcs vmm)) r (store32 e (vp_p (vmxon_region vmm)) r m))"

definition in_vmx :: "vm_monitor \<Rightarrow> mstate \<Rightarrow> mstate" where
  "in_vmx vmm m = load_vmcs (vp_pa (vmcs vmm)) (enter_vmx (vp_pa (vmxon_region vmm)) (with_vmxe m))"

definition vmx_when :: "env \<Rightarrow> vm_monitor \<Rightarrow> mstate \<Rightarrow> path \<Rightarrow> bool" where
  "vmx_when e vmm m p \<longleftrightarrow>
     (let px = vp_pa (vmxon_region vmm); pc = vp_pa (vmcs vmm)
      in if \<not> region_ok e px m then p = Vmxon_refused
         else if \<not> region_ok e pc m \<or> pc = px then p = Vmptrld_refused
         else guest_when e vmm (in_vmx vmm m) p)"

fun path_results :: "path \<Rightarrow> string list" where
  "path_results (Measured r vs) = map (\<lambda>k. result_line k (vs ! k)) [0..<VMX_ITERATIONS]"
| "path_results _ = []"

text \<open>
  What the session leaves behind, against the state \<open>m0\<close> before the allocation (pages), the state \<open>m1\<close>
  in which interrupts are disabled (interrupts) and a state \<open>m\<close> on the way (log, registers).
\<close>

definition session_end :: "env \<Rightarrow> mstate \<Rightarrow> mstate \<Rightarrow> mstate \<Rightarrow> path \<Rightarrow> mstate \<Rightarrow> bool" where
  "session_end e m0 m1 m p m' \<longleftrightarrow>
     page_ledger m' = page_ledger m0 \<and> irq_ledger m' = irq_ledger m1 \<and> int_enabled m' = int_enabled m1 \<and>
     dev_ledger m' = dev_ledger m \<and> klog m' = klog m @ map tagged (path_messages e p) \<and>
     \<not> vmx_on (m_vmx m') \<and> (\<exists>x t. m_cpu m' = (path_cpu p (m_cpu m))\<lparr>r_rflags := x, r_tsc := t\<rparr>)"

lemma set_old_frame:
  "vmm_handles (vmm\<lparr>old_vmxe := a\<rparr>) = vmm_handles vmm"
  "vmm_handles (vmm\<lparr>old_vmxe := a, our_vmxon := b\<rparr>) = vmm_handles vmm"
  "vmcs_image e (vmm\<lparr>old_vmxe := a, our_vmxon := b\<rparr>) m = vmcs_image e vmm m"
  "prepared e (vmm\<lparr>old_vmxe := a, our_vmxon := b\<rparr>) m = prepared e vmm m"
  by (simp_all add: vmm_handles_def prepared_def vmcs_image_def)

lemma guest_when_old:
  "guest_when e (vmm\<lparr>old_vmxe := a, our_vmxon := b\<rparr>) m p = guest_when e vmm m p"
  by (cases p) (simp_all add: set_old_frame)

lemma vmxe_after_restores:
  assumes "old_vmxe vmm = v AND CR4_VMXE"
  shows "vmxe_after vmm (v OR CR4_VMXE) = v"
  using assms or_and_not_cancel [of v CR4_VMXE] by (auto simp: vmxe_after_def vmxe_set)

lemma vmx_ready_cong:
  assumes "m_cpu m' = (m_cpu m)\<lparr>r_rflags := x\<rparr>" and "m_vmx m' = m_vmx m"
  shows "vmx_ready m' = vmx_ready m"
  using assms by (simp add: vmx_ready_def with_vmxe_def cr_fixed_ok_def)

lemma host_msrs_present_cong: "r_msrs c' = r_msrs c \<Longrightarrow> host_msrs_present c' = host_msrs_present c"
  by (simp add: host_msrs_present_def)

lemma regions_set_frame [frame]:
  "m_cpu (regions_set e vmm m) = m_cpu m" "m_vmx (regions_set e vmm m) = m_vmx m"
  "m_os (regions_set e vmm m) = m_os m"
  by (simp_all add: regions_set_def frame Let_def)

lemma regions_set_steps:
  assumes "r_msrs (m_cpu m) IA32_VMX_BASIC = Some b"
  shows "Option.bind (vmxon_setup_revision_id e vmm m) (vmcs_setup_revision_id e vmm) = Some (regions_set e vmm m)"
  using assms
  by (simp add: vmxon_setup_revision_id_def vmcs_setup_revision_id_def get_vmcs_revision_identifier_def
      regions_set_def frame Let_def)

lemma in_vmx_frame [frame]:
  "m_cpu (in_vmx vmm m) = (m_cpu m)\<lparr>r_cr4 := r_cr4 (m_cpu m) OR CR4_VMXE\<rparr>"
  "m_os (in_vmx vmm m) = m_os m" "vmx_on (m_vmx (in_vmx vmm m))"
  "cur_vmcs (m_vmx (in_vmx vmm m)) = Some (vp_pa (vmcs vmm))"
  "vmxon_ptr (m_vmx (in_vmx vmm m)) = vp_pa (vmxon_region vmm)"
  by (simp_all add: in_vmx_def load_vmcs_def enter_vmx_def with_vmxe_def)

lemma insn_vmptrld_first:
  "insn_vmptrld e pc (enter_vmx px (with_vmxe m)) =
    Some (if region_ok e pc m \<and> pc \<noteq> px then (VMsucceed, load_vmcs pc (enter_vmx px (with_vmxe m)))
      else (VMfailInvalid, enter_vmx px (with_vmxe m)))"
  by (auto simp: insn_vmptrld_def enter_vmx_def load_vmcs_def region_ok_def revision_ok_def cpu_revision_def
      phys32_def vm_fail_def frame)

lemma path_cpu_rflags:
  "(path_cpu p (c\<lparr>r_rflags := y\<rparr>))\<lparr>r_rflags := x, r_tsc := t\<rparr> = (path_cpu p c)\<lparr>r_rflags := x, r_tsc := t\<rparr>"
  by (cases p) (simp_all add: exit_residue_def)

lemma session_end_from:
  assumes "session_end e m0 m1 m p m'" and "m_cpu m = (m_cpu m2)\<lparr>r_rflags := y\<rparr>"
    and "irq_ledger m1 = irq_ledger m2" and "int_enabled m1 = int_enabled m2"
    and "dev_ledger m = dev_ledger m2" and "klog m = klog m2"
  shows "session_end e m0 m2 m2 p m'"
  using assms by (simp add: session_end_def path_cpu_rflags)

context vmm_api
begin

lemma vmx_vmxon_refused:
  assumes ready: "vmx_ready m" and bad: "\<not> region_ok e (vp_pa (vmxon_region vmm)) m"
    and l: "ledger_plus m0 (vmm_handles vmm) m"
    and d: "vmlatency_preempt_disable pf f m1 = Some (irq, m)"
  shows "\<exists>vmm' m4 m'. do_vmxon pf e vmm m = Some (-1, vmm', m4) \<and> measure_out2 pf vmm' 5 irq m4 = Some m' \<and>
    session_end e m0 m1 m Vmxon_refused m'"
proof -
  let ?vmm = "vmm\<lparr>old_vmxe := r_cr4 (m_cpu m) AND CR4_VMXE\<rparr>"
  obtain m4 where m4: "do_vmxon pf e vmm m = Some (-1, ?vmm, m4)"
    and l4: "log_step [''VMXON failed'' @ nl] (with_vmxe m) m4"
    using do_vmxon_bad [OF ready bad] by blast
  have w: "m_os (with_vmxe m) = m_os m" "m_vmx (with_vmxe m) = m_vmx m" by (simp_all add: frame)
  note g = log_step_ledgers [OF l4] os_ledgers [OF w(1)]
  have "ledger_plus m0 (vmm_handles ?vmm) m4" "irq_ledger m4 = irq_ledger m"
    using l g by (simp_all add: ledger_plus_def set_old_frame)
  from out2_five [OF this(1) d this(2)]
  obtain m' x where o: "measure_out2 pf ?vmm 5 irq m4 = Some m'" "restored m0 m1 m4 m'" "m_vmx m' = m_vmx m4"
    "m_cpu m' = (m_cpu m4)\<lparr>r_rflags := x\<rparr>"
    by blast
  have s: "m_cpu m4 = m_cpu (with_vmxe m)" "m_vmx m4 = m_vmx m"
    using l4 w by (simp_all add: log_step_def os_step_def)
  have "\<not> vmx_on (m_vmx m)" using ready by (simp add: vmx_ready_def)
  moreover have "m_cpu m' = (path_cpu Vmxon_refused (m_cpu m))\<lparr>r_rflags := x, r_tsc := r_tsc (m_cpu m)\<rparr>"
    using o(4) s by (simp add: with_vmxe_def cpu.equality)
  then have "\<exists>x t. m_cpu m' = (path_cpu Vmxon_refused (m_cpu m))\<lparr>r_rflags := x, r_tsc := t\<rparr>" by blast
  ultimately have "session_end e m0 m1 m Vmxon_refused m'"
    using o(2,3) g s unfolding session_end_def by (simp add: restored_def)
  then show ?thesis using m4 o(1) by blast
qed

lemma vmx_vmptrld_refused:
  assumes bad: "\<not> region_ok e (vp_pa (vmcs vmm)) m \<or> vp_pa (vmcs vmm) = vp_pa (vmxon_region vmm)"
    and vmm: "our_vmxon vmm" "old_vmxe vmm = r_cr4 (m_cpu m) AND CR4_VMXE"
    and l: "ledger_plus m0 (vmm_handles vmm) m"
    and d: "vmlatency_preempt_disable pf f m1 = Some (irq, m)"
  shows "\<exists>m5 m'. do_vmptrld pf e vmm (enter_vmx (vp_pa (vmxon_region vmm)) (with_vmxe m)) = Some (-1, m5) \<and>
    measure_out3 pf vmm 5 irq m5 = Some m' \<and> session_end e m0 m1 m Vmptrld_refused m'"
proof -
  let ?m = "enter_vmx (vp_pa (vmxon_region vmm)) (with_vmxe m)"
  obtain m5 where m5: "do_vmptrld pf e vmm ?m = Some (-1, m5)" and l5: "log_step [''VMPTRLD failed'' @ nl] ?m m5"
    using printk_log [of "''VMPTRLD failed'' @ nl" ?m] bad
    by (auto simp: do_vmptrld_insn insn_vmptrld_first)
  have w: "m_os ?m = m_os m" by (simp add: enter_vmx_def frame)
  note g = log_step_ledgers [OF l5] os_ledgers [OF w]
  have s: "m_cpu m5 = m_cpu (with_vmxe m)" "m_vmx m5 = m_vmx ?m"
    using l5 by (simp_all add: log_step_def os_step_def enter_vmx_def)
  have "ledger_plus m0 (vmm_handles vmm) m5" "irq_ledger m5 = irq_ledger m" "vmx_on (m_vmx m5)"
    using l g s by (simp_all add: ledger_plus_def enter_vmx_def)
  from out3_five [OF this(1) d this(2) vmm(1) this(3)]
  obtain m' x where o: "measure_out3 pf vmm 5 irq m5 = Some m'" "restored m0 m1 m5 m'"
    "m_vmx m' = (m_vmx m5)\<lparr>vmx_on := False, cur_vmcs := None\<rparr>"
    "m_cpu m' = (m_cpu m5)\<lparr>r_cr4 := vmxe_after vmm (r_cr4 (m_cpu m5)), r_rflags := x\<rparr>"
    by blast
  have "m_cpu m' = (path_cpu Vmptrld_refused (m_cpu m))\<lparr>r_rflags := x, r_tsc := r_tsc (m_cpu m)\<rparr>"
    using o(4) s vmxe_after_restores [OF vmm(2)] by (simp add: with_vmxe_def cpu.equality)
  then have "\<exists>x t. m_cpu m' = (path_cpu Vmptrld_refused (m_cpu m))\<lparr>r_rflags := x, r_tsc := t\<rparr>" by blast
  then have "session_end e m0 m1 m Vmptrld_refused m'"
    using o(2,3) g unfolding session_end_def by (simp add: restored_def)
  then show ?thesis using m5 o(1) by blast
qed

lemma vmx_guest_end:
  fixes vmm e m
  defines "vmm' \<equiv> vmm\<lparr>old_vmxe := r_cr4 (m_cpu m) AND CR4_VMXE, our_vmxon := True\<rparr>"
  assumes ok: "region_ok e (vp_pa (vmcs vmm)) m" "vp_pa (vmcs vmm) \<noteq> vp_pa (vmxon_region vmm)"
    and p: "host_msrs_present (m_cpu m)" and l: "ledger_plus m0 (vmm_handles vmm) m"
    and d: "vmlatency_preempt_disable pf f m1 = Some (irq, m)"
  shows "\<exists>p m'. guest_when e vmm (in_vmx vmm m) p \<and> session_end e m0 m1 m p m' \<and>
    measure_guest pf e vmm' 5 irq (replicate VMX_ITERATIONS None) (in_vmx vmm m) =
      Some (fst (path_stats p), snd (path_stats p), m')"
proof -
  let ?m = "in_vmx vmm m" and ?n = "replicate VMX_ITERATIONS None :: u64 option list"
  have g: "page_ledger ?m = page_ledger m" "irq_ledger ?m = irq_ledger m" "dev_ledger ?m = dev_ledger m"
    "klog ?m = klog m" by (rule os_ledgers, simp add: frame)+
  have pre: "vmx_on (m_vmx ?m)" "cur_vmcs (m_vmx ?m) = Some (vp_pa (vmcs vmm'))" "pa_ok e (vp_pa (vmcs vmm'))"
    "vp_pa (vmcs vmm') \<noteq> vmxon_ptr (m_vmx ?m)" "our_vmxon vmm'" "host_msrs_present (m_cpu ?m)"
    "ledger_plus m0 (vmm_handles vmm') ?m"
    using ok l g p host_msrs_present_cong [of "m_cpu ?m" "m_cpu m"]
    by (simp_all add: frame region_ok_def set_old_frame ledger_plus_def vmm'_def)
  have cr: "vmxe_after vmm' (r_cr4 (m_cpu ?m)) = r_cr4 (m_cpu m)"
    using vmxe_after_restores [of vmm' "r_cr4 (m_cpu m)"] by (simp add: frame vmm'_def)
  have w: "guest_when e vmm' ?m p \<Longrightarrow> guest_when e vmm ?m p" for p
    by (simp add: vmm'_def guest_when_old)
  consider "fst (vm_enter e True (vp_pa (vmcs vmm')) (prepared e vmm' ?m)) = 1"
    | "fst (vm_enter e True (vp_pa (vmcs vmm')) (prepared e vmm' ?m)) = 0"
    using vm_enter_result by blast
  then show ?thesis
  proof cases
    case 1
    from guest_refused [OF pre d g(2) 1, of ?n]
    obtain q m' x t where o: "measure_guest pf e vmm' 5 irq ?n ?m = Some (False, ?n, m')"
      "guest_when e vmm' ?m (Vmlaunch_refused q)" and s: "page_ledger m' = page_ledger m0"
      "irq_ledger m' = irq_ledger m1" "int_enabled m' = int_enabled m1" "dev_ledger m' = dev_ledger ?m"
      "klog m' = klog ?m @ map tagged (path_messages e (Vmlaunch_refused q))" "\<not> vmx_on (m_vmx m')"
      and c: "m_cpu m' = (m_cpu ?m)\<lparr>r_cr4 := vmxe_after vmm' (r_cr4 (m_cpu ?m)), r_rflags := x, r_tsc := t\<rparr>"
      by blast
    have "m_cpu m' = (path_cpu (Vmlaunch_refused q) (m_cpu m))\<lparr>r_rflags := x, r_tsc := t\<rparr>"
      unfolding c cr by (simp add: frame)
    then have "session_end e m0 m1 m (Vmlaunch_refused q) m'"
      using s g unfolding session_end_def by auto
    then show ?thesis using w [OF o(2)] o(1) by (intro exI [of _ "Vmlaunch_refused q"] exI [of _ m']) simp
  next
    case 2
    from guest_measured [OF pre d g(2) 2]
    obtain v vs m' x t where o: "measure_guest pf e vmm' 5 irq ?n ?m = Some (True, map Some vs, m')"
      "guest_when e vmm' ?m (Measured v vs)" and s: "page_ledger m' = page_ledger m0"
      "irq_ledger m' = irq_ledger m1" "int_enabled m' = int_enabled m1" "dev_ledger m' = dev_ledger ?m"
      "klog m' = klog ?m @ map tagged (path_messages e (Measured v vs))" "\<not> vmx_on (m_vmx m')"
      and c: "m_cpu m' = (exit_residue (m_cpu ?m))\<lparr>r_cr4 := vmxe_after vmm' (r_cr4 (m_cpu ?m)), r_rflags := x, r_tsc := t\<rparr>"
      by blast
    have "m_cpu m' = (path_cpu (Measured v vs) (m_cpu m))\<lparr>r_rflags := x, r_tsc := t\<rparr>"
      unfolding c cr by (intro cpu.equality) (simp_all add: frame exit_residue_def)
    then have "session_end e m0 m1 m (Measured v vs) m'"
      using s g unfolding session_end_def by auto
    then show ?thesis using w [OF o(2)] o(1) by (intro exI [of _ "Measured v vs"] exI [of _ m']) simp
  qed
qed

lemma measure_vmx_end:
  assumes present: "r_msrs (m_cpu m) IA32_VMX_BASIC = Some b" "host_msrs_present (m_cpu m)"
    and ready: "vmx_ready m" and l: "ledger_plus m0 (vmm_handles vmm) m"
    and d: "vmlatency_preempt_disable pf irq_flags_uninit (regions_set e vmm m) = Some (irq, m3)"
  shows "\<exists>p m'. vmx_when e vmm m3 p \<and> session_end e m0 m m p m' \<and>
    measure_vmx pf e vmm 5 (replicate VMX_ITERATIONS None) m = Some (fst (path_stats p), snd (path_stats p), m')"
proof -
  let ?ms = "regions_set e vmm m" and ?px = "vp_pa (vmxon_region vmm)" and ?pc = "vp_pa (vmcs vmm)"
  let ?vmm = "vmm\<lparr>old_vmxe := r_cr4 (m_cpu m3) AND CR4_VMXE, our_vmxon := True\<rparr>"
  obtain y where dk: "m_cpu m3 = (m_cpu m)\<lparr>r_rflags := y\<rparr>" "m_vmx m3 = m_vmx m"
    "page_ledger m3 = page_ledger m" "dev_ledger m3 = dev_ledger m" "klog m3 = klog m"
    using disable_ok [OF d] by (auto simp: frame ledger_defs)
  have ready3: "vmx_ready m3" using vmx_ready_cong [OF dk(1,2)] ready by simp
  have l3: "ledger_plus m0 (vmm_handles vmm) m3" using l dk by (simp add: ledger_plus_def)
  have p3: "host_msrs_present (m_cpu m3)" using present(2) dk(1) host_msrs_present_cong [of "m_cpu m3" "m_cpu m"] by simp
  obtain mx where s1: "vmxon_setup_revision_id e vmm m = Some mx" and s2: "vmcs_setup_revision_id e vmm mx = Some ?ms"
    using regions_set_steps [OF present(1), of e vmm] by (auto simp: bind_Some_iff)
  note run = measure_vmx_def s1 s2 d
  have fin: "session_end e m0 m m p m'" if "session_end e m0 ?ms m3 p m'" for p m'
    using session_end_from [OF that dk(1) _ _ dk(4,5)] by (simp add: frame ledger_defs int_enabled_def)
  show ?thesis
  proof (cases "region_ok e ?px m3")
    case False
    then have "vmx_when e vmm m3 Vmxon_refused" by (simp add: vmx_when_def)
    then show ?thesis
      using vmx_vmxon_refused [OF ready3 False l3 d] fin [of Vmxon_refused]
      by (intro exI [of _ Vmxon_refused]) (auto simp: run)
  next
    case True
    note on = do_vmxon_good [OF ready3 True]
    show ?thesis
    proof (cases "region_ok e ?pc m3 \<and> ?pc \<noteq> ?px")
      case False
      then have w: "vmx_when e vmm m3 Vmptrld_refused" using True by (auto simp: vmx_when_def)
      have "\<exists>m5 m'. do_vmptrld pf e ?vmm (enter_vmx ?px (with_vmxe m3)) = Some (-1, m5) \<and>
          measure_out3 pf ?vmm 5 irq m5 = Some m' \<and> session_end e m0 ?ms m3 Vmptrld_refused m'"
        using vmx_vmptrld_refused [of e ?vmm m3 m0 irq_flags_uninit ?ms irq] False l3 d by (simp add: set_old_frame)
      then show ?thesis
        using w fin [of Vmptrld_refused] by (intro exI [of _ Vmptrld_refused]) (auto simp: run on)
    next
      case vok: True
      have "do_vmptrld pf e ?vmm (enter_vmx ?px (with_vmxe m3)) = Some (0, in_vmx vmm m3)"
        using vok by (simp add: do_vmptrld_insn insn_vmptrld_first in_vmx_def)
      then have "measure_vmx pf e vmm 5 n m = measure_guest pf e ?vmm 5 irq n (in_vmx vmm m3)" for n
        by (simp add: run on)
      then show ?thesis
        using vmx_guest_end [OF conjunct1 [OF vok] conjunct2 [OF vok] p3 l3 d] fin True vok
        unfolding vmx_when_def by auto
    qed
  qed
qed

end

section \<open>From the call to the return\<close>

text \<open>\<open>m'\<close> is what a measurement that goes the way \<open>p\<close> makes of \<open>m\<close>.\<close>

definition left_behind :: "env \<Rightarrow> mstate \<Rightarrow> path \<Rightarrow> mstate \<Rightarrow> bool" where
  "left_behind e m p m' \<longleftrightarrow>
     page_ledger m' = page_ledger m \<and> irq_ledger m' = irq_ledger m \<and> int_enabled m' = int_enabled m \<and>
     dev_ledger m' = dev_ledger m \<and> klog m' = klog m @ map tagged (path_messages e p @ path_results p) \<and>
     \<not> vmx_on (m_vmx m') \<and> (\<exists>x t. m_cpu m' = (path_cpu p (m_cpu m))\<lparr>r_rflags := x, r_tsc := t\<rparr>)"

lemma guest_when_stats: "guest_when e vmm m (Measured r vs) \<Longrightarrow> length vs = VMX_ITERATIONS"
  by (auto simp: Let_def)

lemma vmx_when_stats: "vmx_when e vmm m (Measured r vs) \<Longrightarrow> length vs = VMX_ITERATIONS"
  unfolding vmx_when_def Let_def using guest_when_stats by (auto split: if_splits)

lemma left_behind_log:
  assumes "session_end e m m1 m1 p m2" and "os_step m m1" and "klog m1 = klog m" and "log_step (path_results p) m2 m'"
  shows "left_behind e m p m'"
  using assms log_step_ledgers [OF assms(4)]
  by (simp add: session_end_def left_behind_def os_step_def log_step_def int_enabled_def)

context vmm_api
begin

lemma print_path:
  assumes "vmx_when e vmm m3 p"
  shows "\<exists>m'. (if fst (path_stats p) then print_stats pf 0 (snd (path_stats p)) m else Some m) = Some m' \<and>
    log_step (path_results p) m m'"
proof (cases p)
  case (Measured r vs)
  then show ?thesis using vmx_when_stats [of e vmm m3 r vs] assms print_stats_log [of vs 0 m] by simp
qed simp_all

lemma measure_no_memory:
  assumes "cache_vmx_capabilities e vm_monitor_zero m = Some v" and "allocate_memory pf v m = Some (cnt, vmm, m1)"
    and "cnt \<le> 0"
  shows "measure_vmlatency pf e m = Some m1"
  using assms by (simp add: measure_vmlatency_def measure_out1_def free_memory_nonpos)

lemma measure_steps:
  assumes v: "cache_vmx_capabilities e vm_monitor_zero m = Some v" and a: "allocate_memory pf v m = Some (5, vmm, m1)"
    and present: "vmx_msrs_present (m_cpu m)" "host_msrs_present (m_cpu m)" and ready: "vmx_ready m"
    and d: "vmlatency_preempt_disable pf irq_flags_uninit (regions_set e vmm m1) = Some (irq, m3)"
  shows "\<exists>p m2 m'. vmx_when e vmm m3 p \<and>
    measure_vmx pf e vmm 5 (replicate VMX_ITERATIONS None) m1 = Some (fst (path_stats p), snd (path_stats p), m2) \<and>
    (if fst (path_stats p) then print_stats pf 0 (snd (path_stats p)) m2 else Some m2) = Some m' \<and>
    log_step (path_results p) m2 m' \<and> measure_vmlatency pf e m = Some m' \<and> left_behind e m p m'"
proof -
  have o: "ledger_plus m (vmm_handles vmm) m1" "os_step m m1" "klog m1 = klog m"
    using allocate_memory_outcome [of v m] a by (auto simp: vmm_handles_def)
  have c: "m_cpu m1 = m_cpu m" "m_vmx m1 = m_vmx m" using o(2) by (simp_all add: os_step_def)
  obtain b where b: "r_msrs (m_cpu m1) IA32_VMX_BASIC = Some b"
    using present(1) c by (auto simp: vmx_msrs_present_def cap_msrs_def)
  have h: "host_msrs_present (m_cpu m1)" "vmx_ready m1"
    using present(2) ready c by (simp_all add: vmx_ready_def with_vmxe_def)
  from measure_vmx_end [OF b h o(1) d]
  obtain p m2 where p: "vmx_when e vmm m3 p" "session_end e m m1 m1 p m2"
    "measure_vmx pf e vmm 5 (replicate VMX_ITERATIONS None) m1 = Some (fst (path_stats p), snd (path_stats p), m2)"
    by blast
  obtain m' where m': "(if fst (path_stats p) then print_stats pf 0 (snd (path_stats p)) m2 else Some m2) = Some m'"
    "log_step (path_results p) m2 m'"
    using print_path [OF p(1)] by blast
  have "measure_vmlatency pf e m = Some m'"
    using v a p(3) m'(1) by (simp add: measure_vmlatency_def)
  then show ?thesis using p(1,3) m' left_behind_log [OF p(2) o(2,3) m'(2)] by blast
qed

lemma measure_with_memory:
  assumes "cache_vmx_capabilities e vm_monitor_zero m = Some v" and "allocate_memory pf v m = Some (5, vmm, m1)"
    and "vmx_msrs_present (m_cpu m)" "host_msrs_present (m_cpu m)" and "vmx_ready m"
    and "vmlatency_preempt_disable pf irq_flags_uninit (regions_set e vmm m1) = Some (irq, m3)"
  shows "\<exists>p m'. vmx_when e vmm m3 p \<and> measure_vmlatency pf e m = Some m' \<and> left_behind e m p m'"
  using measure_steps [OF assms] by blast

text \<open>
  A measurement comes back: without memory it leaves the pages it got, fewer than five of them, and changes
  nothing else; with memory it goes one of the ways.
\<close>

lemma measure_outcome:
  assumes present: "vmx_msrs_present (m_cpu m)" "host_msrs_present (m_cpu m)" and ready: "vmx_ready m"
    and total: "\<And>f m. \<exists>f' m'. vmlatency_preempt_disable pf f m = Some (f', m')"
  shows "\<exists>m'. measure_vmlatency pf e m = Some m' \<and>
    ((\<exists>hs. length hs < 5 \<and> ledger_plus m hs m' \<and> os_step m m' \<and> klog m' = klog m) \<or> (\<exists>p. left_behind e m p m'))"
proof -
  obtain v where v: "cache_vmx_capabilities e vm_monitor_zero m = Some v"
    using cache_present [OF present(1)] by blast
  obtain k cnt vmm m1 where a: "allocate_memory pf v m = Some (cnt, vmm, m1)"
    and k: "k = 5 \<and> cnt = 5 \<or> k < 5 \<and> cnt = - int k" and l: "ledger_plus m (take k (vmm_handles vmm)) m1"
    and o: "os_step m m1" "klog m1 = klog m"
    using allocate_memory_outcome [of v m] by blast
  show ?thesis
  proof (cases "cnt = 5")
    case True
    then show ?thesis
      using measure_with_memory [OF v _ present ready] a total [of irq_flags_uninit "regions_set e vmm m1"] by blast
  next
    case False
    then have "cnt \<le> 0" "k < 5" using k by auto
    moreover have "length (take k (vmm_handles vmm)) = k" using \<open>k < 5\<close> by (simp add: vmm_handles_def)
    ultimately show ?thesis using measure_no_memory [OF v a] l o by metis
  qed
qed

end

end
