(* ===== verification/Vmx_Pages.thy ===== *)
theory Vmx_Pages
  imports Vmx_Session
begin

text \<open>
  From the kernel's pages to a measurement: the pages of the monitor are the kernel's answers, the revision
  identifiers reach the regions that the processor reads, and then nothing keeps the measurement from taking
  place but the processor's own checks of the guest.
\<close>

section \<open>The pages of the monitor\<close>

text \<open>The handles that the first two allocations get are different; the second is the next answer but at most one.\<close>

definition distinct_pages :: "env \<Rightarrow> nat \<Rightarrow> bool" where
  "distinct_pages e c \<longleftrightarrow> e_alloc e c \<noteq> e_alloc e (c + 1) \<and> e_alloc e c \<noteq> e_alloc e (c + 2)"

context vmm_api_pages
begin

lemma allocate_memory_pages:
  assumes k: "kernel_memory e"
  shows "\<exists>vmm' m' c'. allocate_memory pf vmm m = Some (5, vmm', m') \<and> c' \<in> {os_calls (m_os m) + 1, os_calls (m_os m) + 2} \<and>
    vp_p (vmxon_region vmm') = e_map e (e_alloc e (os_calls (m_os m))) \<and>
    vp_pa (vmxon_region vmm') = page_pa (e_alloc e (os_calls (m_os m))) \<and>
    vp_p (vmcs vmm') = e_map e (e_alloc e c') \<and> vp_pa (vmcs vmm') = page_pa (e_alloc e c')"
proof -
  obtain p1 m1 where a1: "allocate_vmpage pf (vmxon_region vmm) m = Some (0, p1, m1)"
    using alloc_succeeds [OF k] by blast
  obtain p2 m2 where a2: "allocate_vmpage pf (vmcs vmm) m1 = Some (0, p2, m2)"
    using alloc_succeeds [OF k] by blast
  obtain p3 m3 where a3: "allocate_vmpage pf (io_bitmap_a vmm) m2 = Some (0, p3, m3)"
    using alloc_succeeds [OF k] by blast
  obtain p4 m4 where a4: "allocate_vmpage pf (io_bitmap_b vmm) m3 = Some (0, p4, m4)"
    using alloc_succeeds [OF k] by blast
  obtain p5 m5 where a5: "allocate_vmpage pf (msr_bitmap vmm) m4 = Some (0, p5, m5)"
    using alloc_succeeds [OF k] by blast
  show ?thesis
    using alloc_page [OF a1] alloc_page [OF a2]
    by (intro exI [of _ "vmm\<lparr>vmxon_region := p1, vmcs := p2, io_bitmap_a := p3, io_bitmap_b := p4, msr_bitmap := p5\<rparr>"]
        exI [of _ m5] exI [of _ "os_calls (m_os m1)"])
      (simp add: allocate_memory_def a1 a2 a3 a4 a5)
qed

end

text \<open>Pages are mapped where the kernel says, suitable for VMX, and different pages have different addresses.\<close>

definition good_pages :: "env \<Rightarrow> (u64 \<Rightarrow> u64) \<Rightarrow> bool" where
  "good_pages e page_pa \<longleftrightarrow>
     (\<forall>k. maps_page e (e_map e (e_alloc e k)) (page_pa (e_alloc e k)) \<and> pa_ok e (page_pa (e_alloc e k))) \<and>
     (\<forall>k k'. page_pa (e_alloc e k) = page_pa (e_alloc e k') \<longrightarrow> e_alloc e k = e_alloc e k')"

section \<open>The regions\<close>

text \<open>Bits 28 to 31 of IA32_VMX_BASIC: the mask \<^verbatim>\<open>0x8fffffff\<close> drops them.\<close>

definition plain_revision :: "cpu \<Rightarrow> bool" where
  "plain_revision c \<longleftrightarrow> (case r_msrs c IA32_VMX_BASIC of None \<Rightarrow> False | Some b \<Rightarrow> b AND 0xf0000000 = 0)"

lemma revision_bits:
  fixes b :: u64
  shows "(ucast (0x8fffffff AND b) :: u32) = ucast (b AND 0x7fffffff) \<longleftrightarrow> b AND 0xf0000000 = 0"
proof -
  have m: "(0x8fffffff :: u64) = mask 28 OR BIT 31" "(0x7fffffff :: u64) = mask 31"
    "(0xf0000000 :: u64) = push_bit 28 (mask 4)"
    by (simp_all add: mask_eq_exp_minus_1 BIT_def)
  show ?thesis
  proof
    assume e: "(ucast (0x8fffffff AND b) :: u32) = ucast (b AND 0x7fffffff)"
    have "\<not> bit b n" if "28 \<le> n" "n < 32" for n
      using arg_cong [OF e, of "\<lambda>w. bit w n"] that unfolding m by (auto simp: bit_simps)
    then show "b AND 0xf0000000 = 0"
      unfolding m by (auto intro!: bit_word_eqI simp: bit_simps)
  next
    assume z: "b AND 0xf0000000 = 0"
    have h: "\<not> bit b n" if "28 \<le> n" "n < 32" for n
      using arg_cong [OF z, of "\<lambda>w. bit w n"] that unfolding m by (auto simp: bit_simps)
    have "bit b n \<Longrightarrow> n < 31 \<Longrightarrow> n < 28" for n using h [of n] by linarith
    then show "(ucast (0x8fffffff AND b) :: u32) = ucast (b AND 0x7fffffff)"
      using h [of 31] unfolding m by (intro bit_word_eqI) (auto simp: bit_simps)
  qed
qed

lemma plain_revision_cpu:
  assumes "plain_revision c"
  shows "ucast (0x8fffffff AND the (r_msrs c IA32_VMX_BASIC)) = cpu_revision c"
  using assms revision_bits by (auto simp: plain_revision_def cpu_revision_def split: option.splits)

lemma regions_set_ok:
  assumes m: "maps_page e (vp_p (vmxon_region vmm)) (vp_pa (vmxon_region vmm))"
      "maps_page e (vp_p (vmcs vmm)) (vp_pa (vmcs vmm))"
    and p: "pa_ok e (vp_pa (vmxon_region vmm))" "pa_ok e (vp_pa (vmcs vmm))"
    and ne: "vp_pa (vmcs vmm) \<noteq> vp_pa (vmxon_region vmm)" and r: "plain_revision (m_cpu m)"
  shows "region_ok e (vp_pa (vmxon_region vmm)) (regions_set e vmm m)"
    and "region_ok e (vp_pa (vmcs vmm)) (regions_set e vmm m)"
proof -
  have a: "vp_pa (vmxon_region vmm) AND 0xfff = 0" "vp_pa (vmcs vmm) AND 0xfff = 0"
    using p by (simp_all add: pa_ok_def)
  have "phys32 (vp_pa (vmcs vmm)) (regions_set e vmm m) = cpu_revision (m_cpu m)"
    unfolding regions_set_def Let_def plain_revision_cpu [OF r] by (rule phys32_store32_same [OF m(2)])
  moreover have "phys32 (vp_pa (vmxon_region vmm)) (regions_set e vmm m) = cpu_revision (m_cpu m)"
    unfolding regions_set_def Let_def plain_revision_cpu [OF r] phys32_store32_other [OF m(2) ne a(2,1)]
    by (rule phys32_store32_same [OF m(1)])
  ultimately show "region_ok e (vp_pa (vmxon_region vmm)) (regions_set e vmm m)"
    "region_ok e (vp_pa (vmcs vmm)) (regions_set e vmm m)"
    using p by (simp_all add: region_ok_def revision_ok_def frame)
qed

lemma region_ok_cong:
  assumes "m_mem m' = m_mem m" and "m_cpu m' = (m_cpu m)\<lparr>r_rflags := x\<rparr>"
  shows "region_ok e pa m' = region_ok e pa m"
  using assms by (simp add: region_ok_def revision_ok_def phys32_def cpu_revision_def)

text \<open>The way of the guest, by the processor's answer to the entry.\<close>

lemma vm_enter_accepted:
  assumes "\<And>n. e_entry e (set_vmcs_field pa VMCS_HOST_RSP (r_rsp (m_cpu m)) m) \<noteq> Entry_Fail n" and "\<not> launched (m_vmx m) pa"
  shows "fst (vm_enter e True pa m) = 0"
  using assms by (auto simp: vm_enter_def Let_def frame split: entry_outcome.splits)

lemma vm_enter_fails:
  assumes "e_entry e (set_vmcs_field pa VMCS_HOST_RSP (r_rsp (m_cpu m)) m) = Entry_Fail n \<and> \<not> launched (m_vmx m) pa \<or>
    launched (m_vmx m) pa \<and> n = 4"
  shows "fst (vm_enter e True pa m) = 1" and "field_of pa (snd (vm_enter e True pa m)) VMCS_VM_INSTRUCTION_ERROR = n"
  using assms by (auto simp: vm_enter_def Let_def frame field_of_def vmcs_fields_set)

lemma prepared_launched: "launched (m_vmx (prepared e vmm m)) = launched (m_vmx m)"
  by (simp add: prepared_def frame)

text \<open>The states in which the processor is asked to run the guest of the program.\<close>

definition enters_guest :: "env \<Rightarrow> mstate \<Rightarrow> bool" where
  "enters_guest e m \<longleftrightarrow> (case cur_vmcs (m_vmx m) of None \<Rightarrow> False
     | Some pa \<Rightarrow> vmx_on (m_vmx m) \<and> vmcs_fields (m_vmx m) pa VMCS_GUEST_RIP = e_guest_code e)"

lemma run_inv_enters:
  assumes "run_inv e vmm mi pa m"
  shows "enters_guest e (set_vmcs_field pa VMCS_HOST_RSP x m)"
proof -
  have "vmcs_fields (m_vmx m) pa VMCS_GUEST_RIP = e_guest_code e"
    using assms image_guest_registers(5) by (auto simp: run_inv_def image_in_def)
  then show ?thesis using assms
    by (simp add: enters_guest_def run_inv_def has_vmcs_def frame vmcs_fields_set vmcs_enc)
qed

text \<open>The outcome of the VM entry that a call of \<^verbatim>\<open>do_vmlaunch\<close> or \<^verbatim>\<open>do_vmresume\<close> in \<open>m\<close> attempts.\<close>

definition entry_of :: "env \<Rightarrow> u64 \<Rightarrow> mstate \<Rightarrow> entry_outcome" where
  "entry_of e pa m = e_entry e (set_vmcs_field pa VMCS_HOST_RSP (r_rsp (m_cpu m)) m)"

lemma guest_when_entered:
  assumes "guest_when e vmm m p" and "\<And>n. entry_of e (vp_pa (vmcs vmm)) (prepared e vmm m) \<noteq> Entry_Fail n"
    and "\<not> launched (m_vmx m) (vp_pa (vmcs vmm))"
  shows "\<exists>r vs. p = Measured r vs"
proof -
  have "fst (vm_enter e True (vp_pa (vmcs vmm)) (prepared e vmm m)) = 0"
    using assms(2,3) by (intro vm_enter_accepted) (simp_all add: entry_of_def prepared_launched)
  then show ?thesis using assms(1) by (cases p) (auto simp: Let_def split_beta)
qed

lemma guest_when_accepted:
  assumes "guest_when e vmm m p" and "\<And>m n. enters_guest e m \<Longrightarrow> e_entry e m \<noteq> Entry_Fail n"
    and "\<not> launched (m_vmx m) (vp_pa (vmcs vmm))" and on: "vmx_on (m_vmx m)" "cur_vmcs (m_vmx m) = Some (vp_pa (vmcs vmm))"
  shows "\<exists>r vs. p = Measured r vs"
  by (rule guest_when_entered [OF assms(1) _ assms(3)])
    (simp add: entry_of_def assms(2) run_inv_enters [OF run_inv_prepared(1) [OF on]])

lemma guest_when_refused:
  assumes "guest_when e vmm m p"
    and "(\<forall>m. e_entry e m = Entry_Fail n) \<and> \<not> launched (m_vmx m) (vp_pa (vmcs vmm)) \<or> launched (m_vmx m) (vp_pa (vmcs vmm)) \<and> n = 4"
  shows "p = Vmlaunch_refused n"
  using assms(1) vm_enter_fails [of e "vp_pa (vmcs vmm)" "prepared e vmm m" n] assms(2)
  by (cases p) (auto simp: Let_def split_beta prepared_launched)

section \<open>The start of a session\<close>

text \<open>
  The session of a call in the state \<open>m\<close>: the monitor with its capabilities and pages, and the state in which the VMCS has
  become current.
\<close>

definition session_start :: "platform \<Rightarrow> env \<Rightarrow> mstate \<Rightarrow> vm_monitor \<Rightarrow> mstate \<Rightarrow> bool" where
  "session_start pf e m vmm mi \<longleftrightarrow> (\<exists>v m1 irq m3. cache_vmx_capabilities e vm_monitor_zero m = Some v \<and>
     allocate_memory pf v m = Some (5, vmm, m1) \<and>
     vmlatency_preempt_disable pf irq_flags_uninit (regions_set e vmm m1) = Some (irq, m3) \<and> mi = in_vmx vmm m3)"

text \<open>Memory outside the pages that the kernel hands out.\<close>

definition off_pages :: "env \<Rightarrow> (u64 \<Rightarrow> u64) \<Rightarrow> u64 \<Rightarrow> bool" where
  "off_pages e page_pa x \<longleftrightarrow> (\<forall>k. \<not> x - page_pa (e_alloc e k) < 0x1000)"

lemma store32_off:
  assumes "maps_page e va pa" and "\<not> x - pa < 0x1000"
  shows "m_mem (store32 e va v m) x = m_mem m x"
proof -
  have "x \<noteq> e_v2p e va" "x \<noteq> e_v2p e (va + 1)" "x \<noteq> e_v2p e (va + 2)" "x \<noteq> e_v2p e (va + 3)"
    using maps_pageD [OF assms(1), of 0] maps_pageD [OF assms(1), of 1] maps_pageD [OF assms(1), of 2] maps_pageD [OF assms(1), of 3]
      assms(2) by auto
  then show ?thesis by (simp add: store32_def)
qed

lemma allocate_memory_caps:
  assumes "allocate_memory pf v m = Some (cnt, vmm, m')"
  shows "pinbased_allowed0 vmm = pinbased_allowed0 v" "pinbased_allowed1 vmm = pinbased_allowed1 v"
    "procbased_allowed0 vmm = procbased_allowed0 v" "procbased_allowed1 vmm = procbased_allowed1 v"
    "exit_ctls_allowed0 vmm = exit_ctls_allowed0 v" "exit_ctls_allowed1 vmm = exit_ctls_allowed1 v"
    "entry_ctls_allowed0 vmm = entry_ctls_allowed0 v" "entry_ctls_allowed1 vmm = entry_ctls_allowed1 v"
  using assms unfolding allocate_memory_seq by (auto simp: set_vmm_pages_def)

context vmm_api_pages
begin

lemma allocate_seq_mem:
  assumes g: "good_pages e page_pa" and x: "off_pages e page_pa x"
  shows "allocate_seq pf ps m = Some (k, ps', m') \<Longrightarrow> m_mem m' x = m_mem m x"
proof (induction ps arbitrary: m k ps')
  case (Cons p ps)
  then obtain r p1 m1 where a: "allocate_vmpage pf p m = Some (r, p1, m1)"
    and r: "r \<noteq> 0 \<and> m' = m1 \<or> (\<exists>k1 ps1. allocate_seq pf ps m1 = Some (k1, ps1, m'))"
    by (auto simp: bind_Some_iff split: if_splits)
  have "m_mem m1 x = m_mem m x"
    using alloc_mem [OF a, of x] g x unfolding good_pages_def off_pages_def by blast
  then show ?case using r Cons.IH [of m1] by auto
qed simp

lemma session_start_mem:
  assumes s: "session_start pf e m vmm mi" and k: "kernel_memory e" and g: "good_pages e page_pa" and x: "off_pages e page_pa x"
  shows "m_mem mi x = m_mem m x"
proof -
  obtain v m1 irq m3 where a: "allocate_memory pf v m = Some (5, vmm, m1)"
    and d: "vmlatency_preempt_disable pf irq_flags_uninit (regions_set e vmm m1) = Some (irq, m3)" and mi: "mi = in_vmx vmm m3"
    using s by (auto simp: session_start_def)
  obtain c' where p: "vp_p (vmxon_region vmm) = e_map e (e_alloc e (os_calls (m_os m)))"
    "vp_pa (vmxon_region vmm) = page_pa (e_alloc e (os_calls (m_os m)))"
    "vp_p (vmcs vmm) = e_map e (e_alloc e c')" "vp_pa (vmcs vmm) = page_pa (e_alloc e c')"
    using allocate_memory_pages [OF k, of v m] a by auto
  have off: "maps_page e (vp_p (vmxon_region vmm)) (vp_pa (vmxon_region vmm))" "maps_page e (vp_p (vmcs vmm)) (vp_pa (vmcs vmm))"
    "\<not> x - vp_pa (vmxon_region vmm) < 0x1000" "\<not> x - vp_pa (vmcs vmm) < 0x1000"
    using g x unfolding p good_pages_def off_pages_def by blast+
  have "m_mem mi x = m_mem (regions_set e vmm m1) x"
    using disable_ok [OF d] by (simp add: mi in_vmx_def load_vmcs_def enter_vmx_def with_vmxe_def)
  also have "\<dots> = m_mem m1 x"
    by (simp add: regions_set_def Let_def store32_off [OF off(1,3)] store32_off [OF off(2,4)] split: option.splits)
  also have "\<dots> = m_mem m x"
    using a allocate_seq_mem [OF g x] unfolding allocate_memory_seq by auto
  finally show ?thesis .
qed

lemma session_start_cpu:
  assumes "session_start pf e m vmm mi"
  shows "\<exists>f m1 m3. vmlatency_preempt_disable pf irq_flags_uninit m1 = Some (f, m3) \<and> m_cpu m1 = m_cpu m \<and>
    m_cpu mi = (m_cpu m)\<lparr>r_cr4 := r_cr4 (m_cpu m) OR CR4_VMXE, r_rflags := r_rflags (m_cpu m3)\<rparr>"
proof -
  obtain v m1 irq m3 where a: "allocate_memory pf v m = Some (5, vmm, m1)"
    and d: "vmlatency_preempt_disable pf irq_flags_uninit (regions_set e vmm m1) = Some (irq, m3)" and mi: "mi = in_vmx vmm m3"
    using assms by (auto simp: session_start_def)
  have "m_cpu m1 = m_cpu m" using allocate_memory_outcome [of v m] a by (auto simp: os_step_def)
  then have "m_cpu (regions_set e vmm m1) = m_cpu m" by (simp add: frame)
  moreover from this obtain y where "m_cpu m3 = (m_cpu m)\<lparr>r_rflags := y\<rparr>" using disable_ok [OF d] by auto
  ultimately show ?thesis using d by (intro exI [of _ irq] exI [of _ "regions_set e vmm m1"] exI [of _ m3]) (simp add: mi frame)
qed

end

section \<open>A measurement that takes place\<close>

lemma high_revision_bad:
  assumes b: "r_msrs (m_cpu m) IA32_VMX_BASIC = Some b" and n: "b AND 0xf0000000 \<noteq> 0" and m: "maps_page e va pa"
  shows "\<not> revision_ok pa (store32 e va (ucast (0x8fffffff AND b)) m)"
  using n revision_bits [of b]
  by (simp add: revision_ok_def phys32_store32_same [OF m] frame cpu_revision_def b)

lemma regions_set_bad:
  assumes m: "maps_page e (vp_p (vmxon_region vmm)) (vp_pa (vmxon_region vmm))"
      "maps_page e (vp_p (vmcs vmm)) (vp_pa (vmcs vmm))"
    and p: "pa_ok e (vp_pa (vmxon_region vmm))" "pa_ok e (vp_pa (vmcs vmm))"
    and ne: "vp_pa (vmcs vmm) \<noteq> vp_pa (vmxon_region vmm)"
    and b: "r_msrs (m_cpu m) IA32_VMX_BASIC = Some b" and n: "b AND 0xf0000000 \<noteq> 0"
  shows "\<not> region_ok e (vp_pa (vmxon_region vmm)) (regions_set e vmm m)"
proof -
  have a: "vp_pa (vmxon_region vmm) AND 0xfff = 0" "vp_pa (vmcs vmm) AND 0xfff = 0"
    using p by (simp_all add: pa_ok_def)
  show ?thesis
    using high_revision_bad [OF b n m(1)]
    unfolding regions_set_def Let_def b option.sel region_ok_def revision_ok_def
    by (simp add: phys32_store32_other [OF m(2) ne a(2,1)] frame)
qed

context vmm_api_pages
begin

text \<open>
  With memory to be had, the session starts with two regions whose pages are mapped and apart; whether the
  processor accepts them depends on the high bits of the revision identifier alone.
\<close>

lemma session_prepares:
  assumes mem: "kernel_memory e" "good_pages e page_pa" "distinct_pages e (os_calls (m_os m))"
    and present: "vmx_msrs_present (m_cpu m)"
    and total: "\<And>f m. \<exists>f' m'. vmlatency_preempt_disable pf f m = Some (f', m')"
  shows "\<exists>v vmm m1 irq m3. cache_vmx_capabilities e vm_monitor_zero m = Some v \<and> allocate_memory pf v m = Some (5, vmm, m1) \<and>
    vmlatency_preempt_disable pf irq_flags_uninit (regions_set e vmm m1) = Some (irq, m3) \<and>
    vp_pa (vmcs vmm) \<noteq> vp_pa (vmxon_region vmm) \<and> m_vmx m3 = m_vmx m \<and>
    region_ok e (vp_pa (vmxon_region vmm)) m3 = plain_revision (m_cpu m) \<and>
    (plain_revision (m_cpu m) \<longrightarrow> region_ok e (vp_pa (vmcs vmm)) m3) \<and> (\<exists>k. vp_pa (vmcs vmm) = page_pa (e_alloc e k))"
proof -
  obtain v where v: "cache_vmx_capabilities e vm_monitor_zero m = Some v"
    using cache_present [OF present] by blast
  obtain vmm m1 c' where a: "allocate_memory pf v m = Some (5, vmm, m1)"
    and c': "c' \<in> {os_calls (m_os m) + 1, os_calls (m_os m) + 2}"
    and x: "vp_p (vmxon_region vmm) = e_map e (e_alloc e (os_calls (m_os m)))"
      "vp_pa (vmxon_region vmm) = page_pa (e_alloc e (os_calls (m_os m)))"
      "vp_p (vmcs vmm) = e_map e (e_alloc e c')" "vp_pa (vmcs vmm) = page_pa (e_alloc e c')"
    using allocate_memory_pages [OF mem(1), of v m] by blast
  have o: "m_cpu m1 = m_cpu m" "m_vmx m1 = m_vmx m"
    using allocate_memory_outcome [of v m] a by (auto simp: os_step_def)
  have "e_alloc e c' \<noteq> e_alloc e (os_calls (m_os m))" using mem(3) c' by (auto simp: distinct_pages_def)
  then have ne: "vp_pa (vmcs vmm) \<noteq> vp_pa (vmxon_region vmm)"
    using mem(2) unfolding x good_pages_def by blast
  have pg: "maps_page e (vp_p (vmxon_region vmm)) (vp_pa (vmxon_region vmm))"
    "maps_page e (vp_p (vmcs vmm)) (vp_pa (vmcs vmm))"
    "pa_ok e (vp_pa (vmxon_region vmm))" "pa_ok e (vp_pa (vmcs vmm))"
    using mem(2) unfolding x good_pages_def by blast+
  obtain b where b: "r_msrs (m_cpu m1) IA32_VMX_BASIC = Some b"
    using present o by (auto simp: vmx_msrs_present_def cap_msrs_def)
  obtain irq m3 where d: "vmlatency_preempt_disable pf irq_flags_uninit (regions_set e vmm m1) = Some (irq, m3)"
    using total by blast
  obtain y where y: "m_mem m3 = m_mem (regions_set e vmm m1)" "m_cpu m3 = (m_cpu (regions_set e vmm m1))\<lparr>r_rflags := y\<rparr>"
    "m_vmx m3 = m_vmx m"
    using disable_ok [OF d] o by (auto simp: frame)
  have "region_ok e (vp_pa (vmxon_region vmm)) m3 = plain_revision (m_cpu m)"
    using regions_set_ok(1) [OF pg ne, of m1] regions_set_bad [OF pg ne b] b o
    unfolding region_ok_cong [OF y(1,2)] plain_revision_def by auto
  moreover have "region_ok e (vp_pa (vmcs vmm)) m3" if "plain_revision (m_cpu m)"
    using regions_set_ok(2) [OF pg ne, of m1] that o unfolding region_ok_cong [OF y(1,2)] by simp
  ultimately show ?thesis using v a d ne y(3) x(4) by blast
qed

lemma measure_pages:
  assumes mem: "kernel_memory e" "good_pages e page_pa" "distinct_pages e (os_calls (m_os m))"
    and present: "vmx_msrs_present (m_cpu m)" "host_msrs_present (m_cpu m)" and ready: "vmx_ready m"
    and total: "\<And>f m. \<exists>f' m'. vmlatency_preempt_disable pf f m = Some (f', m')"
  shows "\<exists>vmm m3 p m'. vmx_when e vmm m3 p \<and> measure_vmlatency pf e m = Some m' \<and> left_behind e m p m' \<and>
    vp_pa (vmcs vmm) \<noteq> vp_pa (vmxon_region vmm) \<and> m_vmx m3 = m_vmx m \<and>
    region_ok e (vp_pa (vmxon_region vmm)) m3 = plain_revision (m_cpu m) \<and>
    (plain_revision (m_cpu m) \<longrightarrow> region_ok e (vp_pa (vmcs vmm)) m3) \<and> session_start pf e m vmm (in_vmx vmm m3) \<and>
    (\<exists>k. vp_pa (vmcs vmm) = page_pa (e_alloc e k))"
proof -
  obtain v vmm m1 irq m3 where s: "cache_vmx_capabilities e vm_monitor_zero m = Some v" "allocate_memory pf v m = Some (5, vmm, m1)"
    "vmlatency_preempt_disable pf irq_flags_uninit (regions_set e vmm m1) = Some (irq, m3)"
    and k: "vp_pa (vmcs vmm) \<noteq> vp_pa (vmxon_region vmm)" "m_vmx m3 = m_vmx m"
      "region_ok e (vp_pa (vmxon_region vmm)) m3 = plain_revision (m_cpu m)"
      "plain_revision (m_cpu m) \<longrightarrow> region_ok e (vp_pa (vmcs vmm)) m3" "\<exists>k. vp_pa (vmcs vmm) = page_pa (e_alloc e k)"
    using session_prepares [OF mem present(1) total] by blast
  have "session_start pf e m vmm (in_vmx vmm m3)" using s unfolding session_start_def by blast
  then show ?thesis using measure_with_memory [OF s(1,2) present ready s(3)] k by blast
qed

text \<open>With a plain revision identifier the session gets as far as VMLAUNCH.\<close>

lemma measure_reaches_launch:
  assumes mem: "kernel_memory e" "good_pages e page_pa" "distinct_pages e (os_calls (m_os m))"
    and present: "vmx_msrs_present (m_cpu m)" "host_msrs_present (m_cpu m)" and ready: "vmx_ready m"
    and rev: "plain_revision (m_cpu m)"
    and total: "\<And>f m. \<exists>f' m'. vmlatency_preempt_disable pf f m = Some (f', m')"
  shows "\<exists>p m' vmm m5. measure_vmlatency pf e m = Some m' \<and> left_behind e m p m' \<and>
    guest_when e vmm m5 p \<and> launched (m_vmx m5) = launched (m_vmx m) \<and> vmx_on (m_vmx m5) \<and>
    cur_vmcs (m_vmx m5) = Some (vp_pa (vmcs vmm)) \<and> session_start pf e m vmm m5 \<and> (\<exists>k. vp_pa (vmcs vmm) = page_pa (e_alloc e k))"
proof -
  obtain vmm m3 p m' where p: "vmx_when e vmm m3 p" "measure_vmlatency pf e m = Some m'" "left_behind e m p m'"
    and ne: "vp_pa (vmcs vmm) \<noteq> vp_pa (vmxon_region vmm)" and y: "m_vmx m3 = m_vmx m"
    and ok: "region_ok e (vp_pa (vmxon_region vmm)) m3" "region_ok e (vp_pa (vmcs vmm)) m3"
    and ss: "session_start pf e m vmm (in_vmx vmm m3)" "\<exists>k. vp_pa (vmcs vmm) = page_pa (e_alloc e k)"
    using measure_pages [OF mem present ready total] rev by blast
  have "guest_when e vmm (in_vmx vmm m3) p"
    using p(1) ok ne by (simp add: vmx_when_def)
  moreover have "launched (m_vmx (in_vmx vmm m3)) = launched (m_vmx m)"
    using y by (simp add: in_vmx_def load_vmcs_def enter_vmx_def frame)
  ultimately show ?thesis using p(2,3) in_vmx_frame(3,4) ss by blast
qed

text \<open>With any of bits 28 to 31 set in IA32_VMX_BASIC the processor refuses VMXON.\<close>

lemma measure_high_revision:
  assumes mem: "kernel_memory e" "good_pages e page_pa" "distinct_pages e (os_calls (m_os m))"
    and present: "vmx_msrs_present (m_cpu m)" "host_msrs_present (m_cpu m)" and ready: "vmx_ready m"
    and total: "\<And>f m. \<exists>f' m'. vmlatency_preempt_disable pf f m = Some (f', m')"
    and bad: "\<not> plain_revision (m_cpu m)"
  shows "\<exists>m'. measure_vmlatency pf e m = Some m' \<and> left_behind e m Vmxon_refused m'"
  using measure_pages [OF mem present ready total] bad by (auto simp: vmx_when_def)

end

section \<open>What the statistics say\<close>

lemma guest_when_bounds:
  assumes "guest_when e vmm m (Measured r vs)"
    and "\<And>m. lo \<le> unat (e_cycles e m) \<and> unat (e_cycles e m) \<le> hi" and "hi < 2 ^ 44"
  shows "\<forall>n < VMX_ITERATIONS. lo \<le> unat (vs ! n) \<and> unat (vs ! n) \<le> hi"
  using assms(1) round_stat_bounds [OF assms(2,3)] by (auto simp: Let_def split_beta)

text \<open>The same in terms of the functions of the program.\<close>

lemma measured_averages:
  assumes w: "guest_when e vmm mi (Measured r vs)" and s: "session_start pf e m vmm mi" and p: "host_msrs_present (m_cpu mi)"
    and c: "\<And>m. lo \<le> unat (e_cycles e m) \<and> unat (e_cycles e m) \<le> hi" "hi < 2 ^ 44"
  shows "\<exists>mp ml m7 m8. initialize_vmcs e vmm mi = Some mp \<and> do_vmlaunch e mp = Some (0, ml) \<and> log_step (exit_report r) ml m7 \<and>
    measure_loop e 0 (replicate VMX_ITERATIONS None) m7 = Some (map Some vs, m8) \<and>
    (\<forall>n < VMX_ITERATIONS. unat (vs ! n) =
      total_cycles e (vp_pa (vmcs vmm)) (2 ^ n) (resume_iter e (vp_pa (vmcs vmm)) (2 ^ n - 1) m7) div 2 ^ n)"
proof -
  let ?pa = "vp_pa (vmcs vmm)" and ?mp = "prepared e vmm mi"
  have on: "vmx_on (m_vmx mi)" "cur_vmcs (m_vmx mi) = Some ?pa" using s by (auto simp: session_start_def in_vmx_frame)
  obtain m7 where m7: "fst (vm_enter e True ?pa ?mp) = 0" "has_vmcs e ?pa m7"
    "log_step (exit_report r) (snd (vm_enter e True ?pa ?mp)) m7" "vs = map (\<lambda>k. round_stat e ?pa k m7) [0..<VMX_ITERATIONS]"
    using w by (auto simp: Let_def split_beta)
  have "do_vmlaunch e ?mp = Some (0, snd (vm_enter e True ?pa ?mp))"
    using do_vmlaunch_eq [OF run_inv_vmcs [OF run_inv_prepared(1) [OF on]], of e] m7(1) by (simp add: prod_eq_iff)
  then show ?thesis
    using initialize_vmcs_writes [OF on p, of e vmm] m7(3) measure_loop_all [OF m7(2)] round_stat_exact [OF c]
    unfolding m7(4) prepared_def [symmetric] by (fastforce simp: comp_def)
qed

end
