(* ===== verification/Linux_Api.thy ===== *)
theory Linux_Api
  imports Vmm_Api
begin

text \<open>
  \<^verbatim>\<open>linux/api.c\<close>: a page from \<^verbatim>\<open>alloc_page\<close>, zeroed, mapped by \<^verbatim>\<open>kmap\<close>; preemption counted and local
  interrupts saved and cleared; messages to the kernel log.
\<close>

definition linux_allocate_vmpage :: "env \<Rightarrow> vmpage \<Rightarrow> mstate \<Rightarrow> (int \<times> vmpage \<times> mstate) option" where
  "linux_allocate_vmpage e p m =
     (let (page, m) = k_alloc_page e m;
          p = p\<lparr>vp_handle := page\<rparr>
      in if page = 0 then Some (-1, p, m)
         else
           let m = k_map page (zero_phys (e_phys e page) m);
               p = p\<lparr>vp_p := e_map e page\<rparr>;
               p = p\<lparr>vp_pa := e_phys e page\<rparr>
           in Some (0, p, m))"

definition linux_free_vmpage :: "vmpage \<Rightarrow> mstate \<Rightarrow> (vmpage \<times> mstate) option" where
  "linux_free_vmpage p m = do {
     m \<leftarrow> k_unmap (vp_handle p) m;
     m \<leftarrow> k_free_page (vp_handle p) m;
     Some (p\<lparr>vp_handle := 0, vp_p := 0, vp_pa := 0\<rparr>, m)
   }"

definition linux_printm :: "string \<Rightarrow> mstate \<Rightarrow> mstate option" where
  "linux_printm s m = Some (k_log s m)"

definition linux_preempt_disable :: "irq_flags \<Rightarrow> mstate \<Rightarrow> (irq_flags \<times> mstate) option" where
  "linux_preempt_disable f m =
     (let m = set_os (\<lambda>s. s\<lparr>os_preempt := os_preempt s + 1\<rparr>) m;
          f = f\<lparr>iq_flags := r_rflags (m_cpu m)\<rparr>
      in Some (f, cli m))"

definition linux_preempt_enable :: "irq_flags \<Rightarrow> mstate \<Rightarrow> (irq_flags \<times> mstate) option" where
  "linux_preempt_enable f m =
     (let m = restore_if (iq_flags f) m;
          m = set_os (\<lambda>s. s\<lparr>os_preempt := os_preempt s - 1\<rparr>) m
      in Some (f, m))"

definition linux_platform :: "env \<Rightarrow> platform" where
  "linux_platform e =
     \<lparr>allocate_vmpage = linux_allocate_vmpage e, free_vmpage = linux_free_vmpage,
      vmlatency_preempt_disable = linux_preempt_disable,
      vmlatency_preempt_enable = linux_preempt_enable,
      vmlatency_printm = linux_printm\<rparr>"

lemmas linux_defs = linux_platform_def linux_allocate_vmpage_def linux_free_vmpage_def linux_printm_def
  linux_preempt_disable_def linux_preempt_enable_def

interpretation lin: vmm_api_total "linux_platform e" for e
proof (unfold_locales, goal_cases)
  case (1 p m)
  then show ?case by (simp add: linux_defs Let_def split: prod.splits)
next
  case (2 p m r p' m')
  then show ?case by (auto simp: linux_defs Let_def split: prod.splits if_splits)
next
  case (3 p m p' m')
  then show ?case
    by (auto simp: linux_defs Let_def k_alloc_page_def k_map_def zero_phys_def ledger_defs split: if_splits)
next
  case (4 p m p' m')
  then show ?case
    by (auto simp: linux_defs Let_def k_alloc_page_def ledger_defs split: if_splits)
next
  case (5 p m r p' m')
  then show ?case
    by (auto simp: linux_defs Let_def k_alloc_page_def k_map_def zero_phys_def ledger_defs os_step_def
        split: if_splits)
next
  case (6 p m)
  then show ?case
    by (simp add: linux_defs k_unmap_def k_free_page_def ledger_defs os_step_def vmpage_zero_def)
next
  case (7 s m)
  then show ?case by (simp add: linux_defs k_log_def ledger_defs os_step_def)
next
  case (8 f m f' m')
  then show ?case
    by (auto simp: linux_defs Let_def cli_def int_enabled_def ledger_defs)
next
  case (9 f m f' m1 m2)
  then show ?case
    by (auto simp: linux_defs Let_def cli_def restore_if_def int_enabled_def ledger_defs)
next
  case (10 p m p' m')
  then show ?case
    by (auto simp: linux_defs k_unmap_def k_free_page_def bind_Some_iff split: if_splits)
next
  case (11 f m f' m')
  then show ?case
    by (auto simp: linux_defs Let_def restore_if_def bind_Some_iff split: if_splits)
next
  case (12 f m)
  then show ?case by (simp add: linux_defs Let_def)
qed

text \<open>What this port writes of memory, and the MDLs.\<close>

interpretation lin_frame: vmm_api_frame "linux_platform e" for e
proof (unfold_locales, goal_cases)
  case (1 p m r p' m')
  then show ?case
    by (auto simp: linux_defs Let_def k_alloc_page_def k_map_def k_free_page_def zero_phys_def
        intro: exI [of _ "[]"] exI [of _ "[vp_handle p']"] split: if_splits)
qed (auto simp: linux_defs mem_mdls_def Let_def k_unmap_def k_free_page_def k_log_def cli_def restore_if_def bind_Some_iff
    split: if_splits)

text \<open>The pages of this port.\<close>

interpretation lin_pages: vmm_api_pages "linux_platform e" e "e_phys e" for e
proof (unfold_locales, goal_cases)
  case (1 p m p' m')
  then show ?case
    by (auto simp: linux_defs Let_def k_alloc_page_def k_map_def k_free_page_def zero_phys_def split: if_splits)
next
  case (2 p m)
  then show ?case by (auto simp: linux_defs Let_def kernel_memory_def k_alloc_page_def)
next
  case (3 p m r p' m' x)
  then show ?case
    by (auto simp: linux_defs Let_def k_alloc_page_def k_map_def k_free_page_def zero_phys_def split: if_splits)
qed

text \<open>A new page is clean.\<close>

lemma linux_page_clean:
  assumes "linux_allocate_vmpage e p m = Some (0, p', m')" and "i < 0x1000"
  shows "m_mem m' (vp_pa p' + i) = 0"
  using assms by (auto simp: linux_defs Let_def k_alloc_page_def k_map_def zero_phys_clears split: if_splits)

text \<open>The result of one allocation, by the kernel's answer.\<close>

lemma linux_allocate_result:
  "\<exists>p' m'. allocate_vmpage (linux_platform e) p m =
      Some (if e_alloc e (os_calls (m_os m)) = 0 then -1 else 0, p', m') \<and>
    vp_handle p' = e_alloc e (os_calls (m_os m)) \<and> os_calls (m_os m') = os_calls (m_os m) + 1"
  by (simp add: linux_defs Let_def k_alloc_page_def k_map_def zero_phys_def)

end
