(* ===== verification/Mac_Api.thy ===== *)
theory Mac_Api
  imports Vmm_Api
begin

text \<open>
  \<^verbatim>\<open>mac/api.cpp\<close>: a page is an \<^verbatim>\<open>IOBufferMemoryDescriptor\<close>, obtained, wired by \<^verbatim>\<open>prepare\<close> and
  cleared through its virtual address; interrupts are disabled by taking a freshly allocated
  simple lock.  The result of \<^verbatim>\<open>IOSimpleLockAlloc\<close> is not checked, and taking the lock
  \<^verbatim>\<open>NULL\<close> does not come back.
\<close>

definition memset_page :: "env \<Rightarrow> u64 \<Rightarrow> mstate \<Rightarrow> mstate" where
  "memset_page e va m =
     m\<lparr>m_mem := foldl (\<lambda>mem i. mem(e_v2p e (va + of_nat i) := 0)) (m_mem m) [0..<0x1000]\<rparr>"

text \<open>\<^verbatim>\<open>prepare\<close> wires the pages of the descriptor and \<^verbatim>\<open>complete\<close> undoes it: the ledger \<open>os_maps\<close>.\<close>

definition k_prepare :: "env \<Rightarrow> u64 \<Rightarrow> mstate \<Rightarrow> bool \<times> mstate" where
  "k_prepare e h m =
     (let ok = e_prepare e (os_calls (m_os m));
          m = set_os (\<lambda>s. s\<lparr>os_calls := os_calls s + 1\<rparr>) m
      in (ok, if ok then k_map h m else m))"

definition k_lock_alloc :: "env \<Rightarrow> mstate \<Rightarrow> u64 \<times> mstate" where
  "k_lock_alloc e m =
     (let l = e_lock e (os_calls (m_os m));
          m = set_os (\<lambda>s. s\<lparr>os_calls := os_calls s + 1\<rparr>) m
      in (l, if l = 0 then m else set_os (\<lambda>s. s\<lparr>os_locks := add_mset l (os_locks s)\<rparr>) m))"

definition k_lock_free :: "u64 \<Rightarrow> mstate \<Rightarrow> mstate option" where
  "k_lock_free l m =
     (if l \<in># os_locks (m_os m)
      then Some (set_os (\<lambda>s. s\<lparr>os_locks := os_locks s - {#l#}\<rparr>) m) else None)"

definition mac_allocate_vmpage :: "env \<Rightarrow> vmpage \<Rightarrow> mstate \<Rightarrow> (int \<times> vmpage \<times> mstate) option" where
  "mac_allocate_vmpage e p m =
     (let (page, m) = k_alloc_page e m;
          p = p\<lparr>vp_handle := page\<rparr>
      in if page = 0 then Some (-1, p, m)
         else
           let (ok, m) = k_prepare e page m
           in if \<not> ok then do {
                m \<leftarrow> k_free_page page m;
                Some (-1, p, m)
              }
              else
                let p = p\<lparr>vp_p := e_map e page\<rparr>;
                    m = memset_page e (vp_p p) m;
                    p = p\<lparr>vp_pa := e_phys e page\<rparr>
                in Some (0, p, m))"

definition mac_free_vmpage :: "vmpage \<Rightarrow> mstate \<Rightarrow> (vmpage \<times> mstate) option" where
  "mac_free_vmpage p m = do {
     m \<leftarrow> k_unmap (vp_handle p) m;
     m \<leftarrow> k_free_page (vp_handle p) m;
     Some (p\<lparr>vp_handle := 0, vp_p := 0, vp_pa := 0\<rparr>, m)
   }"

definition mac_printm :: "string \<Rightarrow> mstate \<Rightarrow> mstate option" where
  "mac_printm s m = Some (k_log s m)"

definition mac_preempt_disable :: "env \<Rightarrow> irq_flags \<Rightarrow> mstate \<Rightarrow> (irq_flags \<times> mstate) option" where
  "mac_preempt_disable e f m =
     (let (l, m) = k_lock_alloc e m;
          f = f\<lparr>iq_lock := l\<rparr>
      in if l = 0 then None
         else Some (f\<lparr>iq_flags := r_rflags (m_cpu m) AND FLAG_IF\<rparr>, cli m))"

definition mac_preempt_enable :: "irq_flags \<Rightarrow> mstate \<Rightarrow> (irq_flags \<times> mstate) option" where
  "mac_preempt_enable f m = do {
     let m = restore_if (iq_flags f) m;
     m \<leftarrow> k_lock_free (iq_lock f) m;
     Some (f\<lparr>iq_lock := 0\<rparr>, m)
   }"

definition mac_platform :: "env \<Rightarrow> platform" where
  "mac_platform e =
     \<lparr>allocate_vmpage = mac_allocate_vmpage e, free_vmpage = mac_free_vmpage,
      vmlatency_preempt_disable = mac_preempt_disable e,
      vmlatency_preempt_enable = mac_preempt_enable,
      vmlatency_printm = mac_printm\<rparr>"

lemmas mac_defs = mac_platform_def mac_allocate_vmpage_def mac_free_vmpage_def mac_printm_def
  mac_preempt_disable_def mac_preempt_enable_def k_prepare_def k_lock_alloc_def k_lock_free_def
  memset_page_def

interpretation mac: vmm_api "mac_platform e" for e
proof (unfold_locales, goal_cases)
  case (1 p m)
  then show ?case
    by (auto simp: mac_defs Let_def k_alloc_page_def k_free_page_def)
next
  case (2 p m r p' m')
  then show ?case
    by (auto simp: mac_defs Let_def bind_Some_iff split: prod.splits if_splits)
next
  case (3 p m p' m')
  then show ?case
    by (auto simp: mac_defs Let_def k_alloc_page_def k_map_def k_free_page_def ledger_defs
        split: if_splits)
next
  case (4 p m p' m')
  then show ?case
    by (auto simp: mac_defs Let_def k_alloc_page_def k_free_page_def ledger_defs split: if_splits)
next
  case (5 p m r p' m')
  then show ?case
    by (auto simp: mac_defs Let_def k_alloc_page_def k_map_def k_free_page_def ledger_defs os_step_def
        split: if_splits)
next
  case (6 p m)
  then show ?case
    by (simp add: mac_defs k_unmap_def k_free_page_def ledger_defs os_step_def vmpage_zero_def)
next
  case (7 s m)
  then show ?case by (simp add: mac_defs k_log_def ledger_defs os_step_def)
next
  case (8 f m f' m')
  then show ?case
    by (auto simp: mac_defs Let_def cli_def int_enabled_def ledger_defs split: if_splits)
next
  case (9 f m f' m1 m2)
  then show ?case
    by (auto simp: mac_defs Let_def cli_def restore_if_def int_enabled_def ledger_defs split: if_splits)
next
  case (10 p m p' m')
  then show ?case
    by (auto simp: mac_defs k_unmap_def k_free_page_def bind_Some_iff split: if_splits)
next
  case (11 f m f' m')
  then show ?case
    by (auto simp: mac_defs Let_def restore_if_def bind_Some_iff split: if_splits)
qed

text \<open>Disabling interrupts comes back exactly when the lock could be allocated.\<close>

lemma mac_preempt_disable_returns:
  "(\<exists>f' m'. mac_preempt_disable e f m = Some (f', m')) \<longleftrightarrow> e_lock e (os_calls (m_os m)) \<noteq> 0"
  by (simp add: mac_defs Let_def)

text \<open>\<^verbatim>\<open>memset\<close> writes the page that the range is mapped to, and nothing else.\<close>

lemma memset_page_other:
  assumes "maps_page e va pa" and "\<not> x - pa < 0x1000" and "n \<le> 0x1000"
  shows "foldl (\<lambda>mem i. mem(e_v2p e (va + of_nat i) := 0)) f [0..<n] x = (f x :: u8)"
  using assms(3)
proof (induction n)
  case (Suc n)
  have n: "(of_nat n :: u64) < 0x1000" using Suc.prems by (simp add: word_less_nat_alt unsigned_of_nat take_bit_nat_eq_self)
  then have "e_v2p e (va + of_nat n) = pa + of_nat n" by (rule maps_pageD [OF assms(1)])
  then have "x \<noteq> e_v2p e (va + of_nat n)" using assms(2) n by auto
  then show ?case using Suc by simp
qed simp

text \<open>What this port writes of memory, and the MDLs.\<close>

interpretation mac_frame: vmm_api_frame "mac_platform e" for e
proof (unfold_locales, goal_cases)
  case (1 p m r p' m')
  then show ?case
    by (auto simp: mac_defs Let_def k_alloc_page_def k_map_def k_free_page_def zero_phys_def
        intro: exI [of _ "[]"] exI [of _ "[vp_handle p']"] split: if_splits)
qed (auto simp: mac_defs mem_mdls_def Let_def k_unmap_def k_free_page_def k_log_def cli_def restore_if_def bind_Some_iff
    split: if_splits)

text \<open>The pages of this port.\<close>

interpretation mac_pages: vmm_api_pages "mac_platform e" e "e_phys e" for e
proof (unfold_locales, goal_cases)
  case (1 p m p' m')
  then show ?case
    by (auto simp: mac_defs Let_def k_alloc_page_def k_map_def k_free_page_def zero_phys_def split: if_splits)
next
  case (2 p m)
  then show ?case by (auto simp: mac_defs Let_def kernel_memory_def k_alloc_page_def)
next
  case (3 p m r p' m' x)
  then show ?case
    by (auto simp: mac_defs Let_def k_alloc_page_def k_map_def k_free_page_def memset_page_other split: if_splits)
qed

text \<open>A new page is clean, if the virtual range is where the descriptor says it is.\<close>

lemma memset_page_zero:
  assumes "n \<le> 0x1000" and "i < n"
  shows "foldl (\<lambda>mem i. mem(tr (va + of_nat i) := 0)) f [0..<n] (tr (va + of_nat i :: u64)) = (0 :: u8)"
  using assms
proof (induction n)
  case (Suc n)
  then show ?case by (cases "i = n") auto
qed simp

lemma memset_page_clears:
  assumes "maps_page e va pa" and "i < 0x1000"
  shows "m_mem (memset_page e va m) (pa + i) = 0"
proof -
  have "i = of_nat (unat i)" by simp
  then have t: "pa + i = e_v2p e (va + of_nat (unat i))" using maps_pageD [OF assms] by simp
  have "unat i < 0x1000" using assms(2) by (simp add: word_less_nat_alt)
  then show ?thesis
    unfolding t memset_page_def using memset_page_zero [of "0x1000" "unat i" "e_v2p e" va "m_mem m"] by simp
qed

lemma mac_page_clean:
  assumes "mac_allocate_vmpage e p m = Some (0, p', m')" and "maps_page e (vp_p p') (vp_pa p')" and "i < 0x1000"
  shows "m_mem m' (vp_pa p' + i) = 0"
  using assms memset_page_clears
  by (auto simp: mac_allocate_vmpage_def k_prepare_def Let_def k_alloc_page_def k_map_def k_free_page_def split: if_splits)

end
