(* ===== verification/Win_Api.thy ===== *)
theory Win_Api
  imports Vmm_Api
begin

text \<open>
  \<^verbatim>\<open>win/api.c\<close>: a page is described by an MDL, whose physical pages and whose structure are given
  back separately; mapping can fail; interrupts are disabled at dispatch level, and a message
  is also written to the event log when the processor is at passive level.
\<close>

definition k_raise_irql :: "mstate \<Rightarrow> u8 \<times> mstate" where
  "k_raise_irql m = (os_irql (m_os m), set_os (\<lambda>s. s\<lparr>os_irql := 2\<rparr>) m)"

definition k_mdl_alloc :: "env \<Rightarrow> mstate \<Rightarrow> u64 \<times> mstate" where
  "k_mdl_alloc e m =
     (let (h, m) = k_alloc_page e m
      in (h, if h = 0 then m
             else set_os (\<lambda>s. s\<lparr>os_mdls := add_mset h (os_mdls s)\<rparr>) (zero_phys (push_bit 12 (e_phys e h)) m)))"

definition win_printm :: "env \<Rightarrow> string \<Rightarrow> mstate \<Rightarrow> mstate option" where
  "win_printm e s m =
     (let m = k_log s m
      in if os_irql (m_os m) = 0 then
           let entry = e_evlog e (os_calls (m_os m));
               m = set_os (\<lambda>s. s\<lparr>os_calls := os_calls s + 1\<rparr>) m
           in if \<not> entry then Some m
              else Some (set_os (\<lambda>x. x\<lparr>os_evlog := os_evlog x @ [take (e_max_msg_ch e - 1) s]\<rparr>) m)
         else Some m)"

definition win_preempt_disable :: "irq_flags \<Rightarrow> mstate \<Rightarrow> (irq_flags \<times> mstate) option" where
  "win_preempt_disable f m =
     (let (irql, m) = k_raise_irql m;
          f = f\<lparr>iq_irql := irql\<rparr>;
          f = f\<lparr>iq_flags := r_rflags (m_cpu m)\<rparr>
      in Some (f, cli m))"

definition win_preempt_enable :: "irq_flags \<Rightarrow> mstate \<Rightarrow> (irq_flags \<times> mstate) option" where
  "win_preempt_enable f m =
     (let m = set_cpu (\<lambda>c. c\<lparr>r_rflags := iq_flags f\<rparr>) m;
          m = set_os (\<lambda>s. s\<lparr>os_irql := iq_irql f\<rparr>) m
      in Some (f, m))"

definition win_allocate_vmpage :: "env \<Rightarrow> vmpage \<Rightarrow> mstate \<Rightarrow> (int \<times> vmpage \<times> mstate) option" where
  "win_allocate_vmpage e p m =
     (let (mdl, m) = k_mdl_alloc e m;
          p = p\<lparr>vp_handle := mdl\<rparr>
      in if mdl = 0 then Some (-1, p, m)
         else
           let p = p\<lparr>vp_p := e_map e mdl\<rparr>
           in if vp_p p = 0 then do {
                m \<leftarrow> k_free_page mdl m;
                Some (-1, p, m)
              }
              else
                let m = k_map mdl m;
                    p = p\<lparr>vp_pa := push_bit 12 (e_phys e mdl)\<rparr>
                in Some (0, p, m))"

definition win_free_vmpage :: "vmpage \<Rightarrow> mstate \<Rightarrow> (vmpage \<times> mstate) option" where
  "win_free_vmpage p m = do {
     m \<leftarrow> k_unmap (vp_handle p) m;
     m \<leftarrow> k_free_page (vp_handle p) m;
     Some (p\<lparr>vp_handle := 0, vp_p := 0, vp_pa := 0\<rparr>, m)
   }"

definition win_platform :: "env \<Rightarrow> platform" where
  "win_platform e =
     \<lparr>allocate_vmpage = win_allocate_vmpage e, free_vmpage = win_free_vmpage,
      vmlatency_preempt_disable = win_preempt_disable,
      vmlatency_preempt_enable = win_preempt_enable,
      vmlatency_printm = win_printm e\<rparr>"

lemmas win_defs = win_platform_def win_allocate_vmpage_def win_free_vmpage_def win_printm_def
  win_preempt_disable_def win_preempt_enable_def k_raise_irql_def k_mdl_alloc_def

interpretation win: vmm_api_total "win_platform e" for e
proof (unfold_locales, goal_cases)
  case (1 p m)
  then show ?case
    by (auto simp: win_defs Let_def k_alloc_page_def k_free_page_def zero_phys_def)
next
  case (2 p m r p' m')
  then show ?case
    by (auto simp: win_defs Let_def bind_Some_iff split: prod.splits if_splits)
next
  case (3 p m p' m')
  then show ?case
    by (auto simp: win_defs Let_def k_alloc_page_def k_map_def k_free_page_def zero_phys_def ledger_defs
        split: if_splits)
next
  case (4 p m p' m')
  then show ?case
    by (auto simp: win_defs Let_def k_alloc_page_def k_free_page_def zero_phys_def ledger_defs split: if_splits)
next
  case (5 p m r p' m')
  then show ?case
    by (auto simp: win_defs Let_def k_alloc_page_def k_map_def k_free_page_def zero_phys_def ledger_defs
        os_step_def split: if_splits)
next
  case (6 p m)
  then show ?case
    by (simp add: win_defs k_unmap_def k_free_page_def ledger_defs os_step_def vmpage_zero_def)
next
  case (7 s m)
  then show ?case by (simp add: win_defs k_log_def ledger_defs os_step_def Let_def)
next
  case (8 f m f' m')
  then show ?case
    by (auto simp: win_defs Let_def cli_def int_enabled_def ledger_defs)
next
  case (9 f m f' m1 m2)
  then show ?case
    by (auto simp: win_defs Let_def cli_def int_enabled_def ledger_defs)
next
  case (10 p m p' m')
  then show ?case
    by (auto simp: win_defs k_unmap_def k_free_page_def bind_Some_iff split: if_splits)
next
  case (11 f m f' m')
  then show ?case
    by (auto simp: win_defs Let_def restore_if_def bind_Some_iff split: if_splits)
next
  case (12 f m)
  then show ?case by (simp add: win_defs Let_def)
qed

text \<open>What this port writes of memory, and the MDLs.\<close>

interpretation win_frame: vmm_api_frame "win_platform e" for e
proof (unfold_locales, goal_cases)
  case (1 p m r p' m')
  then show ?case
    by (auto simp: win_defs Let_def k_alloc_page_def k_map_def k_free_page_def zero_phys_def
        intro: exI [of _ "[]"] exI [of _ "[vp_handle p']"] split: if_splits)
qed (auto simp: win_defs mem_mdls_def Let_def k_unmap_def k_free_page_def k_log_def cli_def restore_if_def bind_Some_iff
    split: if_splits)

text \<open>The pages of this port.\<close>

interpretation win_pages: vmm_api_pages "win_platform e" e "\<lambda>h. push_bit 12 (e_phys e h)" for e
proof (unfold_locales, goal_cases)
  case (1 p m p' m')
  then show ?case
    by (auto simp: win_defs Let_def k_alloc_page_def k_map_def k_free_page_def zero_phys_def split: if_splits)
next
  case (2 p m)
  then show ?case by (auto simp: win_defs Let_def kernel_memory_def k_alloc_page_def)
next
  case (3 p m r p' m' x)
  then show ?case
    by (auto simp: win_defs Let_def k_alloc_page_def k_map_def k_free_page_def zero_phys_def split: if_splits)
qed

text \<open>A new page is clean.\<close>

lemma win_page_clean:
  assumes "win_allocate_vmpage e p m = Some (0, p', m')" and "i < 0x1000"
  shows "m_mem m' (vp_pa p' + i) = 0"
  using assms by (auto simp: win_defs Let_def k_alloc_page_def k_map_def k_free_page_def zero_phys_clears split: if_splits)

text \<open>The structure of the MDL stays behind when the page is given back.\<close>

lemma win_mdl_leak:
  assumes "win_allocate_vmpage e p m = Some (0, p', m1)"
  shows "\<exists>m2. win_free_vmpage p' m1 = Some (vmpage_zero, m2) \<and> page_ledger m2 = page_ledger m \<and>
    os_mdls (m_os m2) = add_mset (vp_handle p') (os_mdls (m_os m))"
  using assms
  by (auto simp: win_defs Let_def k_alloc_page_def k_map_def k_unmap_def k_free_page_def zero_phys_def
      page_ledger_def vmpage_zero_def split: if_splits)

end
