(* ===== verification/Modules.thy ===== *)
theory Modules
  imports Vmx_Pages Linux_Api Mac_Api Win_Api
begin

text \<open>
  The entry points that the kernels call: \<^verbatim>\<open>linux/module.c\<close>, \<^verbatim>\<open>mac/module.c\<close> and \<^verbatim>\<open>win/module.c\<close>.  The port
  that is linked in is chosen by the target, and satisfies the contract of \<^verbatim>\<open>vmm/api.h\<close> whichever it is.
\<close>

definition platform_of :: "env \<Rightarrow> platform" where
  "platform_of e =
     (case e_target e of Linux \<Rightarrow> linux_platform e | MacOS \<Rightarrow> mac_platform e | Windows \<Rightarrow> win_platform e)"

interpretation port: vmm_api "platform_of e" for e
  by (cases "e_target e")
    (simp_all add: platform_of_def lin.vmm_api_axioms mac.vmm_api_axioms win.vmm_api_axioms)

interpretation port_frame: vmm_api_frame "platform_of e" for e
  by (cases "e_target e")
    (simp_all add: platform_of_def lin_frame.vmm_api_frame_axioms mac_frame.vmm_api_frame_axioms win_frame.vmm_api_frame_axioms)

lemma allocation_outcomes:
  "\<exists>k cnt vmm' m'. allocate_memory (platform_of e) vmm m = Some (cnt, vmm', m') \<and>
     ledger_plus m (take k (vmm_handles vmm')) m' \<and> m_cpu m' = m_cpu m \<and>
     ((k = 5 \<and> cnt = 5 \<and> (\<exists>vmm'' m''. free_memory (platform_of e) vmm' cnt m' = Some (vmm'', m'') \<and> page_ledger m'' = page_ledger m)) \<or>
      (k < 5 \<and> cnt = - int k \<and> free_memory (platform_of e) vmm' cnt m' = Some (vmm', m')))"
  by (rule port.allocate_free_balance)

definition port_page_pa :: "env \<Rightarrow> u64 \<Rightarrow> u64" where
  "port_page_pa e h = (if e_target e = Windows then push_bit 12 (e_phys e h) else e_phys e h)"

interpretation port_pages: vmm_api_pages "platform_of e" e "port_page_pa e" for e
  by (cases "e_target e")
    (simp_all add: platform_of_def port_page_pa_def [abs_def] lin_pages.vmm_api_pages_axioms
      mac_pages.vmm_api_pages_axioms win_pages.vmm_api_pages_axioms)

section \<open>Linux and Mac OS\<close>

definition vmlatency_init :: "platform \<Rightarrow> env \<Rightarrow> mstate \<Rightarrow> (int \<times> mstate) option" where
  "vmlatency_init pf e m = do {
     (enabled, m) \<leftarrow> vmx_enabled pf e m;
     if \<not> enabled then Some (0, m)
     else do {
       m \<leftarrow> print_vmx_info pf e m;
       m \<leftarrow> measure_vmlatency pf e m;
       Some (0, m)
     }
   }"

definition vmlatency_exit :: "mstate \<Rightarrow> mstate" where
  "vmlatency_exit m = m"

definition KERN_SUCCESS :: int where
  "KERN_SUCCESS = 0"

definition vmlatency_start :: "platform \<Rightarrow> env \<Rightarrow> mstate \<Rightarrow> (int \<times> mstate) option" where
  "vmlatency_start pf e m = do {
     (enabled, m) \<leftarrow> vmx_enabled pf e m;
     if \<not> enabled then Some (KERN_SUCCESS, m)
     else do {
       m \<leftarrow> print_vmx_info pf e m;
       m \<leftarrow> measure_vmlatency pf e m;
       Some (KERN_SUCCESS, m)
     }
   }"

definition vmlatency_stop :: "mstate \<Rightarrow> int \<times> mstate" where
  "vmlatency_stop m = (KERN_SUCCESS, m)"

section \<open>Windows\<close>

text \<open>
  \<^verbatim>\<open>IoCreateDevice\<close> stores the new device in its last argument and in the driver object;
  \<^verbatim>\<open>IoDeleteDevice\<close> takes it out of the driver object.  A status is a success if it is not negative.
\<close>

definition nt_success :: "u32 \<Rightarrow> bool" where
  "nt_success st \<longleftrightarrow> 0 \<le> sint st"

definition io_create_device :: "env \<Rightarrow> mstate \<Rightarrow> u32 \<times> mstate" where
  "io_create_device e m =
     (let (st, d) = e_device e (os_calls (m_os m));
          m = set_os (\<lambda>s. s\<lparr>os_calls := os_calls s + 1\<rparr>) m
      in (st, if nt_success st
              then set_os (\<lambda>s. s\<lparr>os_devices := add_mset d (os_devices s), os_g_device := d, os_drv_device := d\<rparr>) m
              else m))"

definition io_delete_device :: "u64 \<Rightarrow> mstate \<Rightarrow> mstate option" where
  "io_delete_device d m =
     (if d \<in># os_devices (m_os m)
      then Some (set_os (\<lambda>s. s\<lparr>os_devices := os_devices s - {#d#},
             os_drv_device := (if os_drv_device s = d then 0 else os_drv_device s)\<rparr>) m)
      else None)"

definition driver_entry :: "platform \<Rightarrow> env \<Rightarrow> mstate \<Rightarrow> (u32 \<times> mstate) option" where
  "driver_entry pf e m = do {
     let (nt_status, m) = io_create_device e m;
     if \<not> nt_success nt_status then do {
       m \<leftarrow> vmlatency_printk pf (''Couldn'' @ [CHR 0x27] @ ''t create the device object'' @ nl) m;
       Some (nt_status, m)
     }
     else do {
       let m = set_os (\<lambda>s. s\<lparr>os_drv_unload := True\<rparr>) m;
       m \<leftarrow> print_vmx_info pf e m;
       m \<leftarrow> measure_vmlatency pf e m;
       Some (nt_status, m)
     }
   }"

definition unload_driver :: "mstate \<Rightarrow> mstate option" where
  "unload_driver m = do {
     let device_object = os_drv_device (m_os m);
     m \<leftarrow> (if device_object \<noteq> 0 then io_delete_device device_object m else Some m);
     Some (set_os (\<lambda>s. s\<lparr>os_g_device := 0\<rparr>) m)
   }"

section \<open>What the entry points do\<close>

lemma vmlatency_start_init: "vmlatency_start pf e m = vmlatency_init pf e m"
  unfolding vmlatency_start_def vmlatency_init_def KERN_SUCCESS_def by (rule refl)

text \<open>
  What the processor's documentation promises a kernel: the capability MSRs where CPUID reports VMX, a brand
  string that ends in a zero byte, and control registers that VMX operation accepts.
\<close>

definition good_host :: "env \<Rightarrow> mstate \<Rightarrow> bool" where
  "good_host e m \<longleftrightarrow>
     (has_vmx e \<longrightarrow> vmx_msrs_present (m_cpu m) \<and> r_msrs (m_cpu m) IA32_FEATURE_CONTROL \<noteq> None) \<and>
     c_string (brand_string e) \<noteq> None \<and> host_msrs_present (m_cpu m) \<and>
     \<not> vmx_on (m_vmx m) \<and> cr_fixed_ok (m_cpu (with_vmxe m))"

text \<open>The report of the capabilities.\<close>

definition info_lines :: "env \<Rightarrow> mstate \<Rightarrow> string list" where
  "info_lines e m = (the (c_string (brand_string e)) @ nl) # map (msr_line e (m_cpu m)) (reported_msrs (m_cpu m))"

definition locks_available :: "env \<Rightarrow> bool" where
  "locks_available e \<longleftrightarrow> (e_target e = MacOS \<longrightarrow> (\<forall>k. e_lock e k \<noteq> 0))"

lemma port_disable_total:
  assumes "locks_available e"
  shows "\<exists>f' m'. vmlatency_preempt_disable (platform_of e) f m = Some (f', m')"
proof (cases "e_target e")
  case MacOS
  then show ?thesis
    using assms mac_preempt_disable_returns [of e f m]
    by (simp add: platform_of_def mac_platform_def locks_available_def)
qed (simp_all add: platform_of_def lin.disable_total win.disable_total)

lemma feature_bits:
  "v AND FEATURE_CONTROL_LOCK_BIT = 0 \<longleftrightarrow> \<not> bit v 0"
  "v AND FEATURE_CONTROL_VMX_OUTSIDE_SMX_ENABLE_BIT = 0 \<longleftrightarrow> \<not> bit v 2"
  by (simp_all add: bit_defs and_BIT_zero)

text \<open>The three answers of \<open>vmx_enabled\<close>.\<close>

definition vmx_answer :: "env \<Rightarrow> mstate \<Rightarrow> bool \<times> string list" where
  "vmx_answer e m =
     (if \<not> has_vmx e then (False, [''VMX is not supported'' @ nl])
      else if vmx_permitted (the (r_msrs (m_cpu m) IA32_FEATURE_CONTROL)) then (True, [])
      else (False, [''VMX is not enabled in BIOS'' @ nl]))"

context vmm_api
begin

lemma vmx_enabled_answer:
  assumes "has_vmx e \<Longrightarrow> r_msrs (m_cpu m) IA32_FEATURE_CONTROL \<noteq> None"
  shows "\<exists>m'. vmx_enabled pf e m = Some (fst (vmx_answer e m), m') \<and> log_step (snd (vmx_answer e m)) m m'"
proof (cases "has_vmx e")
  case False
  then show ?thesis
    using printk_log [of "''VMX is not supported'' @ nl" m] by (auto simp: vmx_enabled_def vmx_answer_def)
next
  case True
  then obtain v where v: "r_msrs (m_cpu m) IA32_FEATURE_CONTROL = Some v" using assms by auto
  then show ?thesis
    using True printk_log [of "''VMX is not enabled in BIOS'' @ nl" m]
    by (auto simp: vmx_enabled_def vmx_answer_def vmx_permitted_def feature_bits)
qed

end

lemma vmx_ready_permitted:
  assumes "good_host e m" and "has_vmx e" and "vmx_permitted (the (r_msrs (m_cpu m) IA32_FEATURE_CONTROL))"
  shows "vmx_ready m"
  using assms by (auto simp: good_host_def vmx_ready_def)

lemma log_step_machine:
  assumes "log_step ls m m'"
  shows "m_cpu m' = m_cpu m" "m_vmx m' = m_vmx m" "vmx_ready m' = vmx_ready m"
  using assms by (simp_all add: log_step_def os_step_def vmx_ready_def with_vmxe_def)

text \<open>From \<open>m\<close>, the log \<open>ls\<close> and then a measurement.\<close>

definition measured_after :: "env \<Rightarrow> string list \<Rightarrow> mstate \<Rightarrow> mstate \<Rightarrow> bool" where
  "measured_after e ls m m' \<longleftrightarrow> (\<exists>m1. log_step ls m m1 \<and>
     ((\<exists>hs. length hs < 5 \<and> ledger_plus m1 hs m' \<and> os_step m1 m' \<and> klog m' = klog m1) \<or>
      (\<exists>p. left_behind e m1 p m')))"

lemma report_and_measure:
  assumes h: "good_host e m" and v: "has_vmx e" and r: "vmx_ready m" and k: "locks_available e"
  shows "\<exists>m1 m2. print_vmx_info (platform_of e) e m = Some m1 \<and> measure_vmlatency (platform_of e) e m1 = Some m2 \<and>
    measured_after e (info_lines e m) m m2"
proof -
  obtain s where s: "c_string (brand_string e) = Some s" using h by (auto simp: good_host_def)
  have p: "vmx_msrs_present (m_cpu m)" "host_msrs_present (m_cpu m)"
    using h v by (simp_all add: good_host_def)
  obtain m1 where m1: "print_vmx_info (platform_of e) e m = Some m1" and l: "log_step (info_lines e m) m m1"
    using port.print_vmx_info_log [OF p(1) s] by (auto simp: info_lines_def s)
  have "vmx_msrs_present (m_cpu m1)" "host_msrs_present (m_cpu m1)" "vmx_ready m1"
    using p r log_step_machine [OF l] by simp_all
  from port.measure_outcome [OF this port_disable_total [OF k]]
  show ?thesis using m1 l unfolding measured_after_def by metis
qed

lemma vmlatency_init_outcome:
  assumes h: "good_host e m" and k: "locks_available e"
  shows "\<exists>m'. vmlatency_init (platform_of e) e m = Some (0, m') \<and>
    (if fst (vmx_answer e m) then measured_after e (info_lines e m) m m' else log_step (snd (vmx_answer e m)) m m')"
proof -
  obtain m1 where m1: "vmx_enabled (platform_of e) e m = Some (fst (vmx_answer e m), m1)"
    and l: "log_step (snd (vmx_answer e m)) m m1"
    using port.vmx_enabled_answer [of e m] h by (auto simp: good_host_def)
  show ?thesis
  proof (cases "fst (vmx_answer e m)")
    case False
    then show ?thesis using m1 l by (simp add: vmlatency_init_def)
  next
    case True
    then have v: "has_vmx e" and r: "vmx_ready m"
      using vmx_ready_permitted [OF h] by (auto simp: vmx_answer_def split: if_splits)
    have n: "snd (vmx_answer e m) = []" using True by (auto simp: vmx_answer_def split: if_splits)
    have g1: "good_host e m1" "vmx_ready m1" "info_lines e m1 = info_lines e m"
      using h r log_step_machine [OF l] by (simp_all add: good_host_def info_lines_def with_vmxe_def)
    from report_and_measure [OF g1(1) v g1(2) k]
    obtain m2 m3 where m3: "print_vmx_info (platform_of e) e m1 = Some m2"
      "measure_vmlatency (platform_of e) e m2 = Some m3" "measured_after e (info_lines e m) m1 m3"
      unfolding g1(3) by blast
    have "measured_after e (info_lines e m) m m3"
      using m3(3) log_step_trans [OF l] unfolding measured_after_def n append_Nil by blast
    then show ?thesis using m1 m3(1,2) True by (simp add: vmlatency_init_def)
  qed
qed

section \<open>A measurement on a good host\<close>

text \<open>
  The host has all that a session needs to reach VMLAUNCH: memory, capabilities, a processor that accepts VMXON,
  and locks on Mac OS.  A measurement takes place if moreover the guest runs and no launch state is left over.
\<close>

definition equipped :: "env \<Rightarrow> mstate \<Rightarrow> bool" where
  "equipped e m \<longleftrightarrow>
     kernel_memory e \<and> good_pages e (port_page_pa e) \<and> distinct_pages e (os_calls (m_os m)) \<and>
     vmx_msrs_present (m_cpu m) \<and> host_msrs_present (m_cpu m) \<and> vmx_ready m \<and> plain_revision (m_cpu m) \<and>
     locks_available e"

text \<open>No launch state is left over for a page that the kernel may hand out.\<close>

definition fresh_pages :: "env \<Rightarrow> mstate \<Rightarrow> bool" where
  "fresh_pages e m \<longleftrightarrow> (\<forall>k. \<not> launched (m_vmx m) (port_page_pa e (e_alloc e k)))"

lemma fresh_pagesD: "fresh_pages e m \<Longrightarrow> \<exists>k. pa = port_page_pa e (e_alloc e k) \<Longrightarrow> \<not> launched (m_vmx m) pa"
  by (auto simp: fresh_pages_def)

definition measurable :: "env \<Rightarrow> mstate \<Rightarrow> bool" where
  "measurable e m \<longleftrightarrow>
     equipped e m \<and> (\<forall>m. enters_guest e m \<longrightarrow> (\<exists>r. e_entry e m = Entry_Exit r)) \<and> fresh_pages e m"

lemma equipped_reaches_launch:
  assumes "equipped e m"
  shows "\<exists>p m' vmm m5. measure_vmlatency (platform_of e) e m = Some m' \<and> left_behind e m p m' \<and>
    guest_when e vmm m5 p \<and> launched (m_vmx m5) = launched (m_vmx m) \<and> vmx_on (m_vmx m5) \<and>
    cur_vmcs (m_vmx m5) = Some (vp_pa (vmcs vmm)) \<and> session_start (platform_of e) e m vmm m5 \<and>
    (\<exists>k. vp_pa (vmcs vmm) = port_page_pa e (e_alloc e k))"
  using assms port_disable_total unfolding equipped_def
  by (intro port_pages.measure_reaches_launch) blast+

lemma accepted_measures:
  assumes "equipped e m" and "\<And>m n. enters_guest e m \<Longrightarrow> e_entry e m \<noteq> Entry_Fail n"
    and "fresh_pages e m"
  shows "\<exists>r vs m' vmm m5. measure_vmlatency (platform_of e) e m = Some m' \<and> left_behind e m (Measured r vs) m' \<and>
    guest_when e vmm m5 (Measured r vs) \<and> vmx_on (m_vmx m5) \<and> cur_vmcs (m_vmx m5) = Some (vp_pa (vmcs vmm)) \<and>
    launched (m_vmx m5) = launched (m_vmx m) \<and> (\<exists>k. vp_pa (vmcs vmm) = port_page_pa e (e_alloc e k))"
proof -
  obtain p m' vmm m5 where p: "measure_vmlatency (platform_of e) e m = Some m'" "left_behind e m p m'"
    "guest_when e vmm m5 p" and l: "launched (m_vmx m5) = launched (m_vmx m)"
    and on: "vmx_on (m_vmx m5)" "cur_vmcs (m_vmx m5) = Some (vp_pa (vmcs vmm))"
    and k: "\<exists>k. vp_pa (vmcs vmm) = port_page_pa e (e_alloc e k)"
    using equipped_reaches_launch [OF assms(1)] by blast
  obtain r vs where "p = Measured r vs"
    using guest_when_accepted [OF p(3) assms(2) _ on] fresh_pagesD [OF assms(3) k] l by metis
  then show ?thesis using p l on k by blast
qed

lemma measurable_measures:
  assumes "measurable e m"
  shows "\<exists>r vs m' vmm m5. measure_vmlatency (platform_of e) e m = Some m' \<and> left_behind e m (Measured r vs) m' \<and>
    guest_when e vmm m5 (Measured r vs)"
proof -
  have "e_entry e m \<noteq> Entry_Fail n" if "enters_guest e m" for m n
    using assms that unfolding measurable_def by (metis entry_outcome.distinct(3))
  then show ?thesis using accepted_measures [of e m] assms unfolding measurable_def by meson
qed

lemma session_start_vmm:
  assumes "session_start pf e m vmm mi" and "cache_vmx_capabilities e vm_monitor_zero m = Some v"
    and "allocate_memory pf v m = Some (5, vmm', m1)"
  shows "vmm = vmm'"
  using assms by (auto simp: session_start_def)

text \<open>
  VMLAUNCH fails where the processor refuses the entry, or where the page that the session gets for its VMCS has a launch state.
\<close>

lemma refused_launch:
  assumes "equipped e m"
    and "(\<forall>m. e_entry e m = Entry_Fail n) \<and> fresh_pages e m \<or>
      (\<exists>v vmm m1. cache_vmx_capabilities e vm_monitor_zero m = Some v \<and> allocate_memory (platform_of e) v m = Some (5, vmm, m1) \<and>
        launched (m_vmx m) (vp_pa (vmcs vmm))) \<and> n = 4"
  shows "\<exists>m'. measure_vmlatency (platform_of e) e m = Some m' \<and> left_behind e m (Vmlaunch_refused n) m'"
proof -
  obtain p m' vmm m5 where p: "measure_vmlatency (platform_of e) e m = Some m'" "left_behind e m p m'"
    "guest_when e vmm m5 p" and l: "launched (m_vmx m5) = launched (m_vmx m)"
    and s: "session_start (platform_of e) e m vmm m5" "\<exists>k. vp_pa (vmcs vmm) = port_page_pa e (e_alloc e k)"
    using equipped_reaches_launch [OF assms(1)] by blast
  have "(\<forall>m. e_entry e m = Entry_Fail n) \<and> \<not> launched (m_vmx m5) (vp_pa (vmcs vmm)) \<or> launched (m_vmx m5) (vp_pa (vmcs vmm)) \<and> n = 4"
    unfolding l using assms(2) fresh_pagesD [OF _ s(2)] session_start_vmm [OF s(1)] by blast
  then show ?thesis using guest_when_refused [OF p(3), of n] p(1,2) by auto
qed

section \<open>The Windows driver\<close>

lemma measured_after_ledgers:
  assumes "measured_after e ls m m'"
  shows "irq_ledger m' = irq_ledger m" "dev_ledger m' = dev_ledger m" "int_enabled m' = int_enabled m"
  using assms
  by (auto simp: measured_after_def left_behind_def log_step_def os_step_def int_enabled_def)

lemma good_host_cong:
  assumes "m_cpu m' = m_cpu m" and "m_vmx m' = m_vmx m"
  shows "good_host e m' = good_host e m" and "vmx_ready m' = vmx_ready m"
  using assms by (simp_all add: good_host_def vmx_ready_def with_vmxe_def)

text \<open>The state when the device object exists and the driver can be unloaded.\<close>

definition device_created :: "u64 \<Rightarrow> mstate \<Rightarrow> mstate" where
  "device_created d = set_os (\<lambda>s. s\<lparr>os_calls := os_calls s + 1, os_devices := add_mset d (os_devices s),
     os_g_device := d, os_drv_device := d, os_drv_unload := True\<rparr>)"

lemma device_created_frame:
  "m_cpu (device_created d m) = m_cpu m" "m_vmx (device_created d m) = m_vmx m"
  "irq_ledger (device_created d m) = irq_ledger m" "page_ledger (device_created d m) = page_ledger m"
  "dev_ledger (device_created d m) = (add_mset d (os_devices (m_os m)), d, d, True)"
  by (simp_all add: device_created_def ledger_defs)

lemma driver_entry_created:
  assumes "e_device e (os_calls (m_os m)) = (st, d)" and "nt_success st"
  shows "driver_entry pf e m = do {
     m \<leftarrow> print_vmx_info pf e (device_created d m);
     m \<leftarrow> measure_vmlatency pf e m;
     Some (st, m)
   }"
  using assms by (simp add: driver_entry_def io_create_device_def device_created_def)

lemma driver_entry_outcome:
  assumes h: "good_host e m" and v: "has_vmx e" "vmx_ready m" and k: "locks_available e"
    and d: "e_device e (os_calls (m_os m)) = (st, d)" and ok: "nt_success st"
  shows "\<exists>m'. driver_entry (platform_of e) e m = Some (st, m') \<and> measured_after e (info_lines e m) (device_created d m) m'"
proof -
  note c = device_created_frame [of d m]
  have "info_lines e (device_created d m) = info_lines e m" by (simp add: info_lines_def c)
  then show ?thesis
    using report_and_measure [of e "device_created d m"] h v k good_host_cong [OF c(1,2)]
    by (auto simp: driver_entry_created [OF d ok])
qed

text \<open>A device object that the kernel refuses is reported, and that is all.\<close>

lemma driver_entry_refused:
  assumes d: "e_device e (os_calls (m_os m)) = (st, d)" and no: "\<not> nt_success st"
  shows "\<exists>m'. driver_entry (platform_of e) e m = Some (st, m') \<and>
    log_step [''Couldn'' @ [CHR 0x27] @ ''t create the device object'' @ nl] (set_os (\<lambda>s. s\<lparr>os_calls := os_calls s + 1\<rparr>) m) m'"
proof -
  let ?m = "set_os (\<lambda>s. s\<lparr>os_calls := os_calls s + 1\<rparr>) m"
    and ?s = "''Couldn'' @ [CHR 0x27] @ ''t create the device object'' @ nl"
  obtain m' where "vmlatency_printk (platform_of e) ?s ?m = Some m'" "log_step [?s] ?m m'"
    using port.printk_log by blast
  then show ?thesis using d no by (simp add: driver_entry_def io_create_device_def)
qed

lemma unload_driver_deletes:
  assumes "dev_ledger m = (add_mset d D, g, d, u)" and "d \<noteq> 0"
  shows "\<exists>m'. unload_driver m = Some m' \<and> dev_ledger m' = (D, 0, 0, u)"
  using assms by (simp add: unload_driver_def io_delete_device_def ledger_defs)

text \<open>Without the test of \<open>vmx_enabled\<close>, the first read of a capability MSR is an exception.\<close>

lemma print_vmx_info_no_msr:
  assumes "r_msrs (m_cpu m) IA32_VMX_BASIC = None"
  shows "print_vmx_info (platform_of e) e m = None"
proof (cases "c_string (brand_string e)")
  case (Some s)
  obtain m1 where "vmlatency_printk (platform_of e) (s @ nl) m = Some m1" "log_step [s @ nl] m m1"
    using port.printk_log by blast
  then show ?thesis using Some assms log_step_machine(1) [of "[s @ nl]" m m1] by (simp add: print_vmx_info_def)
qed (simp add: print_vmx_info_def)

lemma driver_entry_no_msr:
  assumes "r_msrs (m_cpu m) IA32_VMX_BASIC = None" and "nt_success (fst (e_device e (os_calls (m_os m))))"
  shows "driver_entry (platform_of e) e m = None"
proof -
  obtain st d where d: "e_device e (os_calls (m_os m)) = (st, d)" by (cases "e_device e (os_calls (m_os m))")
  have ok: "nt_success st" using d assms(2) by simp
  have "r_msrs (m_cpu (device_created d m)) IA32_VMX_BASIC = None"
    using assms(1) by (simp add: device_created_frame)
  from print_vmx_info_no_msr [OF this] show ?thesis by (simp add: driver_entry_created [OF d ok])
qed

end
