(* ===== verification/Vmx_Relation.thy ===== *)
theory Vmx_Relation
  imports Vmx_Session
begin

text \<open>
  What every instruction and every message keeps, the functions of \<^verbatim>\<open>vmm/vmx.c\<close> keep.  The locale \<open>call_relation\<close>
  takes a preorder on states that each VMX instruction but the VM entries and each message keeps, and follows it
  through the functions up to the labels, whatever the port; \<open>port_relation\<close> adds the operations of the port that
  the labels call, \<open>entry_relation\<close> the VM entries, and with them the session between the disabling of interrupts and
  their enabling.  A relation on the VMX part of the processor alone is
  kept by the other operations of the port too (\<open>vmx_calls\<close>, \<open>vmx_relation\<close>), and so by the whole measurement.
\<close>

section \<open>Calls\<close>

locale call_relation = vmm_api +
  fixes e :: env and G :: "mstate \<Rightarrow> mstate \<Rightarrow> bool"
  assumes G_trans: "G m1 m2 \<Longrightarrow> G m2 m3 \<Longrightarrow> G m1 m3"
    and G_still: "m_vmx m' = m_vmx m \<Longrightarrow> m_os m' = m_os m \<Longrightarrow> m_mem m' = m_mem m \<Longrightarrow> G m m'"
    and G_printm: "vmlatency_printm pf s m = Some m' \<Longrightarrow> G m m'"
    and G_vmxon: "insn_vmxon e pa m = Some (r, m') \<Longrightarrow> G m m'"
    and G_vmxoff: "insn_vmxoff m = Some (r, m') \<Longrightarrow> G m m'"
    and G_vmptrld: "insn_vmptrld e pa m = Some (r, m') \<Longrightarrow> G m m'"
    and G_vmclear: "insn_vmclear e pa m = Some (r, m') \<Longrightarrow> G m m'"
    and G_vmwrite: "insn_vmwrite f v m = Some m' \<Longrightarrow> G m m'"
begin

lemma G_refl: "G m m"
  by (simp add: G_still)

lemma keeps_printk: "vmlatency_printk pf s m = Some m' \<Longrightarrow> G m m'"
  unfolding vmlatency_printk_def by (rule G_printm)

text \<open>The instructions and their wrappers.\<close>

lemma keeps_cr4: "asm_set_cr4 v m = Some m' \<Longrightarrow> G m m'"
  by (auto intro!: G_still simp: asm_set_cr4_def insn_mov_cr4_def split: if_splits)

lemma keeps_do_vmxon: "do_vmxon pf e vmm m = Some (r, vmm', m') \<Longrightarrow> G m m'"
  unfolding do_vmxon_def asm_vmxon_eq Let_def
  by (auto simp: bind_Some_iff split: if_splits prod.splits dest!: keeps_cr4 keeps_printk G_vmxon intro: G_trans)

lemma keeps_do_vmxoff: "do_vmxoff vmm m = Some m' \<Longrightarrow> G m m'"
  unfolding do_vmxoff_def asm_vmxoff_def
  by (auto simp: bind_Some_iff G_refl split: if_splits dest!: keeps_cr4 G_vmxoff intro: G_trans)

lemma keeps_do_vmptrld: "do_vmptrld pf e vmm m = Some (r, m') \<Longrightarrow> G m m'"
  unfolding do_vmptrld_def asm_vmptrld_eq
  by (auto simp: bind_Some_iff split: if_splits dest!: keeps_printk G_vmptrld intro: G_trans)

lemma keeps_do_vmclear: "do_vmclear pf e vmm m = Some (r, m') \<Longrightarrow> G m m'"
  unfolding do_vmclear_def asm_vmclear_eq
  by (auto simp: bind_Some_iff split: if_splits dest!: keeps_printk G_vmclear intro: G_trans)

lemma keeps_handlers:
  "handle_early_exit pf e m = Some m' \<Longrightarrow> G m m'"
  "handle_vmexit pf m = Some (r, m') \<Longrightarrow> G m m'"
  unfolding handle_early_exit_def handle_vmexit_def Let_def
  by (auto simp: bind_Some_iff G_refl split: if_splits dest!: keeps_printk)

text \<open>The VMCS: every step of \<open>initialize_vmcs\<close> reads registers or writes a field.\<close>

lemma keeps_vmwrite: "asm_vmwrite f v m = Some m' \<Longrightarrow> G m m'"
  unfolding asm_vmwrite_def by (rule G_vmwrite)

lemma keeps_write_bind:
  assumes "\<And>y. G m0 y \<longrightarrow> k y = Some m' \<longrightarrow> G m0 m'"
  shows "G m0 m \<longrightarrow> Option.bind (asm_vmwrite f v m) k = Some m' \<longrightarrow> G m0 m'"
  using assms by (auto simp: bind_Some_iff dest!: keeps_vmwrite intro: G_trans)

lemma keeps_read_bind:
  assumes "\<And>y. G m0 m \<longrightarrow> k y = Some m' \<longrightarrow> G m0 m'"
  shows "G m0 m \<longrightarrow> Option.bind x k = Some m' \<longrightarrow> G m0 m'"
  using assms by (auto simp: bind_Some_iff)

lemma keeps_initialize:
  assumes "initialize_vmcs e vmm m = Some m'"
  shows "G m m'"
proof -
  have "G m m \<longrightarrow> initialize_vmcs e vmm m = Some m' \<longrightarrow> G m m'"
    unfolding initialize_vmcs_def Let_def
    by (intro keeps_write_bind keeps_read_bind) auto
  then show ?thesis using assms G_refl by simp
qed

lemma keeps_print_stats: "print_stats pf n stats m = Some m' \<Longrightarrow> G m m'"
proof (induction "VMX_ITERATIONS - n" arbitrary: n m)
  case 0
  then show ?case by (simp add: print_stats.simps G_refl)
next
  case (Suc k)
  then obtain v m1 where m1: "vmlatency_printk pf (result_line n v) m = Some m1" "print_stats pf (Suc n) stats m1 = Some m'"
    by (auto simp: print_stats.simps [of pf n] bind_Some_iff split: if_splits)
  have "k = VMX_ITERATIONS - Suc n" using Suc.hyps(2) by simp
  then show ?case using Suc.hyps(1) m1(2) keeps_printk [OF m1(1)] G_trans by blast
qed

text \<open>The report of the capabilities.\<close>

lemma keeps_print_msr: "print_vmxcap_msr pf e nm m = Some m' \<Longrightarrow> G m m'"
  by (auto simp: print_vmxcap_msr_def bind_Some_iff dest: keeps_printk)

lemma keeps_print_msrs: "print_vmxcap_msrs pf e nms m = Some m' \<Longrightarrow> G m m'"
proof (induction nms arbitrary: m)
  case (Cons nm nms)
  then show ?case by (auto simp: bind_Some_iff dest!: keeps_print_msr intro: G_trans)
qed (simp add: G_refl)

lemma keeps_print_vmx_info:
  assumes "print_vmx_info pf e m = Some m'"
  shows "G m m'"
proof -
  obtain s m1 m2 m3 m4 P Q where s: "vmlatency_printk pf (s @ nl) m = Some m1" "print_vmxcap_msrs pf e cap_msrs m1 = Some m2"
    and P: "(if P then Option.bind (print_vmxcap_msr pf e (''IA32_VMX_PROCBASED_CTLS2'', IA32_VMX_PROCBASED_CTLS2) m2)
        (\<lambda>m. Option.bind (r_msrs (m_cpu m) IA32_VMX_PROCBASED_CTLS2) (\<lambda>pb2.
          if pb2 AND push_bit 32 VMX_PROC_CTL2_ENABLE_EPT \<noteq> 0
          then print_vmxcap_msr pf e (''IA32_VMX_EPT_VPID_CAP'', IA32_VMX_EPT_VPID_CAP) m else Some m))
      else Some m2) = Some m3"
    and Q: "(if Q then print_vmxcap_msrs pf e true_ctl_msrs m3 else Some m3) = Some m4"
    and R: "(if P then Option.bind (r_msrs (m_cpu m4) IA32_VMX_PROCBASED_CTLS2) (\<lambda>pb2.
        if pb2 AND push_bit 32 VMX_PROC_CTL2_ENABLE_VMFUNC \<noteq> 0
        then print_vmxcap_msr pf e (''IA32_VMX_VMFUNC'', IA32_VMX_VMFUNC) m4 else Some m4) else Some m4) = Some m'"
    using assms unfolding print_vmx_info_def Let_def bind_Some_iff asm_rdmsr by blast
  have "G m2 m3" "G m3 m4" "G m4 m'"
    using P Q R
    by (auto simp: bind_Some_iff G_refl split: if_splits dest!: keeps_print_msr keeps_print_msrs intro: G_trans)
  then show ?thesis using keeps_printk [OF s(1)] keeps_print_msrs [OF s(2)] G_trans by blast
qed

text \<open>From a label to the next one.\<close>

lemma keeps_to_out2:
  assumes "measure_out3 pf vmm cnt irq m = Some m'"
  shows "\<exists>m1. G m m1 \<and> measure_out2 pf vmm cnt irq m1 = Some m'"
  using assms by (auto simp: measure_out3_def bind_Some_iff dest: keeps_do_vmxoff)

lemma keeps_to_out3:
  assumes "measure_out4 pf e vmm cnt irq hs m = Some m'"
  shows "\<exists>m1. G m m1 \<and> measure_out3 pf vmm cnt irq m1 = Some m'"
proof -
  obtain r m1 where m1: "do_vmclear pf e vmm (restore_host_state hs m) = Some (r, m1)"
    "measure_out3 pf vmm cnt irq m1 = Some m'"
    using assms by (auto simp: measure_out4_def bind_Some_iff)
  have "G m (restore_host_state hs m)" by (rule G_still) (simp_all add: restore_host_state_eq)
  then show ?thesis using keeps_do_vmclear [OF m1(1)] m1(2) G_trans by blast
qed

lemma keeps_out4_out2:
  assumes "measure_out4 pf e vmm cnt irq hs m = Some m'"
  shows "\<exists>m1. G m m1 \<and> measure_out2 pf vmm cnt irq m1 = Some m'"
  using keeps_to_out3 [OF assms] keeps_to_out2 G_trans by blast

end

section \<open>Operations of the port\<close>

text \<open>With the freeing of a page and the enabling of interrupts: the labels.\<close>

locale port_relation = call_relation +
  assumes G_free: "free_vmpage pf p m = Some (p', m') \<Longrightarrow> G m m'"
    and G_enable: "vmlatency_preempt_enable pf f m = Some (f', m') \<Longrightarrow> G m m'"
begin

lemma keeps_free_bind:
  assumes "\<And>v c y. G m0 y \<longrightarrow> k v c y = Some (vmm', m') \<longrightarrow> G m0 m'"
  shows "G m0 m \<longrightarrow>
    Option.bind (if b then do { (p, m) \<leftarrow> free_vmpage pf q m; Some (f p, c', m) } else Some (x, c, m))
      (\<lambda>(v, c, m). k v c m) = Some (vmm', m') \<longrightarrow> G m0 m'"
  using assms by (auto simp: bind_Some_iff split: if_splits dest!: G_free) (meson G_trans)

lemma keeps_free:
  assumes "free_memory pf vmm cnt m = Some (vmm', m')"
  shows "G m m'"
proof -
  have "G m m \<longrightarrow> free_memory pf vmm cnt m = Some (vmm', m') \<longrightarrow> G m m'"
    unfolding free_memory_def by (intro keeps_free_bind) auto
  then show ?thesis using assms G_refl by simp
qed

lemma keeps_out1: "measure_out1 pf vmm cnt m = Some m' \<Longrightarrow> G m m'"
  by (auto simp: measure_out1_def bind_Some_iff dest: keeps_free)

lemma keeps_out2: "measure_out2 pf vmm cnt irq m = Some m' \<Longrightarrow> G m m'"
  unfolding measure_out2_def by (auto simp: bind_Some_iff dest!: G_enable keeps_out1 intro: G_trans)

lemma keeps_out4: "measure_out4 pf e vmm cnt irq hs m = Some m' \<Longrightarrow> G m m'"
  using keeps_out4_out2 keeps_out2 G_trans by blast

end

section \<open>VM entries\<close>

text \<open>With the VM entries: the assembly code, each step and so each run, and the session.\<close>

locale entry_relation = call_relation +
  assumes G_vmentry: "insn_vmentry e l m = Some (res, m') \<Longrightarrow> G m m'"
begin

lemma keeps_asm_entry:
  assumes "asm_entry e l s = Some s'"
  shows "G (a_m s) (a_m s')"
proof -
  obtain res m where m: "insn_vmentry e l (a_m s) = Some (res, m)"
    using assms by (auto simp: asm_entry_def bind_Some_iff)
  then have "a_m s' = m" using assms by (cases res) (auto simp: asm_entry_def split: if_splits)
  then show ?thesis using G_vmentry [OF m] by simp
qed

lemma keeps_asm_step: "asm_step e i s = Some s' \<Longrightarrow> G (a_m s) (a_m s')"
  by (cases i) (auto simp: bind_Some_iff G_refl dest: G_vmwrite keeps_asm_entry)

lemma keeps_asm_run: "asm_run e n s = Some s' \<Longrightarrow> G (a_m s) (a_m s')"
proof (induction n arbitrary: s)
  case (Suc n)
  then show ?case
    by (auto simp: asm_run.simps bind_Some_iff G_refl split: if_splits intro: G_trans dest!: keeps_asm_step)
qed (simp add: asm_run.simps)

lemma keeps_entry:
  "do_vmlaunch e m = Some (r, m') \<Longrightarrow> G m m'"
  "do_vmresume e m = Some (r, m') \<Longrightarrow> G m m'"
  unfolding do_vmlaunch_def do_vmresume_def asm_call_def
  by (auto simp: bind_Some_iff split: if_splits dest!: keeps_asm_run)

lemma keeps_resume_loop: "resume_loop e n i m = Some m' \<Longrightarrow> G m m'"
proof (induction "unat (BIT n) - i" arbitrary: i m)
  case 0
  then show ?case by (simp add: resume_loop.simps G_refl)
next
  case (Suc k)
  then obtain r m1 where m1: "do_vmresume e m = Some (r, m1)" "resume_loop e n (Suc i) m1 = Some m'"
    by (auto simp: resume_loop.simps [of e n i] bind_Some_iff split: if_splits)
  have "k = unat (BIT n) - Suc i" using Suc.hyps(2) by simp
  then show ?case using Suc.hyps(1) m1(2) keeps_entry(2) [OF m1(1)] G_trans by blast
qed

lemma keeps_measure_loop: "measure_loop e n stats m = Some (stats', m') \<Longrightarrow> G m m'"
proof (induction "VMX_ITERATIONS - n" arbitrary: n stats m)
  case 0
  then show ?case by (simp add: measure_loop.simps G_refl)
next
  case (Suc k)
  then obtain m1 stats1 where m1: "resume_loop e n 0 m = Some m1" "measure_loop e (Suc n) stats1 m1 = Some (stats', m')"
    by (auto simp: measure_loop.simps [of e n] bind_Some_iff Let_def split: if_splits)
  have "k = VMX_ITERATIONS - Suc n" using Suc.hyps(2) by simp
  then show ?case using Suc.hyps(1) m1(2) keeps_resume_loop [OF m1(1)] G_trans by blast
qed

text \<open>
  The session has one shape, whichever way it goes: a stretch of calls, interrupts off, a stretch of calls, and the label
  \<^verbatim>\<open>out2\<close>.
\<close>

lemma guest_to_out2:
  assumes "measure_guest pf e vmm cnt irq stats m = Some (b, stats', m')"
  shows "\<exists>m1. G m m1 \<and> measure_out2 pf vmm cnt irq m1 = Some m'"
  using assms unfolding measure_guest_def Let_def
  by (auto simp: bind_Some_iff split: if_splits dest!: keeps_initialize keeps_entry keeps_printk keeps_handlers
      keeps_measure_loop keeps_out4_out2) (meson G_trans)+

lemma vmx_to_out2:
  assumes "measure_vmx pf e vmm cnt stats m = Some (b, stats', m')"
  shows "\<exists>ma m1 irq m2 vmm' m3. vmxon_setup_revision_id e vmm m = Some ma \<and> vmcs_setup_revision_id e vmm ma = Some m1 \<and>
    m_vmx m1 = m_vmx m \<and> m_os m1 = m_os m \<and>
    vmlatency_preempt_disable pf irq_flags_uninit m1 = Some (irq, m2) \<and> G m2 m3 \<and>
    measure_out2 pf vmm' cnt irq m3 = Some m'"
proof -
  obtain ma m1 irq m2 r vmm' m3 where s: "vmxon_setup_revision_id e vmm m = Some ma" "vmcs_setup_revision_id e vmm ma = Some m1"
    "vmlatency_preempt_disable pf irq_flags_uninit m1 = Some (irq, m2)" "do_vmxon pf e vmm m2 = Some (r, vmm', m3)"
    and c: "(if r \<noteq> 0 then Option.bind (measure_out2 pf vmm' cnt irq m3) (\<lambda>m. Some (False, stats, m))
       else Option.bind (do_vmptrld pf e vmm' m3) (\<lambda>(r, m). if r \<noteq> 0
         then Option.bind (measure_out3 pf vmm' cnt irq m) (\<lambda>m. Some (False, stats, m))
         else measure_guest pf e vmm' cnt irq stats m)) = Some (b, stats', m')"
    using assms by (auto simp: measure_vmx_def bind_Some_iff)
  have "\<exists>m4. G m3 m4 \<and> measure_out2 pf vmm' cnt irq m4 = Some m'"
    using c by (auto simp: bind_Some_iff G_refl split: if_splits
        dest!: keeps_to_out2 guest_to_out2 keeps_do_vmptrld) (blast intro: G_refl G_trans)+
  moreover have "m_vmx m1 = m_vmx m" "m_os m1 = m_os m"
    using s(1,2) by (auto simp: vmxon_setup_revision_id_def vmcs_setup_revision_id_def bind_Some_iff frame)
  ultimately show ?thesis
    using s(1-3) keeps_do_vmxon [OF s(4)] G_trans by blast
qed

end

section \<open>Relations on the VMX part of the processor\<close>

locale vmx_calls = vmm_api +
  fixes e :: env and R :: "vmx_state \<Rightarrow> vmx_state \<Rightarrow> bool"
  assumes R_refl: "R x x"
    and R_trans: "R x y \<Longrightarrow> R y z \<Longrightarrow> R x z"
    and R_vmxon: "insn_vmxon e pa m = Some (r, m') \<Longrightarrow> R (m_vmx m) (m_vmx m')"
    and R_vmxoff: "insn_vmxoff m = Some (r, m') \<Longrightarrow> R (m_vmx m) (m_vmx m')"
    and R_vmptrld: "insn_vmptrld e pa m = Some (r, m') \<Longrightarrow> R (m_vmx m) (m_vmx m')"
    and R_vmclear: "insn_vmclear e pa m = Some (r, m') \<Longrightarrow> R (m_vmx m) (m_vmx m')"
    and R_vmwrite: "insn_vmwrite f v m = Some m' \<Longrightarrow> R (m_vmx m) (m_vmx m')"

sublocale vmx_calls \<subseteq> port_relation pf e "\<lambda>m m'. R (m_vmx m) (m_vmx m')"
proof (unfold_locales, goal_cases)
  case (3 s m m')
  then show ?case using printm_ok [of s m] R_refl by (auto simp: os_step_def)
qed (auto simp: R_refl free_frame enable_frame intro: R_trans R_vmxon R_vmxoff R_vmptrld R_vmclear R_vmwrite)

context vmx_calls
begin

abbreviation keeps :: "mstate \<Rightarrow> mstate \<Rightarrow> bool" where
  "keeps m m' \<equiv> R (m_vmx m) (m_vmx m')"

text \<open>The operating system.\<close>

lemma same_vmx: "m_vmx m' = m_vmx m \<Longrightarrow> keeps m m'"
  by (simp add: R_refl)

lemma keeps_disable: "vmlatency_preempt_disable pf f m = Some (f', m') \<Longrightarrow> keeps m m'"
  using disable_ok [of f m f' m'] by (intro same_vmx) simp

lemma keeps_allocate: "allocate_memory pf vmm m = Some (cnt, vmm', m') \<Longrightarrow> keeps m m'"
  using allocate_memory_outcome [of vmm m] by (auto intro!: same_vmx simp: os_step_def)

end

locale vmx_relation = vmx_calls +
  assumes R_vmentry: "insn_vmentry e l m = Some (res, m') \<Longrightarrow> R (m_vmx m) (m_vmx m')"

sublocale vmx_relation \<subseteq> entry_relation pf e "\<lambda>m m'. R (m_vmx m) (m_vmx m')"
  by unfold_locales (rule R_vmentry)

context vmx_relation
begin

lemma keeps_vmx:
  assumes "measure_vmx pf e vmm cnt stats m = Some (b, stats', m')"
  shows "keeps m m'"
proof -
  obtain m1 irq m2 vmm' m3 where s: "m_vmx m1 = m_vmx m" "vmlatency_preempt_disable pf irq_flags_uninit m1 = Some (irq, m2)"
    "keeps m2 m3" "measure_out2 pf vmm' cnt irq m3 = Some m'"
    using vmx_to_out2 [OF assms] by blast
  show ?thesis using same_vmx [OF s(1)] s(3) keeps_disable [OF s(2)] keeps_out2 [OF s(4)] R_trans by blast
qed

lemma measure_keeps: "measure_vmlatency pf e m = Some m' \<Longrightarrow> keeps m m'"
  unfolding measure_vmlatency_def Let_def
  by (auto simp: bind_Some_iff split: if_splits dest!: keeps_allocate keeps_out1 keeps_vmx keeps_print_stats)
    (meson R_trans)+

end

end
