(* ===== verification/Vmx_Frame.thy ===== *)
theory Vmx_Frame
  imports Modules Vmx_Relation
begin

text \<open>
  Three relations on the VMX part of the processor that the functions of \<^verbatim>\<open>vmm/vmx.c\<close> keep, as instances of the locales
  of \<open>Vmx_Relation\<close>: the state of VMX operation stays well-formed, no guest runs where the processor refuses every
  guest, and the calls other than the VM entries enter no guest.  With the last one the VM entries of a measurement are
  counted.
\<close>

section \<open>Two relations that every instruction keeps\<close>

text \<open>A current VMCS only in VMX operation.\<close>

definition vmx_wf :: "vmx_state \<Rightarrow> bool" where
  "vmx_wf x \<longleftrightarrow> (cur_vmcs x \<noteq> None \<longrightarrow> vmx_on x)"

lemmas insn_vmx_defs = insn_vmxon_def insn_vmxoff_def insn_vmptrld_def insn_vmclear_def insn_vmwrite_def
  insn_vmentry_def vm_fail_def

interpretation wf: vmx_relation "platform_of e" e "\<lambda>x y. vmx_wf x \<longrightarrow> vmx_wf y" for e
  by unfold_locales
    (auto simp: insn_vmx_defs vmx_wf_def frame Let_def split: if_splits option.splits entry_outcome.splits)

lemma vmx_state_well_formed:
  assumes "measure_vmlatency (platform_of e) e m = Some m'" and "vmx_wf (m_vmx m)"
  shows "vmx_wf (m_vmx m')"
  using wf.measure_keeps [OF assms(1)] assms(2) by simp

text \<open>Where the processor lets no guest run, none is entered, and no launch state is set.\<close>

definition no_guest_run :: "env \<Rightarrow> bool" where
  "no_guest_run e \<longleftrightarrow> (\<forall>m r. e_entry e m \<noteq> Entry_Exit r)"

definition not_entered :: "vmx_state \<Rightarrow> vmx_state \<Rightarrow> bool" where
  "not_entered x y \<longleftrightarrow> vm_entries y = vm_entries x \<and> (\<forall>pa. launched y pa \<longrightarrow> launched x pa)"

interpretation idle: vmx_relation "platform_of e" e "\<lambda>x y. no_guest_run e \<longrightarrow> not_entered x y" for e
  by unfold_locales
    (auto simp: insn_vmx_defs not_entered_def no_guest_run_def frame Let_def split: if_splits option.splits entry_outcome.splits)

section \<open>Counting the VM entries\<close>

text \<open>The calls other than the VM entries enter no guest.\<close>

interpretation calls: vmx_calls "platform_of e" e not_entered for e
  by unfold_locales
    (auto simp: insn_vmx_defs not_entered_def frame Let_def split: if_splits option.splits)

text \<open>Every VM entry of a session reaches the guest.\<close>

definition entries_run :: "env \<Rightarrow> vm_monitor \<Rightarrow> mstate \<Rightarrow> bool" where
  "entries_run e vmm mi \<longleftrightarrow> (\<forall>m. run_inv e vmm mi (vp_pa (vmcs vmm)) m \<longrightarrow> (\<exists>r. entry_of e (vp_pa (vmcs vmm)) m = Entry_Exit r))"

lemma entries_run_old: "entries_run e (vmm\<lparr>old_vmxe := a, our_vmxon := b\<rparr>) mi = entries_run e vmm mi"
  by (simp add: entries_run_def run_inv_def image_in_def image_at_def set_old_frame)

lemma vm_enter_counts:
  assumes "entry_of e pa m = Entry_Exit r" and "launched (m_vmx m) pa = (\<not> l)"
  shows "fst (vm_enter e l pa m) = 0" and "launched (m_vmx (snd (vm_enter e l pa m))) pa"
    and "vm_entries (m_vmx (snd (vm_enter e l pa m))) = vm_entries (m_vmx m) + 1"
  using assms by (simp_all add: entry_of_def vm_enter_def Let_def frame)

lemma resume_iter_counts:
  assumes g: "entries_run e vmm mi" and p: "host_msrs_present (m_cpu mi)"
    and "launched (m_vmx m) (vp_pa (vmcs vmm))" and "run_inv e vmm mi (vp_pa (vmcs vmm)) m"
  shows "vm_entries (m_vmx (resume_iter e (vp_pa (vmcs vmm)) k m)) = vm_entries (m_vmx m) + k"
  using assms(3,4)
proof (induction k arbitrary: m)
  case (Suc k)
  obtain r where "entry_of e (vp_pa (vmcs vmm)) m = Entry_Exit r" using g Suc.prems(2) unfolding entries_run_def by blast
  then show ?case
    using Suc vm_enter_counts(2,3) [of e _ m r False] vm_enter_keeps(1) [OF Suc.prems(2) p, of False] by simp
qed simp

text \<open>One by VMLAUNCH, and \<open>2 ^ 20 - 1\<close> by the loops.\<close>

lemma guest_counts:
  assumes on: "vmx_on (m_vmx m)" "cur_vmcs (m_vmx m) = Some (vp_pa (vmcs vmm))" and p: "host_msrs_present (m_cpu m)"
    and g: "entries_run e vmm m" and f: "\<not> launched (m_vmx m) (vp_pa (vmcs vmm))"
    and r: "measure_guest (platform_of e) e vmm cnt irq (replicate VMX_ITERATIONS None) m = Some (b, stats, m')"
  shows "vm_entries (m_vmx m') = vm_entries (m_vmx m) + 2 ^ 20"
proof -
  let ?pa = "vp_pa (vmcs vmm)" and ?mp = "prepared e vmm m"
  define m3 where "m3 = snd (vm_enter e True ?pa ?mp)"
  obtain q where x: "entry_of e ?pa ?mp = Entry_Exit q" using g run_inv_prepared(1) [OF on] unfolding entries_run_def by blast
  have v: "has_vmcs e ?pa ?mp" by (rule run_inv_vmcs [OF run_inv_prepared(1) [OF on]])
  have c: "fst (vm_enter e True ?pa ?mp) = 0" "launched (m_vmx m3) ?pa" "vm_entries (m_vmx m3) = vm_entries (m_vmx m) + 1"
    using vm_enter_counts [OF x, of True] f by (simp_all add: prepared_launched m3_def) (simp add: prepared_def frame)
  have l: "do_vmlaunch e ?mp = Some (0, m3)" using do_vmlaunch_eq [OF v] c(1) by (simp add: m3_def prod_eq_iff)
  have v3: "has_vmcs e ?pa m3" unfolding m3_def by (rule vm_enter_has_vmcs [OF v])
  obtain q m4 m5 stats' where h: "handle_vmexit (platform_of e) m3 = Some (q, m4)"
    and lp: "measure_loop e 0 (replicate VMX_ITERATIONS None) m4 = Some (stats', m5)"
    and o: "measure_out4 (platform_of e) e vmm cnt irq (save_host_state ?mp) m5 = Some m'"
    using r initialize_vmcs_writes [OF on p, of e vmm] l
    by (auto simp: measure_guest_def prepared_def [symmetric] bind_Some_iff)
  obtain ls where l4: "log_step ls m3 m4"
    using port.handle_vmexit_log [OF v3, where ea = e] h by force
  then have x4: "m_vmx m4 = m_vmx m3" by (rule log_step_machine(2))
  have i4: "run_inv e vmm m ?pa m4"
    using vm_enter_keeps(1) [OF run_inv_prepared(1) [OF on, of e] p, of True] log_step_inv(1) [OF l4] by (simp add: m3_def)
  have "has_vmcs e ?pa m4" using v3 x4 by (simp add: has_vmcs_def)
  from measure_loop_all [OF this] have "m5 = resume_iter e ?pa (2 ^ 20 - 1) m4"
    using lp by (simp add: round_state_iter VMX_ITERATIONS_def)
  then have "vm_entries (m_vmx m5) = vm_entries (m_vmx m) + 2 ^ 20"
    using resume_iter_counts [OF g p, of m4 "2 ^ 20 - 1"] i4 c x4 by simp
  then show ?thesis using calls.keeps_out4 [OF o] by (simp add: not_entered_def)
qed

text \<open>The session from the stores of the revision identifier on, if the processor accepts both regions.\<close>

lemma session_counts:
  assumes p: "host_msrs_present (m_cpu m)" "vmx_ready m" "r_msrs (m_cpu m) IA32_VMX_BASIC = Some b"
    and d: "vmlatency_preempt_disable (platform_of e) irq_flags_uninit (regions_set e vmm m) = Some (irq, mc)"
    and k: "region_ok e (vp_pa (vmxon_region vmm)) mc" "region_ok e (vp_pa (vmcs vmm)) mc" "vp_pa (vmcs vmm) \<noteq> vp_pa (vmxon_region vmm)"
    and g: "entries_run e vmm (in_vmx vmm mc)" and f: "\<not> launched (m_vmx m) (vp_pa (vmcs vmm))"
    and r: "measure_vmx (platform_of e) e vmm cnt (replicate VMX_ITERATIONS None) m = Some (True, stats, m')"
  shows "vm_entries (m_vmx m') = vm_entries (m_vmx m) + 2 ^ 20"
proof -
  let ?me = "in_vmx vmm mc" and ?vmm = "vmm\<lparr>old_vmxe := r_cr4 (m_cpu mc) AND CR4_VMXE, our_vmxon := True\<rparr>"
  obtain ma where s: "vmxon_setup_revision_id e vmm m = Some ma" "vmcs_setup_revision_id e vmm ma = Some (regions_set e vmm m)"
    using regions_set_steps [OF p(3), of e vmm] by (auto simp: bind_Some_iff)
  obtain y where y: "m_cpu mc = (m_cpu m)\<lparr>r_rflags := y\<rparr>" "m_vmx mc = m_vmx m" using port.disable_ok [OF d] by (auto simp: frame)
  have rd: "vmx_ready mc" using p(2) y by (simp add: vmx_ready_def with_vmxe_def cr_fixed_ok_def)
  have v: "do_vmptrld (platform_of e) e ?vmm (enter_vmx (vp_pa (vmxon_region vmm)) (with_vmxe mc)) = Some (0, ?me)"
    using k by (simp add: do_vmptrld_insn insn_vmptrld_first in_vmx_def)
  have "measure_guest (platform_of e) e ?vmm cnt irq (replicate VMX_ITERATIONS None) ?me = Some (True, stats, m')"
    using r by (simp add: measure_vmx_def s d port.do_vmxon_good [OF rd k(1)] v)
  moreover have "host_msrs_present (m_cpu ?me)" using p(1) y host_msrs_present_cong [of "m_cpu ?me" "m_cpu m"] by (simp add: frame)
  moreover have "launched (m_vmx ?me) = launched (m_vmx m)" "vm_entries (m_vmx ?me) = vm_entries (m_vmx m)"
    using y(2) by (simp_all add: in_vmx_def load_vmcs_def enter_vmx_def frame)
  ultimately show ?thesis
    using guest_counts [of ?me ?vmm e cnt irq True stats m'] g f by (simp add: frame entries_run_old)
qed

text \<open>Where every entry of the session reaches the guest, a measurement enters it \<open>2 ^ 20\<close> times.\<close>

lemma equipped_counts:
  assumes eq: "equipped e m" and f: "fresh_pages e m"
    and g: "\<And>vmm mi. session_start (platform_of e) e m vmm mi \<Longrightarrow> entries_run e vmm mi"
    and r: "measure_vmlatency (platform_of e) e m = Some m'"
  shows "vm_entries (m_vmx m') = vm_entries (m_vmx m) + 2 ^ 20"
proof -
  note h = eq [unfolded equipped_def]
  obtain v vmm m1 irq m3 where v: "cache_vmx_capabilities e vm_monitor_zero m = Some v"
    and a: "allocate_memory (platform_of e) v m = Some (5, vmm, m1)"
    and d: "vmlatency_preempt_disable (platform_of e) irq_flags_uninit (regions_set e vmm m1) = Some (irq, m3)"
    and k: "vp_pa (vmcs vmm) \<noteq> vp_pa (vmxon_region vmm)" "m_vmx m3 = m_vmx m"
      "region_ok e (vp_pa (vmxon_region vmm)) m3" "region_ok e (vp_pa (vmcs vmm)) m3"
      "\<exists>k. vp_pa (vmcs vmm) = port_page_pa e (e_alloc e k)"
    using port_pages.session_prepares [of e m, OF _ _ _ _ port_disable_total] h by blast
  have o: "ledger_plus m (vmm_handles vmm) m1" "os_step m m1"
    using port.allocate_memory_outcome [of e v m] a by (auto simp: vmm_handles_def)
  have c: "m_cpu m1 = m_cpu m" "m_vmx m1 = m_vmx m" using o(2) by (simp_all add: os_step_def)
  obtain b where b: "r_msrs (m_cpu m1) IA32_VMX_BASIC = Some b"
    using h c by (auto simp: vmx_msrs_present_def cap_msrs_def)
  have p1: "host_msrs_present (m_cpu m1)" "vmx_ready m1"
    using h c by (simp_all add: vmx_ready_def with_vmxe_def)
  have er: "entries_run e vmm (in_vmx vmm m3)" using g v a d unfolding session_start_def by blast
  then have n: "entry_of e (vp_pa (vmcs vmm)) (prepared e vmm (in_vmx vmm m3)) \<noteq> Entry_Fail q" for q
    using run_inv_prepared(1) [OF in_vmx_frame(3,4), of e] unfolding entries_run_def by fastforce
  obtain p m2 where p: "vmx_when e vmm m3 p"
    "measure_vmx (platform_of e) e vmm 5 (replicate VMX_ITERATIONS None) m1 = Some (fst (path_stats p), snd (path_stats p), m2)"
    using port.measure_vmx_end [OF b p1 o(1) d] by blast
  have w: "guest_when e vmm (in_vmx vmm m3) p" using p(1) k by (simp add: vmx_when_def)
  have "launched (m_vmx (in_vmx vmm m3)) = launched (m_vmx m)"
    using k(2) by (simp add: in_vmx_def load_vmcs_def enter_vmx_def frame)
  moreover note nl = fresh_pagesD [OF f k(5)]
  ultimately obtain w vs where pw: "p = Measured w vs" using guest_when_entered [OF w n] by auto
  have "vm_entries (m_vmx m2) = vm_entries (m_vmx m) + 2 ^ 20"
    using session_counts [OF p1 b d k(3,4,1) er _ p(2) [unfolded pw path_stats.simps fst_conv snd_conv]] nl c(2) by simp
  moreover have "print_stats (platform_of e) 0 (map Some vs) m2 = Some m'"
    using r v a p(2) by (simp add: measure_vmlatency_def pw)
  ultimately show ?thesis using calls.keeps_print_stats by (simp add: not_entered_def)
qed

lemma measurable_counts:
  assumes "measurable e m" and r: "measure_vmlatency (platform_of e) e m = Some m'"
  shows "vm_entries (m_vmx m') = vm_entries (m_vmx m) + 2 ^ 20"
proof (rule equipped_counts [OF _ _ _ r])
  show "entries_run e vmm mi" for vmm mi
    using assms(1) run_inv_enters unfolding measurable_def entries_run_def entry_of_def by blast
qed (use assms(1) in \<open>simp_all add: measurable_def\<close>)

end
