(* ===== verification/Lifecycle.thy ===== *)
theory Lifecycle
  imports Modules
begin

text \<open>
  The life of the module in the kernel: it is loaded and unloaded any number of times, and the states it leaves
  are those of \<open>module_run\<close>.  The host stays one on which the next load comes back, and what is lost is bounded by
  the number of loads.
\<close>

section \<open>Loading and unloading\<close>

text \<open>
  The kernel's view of the entry points: whether the module stays loaded, and the state.  A Windows driver can
  be unloaded only once it has set its unload routine.
\<close>

definition load_module :: "env \<Rightarrow> mstate \<Rightarrow> (bool \<times> mstate) option" where
  "load_module e m =
     (case e_target e of
        Linux \<Rightarrow> do { (r, m) \<leftarrow> vmlatency_init (platform_of e) e m; Some (r = 0, m) }
      | MacOS \<Rightarrow> do { (r, m) \<leftarrow> vmlatency_start (platform_of e) e m; Some (r = KERN_SUCCESS, m) }
      | Windows \<Rightarrow> do { (st, m) \<leftarrow> driver_entry (platform_of e) e m; Some (nt_success st, m) })"

definition unload_module :: "env \<Rightarrow> mstate \<Rightarrow> mstate option" where
  "unload_module e m =
     (case e_target e of
        Linux \<Rightarrow> Some (vmlatency_exit m)
      | MacOS \<Rightarrow> (case vmlatency_stop m of (r, m) \<Rightarrow> if r = KERN_SUCCESS then Some m else None)
      | Windows \<Rightarrow> if os_drv_unload (m_os m) then unload_driver m else None)"

text \<open>\<open>module_run e m0 n l m\<close>: \<open>m\<close> is reached from \<open>m0\<close> with \<open>n\<close> loads, and the module is loaded if \<open>l\<close>.\<close>

inductive module_run :: "env \<Rightarrow> mstate \<Rightarrow> nat \<Rightarrow> bool \<Rightarrow> mstate \<Rightarrow> bool" for e m0 where
  start: "module_run e m0 0 False m0"
| load: "module_run e m0 n False m \<Longrightarrow> load_module e m = Some (l, m') \<Longrightarrow> module_run e m0 (Suc n) l m'"
| unload: "module_run e m0 n True m \<Longrightarrow> unload_module e m = Some m' \<Longrightarrow> module_run e m0 n False m'"

section \<open>What a load leaves of the processor\<close>

text \<open>
  What a measurement may leave changed, up to flags and time: CR4.VMXE may be set, the selectors of ES to GS may have lost their
  low three bits, LDTR may be null, the debug registers may be reset, IA32_SYSENTER_CS may have lost its high half.  All the
  rest is kept: CR0, CR3, GDTR, IDTR, RSP, TR and the other MSRs.
\<close>

definition kept_cpu :: "cpu \<Rightarrow> cpu \<Rightarrow> bool" where
  "kept_cpu c c' \<longleftrightarrow>
     r_cr0 c' = r_cr0 c \<and> r_cr3 c' = r_cr3 c \<and> r_cr4 c' \<in> {r_cr4 c, r_cr4 c OR CR4_VMXE} \<and>
     r_gdtr c' = r_gdtr c \<and> r_idtr c' = r_idtr c \<and> r_rsp c' = r_rsp c \<and> r_tr c' = r_tr c \<and>
     list_all (\<lambda>r. r c' \<in> {r c, r c AND NOT 7}) [r_es, r_cs, r_ss, r_ds, r_fs, r_gs] \<and>
     r_ldtr c' \<in> {r_ldtr c, 0} \<and> r_dr7 c' \<in> {r_dr7 c, 0x400} \<and>
     r_msrs c' IA32_DEBUGCTL \<in> {r_msrs c IA32_DEBUGCTL, Some 0} \<and>
     r_msrs c' IA32_SYSENTER_CS \<in> {r_msrs c IA32_SYSENTER_CS, Some (ucast (ucast (the (r_msrs c IA32_SYSENTER_CS)) :: u32))} \<and>
     (\<forall>n. n \<notin> {IA32_SYSENTER_CS, IA32_DEBUGCTL} \<longrightarrow> r_msrs c' n = r_msrs c n)"

lemma kept_cpu_refl [simp]: "kept_cpu c c"
  by (simp add: kept_cpu_def)

lemma low_half_twice: "(ucast (ucast (ucast (ucast (x :: u64) :: u32) :: u64) :: u32) :: u64) = ucast (ucast x :: u32)"
  by (rule bit_word_eqI) (auto simp: bit_simps)

text \<open>A change that may be made once or twice.\<close>

lemma kept_or:
  fixes a :: "'a :: len word"
  shows "b \<in> {a, a AND NOT 7} \<Longrightarrow> c \<in> {b, b AND NOT 7} \<Longrightarrow> c \<in> {a, a AND NOT 7}"
    and "b \<in> {a, a OR d} \<Longrightarrow> c \<in> {b, b OR d} \<Longrightarrow> c \<in> {a, a OR d}"
    and "y \<in> {x, k} \<Longrightarrow> z \<in> {y, k} \<Longrightarrow> z \<in> {x, k}"
    and "v \<in> {u, Some (ucast (ucast (the u :: u64) :: u32))} \<Longrightarrow> w \<in> {v, Some (ucast (ucast (the v) :: u32))} \<Longrightarrow>
      w \<in> {u, Some (ucast (ucast (the u) :: u32))}"
  by (auto simp: and.assoc or.assoc low_half_twice)

lemma kept_cpu_trans:
  assumes "kept_cpu a b" and "kept_cpu b c"
  shows "kept_cpu a c"
proof -
  note k = assms [unfolded kept_cpu_def list.pred_inject]
  have n: "\<forall>n. n \<notin> {IA32_SYSENTER_CS, IA32_DEBUGCTL} \<longrightarrow> r_msrs c n = r_msrs a n" using k by metis
  show ?thesis
    unfolding kept_cpu_def list.pred_inject using k
    by (elim conjE)
      (intro conjI; ((rule n | rule list.pred_inject(1) | rule trans, assumption, assumption | rule kept_or, assumption, assumption); fail))
qed

lemma kept_cpu_path: "kept_cpu c ((path_cpu p c)\<lparr>r_rflags := x, r_tsc := t\<rparr>)"
  by (cases p) (simp_all add: kept_cpu_def exit_residue_def msr_enc)

lemma kept_cpu_msrs:
  assumes "kept_cpu c c'"
  shows "vmx_msrs_present c' = vmx_msrs_present c" "host_msrs_present c \<Longrightarrow> host_msrs_present c'"
    "r_msrs c' IA32_FEATURE_CONTROL = r_msrs c IA32_FEATURE_CONTROL"
    "cr_fixed_ok (c'\<lparr>r_cr4 := r_cr4 c' OR CR4_VMXE\<rparr>) = cr_fixed_ok (c\<lparr>r_cr4 := r_cr4 c OR CR4_VMXE\<rparr>)"
proof -
  have o: "r_msrs c' n = r_msrs c n" if "n \<notin> {IA32_SYSENTER_CS, IA32_DEBUGCTL}" for n
    using assms that unfolding kept_cpu_def by blast
  have s: "r_msrs c IA32_SYSENTER_CS \<noteq> None \<longrightarrow> r_msrs c' IA32_SYSENTER_CS \<noteq> None"
  proof -
    have "r_msrs c' IA32_SYSENTER_CS \<in> {r_msrs c IA32_SYSENTER_CS, Some (ucast (ucast (the (r_msrs c IA32_SYSENTER_CS)) :: u32))}"
      using assms unfolding kept_cpu_def by (elim conjE)
    then show ?thesis by auto
  qed
  have r: "r_cr0 c' = r_cr0 c" using assms unfolding kept_cpu_def by (elim conjE)
  have r4: "r_cr4 c' \<in> {r_cr4 c, r_cr4 c OR CR4_VMXE}" using assms unfolding kept_cpu_def by (elim conjE)
  from r4 have x: "r_cr4 c' OR CR4_VMXE = r_cr4 c OR CR4_VMXE" by (auto simp: or.assoc)
  show "vmx_msrs_present c' = vmx_msrs_present c" "host_msrs_present c \<Longrightarrow> host_msrs_present c'"
    "r_msrs c' IA32_FEATURE_CONTROL = r_msrs c IA32_FEATURE_CONTROL"
    using s by (simp_all add: o vmx_msrs_present_def host_msrs_present_def msr_bit_def cap_msrs_def true_ctl_msrs_def msr_enc)
  show "cr_fixed_ok (c'\<lparr>r_cr4 := r_cr4 c' OR CR4_VMXE\<rparr>) = cr_fixed_ok (c\<lparr>r_cr4 := r_cr4 c OR CR4_VMXE\<rparr>)"
    by (simp add: o r x cr_fixed_ok_def fixed_ok_def msr_enc)
qed

lemma kept_cpu_host:
  assumes "kept_cpu (m_cpu m) (m_cpu m')" and "\<not> vmx_on (m_vmx m')"
  shows "good_host e m \<Longrightarrow> good_host e m'" and "vmx_ready m \<Longrightarrow> vmx_ready m'"
  using assms kept_cpu_msrs [OF assms(1)] by (auto simp: good_host_def vmx_ready_def with_vmxe_def)

text \<open>What a run of the program may do to the host, with at most \<open>k\<close> pages lost.\<close>

definition load_effect :: "nat \<Rightarrow> mstate \<Rightarrow> mstate \<Rightarrow> bool" where
  "load_effect k m m' \<longleftrightarrow> kept_cpu (m_cpu m) (m_cpu m') \<and> (\<not> vmx_on (m_vmx m) \<longrightarrow> \<not> vmx_on (m_vmx m')) \<and>
     irq_ledger m' = irq_ledger m \<and> int_enabled m' = int_enabled m \<and> (\<exists>hs. length hs \<le> k \<and> ledger_plus m hs m')"

lemma load_effect_trans:
  assumes "load_effect j a b" and "load_effect k b c"
  shows "load_effect (j + k) a c"
proof -
  obtain hs hs' where h: "length hs \<le> j" "ledger_plus a hs b" "length hs' \<le> k" "ledger_plus b hs' c"
    using assms by (auto simp: load_effect_def)
  have "ledger_plus a (hs @ hs') c" using h(2,4) by (simp add: ledger_plus_def add.assoc add.left_commute)
  moreover have "length (hs @ hs') \<le> j + k" using h(1,3) by simp
  moreover have "kept_cpu (m_cpu a) (m_cpu c)" using assms kept_cpu_trans by (auto simp: load_effect_def)
  ultimately show ?thesis using assms unfolding load_effect_def by metis
qed

lemma load_effect_still:
  assumes "m_cpu m' = m_cpu m" and "m_vmx m' = m_vmx m" and "irq_ledger m' = irq_ledger m" and "page_ledger m' = page_ledger m"
  shows "load_effect k m m'"
  using assms by (auto simp: load_effect_def int_enabled_def ledger_plus_def intro!: exI [of _ "[]"])

lemma log_step_effect: "log_step ls m m' \<Longrightarrow> load_effect k m m'"
  by (rule load_effect_still) (simp_all add: log_step_def os_step_def)

lemma left_behind_effect:
  assumes "left_behind e m p m'"
  shows "load_effect k m m'"
proof -
  have "ledger_plus m [] m'" using assms by (simp add: left_behind_def ledger_plus_def)
  moreover have "kept_cpu (m_cpu m) (m_cpu m')" using assms kept_cpu_path by (auto simp: left_behind_def)
  ultimately show ?thesis using assms unfolding load_effect_def left_behind_def
    by (metis bot_nat_0.extremum list.size(3))
qed

lemma measured_after_effect:
  assumes "measured_after e ls m m'"
  shows "load_effect 4 m m'"
proof -
  obtain m1 where l: "log_step ls m m1"
    and c: "(\<exists>hs. length hs < 5 \<and> ledger_plus m1 hs m' \<and> os_step m1 m') \<or> (\<exists>p. left_behind e m1 p m')"
    using assms by (auto simp: measured_after_def)
  have "load_effect 4 m1 m'"
    using c
  proof
    assume "\<exists>hs. length hs < 5 \<and> ledger_plus m1 hs m' \<and> os_step m1 m'"
    then obtain hs where "length hs \<le> 4" "ledger_plus m1 hs m'" "os_step m1 m'" by force
    then show ?thesis by (auto simp: load_effect_def os_step_def int_enabled_def)
  qed (use left_behind_effect in blast)
  then show ?thesis using load_effect_trans [OF log_step_effect [OF l, of 0]] by simp
qed

section \<open>The invariant\<close>

text \<open>
  The hosts on which every load is expected to come back.  The Windows driver does not ask whether VMX is there
  and enabled, so it has to be; a device that was created is not \<^verbatim>\<open>NULL\<close>.
\<close>

definition loadable :: "env \<Rightarrow> mstate \<Rightarrow> bool" where
  "loadable e m \<longleftrightarrow> good_host e m \<and> locks_available e \<and> \<not> vmx_on (m_vmx m) \<and>
     (e_target e = Windows \<longrightarrow> has_vmx e \<and> vmx_ready m \<and> (\<forall>k. nt_success (fst (e_device e k)) \<longrightarrow> snd (e_device e k) \<noteq> 0))"

lemma loadable_effect:
  assumes "loadable e m" and "load_effect k m m'"
  shows "loadable e m'"
  using assms kept_cpu_host [of m m'] by (auto simp: loadable_def load_effect_def)

text \<open>The devices while the module is loaded, with \<open>D\<close> those of others.\<close>

definition devices_ok :: "env \<Rightarrow> u64 multiset \<Rightarrow> bool \<Rightarrow> mstate \<Rightarrow> bool" where
  "devices_ok e D l m \<longleftrightarrow>
     (if l \<and> e_target e = Windows
      then os_drv_unload (m_os m) \<and> os_drv_device (m_os m) \<noteq> 0 \<and> os_devices (m_os m) = add_mset (os_drv_device (m_os m)) D
      else os_devices (m_os m) = D)"

lemma dev_ledger_devices:
  assumes "dev_ledger m' = dev_ledger m"
  shows "os_devices (m_os m') = os_devices (m_os m)" "os_drv_device (m_os m') = os_drv_device (m_os m)"
  using assms by (simp_all add: dev_ledger_def)

lemma load_init:
  assumes "loadable e m" and "e_target e \<noteq> Windows"
  shows "\<exists>m'. load_module e m = Some (True, m') \<and> load_effect 4 m m' \<and> dev_ledger m' = dev_ledger m"
proof -
  obtain m' where m': "vmlatency_init (platform_of e) e m = Some (0, m')"
    and r: "if fst (vmx_answer e m) then measured_after e (info_lines e m) m m' else log_step (snd (vmx_answer e m)) m m'"
    using vmlatency_init_outcome [of e m] assms(1) by (auto simp: loadable_def)
  have "load_module e m = Some (True, m')"
    using m' assms(2) by (cases "e_target e") (simp_all add: load_module_def vmlatency_start_init KERN_SUCCESS_def)
  moreover have "load_effect 4 m m'" "dev_ledger m' = dev_ledger m"
    using r measured_after_effect measured_after_ledgers(2) log_step_effect
    by (auto simp: log_step_def os_step_def split: if_splits)
  ultimately show ?thesis by blast
qed

lemma load_driver:
  assumes "loadable e m" and w: "e_target e = Windows"
  shows "\<exists>l m'. load_module e m = Some (l, m') \<and> load_effect 4 m m' \<and>
    (if l then os_drv_unload (m_os m') \<and> os_drv_device (m_os m') \<noteq> 0 \<and> os_devices (m_os m') = add_mset (os_drv_device (m_os m')) (os_devices (m_os m))
     else os_devices (m_os m') = os_devices (m_os m))"
proof -
  obtain st d where d: "e_device e (os_calls (m_os m)) = (st, d)" by (cases "e_device e (os_calls (m_os m))")
  show ?thesis
  proof (cases "nt_success st")
    case True
    then have "d \<noteq> 0" using assms d unfolding loadable_def by (metis fst_conv snd_conv)
    obtain m' where m': "driver_entry (platform_of e) e m = Some (st, m')"
      "measured_after e (info_lines e m) (device_created d m) m'"
      using driver_entry_outcome [OF _ _ _ _ d True] assms by (auto simp: loadable_def)
    have "load_effect 0 m (device_created d m)" by (rule load_effect_still) (simp_all add: device_created_frame)
    then have "load_effect 4 m m'" using load_effect_trans measured_after_effect [OF m'(2)] by fastforce
    moreover have "dev_ledger m' = (add_mset d (os_devices (m_os m)), d, d, True)"
      using measured_after_ledgers(2) [OF m'(2)] by (simp add: device_created_frame)
    ultimately show ?thesis
      using m'(1) w True \<open>d \<noteq> 0\<close> by (intro exI [of _ True] exI [of _ m']) (simp add: load_module_def dev_ledger_def)
  next
    case False
    let ?m = "set_os (\<lambda>s. s\<lparr>os_calls := os_calls s + 1\<rparr>) m"
    obtain ls m' where m': "driver_entry (platform_of e) e m = Some (st, m')" "log_step ls ?m m'"
      using driver_entry_refused [OF d False] by blast
    have "load_effect 0 m ?m" by (rule load_effect_still) (simp_all add: ledger_defs)
    then have "load_effect 4 m m'" using load_effect_trans log_step_effect [OF m'(2), of 4] by fastforce
    moreover have "os_devices (m_os m') = os_devices (m_os m)"
      using m'(2) by (simp add: log_step_def os_step_def dev_ledger_def)
    ultimately show ?thesis
      using m'(1) w False by (intro exI [of _ False] exI [of _ m']) (simp add: load_module_def)
  qed
qed

lemma load_ok:
  assumes "loadable e m" and "devices_ok e D False m"
  shows "\<exists>l m'. load_module e m = Some (l, m') \<and> load_effect 4 m m' \<and> devices_ok e D l m'"
proof (cases "e_target e = Windows")
  case True
  have D: "os_devices (m_os m) = D" using assms(2) by (simp add: devices_ok_def)
  show ?thesis using load_driver [OF assms(1) True] True unfolding D devices_ok_def by simp
next
  case False
  then show ?thesis using load_init [OF assms(1) False] assms(2) dev_ledger_devices(1)
    unfolding devices_ok_def by metis
qed

lemma unload_driver_frame:
  assumes "unload_driver m = Some m'"
  shows "m_cpu m' = m_cpu m" "m_vmx m' = m_vmx m" "irq_ledger m' = irq_ledger m" "page_ledger m' = page_ledger m"
  using assms by (auto simp: unload_driver_def io_delete_device_def ledger_defs Let_def bind_Some_iff split: if_splits)

lemma unload_ok:
  assumes "devices_ok e D True m"
  shows "\<exists>m'. unload_module e m = Some m' \<and> load_effect 0 m m' \<and> devices_ok e D False m'"
proof (cases "e_target e")
  case Windows
  let ?d = "os_drv_device (m_os m)"
  have l: "dev_ledger m = (add_mset ?d D, os_g_device (m_os m), ?d, os_drv_unload (m_os m))" "?d \<noteq> 0"
    using assms Windows by (simp_all add: devices_ok_def dev_ledger_def)
  obtain m' where m': "unload_driver m = Some m'" "dev_ledger m' = (D, 0, 0, os_drv_unload (m_os m))"
    using unload_driver_deletes [OF l] by blast
  have "load_effect 0 m m'"
    using unload_driver_frame [OF m'(1)] by (rule load_effect_still)
  then show ?thesis using m' Windows assms by (simp add: unload_module_def devices_ok_def dev_ledger_def)
qed (use assms in \<open>auto simp: unload_module_def vmlatency_exit_def vmlatency_stop_def devices_ok_def intro!: load_effect_still\<close>)

lemma module_run_inv:
  assumes "module_run e m0 n l m" and "loadable e m0"
  shows "load_effect (4 * n) m0 m \<and> devices_ok e (os_devices (m_os m0)) l m"
  using assms(1)
proof induction
  case start
  then show ?case by (simp add: load_effect_still devices_ok_def)
next
  case (load n m l m')
  then have "loadable e m" using loadable_effect [OF assms(2)] by blast
  then show ?case using load load_ok load_effect_trans [of "4 * n" m0 m 4 m'] by (fastforce simp: add.commute)
next
  case (unload n m m')
  then show ?case using unload_ok load_effect_trans [of "4 * n" m0 m 0 m'] by fastforce
qed

end
