(* ===== verification/Load_Frame.thy ===== *)
theory Load_Frame
  imports Vmx_Frame Lifecycle
begin

text \<open>
  What a load leaves of memory and of the MDLs: it writes only to pages that the kernel handed out, and loses the
  structures of at most five MDLs.  No instruction of the program and no message writes memory or makes an MDL
  (an instance of the locales of \<open>Vmx_Relation\<close>); what is left are the five calls of \<open>allocate_vmpage\<close> and the two stores of
  the revision identifier.
\<close>

section \<open>Instructions, messages, labels\<close>

interpretation mm: entry_relation "platform_of e" e "\<lambda>m m'. mem_mdls m' = mem_mdls m" for e
proof (unfold_locales, goal_cases)
  case (3 s m m')
  then show ?case by (rule port_frame.printm_mem_mdls)
qed (auto simp: insn_vmx_defs mem_mdls_def frame Let_def split: if_splits option.splits entry_outcome.splits)

interpretation mp: port_relation "platform_of e" e "\<lambda>m m'. mem_mdls m' = mem_mdls m" for e
  by unfold_locales (auto dest: port_frame.free_mem_mdls port_frame.enable_mem_mdls)

section \<open>A load\<close>

definition load_frame :: "env \<Rightarrow> nat \<Rightarrow> mstate \<Rightarrow> mstate \<Rightarrow> bool" where
  "load_frame e k m m' \<longleftrightarrow>
     (good_pages e (port_page_pa e) \<longrightarrow> (\<forall>x. off_pages e (port_page_pa e) x \<longrightarrow> m_mem m' x = m_mem m x)) \<and>
     (\<exists>hs. length hs \<le> k \<and> os_mdls (m_os m') = mset hs + os_mdls (m_os m))"

lemma load_frame_same: "mem_mdls m' = mem_mdls m \<Longrightarrow> load_frame e k m m'"
  by (auto simp: load_frame_def mem_mdls_def intro!: exI [of _ "[]"])

lemma load_frame_trans:
  assumes "load_frame e j a b" and "load_frame e k b c"
  shows "load_frame e (j + k) a c"
proof -
  obtain hs hs' where h: "length hs \<le> j" "os_mdls (m_os b) = mset hs + os_mdls (m_os a)"
    "length hs' \<le> k" "os_mdls (m_os c) = mset hs' + os_mdls (m_os b)"
    using assms unfolding load_frame_def by blast
  have "length (hs' @ hs) \<le> j + k" "os_mdls (m_os c) = mset (hs' @ hs) + os_mdls (m_os a)" using h by (simp_all add: add.assoc)
  then show ?thesis using assms unfolding load_frame_def by metis
qed

lemma load_frame_mono: "load_frame e j a b \<Longrightarrow> j \<le> k \<Longrightarrow> load_frame e k a b"
  unfolding load_frame_def by (meson order_trans)

lemma load_frame_mem_mdls:
  "load_frame e k a b \<Longrightarrow> mem_mdls c = mem_mdls b \<Longrightarrow> load_frame e k a c"
  "mem_mdls b = mem_mdls a \<Longrightarrow> load_frame e k b c \<Longrightarrow> load_frame e k a c"
  by (simp_all add: load_frame_def mem_mdls_def)

text \<open>The pages: where they are mapped and what is written.\<close>

lemma alloc_frame_step:
  assumes "allocate_vmpage (platform_of e) p m = Some (r, p', m')"
  shows "load_frame e 1 m m'"
  using port_frame.alloc_mdls [OF assms] port_pages.alloc_mem [OF assms]
  unfolding load_frame_def good_pages_def off_pages_def by blast

definition kernel_page :: "env \<Rightarrow> vmpage \<Rightarrow> bool" where
  "kernel_page e p \<longleftrightarrow> (\<exists>k. vp_p p = e_map e (e_alloc e k) \<and> vp_pa p = port_page_pa e (e_alloc e k))"

lemma allocate_seq_frame:
  "allocate_seq (platform_of e) ps m = Some (k, ps', m') \<Longrightarrow>
    load_frame e (length ps) m m' \<and> length ps' = length ps \<and> k \<le> length ps \<and> (k = length ps \<longrightarrow> list_all (kernel_page e) ps')"
proof (induction ps arbitrary: m k ps')
  case Nil
  then show ?case by (simp add: load_frame_same)
next
  case (Cons p ps)
  then obtain r p1 m1 where a: "allocate_vmpage (platform_of e) p m = Some (r, p1, m1)"
    and c: "r \<noteq> 0 \<and> k = 0 \<and> ps' = p1 # ps \<and> m' = m1 \<or>
      r = 0 \<and> (\<exists>k1 ps1. allocate_seq (platform_of e) ps m1 = Some (k1, ps1, m') \<and> k = Suc k1 \<and> ps' = p1 # ps1)"
    by (auto simp: bind_Some_iff split: if_splits)
  note f = alloc_frame_step [OF a]
  from c show ?case
  proof
    assume "r \<noteq> 0 \<and> k = 0 \<and> ps' = p1 # ps \<and> m' = m1"
    then show ?thesis using load_frame_mono [OF f] by simp
  next
    assume c: "r = 0 \<and> (\<exists>k1 ps1. allocate_seq (platform_of e) ps m1 = Some (k1, ps1, m') \<and> k = Suc k1 \<and> ps' = p1 # ps1)"
    then have "kernel_page e p1" using port_pages.alloc_page a unfolding kernel_page_def by metis
    then show ?thesis using c Cons.IH [of m1] load_frame_trans [OF f] by auto
  qed
qed

lemma allocate_memory_frame:
  assumes "allocate_memory (platform_of e) vmm m = Some (cnt, vmm', m')"
  shows "load_frame e 5 m m'" and "0 < cnt \<Longrightarrow> kernel_page e (vmxon_region vmm') \<and> kernel_page e (vmcs vmm')"
proof -
  obtain k ps where s: "allocate_seq (platform_of e) (vmm_pages vmm) m = Some (k, ps, m')"
    "cnt = (if k = 5 then 5 else - int k)" "vmm' = set_vmm_pages ps vmm"
    using assms unfolding allocate_memory_seq by auto
  have n: "length (vmm_pages vmm) = 5" by (simp add: vmm_pages_def)
  note f = allocate_seq_frame [OF s(1), unfolded n]
  then show "load_frame e 5 m m'" by blast
  assume "0 < cnt"
  then have "list_all (kernel_page e) ps" "length ps = 5" using f s(2) by (auto split: if_splits)
  then show "kernel_page e (vmxon_region vmm') \<and> kernel_page e (vmcs vmm')"
    by (simp add: s(3) set_vmm_pages_def list_all_length)
qed

text \<open>A measurement.\<close>

lemma setup_frame:
  assumes "vmxon_setup_revision_id e vmm m = Some ma" and "vmcs_setup_revision_id e vmm ma = Some m1"
    and "kernel_page e (vmxon_region vmm)" and "kernel_page e (vmcs vmm)"
  shows "load_frame e 0 m m1"
proof -
  have "m_mem m1 x = m_mem m x" if g: "good_pages e (port_page_pa e)" and x: "off_pages e (port_page_pa e) x" for x
  proof -
    have off: "maps_page e (vp_p (vmxon_region vmm)) (vp_pa (vmxon_region vmm))" "\<not> x - vp_pa (vmxon_region vmm) < 0x1000"
      "maps_page e (vp_p (vmcs vmm)) (vp_pa (vmcs vmm))" "\<not> x - vp_pa (vmcs vmm) < 0x1000"
      using assms(3,4) g x unfolding kernel_page_def good_pages_def off_pages_def by metis+
    show ?thesis
      using assms(1,2) store32_off [OF off(1,2)] store32_off [OF off(3,4)]
      by (auto simp: vmxon_setup_revision_id_def vmcs_setup_revision_id_def bind_Some_iff)
  qed
  moreover have "m_os m1 = m_os m"
    using assms(1,2) by (auto simp: vmxon_setup_revision_id_def vmcs_setup_revision_id_def bind_Some_iff frame)
  ultimately show ?thesis unfolding load_frame_def by simp
qed

lemma measure_vmx_frame:
  assumes "measure_vmx (platform_of e) e vmm cnt stats m = Some (b, stats', m')"
    and "kernel_page e (vmxon_region vmm)" and "kernel_page e (vmcs vmm)"
  shows "load_frame e 0 m m'"
proof -
  obtain ma m1 irq m2 vmm' m3 where s: "vmxon_setup_revision_id e vmm m = Some ma" "vmcs_setup_revision_id e vmm ma = Some m1"
    "vmlatency_preempt_disable (platform_of e) irq_flags_uninit m1 = Some (irq, m2)" "mem_mdls m3 = mem_mdls m2"
    "measure_out2 (platform_of e) vmm' cnt irq m3 = Some m'"
    using mm.vmx_to_out2 [OF assms(1)] by blast
  have "mem_mdls m' = mem_mdls m1"
    using port_frame.disable_mem_mdls [OF s(3)] s(4) mp.keeps_out2 [OF s(5)] by simp
  then show ?thesis using setup_frame [OF s(1,2) assms(2,3)] load_frame_mem_mdls(1) by blast
qed

lemma measure_frame:
  assumes "measure_vmlatency (platform_of e) e m = Some m'"
  shows "load_frame e 5 m m'"
proof -
  obtain v cnt vmm m1 b stats m2 where a: "allocate_memory (platform_of e) v m = Some (cnt, vmm, m1)"
    and c: "(if cnt \<le> 0 then Option.bind (measure_out1 (platform_of e) vmm cnt m1) (\<lambda>m. Some (False, replicate VMX_ITERATIONS None, m))
      else measure_vmx (platform_of e) e vmm cnt (replicate VMX_ITERATIONS None) m1) = Some (b, stats, m2)"
    and p: "(if b then print_stats (platform_of e) 0 stats m2 else Some m2) = Some m'"
    using assms unfolding measure_vmlatency_def Let_def bind_Some_iff split_paired_Ex prod.case by blast
  note f = allocate_memory_frame [OF a]
  have "load_frame e 0 m1 m2"
  proof (cases "cnt \<le> 0")
    case True
    then show ?thesis using c mp.keeps_out1 load_frame_same by (auto simp: bind_Some_iff)
  next
    case False
    then show ?thesis using c f(2) measure_vmx_frame [of e vmm cnt _ m1 b stats m2] by simp
  qed
  moreover have "mem_mdls m' = mem_mdls m2" using p mm.keeps_print_stats by (auto split: if_splits)
  ultimately show ?thesis using load_frame_trans [OF f(1)] load_frame_mem_mdls(1) by fastforce
qed

section \<open>The life of the module\<close>

lemma vmx_enabled_frame:
  assumes "vmx_enabled (platform_of e) e m = Some (b, m')"
  shows "mem_mdls m' = mem_mdls m"
  using assms by (auto simp: vmx_enabled_def bind_Some_iff split: if_splits dest: mm.keeps_printk)

lemma vmlatency_init_frame:
  assumes "vmlatency_init (platform_of e) e m = Some (r, m')"
  shows "load_frame e 5 m m'"
proof -
  obtain b m1 where m1: "mem_mdls m1 = mem_mdls m"
    and c: "m' = m1 \<or> (\<exists>m2. print_vmx_info (platform_of e) e m1 = Some m2 \<and> measure_vmlatency (platform_of e) e m2 = Some m')"
    using assms vmx_enabled_frame unfolding vmlatency_init_def by (auto simp: bind_Some_iff split: if_splits) blast+
  from c show ?thesis
  proof
    assume "m' = m1"
    then show ?thesis using m1 by (simp add: load_frame_same)
  next
    assume "\<exists>m2. print_vmx_info (platform_of e) e m1 = Some m2 \<and> measure_vmlatency (platform_of e) e m2 = Some m'"
    then show ?thesis using m1 measure_frame mm.keeps_print_vmx_info load_frame_mem_mdls(2) by metis
  qed
qed

lemma driver_entry_frame:
  assumes "driver_entry (platform_of e) e m = Some (r, m')"
  shows "load_frame e 5 m m'"
proof -
  obtain st d where d: "e_device e (os_calls (m_os m)) = (st, d)" by (cases "e_device e (os_calls (m_os m))")
  show ?thesis
  proof (cases "nt_success st")
    case True
    then obtain m2 where m2: "print_vmx_info (platform_of e) e (device_created d m) = Some m2"
      "measure_vmlatency (platform_of e) e m2 = Some m'"
      using assms unfolding driver_entry_created [OF d True] by (auto simp: bind_Some_iff)
    have "mem_mdls m2 = mem_mdls m"
      using mm.keeps_print_vmx_info [OF m2(1)] by (simp add: mem_mdls_def device_created_def)
    then show ?thesis using measure_frame [OF m2(2)] load_frame_mem_mdls(2) by blast
  next
    case False
    then have "mem_mdls m' = mem_mdls (set_os (\<lambda>s. s\<lparr>os_calls := os_calls s + 1\<rparr>) m)"
      using assms d by (auto simp: driver_entry_def io_create_device_def bind_Some_iff dest: mm.keeps_printk)
    then show ?thesis by (intro load_frame_same) (simp add: mem_mdls_def)
  qed
qed

lemma load_module_frame: "load_module e m = Some (l, m') \<Longrightarrow> load_frame e 5 m m'"
  unfolding load_module_def vmlatency_start_init
  by (auto simp: bind_Some_iff split: os_target.splits dest: vmlatency_init_frame driver_entry_frame)

lemma unload_module_frame: "unload_module e m = Some m' \<Longrightarrow> load_frame e 0 m m'"
  unfolding unload_module_def
  by (rule load_frame_same)
    (auto simp: vmlatency_exit_def vmlatency_stop_def unload_driver_def io_delete_device_def bind_Some_iff mem_mdls_def Let_def
      split: os_target.splits if_splits)

lemma module_run_frame: "module_run e m0 n l m \<Longrightarrow> load_frame e (5 * n) m0 m"
proof (induction rule: module_run.induct)
  case start
  then show ?case by (simp add: load_frame_same)
next
  case (load n m l m')
  then show ?case using load_frame_trans [OF _ load_module_frame] by (metis add.commute mult_Suc_right)
next
  case (unload n m m')
  then show ?case using load_frame_trans [OF _ unload_module_frame] by fastforce
qed

end
