(* ===== verification/Results.thy ===== *)
theory Results
  imports Printf Vmx_Measure
begin

text \<open>
  The way of the result from the logs to the plot: the pipeline at the end of \<^verbatim>\<open>get_vmlatency.sh\<close>, the function
  \<^verbatim>\<open>Dump-Results\<close> of \<^verbatim>\<open>GetVmlatency.ps1\<close>, and what \<^verbatim>\<open>process-data.py\<close> reads from the file that they write.  An exception
  of Python is \<^const>\<open>None\<close>.  The average is kept as the sum and the count, and compared without rounding.
\<close>

section \<open>Strings\<close>

definition starts :: "string \<Rightarrow> string \<Rightarrow> bool" where
  "starts p s \<longleftrightarrow> take (length p) s = p"

fun occurs :: "string \<Rightarrow> string \<Rightarrow> bool" where
  "occurs p [] \<longleftrightarrow> p = []"
| "occurs p (c # cs) \<longleftrightarrow> starts p (c # cs) \<or> occurs p cs"

text \<open>\<^verbatim>\<open>s/p//\<close> of sed for a literal \<open>p\<close>: the first occurrence goes.\<close>

fun cut_first :: "string \<Rightarrow> string \<Rightarrow> string" where
  "cut_first p [] = []"
| "cut_first p (c # cs) = (if starts p (c # cs) then drop (length p) (c # cs) else c # cut_first p cs)"

text \<open>\<^verbatim>\<open>Replace(p, "")\<close> of .NET: every occurrence goes.\<close>

fun cut_all :: "string \<Rightarrow> string \<Rightarrow> string" where
  "cut_all p [] = []"
| "cut_all p (c # cs) = (if starts p (c # cs) then cut_all p (drop (length p - 1) cs) else c # cut_all p cs)"

text \<open>The text before and after the first occurrence of a separator.\<close>

fun cut_at :: "string \<Rightarrow> string \<Rightarrow> (string \<times> string) option" where
  "cut_at p [] = None"
| "cut_at p (c # cs) =
     (if starts p (c # cs) then Some ([], drop (length p) (c # cs))
      else map_option (\<lambda>(a, b). (c # a, b)) (cut_at p cs))"

definition is_digit :: "char \<Rightarrow> bool" where
  "is_digit c \<longleftrightarrow> c \<in> set ''0123456789''"

definition is_space :: "char \<Rightarrow> bool" where
  "is_space c \<longleftrightarrow> c \<in> {CHR '' '', CHR 0x09, CHR 0x0A, CHR 0x0B, CHR 0x0C, CHR 0x0D}"

section \<open>The file\<close>

definition log_tag :: string where
  "log_tag = ''[vmlatency] ''"

text \<open>
  The time stamp that dmesg puts before a message: \<^verbatim>\<open>sed s/^"\[ *"[0-9]*\.[0-9]*"\] "//\<close>.  The backslash before the dot stands
  outside the quotes, so the shell removes it, and the dot that sed gets matches any character.  A regular expression is a
  list of items; \<open>re_rests\<close> gives what every match at the start leaves of the line, and sed takes the longest match.
\<close>

datatype re_item = Lit char | Any | Star "char list"

fun re_rests :: "re_item list \<Rightarrow> string \<Rightarrow> string list" where
  "re_rests [] s = [s]"
| "re_rests (Lit c # r) [] = []"
| "re_rests (Lit c # r) (x # xs) = (if x = c then re_rests r xs else [])"
| "re_rests (Any # r) [] = []"
| "re_rests (Any # r) (x # xs) = (if x \<noteq> CHR 0x0A then re_rests r xs else [])"
| "re_rests (Star cs # r) [] = re_rests r []"
| "re_rests (Star cs # r) (x # xs) = re_rests r (x # xs) @ (if x \<in> set cs then re_rests (Star cs # r) xs else [])"

definition stamp_re :: "re_item list" where
  "stamp_re = [Lit (CHR ''[''), Star '' '', Star ''0123456789'', Any, Star ''0123456789'', Lit (CHR '']''), Lit (CHR '' '')]"

definition strip_stamp :: "string \<Rightarrow> string" where
  "strip_stamp l = foldr (\<lambda>r b. if length r < length b then r else b) (re_rests stamp_re l) l"

lemma strip_stamp_examples:
  "strip_stamp ''[   12.345678] [vmlatency] x'' = ''[vmlatency] x''" "strip_stamp ''[12345] [vmlatency] x'' = ''[vmlatency] x''"
  "strip_stamp ''[vmlatency] x'' = ''[vmlatency] x''"
  by code_simp+

text \<open>From the output of dmesg to the file; the lines keep their line feed.\<close>

definition get_vmlatency_file :: "string list \<Rightarrow> string" where
  "get_vmlatency_file ls = concat (map (\<lambda>l. cut_first log_tag (strip_stamp l)) (filter (occurs ''[vmlatency]'') ls))"

text \<open>From the messages of the event log, oldest first, to the file.\<close>

text \<open>The pattern \<^verbatim>\<open>*vmlatency]*\<close> of \<^verbatim>\<open>Get-EventLog\<close> does not tell capital letters from small ones.\<close>

definition lower_char :: "char \<Rightarrow> char" where
  "lower_char c =
     (case map_of (zip ''ABCDEFGHIJKLMNOPQRSTUVWXYZ'' ''abcdefghijklmnopqrstuvwxyz'') c of None \<Rightarrow> c | Some d \<Rightarrow> d)"

definition lower :: "string \<Rightarrow> string" where
  "lower = map lower_char"

definition event_match :: "string \<Rightarrow> bool" where
  "event_match l \<longleftrightarrow> occurs ''vmlatency]'' (lower l)"

definition dump_results :: "string list \<Rightarrow> string" where
  "dump_results ls =
     concat (map (\<lambda>l. cut_all nl (cut_all log_tag l) @ [CHR 0x0D, CHR 0x0A]) (filter event_match ls))"

section \<open>Reading the file\<close>

text \<open>\<^verbatim>\<open>readlines\<close> of Python: a line keeps its line feed.\<close>

fun readlines :: "string \<Rightarrow> string list" where
  "readlines [] = []"
| "readlines (c # cs) =
     (if c = CHR 0x0A then [c] # readlines cs
      else case readlines cs of [] \<Rightarrow> [[c]] | l # ls \<Rightarrow> (c # l) # ls)"

text \<open>\<^verbatim>\<open>int(s)\<close>.\<close>

definition strip_space :: "string \<Rightarrow> string" where
  "strip_space s = rev (dropWhile is_space (rev (dropWhile is_space s)))"

definition py_nat :: "string \<Rightarrow> int option" where
  "py_nat s = (if s \<noteq> [] \<and> list_all is_digit s then Some (int (read_base 10 s)) else None)"

definition py_int :: "string \<Rightarrow> int option" where
  "py_int s =
     (let s = strip_space s
      in if starts ''-'' s then map_option uminus (py_nat (tl s))
         else if starts ''+'' s then py_nat (tl s) else py_nat s)"

text \<open>\<^verbatim>\<open>l.split(" - ")[1]\<close>: what is between the first separator and the next one.\<close>

definition second_field :: "string \<Rightarrow> string option" where
  "second_field l = do {
     (a, r) \<leftarrow> cut_at '' - '' l;
     Some (case cut_at '' - '' r of None \<Rightarrow> r | Some (b, q) \<Rightarrow> b)
   }"

text \<open>The loop over the lines of a file.\<close>

fun latencies :: "string list \<Rightarrow> int list option" where
  "latencies [] = Some []"
| "latencies (l # ls) =
     (if starts ''IA32_'' l then latencies ls
      else do {
        f \<leftarrow> second_field l;
        latency \<leftarrow> py_int f;
        vs \<leftarrow> latencies ls;
        Some (latency # vs)
      })"

text \<open>The first line is the name of the processor.\<close>

definition read_file :: "string \<Rightarrow> (string \<times> int list) option" where
  "read_file text =
     (case readlines text of
        [] \<Rightarrow> Some ([], [])
      | l # ls \<Rightarrow> map_option (\<lambda>vs. (butlast l, vs)) (latencies ls))"

text \<open>
  What becomes of a file: an exception (the average of no values, or a least value divided by an average of zero), a file
  that is skipped because its least value is below 80 percent of the average, or the name with the sum, the count and the
  least value.
\<close>

datatype file_result = Raised | Skipped | Kept string int nat int

definition py_maxint :: int where
  "py_maxint = 2 ^ 63 - 1"

definition below_80_percent :: "int \<Rightarrow> int \<Rightarrow> nat \<Rightarrow> bool" where
  "below_80_percent lmin tot n \<longleftrightarrow>
     (if 0 < tot then 100 * lmin * int n < 80 * tot else 80 * tot < 100 * lmin * int n)"

definition process_file :: "string \<Rightarrow> file_result" where
  "process_file text =
     (case read_file text of
        None \<Rightarrow> Raised
      | Some (cpu, vs) \<Rightarrow>
          let lmin = foldl (\<lambda>m v. if v < m then v else m) py_maxint vs;
              tot = sum_list vs
          in if vs = [] \<or> tot = 0 then Raised
             else if below_80_percent lmin tot (length vs) then Skipped else Kept cpu tot (length vs) lmin)"

section \<open>The generation of a processor\<close>

text \<open>\<^verbatim>\<open>split()\<close>: the words between runs of white space.\<close>

fun words_acc :: "string \<Rightarrow> string \<Rightarrow> string list" where
  "words_acc w [] = (if w = [] then [] else [rev w])"
| "words_acc w (c # cs) =
     (if is_space c then (if w = [] then words_acc [] cs else rev w # words_acc [] cs) else words_acc (c # w) cs)"

definition py_split :: "string \<Rightarrow> string list" where
  "py_split = words_acc []"

text \<open>The two regular expressions, matched at the start; the bar belongs to the character class.\<close>

definition match_core :: "char \<Rightarrow> string \<Rightarrow> bool" where
  "match_core g s \<longleftrightarrow> 7 \<le> length s \<and> s ! 0 = CHR ''i'' \<and> s ! 1 \<in> set ''3|57'' \<and> s ! 2 = CHR ''-'' \<and> s ! 3 = g \<and>
     is_digit (s ! 4) \<and> is_digit (s ! 5) \<and> is_digit (s ! 6)"

definition match_xeon :: "string \<Rightarrow> bool" where
  "match_xeon s \<longleftrightarrow> 7 \<le> length s \<and> s ! 0 = CHR ''E'' \<and> s ! 1 \<in> set ''3|5'' \<and> s ! 2 = CHR ''-'' \<and>
     is_digit (s ! 3) \<and> is_digit (s ! 4) \<and> is_digit (s ! 5) \<and> is_digit (s ! 6)"

definition word_at :: "string list \<Rightarrow> nat \<Rightarrow> string option" where
  "word_at ws k = (if k < length ws then Some (ws ! k) else None)"

fun first_match :: "(bool \<times> string) list \<Rightarrow> string option" where
  "first_match [] = None"
| "first_match ((b, u) # bs) = (if b then Some u else first_match bs)"

definition name2uarch :: "string \<Rightarrow> string option" where
  "name2uarch brand = do {
     let slised = py_split brand;
     w0 \<leftarrow> word_at slised 0;
     if w0 \<noteq> ''Intel(R)'' then None
     else do {
       w1 \<leftarrow> word_at slised 1;
       if w1 = ''Core(TM)2'' then do {
         w2 \<leftarrow> word_at slised 2;
         first_match [(w2 = ''CPU'', ''Merom''), (w2 = ''Duo'', ''Penryn'')]
       }
       else if w1 = ''Core(TM)'' then do {
         w2 \<leftarrow> word_at slised 2;
         if w2 = ''i3'' \<or> w2 = ''i5'' then do {
           w3 \<leftarrow> word_at slised 3;
           if w3 = ''CPU'' then do {
             w4 \<leftarrow> word_at slised 4;
             first_match [(w4 = ''760'', ''Nehalem''), (w4 = ''U'' \<or> w4 = ''M'', ''Westmere'')]
           }
           else None
         }
         else first_match [(match_core (CHR ''2'') w2, ''Sandy Bridge''), (match_core (CHR ''3'') w2, ''Ivy Bridge''),
           (match_core (CHR ''4'') w2, ''Haswell''), (match_core (CHR ''6'') w2, ''Skylake''),
           (match_core (CHR ''7'') w2, ''Kaby Lake'')]
       }
       else if w1 = ''Xeon(R)'' then do {
         w2 \<leftarrow> word_at slised 2;
         if w2 = ''CPU'' then do {
           w3 \<leftarrow> word_at slised 3;
           if starts ''X56'' w3 then Some ''Westmere''
           else if match_xeon w3 then do {
             w4 \<leftarrow> word_at slised 4;
             first_match [(w4 = ''0'', ''Sandy Bridge''), (w4 = ''v2'', ''Ivy Bridge''), (w4 = ''v3'', ''Haswell''),
               (w4 = ''v4'', ''Broadwell''), (w4 = ''v5'', ''Skylake'')]
           }
           else None
         }
         else None
       }
       else if w1 = ''Celeron(R)'' then do {
         w2 \<leftarrow> word_at slised 2;
         if w2 = ''CPU'' then do {
           w3 \<leftarrow> word_at slised 3;
           first_match [(w3 = ''N3150'', ''Airmont''), (w3 = ''G3900'', ''Skylake'')]
         }
         else None
       }
       else None
     }
   }"

text \<open>Known and unknown names, from the files in \<^verbatim>\<open>results/\<close>.\<close>

lemma name2uarch_known:
  "name2uarch ''Intel(R) Core(TM) i7-4770 CPU @ 3.40GHz'' = Some ''Haswell''"
  "name2uarch ''Intel(R) Xeon(R) CPU E5-2699 v4 @ 2.20GHz'' = Some ''Broadwell''"
  by code_simp+

lemma name2uarch_unknown:
  "name2uarch ''Intel(R) Core(TM) i7-8700K CPU @ 3.70GHz'' = None"
  "name2uarch ''Intel(R) Core(TM) i5-5300U CPU @ 2.30GHz'' = None"
  "name2uarch ''Intel(R) Xeon(R) Gold 6140 CPU @ 2.30GHz'' = None"
  by code_simp+

section \<open>Facts about the string functions\<close>

lemma starts_append [simp]: "starts p (p @ r)"
  by (simp add: starts_def)

lemma starts_Cons [simp]: "starts (c # p) s \<longleftrightarrow> (\<exists>r. s = c # r \<and> starts p r)"
  by (cases s) (auto simp: starts_def)

lemma starts_Nil [simp]: "starts [] s"
  by (simp add: starts_def)

lemma starts_append_long: "length p \<le> length a \<Longrightarrow> starts p (a @ b) = starts p a"
  by (simp add: starts_def)

lemma occurs_append: "p \<noteq> [] \<Longrightarrow> occurs p (a @ p @ b)"
proof (induction a)
  case Nil
  then show ?case by (cases p) (auto simp: starts_def)
qed simp

lemma occurs_longer: "occurs p s \<Longrightarrow> occurs p (a @ s)"
  by (induction a) simp_all

lemma occurs_lower: "occurs p s \<Longrightarrow> occurs (lower p) (lower s)"
proof (induction s)
  case (Cons c s)
  have "starts (lower p) (lower r)" if "starts p r" for r
    using that unfolding starts_def lower_def by (simp add: take_map)
  from this [of "c # s"] show ?case using Cons by (auto simp: lower_def)
qed (simp add: lower_def)

lemma event_matchI: "occurs ''vmlatency]'' l \<Longrightarrow> event_match l"
  using occurs_lower [of "''vmlatency]''" l] by (simp add: event_match_def lower_def lower_char_def)

text \<open>A text without the first character of the pattern has no occurrence.\<close>

lemma no_occurrence:
  assumes "c \<notin> set s"
  shows "\<not> occurs (c # p) s" and "cut_all (c # p) s = s" and "cut_at (c # p) s = None"
  using assms by (induction s) auto

lemma cut_all_append:
  assumes "c \<notin> set a"
  shows "cut_all (c # p) (a @ s) = a @ cut_all (c # p) s"
  using assms by (induction a) auto

text \<open>The tag at the start of a message.\<close>

lemma cut_tag:
  "cut_first log_tag (log_tag @ l) = l" "cut_all log_tag (log_tag @ l) = cut_all log_tag l"
  by (simp_all add: log_tag_def)

definition stamp_ok :: "string \<Rightarrow> bool" where
  "stamp_ok t \<longleftrightarrow> t = [] \<or> (\<exists>k a b. t = ''['' @ replicate k (CHR '' '') @ a @ ''.'' @ b @ ''] '' \<and>
     list_all is_digit a \<and> list_all is_digit b)"

text \<open>The matches of the time stamp.\<close>

lemma re_rests_Star:
  "q \<in> set (re_rests (Star cs # r) s) \<longleftrightarrow> (\<exists>a b. s = a @ b \<and> list_all (\<lambda>c. c \<in> set cs) a \<and> q \<in> set (re_rests r b))"
proof (induction s)
  case (Cons x s)
  show ?case
  proof
    assume "q \<in> set (re_rests (Star cs # r) (x # s))"
    then consider "q \<in> set (re_rests r (x # s))" | "x \<in> set cs" "q \<in> set (re_rests (Star cs # r) s)" by (auto split: if_splits)
    then show "\<exists>a b. x # s = a @ b \<and> list_all (\<lambda>c. c \<in> set cs) a \<and> q \<in> set (re_rests r b)"
    proof cases
      case 1
      then show ?thesis by (intro exI [of _ "[]"] exI [of _ "x # s"]) simp
    next
      case 2
      then obtain a b where "s = a @ b" "list_all (\<lambda>c. c \<in> set cs) a" "q \<in> set (re_rests r b)" using Cons.IH by blast
      then show ?thesis using 2(1) by (intro exI [of _ "x # a"] exI [of _ b]) simp
    qed
  next
    assume "\<exists>a b. x # s = a @ b \<and> list_all (\<lambda>c. c \<in> set cs) a \<and> q \<in> set (re_rests r b)"
    then obtain a b where a: "x # s = a @ b" "list_all (\<lambda>c. c \<in> set cs) a" "q \<in> set (re_rests r b)" by blast
    show "q \<in> set (re_rests (Star cs # r) (x # s))"
    proof (cases a)
      case Nil
      then have "b = x # s" using a(1) by simp
      then show ?thesis using a(3) by simp
    next
      case (Cons y a')
      then show ?thesis using a Cons.IH by auto
    qed
  qed
qed simp

lemma re_rests_one:
  "q \<in> set (re_rests (Lit c # r) s) \<longleftrightarrow> (\<exists>xs. s = c # xs \<and> q \<in> set (re_rests r xs))"
  "q \<in> set (re_rests (Any # r) s) \<longleftrightarrow> (\<exists>x xs. s = x # xs \<and> x \<noteq> CHR 0x0A \<and> q \<in> set (re_rests r xs))"
  by (cases s; auto)+

lemma stamp_match:
  "q \<in> set (re_rests stamp_re s) \<longleftrightarrow> (\<exists>w a c b. s = ''['' @ w @ a @ c # b @ ''] '' @ q \<and>
     list_all (\<lambda>c. c \<in> set '' '') w \<and> list_all is_digit a \<and> c \<noteq> CHR 0x0A \<and> list_all is_digit b)"
  unfolding stamp_re_def re_rests_Star re_rests_one is_digit_def by auto blast+

lemma digit_neq: "\<not> is_digit (CHR '']'')" "\<not> is_digit (CHR ''.'')"
  by (simp_all add: is_digit_def)

lemma stamp_unique:
  assumes d: "list_all is_digit a" "list_all is_digit b" and w: "list_all (\<lambda>c. c \<in> set '' '') w"
    and q: "q \<in> set (re_rests stamp_re (''['' @ w @ a @ ''.'' @ b @ ''] '' @ r))"
  shows "q = r"
proof -
  obtain w' a' c b' where e: "w @ a @ ''.'' @ b @ ''] '' @ r = w' @ a' @ c # b' @ ''] '' @ q"
    and h: "list_all (\<lambda>c. c \<in> set '' '') w'" "list_all is_digit a'" "list_all is_digit b'"
    using q unfolding stamp_match by auto
  let ?s = "w @ a @ ''.'' @ b @ ''] '' @ r" and ?n = "\<lambda>x. x \<noteq> CHR '']''"
  have n: "CHR '']'' \<notin> set (w @ a @ ''.'' @ b)" "CHR '']'' \<notin> set (w' @ a')" "CHR '']'' \<notin> set b'" "CHR ''.'' \<notin> set (w' @ a')"
    using d w h digit_neq by (auto simp: list_all_iff)
  have t: "takeWhile ?n (u @ CHR '']'' # v) = u" "dropWhile ?n (u @ CHR '']'' # v) = CHR '']'' # v" if "CHR '']'' \<notin> set u" for u v
    using that by (induction u) auto
  have l: "takeWhile ?n ?s = w @ a @ ''.'' @ b" "dropWhile ?n ?s = ''] '' @ r"
    using t [OF n(1), of "CHR '' '' # r"] by simp_all
  show ?thesis
  proof (cases "c = CHR '']''")
    case True
    then have "takeWhile ?n ?s = w' @ a'" using t(1) [OF n(2), of "b' @ ''] '' @ q"] unfolding e by simp
    then have "w @ a @ ''.'' @ b = w' @ a'" unfolding l(1) .
    then have "CHR ''.'' \<in> set (w' @ a')" by (metis append_Cons in_set_conv_decomp append.assoc)
    then show ?thesis using n(4) by simp
  next
    case False
    then have "CHR '']'' \<notin> set (w' @ a' @ c # b')" using n(2,3) by auto
    from t(2) [OF this, of "CHR '' '' # q"] show ?thesis using l(2) unfolding e by simp
  qed
qed

lemma shortest_unique:
  assumes "set rs \<subseteq> {x}" and "rs \<noteq> []" and "length x < length l"
  shows "foldr (\<lambda>r b. if length r < length b then r else b) rs l = x"
  using assms
proof (induction rs)
  case (Cons r rs)
  then show ?case by (cases "rs = []") auto
qed simp

lemma strip_stamp_tag:
  assumes "stamp_ok t"
  shows "strip_stamp (t @ log_tag @ l) = log_tag @ l"
  using assms unfolding stamp_ok_def
proof
  assume "t = []"
  then show ?thesis by (simp add: strip_stamp_def stamp_re_def log_tag_def)
next
  assume "\<exists>k a b. t = ''['' @ replicate k (CHR '' '') @ a @ ''.'' @ b @ ''] '' \<and> list_all is_digit a \<and> list_all is_digit b"
  then obtain k a b where t: "t = ''['' @ replicate k (CHR '' '') @ a @ ''.'' @ b @ ''] ''"
    and d: "list_all is_digit a" "list_all is_digit b" by blast
  let ?w = "replicate k (CHR '' '')" and ?q = "log_tag @ l"
  have s: "t @ ?q = ''['' @ ?w @ a @ ''.'' @ b @ ''] '' @ ?q" by (simp add: t)
  have w: "list_all (\<lambda>c. c \<in> set '' '') ?w" by (simp add: list_all_iff)
  have m: "?q \<in> set (re_rests stamp_re (t @ ?q))"
    unfolding s stamp_match using w d by (intro exI [of _ ?w] exI [of _ a] exI [of _ "CHR ''.''"] exI [of _ b]) simp
  have u: "set (re_rests stamp_re (t @ ?q)) \<subseteq> {?q}" unfolding s using stamp_unique [OF d w] by blast
  show ?thesis
    unfolding strip_stamp_def using shortest_unique [OF u, of "t @ ?q"] m by (force simp: t)
qed

section \<open>Lines\<close>

definition one_line :: "string \<Rightarrow> bool" where
  "one_line l \<longleftrightarrow> (\<exists>b. l = b @ nl \<and> CHR 0x0A \<notin> set b)"

lemma one_lineI: "CHR 0x0A \<notin> set b \<Longrightarrow> one_line (b @ nl)"
  by (auto simp: one_line_def)

lemma one_line_butlast: "one_line l \<Longrightarrow> butlast l @ nl = l \<and> CHR 0x0A \<notin> set (butlast l)"
  by (auto simp: one_line_def butlast_append)

lemma readlines_line: "CHR 0x0A \<notin> set b \<Longrightarrow> readlines (b @ nl @ r) = (b @ nl) # readlines r"
  by (induction b) auto

lemma readlines_concat: "list_all one_line ls \<Longrightarrow> readlines (concat ls) = ls"
proof (induction ls)
  case (Cons l ls)
  obtain b where "l = b @ nl" "CHR 0x0A \<notin> set b" using Cons.prems by (auto simp: one_line_def)
  then show ?case using readlines_line [of b "concat ls"] Cons by simp
qed simp

section \<open>Numbers and lines of the result\<close>

lemma digit_chars:
  assumes "2 \<le> b" and "b \<le> 16"
  shows "set (digits_base b n) \<subseteq> set (take b ''0123456789abcdef'')" and "digits_base b n \<noteq> []"
proof -
  show "set (digits_base b n) \<subseteq> set (take b ''0123456789abcdef'')"
    using assms
  proof (induction b n rule: digits_base.induct)
    case (1 b n)
    have d: "digit_char k \<in> set (take b ''0123456789abcdef'')" if "k < b" for k
      using that "1.prems"(2) unfolding digit_char_def in_set_conv_nth by (intro exI [of _ k]) simp
    show ?case
    proof (cases "n < b")
      case True
      then show ?thesis using d [OF True] unfolding digits_base.simps [of b n] by simp
    next
      case False
      have "set (digits_base b (n div b)) \<subseteq> set (take b ''0123456789abcdef'')"
        using "1.IH" False "1.prems" by simp
      moreover have "digit_char (n mod b) \<in> set (take b ''0123456789abcdef'')" using "1.prems" by (intro d) simp
      moreover have "digits_base b n = digits_base b (n div b) @ [digit_char (n mod b)]"
        using False "1.prems" unfolding digits_base.simps [of b n] by simp
      ultimately show ?thesis by simp
    qed
  qed
  show "digits_base b n \<noteq> []" unfolding digits_base.simps [of b n] by simp
qed

lemma decimal_digits: "list_all is_digit (digits_base 10 n)" "digits_base 10 n \<noteq> []"
proof -
  have "take 10 ''0123456789abcdef'' = ''0123456789''" by simp
  then have "set (digits_base 10 n) \<subseteq> set ''0123456789''" using digit_chars(1) [of 10 n] by (simp only:)
  then show "list_all is_digit (digits_base 10 n)" unfolding list_all_iff is_digit_def by blast
  show "digits_base 10 n \<noteq> []" by (rule digit_chars(2)) simp_all
qed

text \<open>Ends of lines: of Unix, and those that \<^verbatim>\<open>Set-Content\<close> writes.\<close>

definition line_end :: "string \<Rightarrow> bool" where
  "line_end x \<longleftrightarrow> x = nl \<or> x = [CHR 0x0D, CHR 0x0A]"

lemma py_int_digits:
  assumes "line_end x"
  shows "py_int (digits_base 10 n @ x) = Some (int n)"
proof -
  let ?d = "digits_base 10 n"
  obtain c cs where d: "?d = c # cs" using decimal_digits(2) by (cases ?d) auto
  have digit: "is_digit k \<Longrightarrow> \<not> is_space k \<and> k \<noteq> CHR ''-'' \<and> k \<noteq> CHR ''+''" for k
    by (auto simp: is_digit_def is_space_def)
  have a: "list_all is_digit ?d" by (rule decimal_digits)
  then have c: "is_digit c" "is_digit (last ?d)" using d by (simp_all add: list_all_iff)
  have "dropWhile is_space (?d @ x) = ?d @ x" using d digit [OF c(1)] by simp
  moreover have "dropWhile is_space (rev (?d @ x)) = rev ?d"
  proof -
    have "dropWhile is_space (rev x @ rev ?d) = dropWhile is_space (rev ?d)"
      using assms by (auto simp: line_end_def is_space_def)
    moreover have "rev ?d = last ?d # rev (butlast ?d)" using decimal_digits(2) [of n] by (cases ?d rule: rev_cases) auto
    ultimately show ?thesis using digit [OF c(2)] by (simp only: rev_append) (simp only: dropWhile.simps if_False)
  qed
  ultimately have s: "strip_space (?d @ x) = ?d" by (simp add: strip_space_def)
  have "py_nat ?d = Some (int n)"
    using a decimal_digits(2) [of n] read_digits_base [of 10 n] by (simp add: py_nat_def)
  then show ?thesis using digit [OF c(1)] by (simp add: py_int_def s Let_def) (simp add: d)
qed

lemma cut_at_dash:
  assumes "CHR ''-'' \<notin> set a" and "a \<noteq> []" and "last a \<noteq> CHR '' ''"
  shows "cut_at '' - '' (a @ '' - '' @ r) = Some (a, r)"
  using assms
proof (induction a)
  case (Cons c a)
  then show ?case by (cases a) auto
qed simp

text \<open>A result line with either end of line gives its average.\<close>

lemma result_line_read:
  assumes "n < 20" and "v < 2 ^ 63" and x: "line_end x"
  shows "\<not> starts ''IA32_'' (butlast (result_line n v) @ x)"
    and "Option.bind (second_field (butlast (result_line n v) @ x)) py_int = Some (int (unat v))"
    and "one_line (result_line n v)"
proof -
  let ?p = "digits_base 10 (2 ^ n)" and ?t = "digits_base 10 (unat v)"
  obtain k where l: "result_line n v = replicate k (CHR '' '') @ ?p @ '' - '' @ ?t @ nl"
    using result_line_parts [OF assms(1,2)] by blast
  let ?a = "replicate k (CHR '' '') @ ?p"
  have b: "butlast (result_line n v) @ x = ?a @ '' - '' @ ?t @ x" by (simp add: l butlast_append)
  have dg: "c \<notin> set (digits_base 10 i)" if "\<not> is_digit c" for c i
    using decimal_digits(1) [of i] that by (auto simp: list_all_iff)
  have nd: "\<not> is_digit (CHR ''-'')" "\<not> is_digit (CHR '' '')" "\<not> is_digit (CHR 0x0A)" "\<not> is_digit (CHR ''I'')"
    by (simp_all add: is_digit_def)
  have a: "CHR ''-'' \<notin> set ?a" "?a \<noteq> []" "last ?a \<noteq> CHR '' ''"
    using dg [OF nd(1)] dg [OF nd(2), of "2 ^ n"] decimal_digits(2) [of "2 ^ n"] last_in_set [of ?p] by (auto simp del: last_in_set)
  have "CHR '' '' \<notin> set (?t @ x)" using dg [OF nd(2)] x by (auto simp: line_end_def)
  then have "second_field (butlast (result_line n v) @ x) = Some (?t @ x)"
    unfolding b second_field_def cut_at_dash [OF a] by (simp add: no_occurrence(3))
  then show "Option.bind (second_field (butlast (result_line n v) @ x)) py_int = Some (int (unat v))"
    using py_int_digits [OF x] by simp
  have "CHR ''I'' \<notin> set ?a" using dg [OF nd(4)] by auto
  then obtain c r where "?a = c # r" "c \<noteq> CHR ''I''" using a(2) by (cases ?a) auto
  then show "\<not> starts ''IA32_'' (butlast (result_line n v) @ x)" unfolding b \<open>?a = c # r\<close> by simp
  have "CHR 0x0A \<notin> set (?a @ '' - '' @ ?t)" using dg [OF nd(3)] by auto
  from one_lineI [OF this] show "one_line (result_line n v)" by (simp add: l)
qed

end
