(* ===== verification/Win_Session.thy ===== *)
theory Win_Session
  imports Modules Vmx_Relation
begin

text \<open>
  What is special to the measurement on Windows: the event log, from which \<^verbatim>\<open>GetVmlatency.ps1\<close> takes the result, gets a
  message only at passive level, and a session runs at dispatch level; and the structure of each MDL stays behind.  Both are
  followed through the session as an instance of \<open>entry_relation\<close>.
\<close>

section \<open>The event log and the MDLs\<close>

definition evlog :: "mstate \<Rightarrow> string list" where
  "evlog m = os_evlog (m_os m)"

definition at_passive :: "mstate \<Rightarrow> bool" where
  "at_passive m \<longleftrightarrow> os_irql (m_os m) = 0"

text \<open>What fits in the buffer of the message.\<close>

definition ev_cut :: "env \<Rightarrow> string \<Rightarrow> string" where
  "ev_cut e = take (e_max_msg_ch e - 1)"

text \<open>Every request for an entry of the event log is granted.\<close>

definition evlog_works :: "env \<Rightarrow> bool" where
  "evlog_works e \<longleftrightarrow> (\<forall>k. e_evlog e k)"

text \<open>Messages are echoed to the event log at passive level and only there.\<close>

definition echo :: "env \<Rightarrow> mstate \<Rightarrow> mstate \<Rightarrow> bool" where
  "echo e m m' \<longleftrightarrow> os_irql (m_os m') = os_irql (m_os m) \<and> os_mdls (m_os m') = os_mdls (m_os m) \<and>
     (\<exists>ls. klog m' = klog m @ ls \<and>
        (evlog_works e \<longrightarrow> evlog m' = evlog m @ (if at_passive m then map (ev_cut e) ls else [])))"

lemma echo_trans:
  assumes "echo e a b" and "echo e b c"
  shows "echo e a c"
proof -
  obtain ls where l: "klog b = klog a @ ls" "evlog_works e \<longrightarrow> evlog b = evlog a @ (if at_passive a then map (ev_cut e) ls else [])"
    using assms(1) by (auto simp: echo_def)
  obtain ls' where l': "klog c = klog b @ ls'" "evlog_works e \<longrightarrow> evlog c = evlog b @ (if at_passive b then map (ev_cut e) ls' else [])"
    using assms(2) by (auto simp: echo_def)
  have "at_passive b = at_passive a" using assms(1) by (simp add: echo_def at_passive_def)
  then have "klog c = klog a @ (ls @ ls') \<and>
      (evlog_works e \<longrightarrow> evlog c = evlog a @ (if at_passive a then map (ev_cut e) (ls @ ls') else []))"
    using l l' by simp
  then show ?thesis using assms unfolding echo_def by (metis (no_types, lifting))
qed

lemma echo_still: "m_os m' = m_os m \<Longrightarrow> echo e m m'"
  by (auto simp: echo_def klog_def evlog_def intro!: exI [of _ "[]"])

lemma echo_printm:
  assumes "win_printm e s m = Some m'"
  shows "echo e m m'"
  using assms
  by (auto simp: win_printm_def k_log_def Let_def echo_def klog_def evlog_def evlog_works_def at_passive_def ev_cut_def
      split: if_splits)

lemma insn_os:
  "insn_vmxon e pa m = Some (r, m') \<Longrightarrow> m_os m' = m_os m"
  "insn_vmxoff m = Some (r, m') \<Longrightarrow> m_os m' = m_os m"
  "insn_vmptrld e pa m = Some (r, m') \<Longrightarrow> m_os m' = m_os m"
  "insn_vmclear e pa m = Some (r, m') \<Longrightarrow> m_os m' = m_os m"
  "insn_vmwrite f v m = Some m' \<Longrightarrow> m_os m' = m_os m"
  by (auto simp: insn_vmxon_def insn_vmxoff_def insn_vmptrld_def insn_vmclear_def insn_vmwrite_def vm_fail_def frame
      split: if_splits option.splits)

lemma insn_vmentry_os: "insn_vmentry e l m = Some (res, m') \<Longrightarrow> m_os m' = m_os m"
  by (auto simp: insn_vmentry_def frame Let_def split: if_splits option.splits entry_outcome.splits)

interpretation echo: entry_relation "win_platform e" e "echo e" for e
  by unfold_locales
    (auto intro: echo_still echo_trans insn_os insn_vmentry_os echo_printm simp: win_platform_def)

text \<open>Where the event log works, a log that grows grows in both logs at passive level.\<close>

lemma echo_log:
  assumes "echo e m m'" and "klog m' = klog m @ ls" and "evlog_works e"
  shows "evlog m' = evlog m @ (if at_passive m then map (ev_cut e) ls else [])"
  using assms by (auto simp: echo_def)

section \<open>The session\<close>

lemma win_allocate_frame:
  assumes "win_allocate_vmpage e p m = Some (r, p', m')"
  shows "evlog m' = evlog m" and "at_passive m' = at_passive m"
    and "r = 0 \<Longrightarrow> os_mdls (m_os m') = add_mset (vp_handle p') (os_mdls (m_os m))"
    and "os_mdls (m_os m) \<subseteq># os_mdls (m_os m')"
  using assms
  by (auto simp: win_defs Let_def k_alloc_page_def k_map_def k_free_page_def zero_phys_def evlog_def at_passive_def
      split: if_splits)

lemma win_free_frame:
  assumes "win_free_vmpage p m = Some (p', m')"
  shows "evlog m' = evlog m" and "os_mdls (m_os m') = os_mdls (m_os m)"
  using assms
  by (auto simp: win_defs k_unmap_def k_free_page_def bind_Some_iff evlog_def split: if_splits)

lemma win_platform_ops [simp]:
  "allocate_vmpage (win_platform e) = win_allocate_vmpage e" "free_vmpage (win_platform e) = win_free_vmpage"
  "vmlatency_preempt_disable (win_platform e) = win_preempt_disable"
  "vmlatency_preempt_enable (win_platform e) = win_preempt_enable"
  by (simp_all add: win_platform_def)

lemma win_allocate_seq:
  assumes "allocate_seq (win_platform e) ps m = Some (k, ps', m')"
  shows "evlog m' = evlog m \<and> at_passive m' = at_passive m \<and> length ps' = length ps \<and>
    (k = length ps \<longrightarrow> os_mdls (m_os m') = mset (map vp_handle ps') + os_mdls (m_os m))"
  using assms
proof (induction ps arbitrary: k ps' m)
  case (Cons p ps)
  obtain r p1 m1 where a: "win_allocate_vmpage e p m = Some (r, p1, m1)"
    and c: "(if r \<noteq> 0 then Some (0, p1 # ps, m1)
      else Option.bind (allocate_seq (win_platform e) ps m1) (\<lambda>(k, ps, m). Some (k + 1, p1 # ps, m))) = Some (k, ps', m')"
    using Cons.prems by (auto simp: bind_Some_iff)
  note f = win_allocate_frame [OF a]
  show ?case
  proof (cases "r = 0")
    case True
    then obtain k1 ps1 where "allocate_seq (win_platform e) ps m1 = Some (k1, ps1, m')" "k = k1 + 1" "ps' = p1 # ps1"
      using c by (auto simp: bind_Some_iff)
    then show ?thesis using Cons.IH [of m1 k1 ps1] f True by auto
  next
    case False
    then show ?thesis using c f by auto
  qed
qed simp

lemma win_allocate_memory:
  assumes "allocate_memory (win_platform e) v m = Some (cnt, vmm, m')"
  shows "evlog m' = evlog m" "at_passive m' = at_passive m"
    "cnt = 5 \<Longrightarrow> os_mdls (m_os m') = mset (vmm_handles vmm) + os_mdls (m_os m)"
proof -
  obtain k ps where s: "allocate_seq (win_platform e) (vmm_pages v) m = Some (k, ps, m')"
    and c: "cnt = (if k = 5 then 5 else - int k)" "vmm = set_vmm_pages ps v"
    using assms unfolding allocate_memory_seq by auto
  have n: "length (vmm_pages v) = 5" by (simp add: vmm_pages_def)
  note a = win_allocate_seq [OF s, unfolded n]
  show "evlog m' = evlog m" "at_passive m' = at_passive m" using a by simp_all
  obtain p1 p2 p3 p4 p5 where ps: "ps = [p1, p2, p3, p4, p5]"
    using a by (auto simp: eval_nat_numeral length_Suc_conv)
  have "vmm_handles vmm = map vp_handle ps"
    by (simp add: c(2) vmm_handles_def set_vmm_pages_def ps)
  then show "os_mdls (m_os m') = mset (vmm_handles vmm) + os_mdls (m_os m)" if "cnt = 5"
    using a that c(1) by (simp split: if_splits)
qed

text \<open>Nothing that is freed goes to the event log, and no MDL is.\<close>

definition mdls_evlog :: "mstate \<Rightarrow> u64 multiset \<times> string list" where
  "mdls_evlog m = (os_mdls (m_os m), evlog m)"

lemma free_bind_keeps:
  assumes "\<And>v c y. mdls_evlog y = mdls_evlog m0 \<longrightarrow> k v c y = Some (vmm', m') \<longrightarrow> mdls_evlog m' = mdls_evlog m0"
  shows "mdls_evlog m = mdls_evlog m0 \<longrightarrow>
    Option.bind (if b then do { (p, m) \<leftarrow> free_vmpage (win_platform e) q m; Some (f p, c', m) } else Some (x, c, m))
      (\<lambda>(v, c, m). k v c m) = Some (vmm', m') \<longrightarrow> mdls_evlog m' = mdls_evlog m0"
  using assms win_free_frame [of q m]
  by (auto simp: bind_Some_iff mdls_evlog_def split: if_splits)

lemma win_out2_frame:
  assumes "measure_out2 (win_platform e) vmm cnt irq m = Some m'"
  shows "mdls_evlog m' = mdls_evlog m"
proof -
  obtain irq' m1 vmm' where m1: "win_preempt_enable irq m = Some (irq', m1)" "free_memory (win_platform e) vmm cnt m1 = Some (vmm', m')"
    using assms by (auto simp: measure_out2_def measure_out1_def bind_Some_iff)
  have "mdls_evlog m1 = mdls_evlog m1 \<longrightarrow> free_memory (win_platform e) vmm cnt m1 = Some (vmm', m') \<longrightarrow> mdls_evlog m' = mdls_evlog m1"
    unfolding free_memory_def by (intro free_bind_keeps) auto
  then show ?thesis using m1 by (auto simp: mdls_evlog_def evlog_def win_preempt_enable_def Let_def)
qed

text \<open>From interrupts off to the label \<^verbatim>\<open>out2\<close> the processor is at dispatch level.\<close>

lemma win_session_frame:
  assumes "measure_vmx (win_platform e) e vmm cnt stats m = Some (b, stats', m')"
  shows "os_mdls (m_os m') = os_mdls (m_os m)" and "evlog_works e \<Longrightarrow> evlog m' = evlog m"
proof -
  obtain m1 irq m2 vmm' m3 where s: "m_os m1 = m_os m" "vmlatency_preempt_disable (win_platform e) irq_flags_uninit m1 = Some (irq, m2)"
    "echo e m2 m3" "measure_out2 (win_platform e) vmm' cnt irq m3 = Some m'"
    using echo.vmx_to_out2 [OF assms(1)] by blast
  have "mdls_evlog m2 = mdls_evlog m1" "\<not> at_passive m2"
    using s(2) by (auto simp: win_preempt_disable_def k_raise_irql_def cli_def Let_def mdls_evlog_def
        evlog_def at_passive_def)
  moreover have "os_mdls (m_os m3) = os_mdls (m_os m2)" "evlog_works e \<Longrightarrow> evlog m3 = evlog m2"
    using s(3) \<open>\<not> at_passive m2\<close> by (auto simp: echo_def)
  ultimately show "os_mdls (m_os m') = os_mdls (m_os m)" "evlog_works e \<Longrightarrow> evlog m' = evlog m"
    using win_out2_frame [OF s(4)] s(1) by (simp_all add: mdls_evlog_def evlog_def)
qed

section \<open>The measurement\<close>

text \<open>The way a measurement went, if it got its memory, and what it logged.\<close>

fun way_messages :: "env \<Rightarrow> path option \<Rightarrow> string list" where
  "way_messages e None = []"
| "way_messages e (Some p) = path_messages e p"

fun way_results :: "path option \<Rightarrow> string list" where
  "way_results None = []"
| "way_results (Some p) = path_results p"

text \<open>
  The event log gets the lines of the result, but none of the messages of a session; each session that got its memory
  leaves five MDLs.
\<close>

lemma win_measure_logs:
  assumes present: "vmx_msrs_present (m_cpu m)" "host_msrs_present (m_cpu m)" and ready: "vmx_ready m"
  shows "\<exists>w m'. measure_vmlatency (win_platform e) e m = Some m' \<and>
    klog m' = klog m @ map tagged (way_messages e w @ way_results w) \<and>
    (evlog_works e \<longrightarrow> at_passive m \<longrightarrow> evlog m' = evlog m @ map (ev_cut e) (map tagged (way_results w))) \<and>
    (\<forall>p. w = Some p \<longrightarrow> left_behind e m p m' \<and> (\<exists>hs. length hs = 5 \<and> os_mdls (m_os m') = mset hs + os_mdls (m_os m)))"
proof -
  obtain v where v: "cache_vmx_capabilities e vm_monitor_zero m = Some v"
    using cache_present [OF present(1)] by blast
  obtain k cnt vmm m1 where a: "allocate_memory (win_platform e) v m = Some (cnt, vmm, m1)"
    and k: "k = 5 \<and> cnt = 5 \<or> k < 5 \<and> cnt = - int k" and o: "klog m1 = klog m"
    using vmm_api.allocate_memory_outcome [OF win.vmm_api_axioms, of e v m] by blast
  note f = win_allocate_memory [OF a]
  show ?thesis
  proof (cases "cnt = 5")
    case False
    then have "cnt \<le> 0" using k by auto
    then show ?thesis using vmm_api.measure_no_memory [OF win.vmm_api_axioms v a] o f by (intro exI [of _ None]) simp
  next
    case True
    obtain irq m3 where d: "vmlatency_preempt_disable (win_platform e) irq_flags_uninit (regions_set e vmm m1) = Some (irq, m3)"
      using win.disable_total by blast
    obtain p m2 m' where p: "measure_vmx (win_platform e) e vmm 5 (replicate VMX_ITERATIONS None) m1 =
        Some (fst (path_stats p), snd (path_stats p), m2)"
      "(if fst (path_stats p) then print_stats (win_platform e) 0 (snd (path_stats p)) m2 else Some m2) = Some m'"
      "log_step (path_results p) m2 m'" "measure_vmlatency (win_platform e) e m = Some m'" "left_behind e m p m'"
      using vmm_api.measure_steps [OF win.vmm_api_axioms v a [unfolded True] present ready d] by blast
    have s: "evlog_works e \<Longrightarrow> evlog m2 = evlog m" "os_mdls (m_os m2) = mset (vmm_handles vmm) + os_mdls (m_os m)"
      using win_session_frame [OF p(1)] f True by simp_all
    have "echo e m2 m'" using p(2) by (auto split: if_splits dest: echo.keeps_print_stats intro: echo_still)
    note x = this
    have pm2: "at_passive m2 = at_passive m"
      using p(3,5) by (simp add: left_behind_def log_step_def os_step_def irq_ledger_def at_passive_def)
    have e: "evlog m' = evlog m @ map (ev_cut e) (map tagged (path_results p))" if "evlog_works e" "at_passive m"
      using echo_log [OF x log_step_ledgers(4) [OF p(3)] that(1)] pm2 s(1) that by simp
    have "os_mdls (m_os m') = mset (vmm_handles vmm) + os_mdls (m_os m)" using x s(2) by (simp add: echo_def)
    moreover have "length (vmm_handles vmm) = 5" by (simp add: vmm_handles_def)
    ultimately have "\<exists>hs. length hs = 5 \<and> os_mdls (m_os m') = mset hs + os_mdls (m_os m)" by blast
    moreover have "klog m' = klog m @ map tagged (path_messages e p @ path_results p)"
      using p(5) by (simp add: left_behind_def)
    ultimately show ?thesis using p(4,5) e by (intro exI [of _ "Some p"] exI [of _ m']) simp
  qed
qed

text \<open>Where there is memory, a session leaves five MDLs, whichever way it goes.\<close>

lemma win_session_mdls:
  assumes "e_target e = Windows" and "equipped e m"
  shows "\<exists>m' hs. measure_vmlatency (platform_of e) e m = Some m' \<and> page_ledger m' = page_ledger m \<and>
    length hs = 5 \<and> os_mdls (m_os m') = mset hs + os_mdls (m_os m)"
proof -
  have pf: "platform_of e = win_platform e" using assms(1) by (simp add: platform_of_def)
  obtain w m' where w: "measure_vmlatency (win_platform e) e m = Some m'"
    "klog m' = klog m @ map tagged (way_messages e w @ way_results w)"
    "\<forall>p. w = Some p \<longrightarrow> left_behind e m p m' \<and> (\<exists>hs. length hs = 5 \<and> os_mdls (m_os m') = mset hs + os_mdls (m_os m))"
    using win_measure_logs [of m e] assms(2) unfolding equipped_def by blast
  obtain p where p: "left_behind e m p m'"
    using equipped_reaches_launch [OF assms(2)] w(1) unfolding pf by auto
  have "path_messages e p @ path_results p \<noteq> []"
    by (cases p) (simp_all add: VMX_ITERATIONS_def)
  moreover have "map tagged (way_messages e w @ way_results w) = map tagged (path_messages e p @ path_results p)"
    using p w(2) unfolding left_behind_def by (simp only: same_append_eq)
  ultimately obtain q where "w = Some q" by (cases w) auto
  then show ?thesis using w(1,3) unfolding pf left_behind_def by blast
qed

section \<open>The driver\<close>

text \<open>The lines of the report and of the result fit in an entry of the event log, which has room for 96 characters.\<close>

lemma length_digits_u64: "length (digits_base 10 (unat (v :: u64))) \<le> 20" "length (digits_base 16 (unat v)) \<le> 16"
proof -
  have v: "unat v < 2 ^ 64" using unsigned_less [of v, where 'a = nat] by simp
  then have "unat v < 10 ^ 20" "unat v < 16 ^ 16" by simp_all
  then show "length (digits_base 10 (unat v)) \<le> 20" "length (digits_base 16 (unat v)) \<le> 16"
    by (simp_all add: length_digits_base)
qed

lemma length_digits_u32: "length (digits_base 16 (unat (v :: u32))) \<le> 8"
proof -
  have "unat v < 16 ^ 8" using unsigned_less [of v, where 'a = nat] by simp
  then show ?thesis by (simp add: length_digits_base)
qed

lemma length_fmt_int:
  assumes "\<bar>i\<bar> < 10 ^ k" and "0 < k"
  shows "length (fmt_int i) \<le> k + 1"
proof -
  have "nat \<bar>i\<bar> < 10 ^ k" using assms(1) by (simp add: nat_less_iff)
  then have "length (digits_base 10 (nat \<bar>i\<bar>)) \<le> k" using assms(2) by (simp add: length_digits_base)
  then show ?thesis by (auto simp: fmt_int_def)
qed

lemma length_fmt_lld: "length (fmt_lld v) \<le> 20"
proof -
  have "- (2 ^ 63) \<le> sint v" "sint v < 2 ^ 63" using sint_greater_eq [of v] sint_less [of v] by simp_all
  then have "\<bar>sint v\<bar> < 10 ^ 19" by simp
  then show ?thesis using length_fmt_int [of "sint v" 19] by (simp add: fmt_lld_def)
qed

lemma length_fmt_6d: "length (fmt_6d v) \<le> 11"
proof -
  let ?i = "sint (ucast v :: u32)"
  have "- (2 ^ 31) \<le> ?i" "?i < 2 ^ 31" using sint_greater_eq [of "ucast v :: u32"] sint_less [of "ucast v :: u32"] by simp_all
  then have "\<bar>?i\<bar> < 10 ^ 10" by simp
  then show ?thesis using length_fmt_int [of ?i 10] by (simp add: fmt_6d_def pad_left_def)
qed

lemma result_line_short: "length (tagged (result_line n v)) \<le> 48"
  using length_fmt_6d [of "BIT n"] length_fmt_lld [of v] by (simp add: tagged_def result_line_def)

lemma msr_line_short:
  assumes "length (fst nm) \<le> 30"
  shows "length (tagged (msr_line e c nm)) \<le> 80"
proof -
  have p: "length (hex_prefix e k) \<le> 2" for k by (simp add: hex_prefix_def)
  have "length (fmt_hex e (unat (snd nm))) \<le> 10"
    using p [of "unat (snd nm)"] length_digits_u32 [of "snd nm"] by (simp add: fmt_hex_def)
  moreover have "length (fmt_018llx e (the (r_msrs c (snd nm)))) \<le> 18"
    using p [of "unat (the (r_msrs c (snd nm)))"] length_digits_u64(2) [of "the (r_msrs c (snd nm))"]
    by (simp add: fmt_018llx_def pad_left_def Let_def)
  moreover have "length (fmt_s30 (fst nm)) = 30" using assms by (simp add: fmt_s30_def pad_right_def)
  moreover have "length (tagged (msr_line e c nm)) = 18 + length (fmt_s30 (fst nm)) + length (fmt_hex e (unat (snd nm))) +
      length (fmt_018llx e (the (r_msrs c (snd nm))))"
    by (simp add: tagged_def msr_line_def)
  ultimately show ?thesis by linarith
qed

lemma reported_short: "nm \<in> set (reported_msrs c) \<Longrightarrow> length (fst nm) \<le> 30"
proof -
  have "\<forall>nm \<in> set (cap_msrs @ true_ctl_msrs). length (fst nm) \<le> 30"
    by (simp add: cap_msrs_def true_ctl_msrs_def)
  then show "nm \<in> set (reported_msrs c) \<Longrightarrow> length (fst nm) \<le> 30"
    by (auto simp: reported_msrs_def split: if_splits)
qed

lemma brand_short:
  assumes "c_string (brand_string e) = Some s"
  shows "length s \<le> 48"
proof -
  have "length (brand_string e) = 48"
    by (simp add: brand_string_def length_concat le_bytes32_def upt_rec split: prod.splits)
  then show ?thesis using assms length_takeWhile_le [of "\<lambda>b. b \<noteq> 0" "brand_string e"]
    by (auto simp: c_string_def split: if_splits)
qed

lemma info_lines_short:
  assumes "c_string (brand_string e) = Some s" and "l \<in> set (info_lines e m)"
  shows "length (tagged l) \<le> 80"
proof -
  consider "l = s @ nl" | nm where "nm \<in> set (reported_msrs (m_cpu m))" "l = msr_line e (m_cpu m) nm"
    using assms by (auto simp: info_lines_def)
  then show ?thesis
  proof cases
    case 1
    then show ?thesis using brand_short [OF assms(1)] by (simp add: tagged_def)
  next
    case 2
    then show ?thesis using msr_line_short reported_short by blast
  qed
qed

lemma path_results_short: "l \<in> set (way_results w) \<Longrightarrow> length (tagged l) \<le> 80"
proof -
  have "length (tagged (result_line n v)) \<le> 80" for n v
    using result_line_short [of n v] by linarith
  then show "l \<in> set (way_results w) \<Longrightarrow> length (tagged l) \<le> 80"
    by (cases w; cases "the w") auto
qed

lemma map_ev_cut_short:
  assumes "96 \<le> e_max_msg_ch e" and "\<And>l. l \<in> set ls \<Longrightarrow> length (tagged l) \<le> 80"
  shows "map (ev_cut e) (map tagged ls) = map tagged ls"
proof -
  have "ev_cut e (tagged l) = tagged l" if "l \<in> set ls" for l
    unfolding ev_cut_def by (rule take_all) (use assms(2) [OF that] assms(1) in linarith)
  then show ?thesis by simp
qed

lemma win_driver_logs:
  assumes t: "e_target e = Windows" and h: "good_host e m" "has_vmx e" "vmx_ready m"
    and d: "e_device e (os_calls (m_os m)) = (st, d)" "nt_success st"
    and w: "evlog_works e" "96 \<le> e_max_msg_ch e" "at_passive m"
  shows "\<exists>w m'. driver_entry (platform_of e) e m = Some (st, m') \<and>
    klog m' = klog m @ map tagged (info_lines e m @ way_messages e w @ way_results w) \<and>
    evlog m' = evlog m @ map tagged (info_lines e m @ way_results w)"
proof -
  have pf: "platform_of e = win_platform e" using t by (simp add: platform_of_def)
  let ?m = "device_created d m"
  have dev: "evlog ?m = evlog m" "at_passive ?m" "klog ?m = klog m"
    using w(3) by (simp_all add: device_created_def evlog_def at_passive_def klog_def)
  obtain s where s: "c_string (brand_string e) = Some s" using h by (auto simp: good_host_def)
  have p: "vmx_msrs_present (m_cpu ?m)" "host_msrs_present (m_cpu ?m)" "vmx_ready ?m"
    using h good_host_cong [of ?m m] by (simp_all add: good_host_def device_created_frame)
  obtain m1 where m1: "print_vmx_info (win_platform e) e ?m = Some m1" and l: "log_step (info_lines e m) ?m m1"
    using port.print_vmx_info_log [OF p(1) s, of e, unfolded pf] by (auto simp: info_lines_def s device_created_frame)
  have q: "vmx_msrs_present (m_cpu m1)" "host_msrs_present (m_cpu m1)" "vmx_ready m1" "at_passive m1"
    using p dev log_step_machine [OF l] l
    by (simp_all add: log_step_def os_step_def irq_ledger_def at_passive_def)
  obtain w' m' where r: "measure_vmlatency (win_platform e) e m1 = Some m'"
    "klog m' = klog m1 @ map tagged (way_messages e w' @ way_results w')"
    "evlog m' = evlog m1 @ map (ev_cut e) (map tagged (way_results w'))"
    using win_measure_logs [OF q(1-3)] w(1) q(4) by blast
  have "evlog m1 = evlog m @ map (ev_cut e) (map tagged (info_lines e m))" "klog m1 = klog m @ map tagged (info_lines e m)"
    using echo_log [OF echo.keeps_print_vmx_info [OF m1] log_step_ledgers(4) [OF l] w(1)] log_step_ledgers(4) [OF l] dev
    by simp_all
  moreover have "map (ev_cut e) (map tagged (info_lines e m)) = map tagged (info_lines e m)"
    "map (ev_cut e) (map tagged (way_results w')) = map tagged (way_results w')"
    using map_ev_cut_short [OF w(2)] info_lines_short [OF s] path_results_short by blast+
  moreover have "driver_entry (platform_of e) e m = Some (st, m')"
    using driver_entry_created [OF d, of "platform_of e"] m1 r(1) by (simp add: pf)
  ultimately show ?thesis using r(2,3) by (intro exI [of _ w'] exI [of _ m']) simp
qed

end
