(* ===== verification/Guest_Code.thy ===== *)
theory Guest_Code
  imports Vmx_Frame
begin

text \<open>
  The guest: \<^verbatim>\<open>linux/guest.S\<close>, \<^verbatim>\<open>mac/guest.S\<close> and \<^verbatim>\<open>win/amd64/guest.asm\<close>, two instructions.  A processor that passes
  the checks of a VM entry runs the guest from its RIP until an instruction exits; CPUID always does, with basic exit
  reason 10, and does nothing before.  So every VM entry of a measurement runs the first instruction of \<^verbatim>\<open>guest_code\<close>, again and
  again, and the RET is never reached.
\<close>

section \<open>The program\<close>

datatype guest_insn = Cpuid | Guest_ret

definition guest_code :: "guest_insn list" where
  "guest_code = [Cpuid, Guest_ret]"

text \<open>In VMX non-root operation: the exit that an instruction causes, if it causes one whatever the controls are.\<close>

fun guest_exit :: "guest_insn \<Rightarrow> u32 option" where
  "guest_exit Cpuid = Some 10"
| "guest_exit Guest_ret = None"

text \<open>A run from the instruction at \<open>pc\<close>; a RET leaves the program for an address that the model does not know.\<close>

definition guest_run :: "guest_insn list \<Rightarrow> nat \<Rightarrow> entry_outcome option" where
  "guest_run code pc = (if pc < length code then map_option Entry_Exit (guest_exit (code ! pc)) else None)"

text \<open>
  The outcomes of an entry that reaches \<^verbatim>\<open>guest_code\<close>: that of its run, if nothing from outside exits first; any, if the run
  leaves the program.
\<close>

definition guest_outcomes :: "entry_outcome set" where
  "guest_outcomes = (case guest_run guest_code 0 of None \<Rightarrow> UNIV | Some out \<Rightarrow> {out})"

lemma guest_outcomes_cpuid: "guest_outcomes = {Entry_Exit 10}"
  by (simp add: guest_outcomes_def guest_run_def guest_code_def)

text \<open>The processor accepts the guest state of the program and runs the code.\<close>

definition runs_guest_code :: "env \<Rightarrow> bool" where
  "runs_guest_code e \<longleftrightarrow> (\<forall>m. enters_guest e m \<longrightarrow> e_entry e m \<in> guest_outcomes)"

lemma runs_guest_code_exit:
  assumes "runs_guest_code e" and "enters_guest e m"
  shows "e_entry e m = Entry_Exit 10"
  using assms by (auto simp: runs_guest_code_def guest_outcomes_cpuid)

section \<open>Every entry runs it\<close>

text \<open>Each VM entry of a session comes back with the exit reason of CPUID, and is the next one's precondition.\<close>

lemma guest_entry_exits:
  assumes g: "runs_guest_code e" and i: "run_inv e vmm mi pa m" and l: "launched (m_vmx m) pa = (\<not> l)"
  shows "fst (vm_enter e l pa m) = 0" and "field_of pa (snd (vm_enter e l pa m)) VMCS_EXIT_REASON = 10"
    and "launched (m_vmx (snd (vm_enter e l pa m))) pa"
  using runs_guest_code_exit [OF g run_inv_enters [OF i]] l
  by (simp_all add: vm_enter_def Let_def frame field_of_def vmcs_fields_set)

lemma exit_report_cpuid: "exit_report 10 = []"
  by (simp add: exit_report_def)

lemma measured_by_cpuid:
  assumes g: "runs_guest_code e" and w: "guest_when e vmm m (Measured r vs)"
    and on: "vmx_on (m_vmx m)" "cur_vmcs (m_vmx m) = Some (vp_pa (vmcs vmm))"
    and f: "\<not> launched (m_vmx m) (vp_pa (vmcs vmm))"
  shows "r = 10"
  using w guest_entry_exits(2) [OF g run_inv_prepared(1) [OF on], of True] f
  by (auto simp: Let_def split_beta prepared_launched)

text \<open>A measurement of this guest.\<close>

lemma guest_code_measured:
  assumes q: "equipped e m" and f: "fresh_pages e m" and g: "runs_guest_code e"
  shows "\<exists>vs m' vmm m5. measure_vmlatency (platform_of e) e m = Some m' \<and> left_behind e m (Measured 10 vs) m' \<and>
    guest_when e vmm m5 (Measured 10 vs) \<and> vm_entries (m_vmx m') = vm_entries (m_vmx m) + 2 ^ 20"
proof -
  have x: "measurable e m"
    using q f runs_guest_code_exit [OF g] by (auto simp: measurable_def)
  have nf: "e_entry e m \<noteq> Entry_Fail n" if "enters_guest e m" for m n
    using runs_guest_code_exit [OF g that] by simp
  obtain r vs m' vmm m5 where m': "measure_vmlatency (platform_of e) e m = Some m'" "left_behind e m (Measured r vs) m'"
    "guest_when e vmm m5 (Measured r vs)" "vmx_on (m_vmx m5)" "cur_vmcs (m_vmx m5) = Some (vp_pa (vmcs vmm))"
    "launched (m_vmx m5) = launched (m_vmx m)" and k: "\<exists>k. vp_pa (vmcs vmm) = port_page_pa e (e_alloc e k)"
    using accepted_measures [OF q nf f] by blast
  have "r = 10" by (rule measured_by_cpuid [OF g m'(3-5)]) (simp add: m'(6) fresh_pagesD [OF f k])
  then show ?thesis using m' measurable_counts [OF x m'(1)] by blast
qed

end
