(* ===== verification/Entry_Checks.thy ===== *)
theory Entry_Checks
  imports Vmx_Session
begin

text \<open>
  The checks that the processor's manual lists for a VM entry, on the fields \<open>v\<close> of the current VMCS: the control fields,
  the host-state area and the guest-state area, for a 64-bit host and a 64-bit guest that uses none of the
  optional features.  The VMCS that \<^verbatim>\<open>initialize_vmcs\<close> builds passes all of them on an ordinary host.
\<close>

section \<open>Addresses, registers, segments\<close>

text \<open>Linear addresses have 48 bits, or 57 with CR4.LA57.\<close>

definition linear_width :: "u64 \<Rightarrow> nat" where
  "linear_width cr4 = (if bit cr4 12 then 57 else 48)"

definition canonical :: "u64 \<Rightarrow> u64 \<Rightarrow> bool" where
  "canonical cr4 a \<longleftrightarrow> (let w = linear_width cr4 in drop_bit (w - 1) a = 0 \<or> drop_bit (w - 1) a = mask (65 - w))"

text \<open>
  RIP of a guest with the VM-entry controls \<open>ctls\<close> and the access rights \<open>ar\<close> of CS: in 64-bit mode the bits above the linear
  address are all equal, otherwise bits 63:32 are 0.
\<close>

definition rip_ok :: "u64 \<Rightarrow> u64 \<Rightarrow> u64 \<Rightarrow> u64 \<Rightarrow> bool" where
  "rip_ok cr4 ctls ar a \<longleftrightarrow>
     (if bit ctls 9 \<and> bit ar 13 then let w = linear_width cr4 in drop_bit w a = 0 \<or> drop_bit w a = mask (64 - w)
      else drop_bit 32 a = 0)"

lemma rip_okI:
  assumes "bit ctls 9" and "bit ar 13" and "canonical cr4 a"
  shows "rip_ok cr4 ctls ar a"
proof -
  have d: "drop_bit (Suc k) a = drop_bit 1 (drop_bit k a)" for k by (simp only: drop_bit_drop_bit) simp
  have m: "drop_bit 1 (mask 17 :: u64) = mask 16" "drop_bit 1 (mask 8 :: u64) = mask 7" by (simp_all add: mask_eq_exp_minus_1)
  have "drop_bit 48 a = drop_bit 1 (drop_bit 47 a)" "drop_bit 57 a = drop_bit 1 (drop_bit 56 a)"
    using d [of 47] d [of 56] by simp_all
  then have "(drop_bit 47 a = 0 \<longrightarrow> drop_bit 48 a = 0) \<and> (drop_bit 47 a = mask 17 \<longrightarrow> drop_bit 48 a = mask 16)"
    "(drop_bit 56 a = 0 \<longrightarrow> drop_bit 57 a = 0) \<and> (drop_bit 56 a = mask 8 \<longrightarrow> drop_bit 57 a = mask 7)"
    using m by (metis drop_bit_of_0)+
  then show ?thesis
    using assms by (cases "bit cr4 12") (auto simp: rip_ok_def canonical_def linear_width_def)
qed

text \<open>CR0 and CR4 have the fixed bits of VMX operation; paging needs protection; CET needs write protection.\<close>

definition cr_ok :: "cpu \<Rightarrow> u64 \<Rightarrow> u64 \<Rightarrow> bool" where
  "cr_ok c cr0 cr4 \<longleftrightarrow>
     fixed_ok (r_msrs c IA32_VMX_CR0_FIXED0) (r_msrs c IA32_VMX_CR0_FIXED1) cr0 \<and>
     fixed_ok (r_msrs c IA32_VMX_CR4_FIXED0) (r_msrs c IA32_VMX_CR4_FIXED1) cr4 \<and>
     (bit cr0 31 \<longrightarrow> bit cr0 0) \<and> (bit cr4 23 \<longrightarrow> bit cr0 16)"

text \<open>RFLAGS: bit 1 is 1; bits 3, 5, 15 and 22 to 63 are 0; no virtual-8086 mode.\<close>

definition rflags_ok :: "u64 \<Rightarrow> bool" where
  "rflags_ok f \<longleftrightarrow> f AND 0xffffffffffc0802a = 2 \<and> \<not> bit f 17"

text \<open>The limit agrees with the granularity bit; the other fields of the access rights, with bits 8 to 11 and 17 up reserved.\<close>

definition limit_ok :: "u64 \<Rightarrow> u64 \<Rightarrow> bool" where
  "limit_ok ar lim \<longleftrightarrow> (lim AND 0xfff \<noteq> 0xfff \<longrightarrow> \<not> bit ar 15) \<and> (lim AND 0xfff00000 \<noteq> 0 \<longrightarrow> bit ar 15)"

definition ar_type :: "u64 \<Rightarrow> u64" where "ar_type ar = ar AND 15"
definition ar_dpl :: "u64 \<Rightarrow> u64" where "ar_dpl ar = drop_bit 5 ar AND 3"
definition ar_unusable :: "u64 \<Rightarrow> bool" where "ar_unusable ar = bit ar 16"

definition present_ok :: "u64 \<Rightarrow> u64 \<Rightarrow> bool" where
  "present_ok ar lim \<longleftrightarrow> bit ar 7 \<and> ar AND 0xfffffffffffe0f00 = 0 \<and> limit_ok ar lim"

definition cs_ok :: "u64 \<Rightarrow> u64 \<Rightarrow> u64 \<Rightarrow> u64 \<Rightarrow> bool" where
  "cs_ok bs ar lim ss_ar \<longleftrightarrow> drop_bit 32 bs = 0 \<and> bit ar 4 \<and> present_ok ar lim \<and>
     (ar_type ar \<in> {9, 11} \<and> ar_dpl ar = ar_dpl ss_ar \<or> ar_type ar \<in> {13, 15} \<and> ar_dpl ar \<le> ar_dpl ss_ar) \<and>
     (bit ar 13 \<longrightarrow> \<not> bit ar 14)"

definition ss_ok :: "u64 \<Rightarrow> u64 \<Rightarrow> u64 \<Rightarrow> u64 \<Rightarrow> u64 \<Rightarrow> bool" where
  "ss_ok sel bs ar lim cs_sel \<longleftrightarrow> sel AND 3 = cs_sel AND 3 \<and> ar_dpl ar = sel AND 3 \<and>
     (\<not> ar_unusable ar \<longrightarrow> drop_bit 32 bs = 0 \<and> ar_type ar \<in> {3, 7} \<and> bit ar 4 \<and> present_ok ar lim)"

text \<open>A data segment register; for FS and GS the base may be any canonical address.\<close>

definition data_ok :: "u64 \<Rightarrow> u64 \<Rightarrow> u64 \<Rightarrow> bool" where
  "data_ok sel ar lim \<longleftrightarrow> ar_unusable ar \<or>
     bit ar 0 \<and> (bit ar 3 \<longrightarrow> bit ar 1) \<and> bit ar 4 \<and> present_ok ar lim \<and> (ar_type ar \<le> 11 \<longrightarrow> sel AND 3 \<le> ar_dpl ar)"

definition ldtr_ok :: "u64 \<Rightarrow> u64 \<Rightarrow> u64 \<Rightarrow> u64 \<Rightarrow> u64 \<Rightarrow> bool" where
  "ldtr_ok cr4 sel bs ar lim \<longleftrightarrow> ar_unusable ar \<or>
     \<not> bit sel 2 \<and> canonical cr4 bs \<and> ar_type ar = 2 \<and> \<not> bit ar 4 \<and> present_ok ar lim"

definition tr_ok :: "u64 \<Rightarrow> u64 \<Rightarrow> u64 \<Rightarrow> u64 \<Rightarrow> u64 \<Rightarrow> bool" where
  "tr_ok cr4 sel bs ar lim \<longleftrightarrow> \<not> bit sel 2 \<and> canonical cr4 bs \<and> ar_type ar = 11 \<and> \<not> bit ar 4 \<and> \<not> ar_unusable ar \<and>
     present_ok ar lim"

section \<open>The checks\<close>

text \<open>
  The controls that are in use are those of the default1 class, and the two for 64-bit host and guest; so there is no check for a
  bitmap, a virtual APIC, extended page tables, an MSR in the VMCS or system-management mode.
\<close>

definition only_default_ctls :: "(u64 \<Rightarrow> u64) \<Rightarrow> bool" where
  "only_default_ctls v \<longleftrightarrow>
     v VMCS_PIN_BASED_VM_CTLS AND NOT 0x16 = 0 \<and> v VMCS_PROC_BASED_VM_CTLS AND NOT 0x0401e172 = 0 \<and>
     v VMCS_VMEXIT_CTLS AND NOT 0x36fff = 0 \<and> v VMCS_VMENTRY_CTLS AND NOT 0x13ff = 0"

definition ctl_msr_ok :: "u64 \<Rightarrow> u64 \<Rightarrow> bool" where
  "ctl_msr_ok x v \<longleftrightarrow> ctl_ok (fst (halves_of x)) (snd (halves_of x)) v"

definition control_checks :: "cpu \<Rightarrow> (u64 \<Rightarrow> u64) \<Rightarrow> bool" where
  "control_checks c v \<longleftrightarrow>
     ctl_msr_ok (ctl_msr c IA32_VMX_TRUE_PINBASED_CTLS IA32_VMX_PINBASED_CTLS) (v VMCS_PIN_BASED_VM_CTLS) \<and>
     ctl_msr_ok (ctl_msr c IA32_VMX_TRUE_PROCBASED_CTLS IA32_VMX_PROCBASED_CTLS) (v VMCS_PROC_BASED_VM_CTLS) \<and>
     ctl_msr_ok (ctl_msr c IA32_VMX_TRUE_EXIT_CTLS IA32_VMX_EXIT_CTLS) (v VMCS_VMEXIT_CTLS) \<and>
     ctl_msr_ok (ctl_msr c IA32_VMX_TRUE_ENTRY_CTLS IA32_VMX_ENTRY_CTLS) (v VMCS_VMENTRY_CTLS) \<and>
     v VMCS_CR3_TARGET_CNT \<le> 4 \<and> v VMCS_VMEXIT_MSR_STORE_CNT = 0 \<and> v VMCS_VMEXIT_MSR_LOAD_CNT = 0 \<and>
     v VMCS_VMENTRY_MSR_LOAD_CNT = 0 \<and> \<not> bit (v VMCS_VMENTRY_INT_INFO) 31"

definition host_checks :: "env \<Rightarrow> cpu \<Rightarrow> (u64 \<Rightarrow> u64) \<Rightarrow> bool" where
  "host_checks e c v \<longleftrightarrow> (let cr4 = v VMCS_HOST_CR4 in
     cr_ok c (v VMCS_HOST_CR0) cr4 \<and> drop_bit (e_maxphyaddr e) (v VMCS_HOST_CR3) = 0 \<and>
     list_all (\<lambda>f. v f AND 7 = 0)
       [VMCS_HOST_ES, VMCS_HOST_CS, VMCS_HOST_SS, VMCS_HOST_DS, VMCS_HOST_FS, VMCS_HOST_GS, VMCS_HOST_TR] \<and>
     v VMCS_HOST_CS \<noteq> 0 \<and> v VMCS_HOST_TR \<noteq> 0 \<and>
     list_all (\<lambda>f. canonical cr4 (v f))
       [VMCS_HOST_IA32_SYSENTER_ESP, VMCS_HOST_IA32_SYSENTER_EIP, VMCS_HOST_FS_BASE, VMCS_HOST_GS_BASE, VMCS_HOST_GDTR_BASE,
        VMCS_HOST_IDTR_BASE, VMCS_HOST_TR_BASE, VMCS_HOST_RIP] \<and>
     bit (v VMCS_VMEXIT_CTLS) 9 \<and> bit cr4 5)"

definition guest_checks :: "env \<Rightarrow> cpu \<Rightarrow> (u64 \<Rightarrow> u64) \<Rightarrow> bool" where
  "guest_checks e c v \<longleftrightarrow> (let cr0 = v VMCS_GUEST_CR0; cr4 = v VMCS_GUEST_CR4 in
     \<comment> \<open>control registers, debug registers, MSRs\<close>
     cr_ok c cr0 cr4 \<and> drop_bit (e_maxphyaddr e) (v VMCS_GUEST_CR3) = 0 \<and>
     bit (v VMCS_VMENTRY_CTLS) 9 \<and> bit cr0 31 \<and> bit cr4 5 \<and>
     (bit (v VMCS_VMENTRY_CTLS) 2 \<longrightarrow> v VMCS_GUEST_IA32_DEBUGCTL AND NOT 0xffc3 = 0 \<and> drop_bit 32 (v VMCS_GUEST_DR7) = 0) \<and>
     list_all (\<lambda>f. canonical cr4 (v f))
       [VMCS_GUEST_IA32_SYSENTER_ESP, VMCS_GUEST_IA32_SYSENTER_EIP, VMCS_GUEST_FS_BASE, VMCS_GUEST_GS_BASE, VMCS_GUEST_GDTR_BASE,
        VMCS_GUEST_IDTR_BASE] \<and>
     \<comment> \<open>segments\<close>
     cs_ok (v VMCS_GUEST_CS_BASE) (v VMCS_GUEST_CS_ACCESS_RIGHTS) (v VMCS_GUEST_CS_LIMIT) (v VMCS_GUEST_SS_ACCESS_RIGHTS) \<and>
     ss_ok (v VMCS_GUEST_SS) (v VMCS_GUEST_SS_BASE) (v VMCS_GUEST_SS_ACCESS_RIGHTS) (v VMCS_GUEST_SS_LIMIT) (v VMCS_GUEST_CS) \<and>
     data_ok (v VMCS_GUEST_ES) (v VMCS_GUEST_ES_ACCESS_RIGHTS) (v VMCS_GUEST_ES_LIMIT) \<and>
     data_ok (v VMCS_GUEST_DS) (v VMCS_GUEST_DS_ACCESS_RIGHTS) (v VMCS_GUEST_DS_LIMIT) \<and>
     data_ok (v VMCS_GUEST_FS) (v VMCS_GUEST_FS_ACCESS_RIGHTS) (v VMCS_GUEST_FS_LIMIT) \<and>
     data_ok (v VMCS_GUEST_GS) (v VMCS_GUEST_GS_ACCESS_RIGHTS) (v VMCS_GUEST_GS_LIMIT) \<and>
     list_all (\<lambda>(bs, ar). \<not> ar_unusable (v ar) \<longrightarrow> drop_bit 32 (v bs) = 0)
       [(VMCS_GUEST_ES_BASE, VMCS_GUEST_ES_ACCESS_RIGHTS), (VMCS_GUEST_DS_BASE, VMCS_GUEST_DS_ACCESS_RIGHTS)] \<and>
     ldtr_ok cr4 (v VMCS_GUEST_LDTR) (v VMCS_GUEST_LDTR_BASE) (v VMCS_GUEST_LDTR_ACCESS_RIGHTS) (v VMCS_GUEST_LDTR_LIMIT) \<and>
     tr_ok cr4 (v VMCS_GUEST_TR) (v VMCS_GUEST_TR_BASE) (v VMCS_GUEST_TR_ACCESS_RIGHTS) (v VMCS_GUEST_TR_LIMIT) \<and>
     list_all (\<lambda>f. drop_bit 16 (v f) = 0) [VMCS_GUEST_GDTR_LIMIT, VMCS_GUEST_IDTR_LIMIT] \<and>
     \<comment> \<open>RIP, flags and the non-register state\<close>
     rip_ok cr4 (v VMCS_VMENTRY_CTLS) (v VMCS_GUEST_CS_ACCESS_RIGHTS) (v VMCS_GUEST_RIP) \<and>
     rflags_ok (v VMCS_GUEST_RFLAGS) \<and> v VMCS_GUEST_ACTIVITY_STATE = 0 \<and> v VMCS_GUEST_INTERRUPTIBILITY_STATE = 0 \<and>
     v VMCS_GUEST_PENDING_DBG_EXCEPTION AND NOT 0x1500f = 0 \<and> v VMCS_VMCS_LINK_PTR = 0xffffffffffffffff)"

definition passes_checks :: "env \<Rightarrow> cpu \<Rightarrow> (u64 \<Rightarrow> u64) \<Rightarrow> bool" where
  "passes_checks e c v \<longleftrightarrow> only_default_ctls v \<and> control_checks c v \<and> host_checks e c v \<and> guest_checks e c v"

section \<open>An ordinary host\<close>

text \<open>
  Of the capabilities: what must be 1 may be 1, only controls of the default1 class must be 1, and a TRUE MSR relaxes its
  plain one; 64-bit hosts and guests are allowed.
\<close>

definition ordinary_ctl :: "u32 \<Rightarrow> u64 \<Rightarrow> bool" where
  "ordinary_ctl d x \<longleftrightarrow> (let (a0, a1) = halves_of x in a0 AND a1 = a0 \<and> a0 AND NOT d = 0)"

definition ordinary_ctls :: "cpu \<Rightarrow> bool" where
  "ordinary_ctls c \<longleftrightarrow>
     (let pin = ctl_msr c IA32_VMX_TRUE_PINBASED_CTLS IA32_VMX_PINBASED_CTLS;
          proc = the (r_msrs c IA32_VMX_PROCBASED_CTLS);
          tproc = ctl_msr c IA32_VMX_TRUE_PROCBASED_CTLS IA32_VMX_PROCBASED_CTLS;
          ex = ctl_msr c IA32_VMX_TRUE_EXIT_CTLS IA32_VMX_EXIT_CTLS;
          en = ctl_msr c IA32_VMX_TRUE_ENTRY_CTLS IA32_VMX_ENTRY_CTLS
      in ordinary_ctl 0x16 pin \<and> ordinary_ctl 0x0401e172 proc \<and>
         fst (halves_of tproc) AND fst (halves_of proc) = fst (halves_of tproc) \<and> snd (halves_of tproc) = snd (halves_of proc) \<and>
         ordinary_ctl 0x36dff ex \<and> bit (snd (halves_of ex)) 9 \<and> ordinary_ctl 0x11ff en \<and> bit (snd (halves_of en)) 9)"

text \<open>
  Of the registers: 64-bit mode with paging; canonical bases; flags with their reserved bits; a 64-bit code, a stack and a task
  segment of privilege level 0 as an operating system has them.
\<close>

definition kernel_cs :: "env \<Rightarrow> u16 \<Rightarrow> bool" where
  "kernel_cs e s \<longleftrightarrow> s AND NOT 7 \<noteq> 0 \<and>
     (let ar = get_segment_ar e s in bit ar 7 \<and> bit ar 4 \<and> ar_type ar \<in> {9, 11, 13, 15} \<and> ar_dpl ar = 0 \<and> bit ar 13 \<and> \<not> bit ar 14)"

definition kernel_ss :: "env \<Rightarrow> u16 \<Rightarrow> bool" where
  "kernel_ss e s \<longleftrightarrow> (let ar = get_segment_ar e s in bit ar 7 \<and> bit ar 4 \<and> ar_type ar \<in> {3, 7} \<and> ar_dpl ar = 0)"

definition kernel_tr :: "env \<Rightarrow> u16 \<Rightarrow> bool" where
  "kernel_tr e s \<longleftrightarrow> s AND NOT 7 \<noteq> 0 \<and> (let ar = get_segment_ar e s in bit ar 7 \<and> \<not> bit ar 4 \<and> ar_type ar = 11 \<and> \<not> bit ar 15)"

definition kernel_cpu :: "env \<Rightarrow> cpu \<Rightarrow> bool" where
  "kernel_cpu e c \<longleftrightarrow>
     bit (r_cr0 c) 31 \<and> bit (r_cr0 c) 0 \<and> bit (r_cr4 c) 5 \<and> (bit (r_cr4 c) 23 \<longrightarrow> bit (r_cr0 c) 16) \<and>
     drop_bit (e_maxphyaddr e) (r_cr3 c) = 0 \<and> rflags_ok (r_rflags c) \<and>
     list_all (\<lambda>n. canonical (r_cr4 c) (the (r_msrs c n))) [IA32_SYSENTER_ESP, IA32_SYSENTER_EIP, IA32_FS_BASE, IA32_GS_BASE] \<and>
     list_all (canonical (r_cr4 c)) [base (r_gdtr c), base (r_idtr c), e_guest_code e, e_vmx_exit e] \<and>
     r_cs c AND 3 = 0 \<and> r_ss c AND 3 = 0 \<and> kernel_cs e (r_cs c) \<and> kernel_ss e (r_ss c) \<and> kernel_tr e (r_tr c)"

section \<open>The VMCS of the program passes\<close>

lemma and_not_zero_bit:
  fixes a d :: "'a :: len word"
  assumes "a AND NOT d = 0" and "bit a n"
  shows "bit d n"
proof -
  have "\<not> bit (a AND NOT d) n" unfolding assms(1) by simp
  then show ?thesis using assms(2) by (auto simp: bit_simps dest: bit_imp_le_length)
qed

lemma ctl_subset:
  assumes "ordinary_ctl d x"
  shows "fst (halves_of x) AND snd (halves_of x) = fst (halves_of x)"
    and "ctl_msr_ok x (ucast (fst (halves_of x) AND snd (halves_of x)))"
    and "(ucast (fst (halves_of x) AND snd (halves_of x)) :: u64) AND NOT (ucast d) = 0"
proof -
  obtain a0 a1 where h: "halves_of x = (a0, a1)" by (cases "halves_of x")
  have s: "a0 AND a1 = a0" "a0 AND NOT d = 0" using assms by (simp_all add: ordinary_ctl_def h)
  show "fst (halves_of x) AND snd (halves_of x) = fst (halves_of x)" by (simp add: h s)
  show "ctl_msr_ok x (ucast (fst (halves_of x) AND snd (halves_of x)))"
    using ctl_ok_and [OF s(1)] by (simp add: ctl_msr_ok_def h)
  show "(ucast (fst (halves_of x) AND snd (halves_of x)) :: u64) AND NOT (ucast d) = 0"
    unfolding h fst_conv snd_conv s(1)
    using and_not_zero_bit [OF s(2)] by (intro bit_word_eqI) (auto simp: bit_simps)
qed

text \<open>The cached halves are those of the MSRs.\<close>

definition caps_match :: "cpu \<Rightarrow> vm_monitor \<Rightarrow> bool" where
  "caps_match c vmm \<longleftrightarrow>
     (pinbased_allowed0 vmm, pinbased_allowed1 vmm) = halves_of (ctl_msr c IA32_VMX_TRUE_PINBASED_CTLS IA32_VMX_PINBASED_CTLS) \<and>
     (procbased_allowed0 vmm, procbased_allowed1 vmm) = halves_of (the (r_msrs c IA32_VMX_PROCBASED_CTLS)) \<and>
     (exit_ctls_allowed0 vmm, exit_ctls_allowed1 vmm) = halves_of (ctl_msr c IA32_VMX_TRUE_EXIT_CTLS IA32_VMX_EXIT_CTLS) \<and>
     (entry_ctls_allowed0 vmm, entry_ctls_allowed1 vmm) = halves_of (ctl_msr c IA32_VMX_TRUE_ENTRY_CTLS IA32_VMX_ENTRY_CTLS)"

lemma caps_matchD:
  assumes "caps_match c vmm"
  shows "pinbased_allowed0 vmm = fst (halves_of (ctl_msr c IA32_VMX_TRUE_PINBASED_CTLS IA32_VMX_PINBASED_CTLS))"
    "pinbased_allowed1 vmm = snd (halves_of (ctl_msr c IA32_VMX_TRUE_PINBASED_CTLS IA32_VMX_PINBASED_CTLS))"
    "procbased_allowed0 vmm = fst (halves_of (the (r_msrs c IA32_VMX_PROCBASED_CTLS)))"
    "procbased_allowed1 vmm = snd (halves_of (the (r_msrs c IA32_VMX_PROCBASED_CTLS)))"
    "exit_ctls_allowed0 vmm = fst (halves_of (ctl_msr c IA32_VMX_TRUE_EXIT_CTLS IA32_VMX_EXIT_CTLS))"
    "exit_ctls_allowed1 vmm = snd (halves_of (ctl_msr c IA32_VMX_TRUE_EXIT_CTLS IA32_VMX_EXIT_CTLS))"
    "entry_ctls_allowed0 vmm = fst (halves_of (ctl_msr c IA32_VMX_TRUE_ENTRY_CTLS IA32_VMX_ENTRY_CTLS))"
    "entry_ctls_allowed1 vmm = snd (halves_of (ctl_msr c IA32_VMX_TRUE_ENTRY_CTLS IA32_VMX_ENTRY_CTLS))"
  using assms unfolding caps_match_def by (metis fst_conv snd_conv)+

lemma image_in_fields: "image_in e vmm mi v \<Longrightarrow> image_at e vmm mi f = Some w \<Longrightarrow> v f = w"
  by (simp add: image_in_def)

lemma image_other_fields:
  "image_at e vmm m VMCS_CR3_TARGET_CNT = Some 0" "image_at e vmm m VMCS_VMEXIT_MSR_STORE_CNT = Some 0"
  "image_at e vmm m VMCS_VMEXIT_MSR_LOAD_CNT = Some 0" "image_at e vmm m VMCS_VMENTRY_MSR_LOAD_CNT = Some 0"
  "image_at e vmm m VMCS_VMENTRY_INT_INFO = Some 0" "image_at e vmm m VMCS_GUEST_IA32_DEBUGCTL = Some 0"
  "image_at e vmm m VMCS_GUEST_DR7 = Some 0x400" "image_at e vmm m VMCS_GUEST_CS_BASE = Some 0"
  "image_at e vmm m VMCS_GUEST_SS_BASE = Some 0" "image_at e vmm m VMCS_GUEST_ACTIVITY_STATE = Some 0"
  "image_at e vmm m VMCS_GUEST_INTERRUPTIBILITY_STATE = Some 0" "image_at e vmm m VMCS_GUEST_PENDING_DBG_EXCEPTION = Some 0"
  "image_at e vmm m VMCS_VMCS_LINK_PTR = Some 0xffffffffffffffff"
  "image_at e vmm m VMCS_GUEST_TR_ACCESS_RIGHTS = Some (get_segment_ar e (r_tr (m_cpu m)))"
  "image_at e vmm m VMCS_GUEST_TR_LIMIT = Some (ucast (e_lsl e (r_tr (m_cpu m))))"
  by (simp_all add: image_simps)

lemma ctl_with_bit9:
  assumes "ordinary_ctl d x" and "bit (snd (halves_of x)) 9"
  shows "ctl_msr_ok x (ucast (fst (halves_of x) AND snd (halves_of x)) OR BIT 9)"
    and "(ucast (fst (halves_of x) AND snd (halves_of x)) OR BIT 9 :: u64) AND NOT (ucast d OR BIT 9) = 0"
    and "bit (ucast (fst (halves_of x) AND snd (halves_of x)) OR BIT 9 :: u64) 9"
proof -
  show "ctl_msr_ok x (ucast (fst (halves_of x) AND snd (halves_of x)) OR BIT 9)"
    unfolding ctl_msr_ok_def by (rule ctl_ok_and_bit9 [OF ctl_subset(1) [OF assms(1)] assms(2)])
  show "(ucast (fst (halves_of x) AND snd (halves_of x)) OR BIT 9 :: u64) AND NOT (ucast d OR BIT 9) = 0"
    using and_not_zero_bit [OF ctl_subset(3) [OF assms(1)]] by (intro bit_word_eqI) (auto simp: bit_simps)
  show "bit (ucast (fst (halves_of x) AND snd (halves_of x)) OR BIT 9 :: u64) 9" by (simp add: bit_simps BIT_def)
qed

lemma image_control_checks:
  assumes v: "image_in e vmm mi v" and k: "caps_match c vmm" and o: "ordinary_ctls c"
  shows "only_default_ctls v" and "control_checks c v" and "bit (v VMCS_VMEXIT_CTLS) 9" and "bit (v VMCS_VMENTRY_CTLS) 9"
proof -
  note h = o [unfolded ordinary_ctls_def Let_def] and f = image_controls [THEN image_in_fields [OF v]]
  note s = f [unfolded caps_matchD [OF k] vm_ctl_bit9]
  have m: "(0x36fff :: u64) = ucast (0x36dff :: u32) OR BIT 9" "(0x13ff :: u64) = ucast (0x11ff :: u32) OR BIT 9"
    "(0x16 :: u64) = ucast (0x16 :: u32)" "(0x0401e172 :: u64) = ucast (0x0401e172 :: u32)"
    by (simp_all add: BIT_def)
  show "only_default_ctls v"
    unfolding only_default_ctls_def s m using h ctl_subset(3) ctl_with_bit9(2) by blast
  show "bit (v VMCS_VMEXIT_CTLS) 9" "bit (v VMCS_VMENTRY_CTLS) 9"
    unfolding s using h ctl_with_bit9(3) by blast+
  let ?p = "the (r_msrs c IA32_VMX_PROCBASED_CTLS)"
    and ?t = "ctl_msr c IA32_VMX_TRUE_PROCBASED_CTLS IA32_VMX_PROCBASED_CTLS"
  have "ctl_msr_ok ?p (ucast (fst (halves_of ?p) AND snd (halves_of ?p)))" using h ctl_subset(2) by blast
  then have "ctl_msr_ok ?t (ucast (fst (halves_of ?p) AND snd (halves_of ?p)))"
    using h ctl_subset(1) [of "0x0401e172" ?p] sub_bits [of "fst (halves_of ?t)" "fst (halves_of ?p)"]
    by (auto simp: ctl_msr_ok_def ctl_ok_def intro!: bit_word_eqI) (auto simp: bit_simps)
  then show "control_checks c v"
    unfolding control_checks_def s image_other_fields(1-5) [THEN image_in_fields [OF v]]
    using h by (auto intro: ctl_subset(2) ctl_with_bit9(1))
qed

text \<open>The selectors.\<close>

lemma selector_masked: "(ucast (s :: u16) AND - 8 :: u64) AND 7 = 0"
  by (simp add: and.assoc)

lemma selector_nonzero:
  assumes "(s :: u16) AND - 8 \<noteq> 0"
  shows "(ucast s AND - 8 :: u64) \<noteq> 0" and "(ucast s :: u64) \<noteq> 0"
proof -
  show n: "(ucast s AND - 8 :: u64) \<noteq> 0" using assms ucast_mask_rpl [of s] by auto
  then show "(ucast s :: u64) \<noteq> 0" by auto
qed

lemma selector_low: "((ucast (s :: u16) :: u64) AND 7 = 0) = (s AND 7 = 0)" "((ucast s :: u64) AND 3 = 0) = (s AND 3 = 0)"
proof -
  have "(ucast s :: u64) AND 7 = ucast (s AND 7)" "(ucast s :: u64) AND 3 = ucast (s AND 3)" by (simp_all add: unsigned_and_eq)
  then show "((ucast (s :: u16) :: u64) AND 7 = 0) = (s AND 7 = 0)" "((ucast s :: u64) AND 3 = 0) = (s AND 3 = 0)"
    using ucast_up_down [of "s AND 7"] ucast_up_down [of "s AND 3"] by auto
qed

text \<open>
  The host-state area passes on an ordinary host if TR has no RPL, and only then: unlike the other selectors, that of TR is
  written to the host-state area with its low bits.
\<close>

lemma image_host_checks:
  assumes v: "image_in e vmm mi v" and h: "kernel_cpu e (m_cpu mi)" and c: "cr_fixed_ok (m_cpu mi)"
    and tr: "canonical (r_cr4 (m_cpu mi)) (gdt_tr_base e mi)" and x: "bit (v VMCS_VMEXIT_CTLS) 9"
  shows "host_checks e (m_cpu mi) v \<longleftrightarrow> r_tr (m_cpu mi) AND 7 = 0"
proof -
  note f = image_host_selectors [THEN image_in_fields [OF v]] image_host_registers(1-12) [THEN image_in_fields [OF v]]
  show ?thesis
    using h c tr x
    unfolding host_checks_def Let_def list.pred_inject f kernel_cpu_def kernel_cs_def kernel_tr_def cr_ok_def cr_fixed_ok_def
    by (simp add: selector_masked selector_nonzero selector_low)
qed

text \<open>The segments: access rights without undefined bits, and limits that agree with them.\<close>

lemma segment_present_ok:
  assumes "bit (get_segment_ar e s) 7"
  shows "present_ok (get_segment_ar e s) (ucast (segment_limit e s))"
    and "\<not> bit (get_segment_ar e s) 15 \<Longrightarrow> present_ok (get_segment_ar e s) (ucast (l :: u16))"
    and "\<not> ar_unusable (get_segment_ar e s)"
proof -
  have z: "get_segment_ar e s AND 0xfffffffffffe0f00 = 0" unfolding get_segment_ar_bits(1) by (simp add: and.assoc)
  show "present_ok (get_segment_ar e s) (ucast (segment_limit e s))"
    unfolding present_ok_def get_segment_ar_bits(4) using assms z by (simp add: limit_ok_def)
  have m: "(0xfff00000 :: u64) = push_bit 20 0xfff" by simp
  have "20 \<le> n" if "bit (0xfff00000 :: u64) n" for n
    using that unfolding m bit_push_bit_iff by blast
  then have "(ucast l :: u64) AND 0xfff00000 = 0"
    by (intro bit_word_eqI) (fastforce simp: bit_simps dest: bit_imp_le_length)
  then show "\<not> bit (get_segment_ar e s) 15 \<Longrightarrow> present_ok (get_segment_ar e s) (ucast l)"
    using assms z by (simp add: present_ok_def limit_ok_def)
  have "\<not> bit (get_segment_ar e s) 16" unfolding get_segment_ar_bits(1) by (simp add: bit_simps)
  then show "\<not> ar_unusable (get_segment_ar e s)" by (simp add: ar_unusable_def)
qed

lemma unusable_ok: "ar_unusable UNUSABLE_AR"
  by (simp add: ar_unusable_def bit_defs)

lemma image_guest_checks:
  assumes v: "image_in e vmm mi v" and h: "kernel_cpu e (m_cpu mi)" and c: "cr_fixed_ok (m_cpu mi)"
    and tr: "canonical (r_cr4 (m_cpu mi)) (gdt_tr_base e mi)" and x: "bit (v VMCS_VMENTRY_CTLS) 9"
  shows "guest_checks e (m_cpu mi) v"
proof -
  let ?c = "m_cpu mi"
  note f = image_guest_registers [THEN image_in_fields [OF v]] image_guest_selectors [THEN image_in_fields [OF v]]
    image_guest_segments [THEN image_in_fields [OF v]] image_other_fields [THEN image_in_fields [OF v]]
  have sel: "(ucast (r_cs ?c) :: u64) AND 3 = 0" "(ucast (r_ss ?c) :: u64) AND 3 = 0"
    using h unfolding kernel_cpu_def selector_low by blast+
  have cs: "cs_ok 0 (get_segment_ar e (r_cs ?c)) (ucast (segment_limit e (r_cs ?c))) (get_segment_ar e (r_ss ?c))"
    using h segment_present_ok(1) unfolding kernel_cpu_def kernel_cs_def kernel_ss_def Let_def cs_ok_def by auto
  have ss: "ss_ok (ucast (r_ss ?c)) 0 (get_segment_ar e (r_ss ?c)) (ucast (segment_limit e (r_ss ?c))) (ucast (r_cs ?c))"
    using h segment_present_ok(1) sel unfolding kernel_cpu_def kernel_ss_def Let_def ss_ok_def by auto
  have t: "tr_ok (r_cr4 ?c) (ucast (r_tr ?c) AND NOT 7) (gdt_tr_base e mi) (get_segment_ar e (r_tr ?c)) (ucast (e_lsl e (r_tr ?c)))"
    using h tr segment_present_ok(2,3) unfolding kernel_cpu_def kernel_tr_def Let_def tr_ok_def by (auto simp: bit_simps)
  have rip: "rip_ok (r_cr4 ?c) (v VMCS_VMENTRY_CTLS) (get_segment_ar e (r_cs ?c)) (e_guest_code e)"
    using h x unfolding kernel_cpu_def kernel_cs_def Let_def by (auto intro!: rip_okI)
  have lim: "drop_bit 16 (ucast (w :: u16) :: u64) = 0" for w by (rule bit_word_eqI) (auto simp: bit_simps dest: bit_imp_le_length)
  have u: "data_ok s UNUSABLE_AR l" "ldtr_ok w s b UNUSABLE_AR l" for s l w b
    using unusable_ok by (simp_all add: data_ok_def ldtr_ok_def)
  show ?thesis
    using h c x cs ss t rip
    unfolding guest_checks_def Let_def list.pred_inject f kernel_cpu_def cr_ok_def cr_fixed_ok_def
    by (simp add: u lim unusable_ok f)
qed

text \<open>The checks look at the capability MSRs only, which a VM exit leaves alone.\<close>

lemma checks_cong:
  assumes "\<And>n. n \<notin> {IA32_SYSENTER_CS, IA32_DEBUGCTL} \<Longrightarrow> r_msrs c' n = r_msrs c n"
  shows "control_checks c' v = control_checks c v" and "host_checks e c' v = host_checks e c v"
    and "guest_checks e c' v = guest_checks e c v"
proof -
  have m: "ctl_msr c' t p = ctl_msr c t p" if "t \<notin> {IA32_SYSENTER_CS, IA32_DEBUGCTL}" "p \<notin> {IA32_SYSENTER_CS, IA32_DEBUGCTL}" for t p
    using assms that by (simp add: ctl_msr_def msr_bit_def msr_enc)
  show "control_checks c' v = control_checks c v" "host_checks e c' v = host_checks e c v" "guest_checks e c' v = guest_checks e c v"
    unfolding control_checks_def host_checks_def guest_checks_def cr_ok_def Let_def by (simp_all add: m assms msr_enc)
qed

text \<open>What the host-state area alone decides.\<close>

definition passes_but_host :: "env \<Rightarrow> cpu \<Rightarrow> (u64 \<Rightarrow> u64) \<Rightarrow> bool" where
  "passes_but_host e c v \<longleftrightarrow> only_default_ctls v \<and> control_checks c v \<and> guest_checks e c v"

lemma passes_checks_split: "passes_checks e c v \<longleftrightarrow> passes_but_host e c v \<and> host_checks e c v"
  by (auto simp: passes_checks_def passes_but_host_def)

text \<open>An ordinary host when the VMCS is initialised, with the cached capabilities of its processor.\<close>

definition ordinary_session :: "env \<Rightarrow> vm_monitor \<Rightarrow> mstate \<Rightarrow> bool" where
  "ordinary_session e vmm mi \<longleftrightarrow> (let c = m_cpu mi in caps_match c vmm \<and> ordinary_ctls c \<and> kernel_cpu e c \<and> cr_fixed_ok c \<and>
     canonical (r_cr4 c) (gdt_tr_base e mi))"

lemma image_passes:
  assumes "image_in e vmm mi v" and "ordinary_session e vmm mi"
  shows "passes_but_host e (m_cpu mi) v" and "host_checks e (m_cpu mi) v \<longleftrightarrow> r_tr (m_cpu mi) AND 7 = 0"
proof -
  note h = assms(2) [unfolded ordinary_session_def Let_def]
  note c = image_control_checks [OF assms(1) h [THEN conjunct1] h [THEN conjunct2, THEN conjunct1]]
  show "passes_but_host e (m_cpu mi) v" using c image_guest_checks [OF assms(1)] h by (auto simp: passes_but_host_def)
  show "host_checks e (m_cpu mi) v \<longleftrightarrow> r_tr (m_cpu mi) AND 7 = 0" using c image_host_checks [OF assms(1)] h by blast
qed

text \<open>Every VM entry of a session.\<close>

lemma run_inv_passes:
  assumes i: "run_inv e vmm mi pa m" and p: "ordinary_session e vmm mi"
  shows "passes_but_host e (m_cpu m) ((vmcs_fields (m_vmx m) pa)(VMCS_HOST_RSP := x))"
    and "host_checks e (m_cpu m) ((vmcs_fields (m_vmx m) pa)(VMCS_HOST_RSP := x)) \<longleftrightarrow> r_tr (m_cpu mi) AND 7 = 0"
proof -
  have v: "image_in e vmm mi ((vmcs_fields (m_vmx m) pa)(VMCS_HOST_RSP := x))"
    using i by (auto simp: run_inv_def intro!: image_in_upd image_none)
  have s: "r_msrs (m_cpu m) n = r_msrs (m_cpu mi) n" if "n \<notin> {IA32_SYSENTER_CS, IA32_DEBUGCTL}" for n
    using i that by (auto simp: run_inv_def untouched_def exited_def after_exit_def exit_residue_def)
  have c: "control_checks (m_cpu m) w = control_checks (m_cpu mi) w" "host_checks e (m_cpu m) w = host_checks e (m_cpu mi) w"
    "guest_checks e (m_cpu m) w = guest_checks e (m_cpu mi) w" for w
    by (rule checks_cong; rule s; assumption)+
  show "passes_but_host e (m_cpu m) ((vmcs_fields (m_vmx m) pa)(VMCS_HOST_RSP := x))"
    using image_passes(1) [OF v p] by (simp add: passes_but_host_def c)
  show "host_checks e (m_cpu m) ((vmcs_fields (m_vmx m) pa)(VMCS_HOST_RSP := x)) \<longleftrightarrow> r_tr (m_cpu mi) AND 7 = 0"
    using image_passes(2) [OF v p] by (simp add: c)
qed

end
