(* ===== verification/Checked_Session.thy ===== *)
theory Checked_Session
  imports Guest_Code Entry_Checks
begin

text \<open>
  A measurement on a processor that makes the checks of \<open>Entry_Checks\<close>: on an ordinary host every VM entry of the session
  passes them, so that the guest runs from VMLAUNCH to the last VMRESUME; with an RPL in TR none does, and VMLAUNCH is refused.
\<close>

section \<open>From the host to the session\<close>

text \<open>The sixteen bytes of the descriptor of TR are not in a page that the kernel hands out.\<close>

definition kernel_host :: "env \<Rightarrow> mstate \<Rightarrow> bool" where
  "kernel_host e m \<longleftrightarrow> (let c = m_cpu m in ordinary_ctls c \<and> kernel_cpu e c \<and> canonical (r_cr4 c) (gdt_tr_base e m) \<and>
     list_all (\<lambda>i. off_pages e (port_page_pa e) (e_v2p e (base (r_gdtr c) + ucast (r_tr c) + of_nat i))) [0..<16])"

lemma port_disable_flags:
  assumes "vmlatency_preempt_disable (platform_of e) f m = Some (f', m')"
  shows "r_rflags (m_cpu m') = r_rflags (m_cpu m) AND NOT FLAG_IF"
  using assms
  by (cases "e_target e")
    (auto simp: platform_of_def linux_defs mac_platform_def mac_preempt_disable_def k_lock_alloc_def win_platform_def
      win_preempt_disable_def k_raise_irql_def cli_def Let_def split: if_splits)

lemma session_start_flags:
  assumes "session_start (platform_of e) e m vmm mi"
  shows "m_cpu mi = (m_cpu m)\<lparr>r_cr4 := r_cr4 (m_cpu m) OR CR4_VMXE, r_rflags := r_rflags (m_cpu m) AND NOT FLAG_IF\<rparr>"
  using port_pages.session_start_cpu [OF assms] port_disable_flags by fastforce

lemma canonical_vmxe: "canonical (cr4 OR CR4_VMXE) a = canonical cr4 a"
  by (simp add: canonical_def linear_width_def CR4_VMXE_BIT bit_simps bit_BIT)

lemma rflags_ok_cli: "rflags_ok f \<Longrightarrow> rflags_ok (f AND NOT FLAG_IF)"
proof -
  assume f: "rflags_ok f"
  have "(f AND NOT FLAG_IF) AND 0xffffffffffc0802a = f AND 0xffffffffffc0802a" by (simp add: FLAG_IF_def and.assoc)
  then show ?thesis using f by (simp add: rflags_ok_def FLAG_IF_def bit_simps)
qed

lemma kernel_cpu_session:
  assumes "kernel_cpu e c"
  shows "kernel_cpu e (c\<lparr>r_cr4 := r_cr4 c OR CR4_VMXE, r_rflags := r_rflags c AND NOT FLAG_IF\<rparr>)"
  using assms rflags_ok_cli [of "r_rflags c"]
  by (simp add: kernel_cpu_def canonical_vmxe [abs_def]) (simp add: CR4_VMXE_BIT bit_simps bit_BIT)

lemma ctl_msr_regs: "ctl_msr (c\<lparr>r_cr4 := x, r_rflags := y\<rparr>) t p = ctl_msr c t p"
  by (simp add: ctl_msr_def msr_bit_def)

text \<open>The descriptor of TR is read through GDTR, of which the session changes neither the base nor the memory.\<close>

lemma load64_cong:
  assumes "list_all (\<lambda>i. m_mem m' (e_v2p e (a + of_nat i)) = m_mem m (e_v2p e (a + of_nat i))) [0..<8]"
  shows "load64 e a m' = load64 e a m"
  using assms unfolding load64_def load_le_def list_all_iff by (intro foldr_cong refl) simp

lemma gdt_tr_base_session:
  assumes s: "session_start (platform_of e) e m vmm mi" and k: "kernel_memory e" "good_pages e (port_page_pa e)"
    and d: "list_all (\<lambda>i. off_pages e (port_page_pa e) (e_v2p e (base (r_gdtr (m_cpu m)) + ucast (r_tr (m_cpu m)) + of_nat i))) [0..<16]"
  shows "gdt_tr_base e mi = gdt_tr_base e m"
proof -
  let ?a = "base (r_gdtr (m_cpu m)) + ucast (r_tr (m_cpu m))"
  have b: "m_mem mi (e_v2p e (?a + of_nat i)) = m_mem m (e_v2p e (?a + of_nat i))" if "i < 16" for i
    using d that by (intro port_pages.session_start_mem [OF s k]) (simp add: list_all_iff)
  have "m_mem mi (e_v2p e (?a + 8 + of_nat i)) = m_mem m (e_v2p e (?a + 8 + of_nat i))" if "i < 8" for i
    using b [of "8 + i"] that by (simp add: ac_simps)
  then have "load64 e ?a mi = load64 e ?a m" "load64 e (?a + 8) mi = load64 e (?a + 8) m"
    using b by (intro load64_cong; simp add: list_all_iff)+
  then show ?thesis by (simp add: gdt_tr_base_def session_start_flags [OF s])
qed

lemma session_caps_match:
  assumes "session_start (platform_of e) e m vmm mi" and "vmx_msrs_present (m_cpu m)"
  shows "caps_match (m_cpu mi) vmm"
proof -
  obtain v m1 where v: "cache_vmx_capabilities e vm_monitor_zero m = Some v" "allocate_memory (platform_of e) v m = Some (5, vmm, m1)"
    using assms(1) by (auto simp: session_start_def)
  show ?thesis
    using cache_present [OF assms(2), of e vm_monitor_zero] v(1)
    by (simp add: caps_match_def session_start_flags [OF assms(1)] ctl_msr_regs allocate_memory_caps [OF v(2)])
qed

lemma session_ordinary:
  assumes s: "session_start (platform_of e) e m vmm mi" and q: "equipped e m" and k: "kernel_host e m"
  shows "ordinary_session e vmm mi"
proof -
  note c = session_start_flags [OF s] and q = q [unfolded equipped_def] and k = k [unfolded kernel_host_def Let_def]
  have "ordinary_ctls (m_cpu mi)" using k unfolding ordinary_ctls_def c ctl_msr_regs by simp
  moreover have "kernel_cpu e (m_cpu mi)" unfolding c using k kernel_cpu_session by blast
  moreover have "cr_fixed_ok (m_cpu mi)" using q unfolding c by (simp add: vmx_ready_def with_vmxe_def cr_fixed_ok_def)
  moreover have "canonical (r_cr4 (m_cpu mi)) (gdt_tr_base e mi)"
    using k gdt_tr_base_session [OF s] q by (simp add: c canonical_vmxe)
  ultimately show ?thesis using session_caps_match [OF s] q by (simp add: ordinary_session_def)
qed

section \<open>The processor\<close>

text \<open>
  The outcomes that the manual allows: VMfailValid with error 7 or 8 for the controls or the host-state area, an exit with
  reason 33 and bit 31 for the guest-state area; otherwise the processor runs the code at the guest's RIP, that of
  \<^verbatim>\<open>guest_code\<close>, and nothing from outside exits before its first instruction does.
\<close>

definition entry_answers :: "env \<Rightarrow> cpu \<Rightarrow> (u64 \<Rightarrow> u64) \<Rightarrow> entry_outcome set" where
  "entry_answers e c v =
     (if \<not> control_checks c v \<or> \<not> host_checks e c v
      then (if control_checks c v then {} else {Entry_Fail 7}) \<union> (if host_checks e c v then {} else {Entry_Fail 8})
      else if \<not> guest_checks e c v then {Entry_Bad_Guest 0x80000021}
      else guest_outcomes)"

definition makes_checks :: "env \<Rightarrow> bool" where
  "makes_checks e \<longleftrightarrow> (\<forall>m. case cur_vmcs (m_vmx m) of None \<Rightarrow> True | Some pa \<Rightarrow>
     enters_guest e m \<and> only_default_ctls (vmcs_fields (m_vmx m) pa) \<longrightarrow>
     e_entry e m \<in> entry_answers e (m_cpu m) (vmcs_fields (m_vmx m) pa))"

text \<open>Every VM entry of the session passes if TR has no RPL; none does if it has one.\<close>

lemma entry_of_checked:
  assumes c: "makes_checks e" and s: "session_start (platform_of e) e m vmm mi" and q: "equipped e m" and k: "kernel_host e m"
    and i: "run_inv e vmm mi (vp_pa (vmcs vmm)) m'"
  shows "entry_of e (vp_pa (vmcs vmm)) m' = (if r_tr (m_cpu m) AND 7 = 0 then Entry_Exit 10 else Entry_Fail 8)"
proof -
  let ?pa = "vp_pa (vmcs vmm)"
  let ?m = "set_vmcs_field ?pa VMCS_HOST_RSP (r_rsp (m_cpu m')) m'"
  let ?v = "vmcs_fields (m_vmx ?m) ?pa"
  have cur: "cur_vmcs (m_vmx ?m) = Some ?pa" using run_inv_vmcs [OF i] by (simp add: has_vmcs_def frame)
  have f: "?v = (vmcs_fields (m_vmx m') ?pa)(VMCS_HOST_RSP := r_rsp (m_cpu m'))" "m_cpu ?m = m_cpu m'"
    by (simp_all add: frame vmcs_fields_set)
  have tr: "r_tr (m_cpu mi) = r_tr (m_cpu m)" by (simp add: session_start_flags [OF s])
  have p: "only_default_ctls ?v" "control_checks (m_cpu ?m) ?v" "guest_checks e (m_cpu ?m) ?v"
    "host_checks e (m_cpu ?m) ?v \<longleftrightarrow> r_tr (m_cpu m) AND 7 = 0"
    using run_inv_passes [OF i session_ordinary [OF s q k]] unfolding f passes_but_host_def tr by blast+
  have "e_entry e ?m \<in> entry_answers e (m_cpu ?m) ?v"
    using c [unfolded makes_checks_def, rule_format, of ?m] cur run_inv_enters [OF i] p(1) by simp
  then show ?thesis using p(2-4) by (auto simp: entry_of_def entry_answers_def guest_outcomes_cpuid)
qed

section \<open>The measurement\<close>

lemma checked_measured:
  assumes q: "equipped e m" and f: "fresh_pages e m" and k: "kernel_host e m"
    and t: "r_tr (m_cpu m) AND 7 = 0" and c: "makes_checks e"
  shows "\<exists>vs m' vmm m5. measure_vmlatency (platform_of e) e m = Some m' \<and> left_behind e m (Measured 10 vs) m' \<and>
    guest_when e vmm m5 (Measured 10 vs) \<and> session_start (platform_of e) e m vmm m5 \<and> vm_entries (m_vmx m') = vm_entries (m_vmx m) + 2 ^ 20"
proof -
  obtain p m' vmm mi where p: "measure_vmlatency (platform_of e) e m = Some m'" "left_behind e m p m'" "guest_when e vmm mi p"
    and l: "launched (m_vmx mi) = launched (m_vmx m)" and on: "vmx_on (m_vmx mi)" "cur_vmcs (m_vmx mi) = Some (vp_pa (vmcs vmm))"
    and s: "session_start (platform_of e) e m vmm mi" and "\<exists>k. vp_pa (vmcs vmm) = port_page_pa e (e_alloc e k)"
    using equipped_reaches_launch [OF q] by blast
  note nl = fresh_pagesD [OF f \<open>\<exists>k. vp_pa (vmcs vmm) = port_page_pa e (e_alloc e k)\<close>]
  have x: "entry_of e (vp_pa (vmcs v)) m' = Entry_Exit 10"
    if "session_start (platform_of e) e m v u" "run_inv e v u (vp_pa (vmcs v)) m'" for v u m'
    using entry_of_checked [OF c that(1) q k that(2)] t by simp
  note i = run_inv_prepared(1) [OF on, of e]
  obtain r vs where pw: "p = Measured r vs"
    using guest_when_entered [OF p(3)] x [OF s i] nl by (fastforce simp: l)
  have "r = 10"
    using p(3) x [OF s i] nl unfolding pw entry_of_def
    by (auto simp: Let_def split_beta vm_enter_def frame field_of_def vmcs_fields_set prepared_launched l)
  then have "left_behind e m (Measured 10 vs) m'" "guest_when e vmm mi (Measured 10 vs)" using p(2,3) pw by simp_all
  moreover have "vm_entries (m_vmx m') = vm_entries (m_vmx m) + 2 ^ 20"
    using equipped_counts [OF q f _ p(1)] x unfolding entries_run_def by blast
  ultimately show ?thesis using p(1) s by blast
qed

text \<open>What a measurement needs of the host and the processor to go through; messages do not touch it.\<close>

definition checked_host :: "env \<Rightarrow> mstate \<Rightarrow> bool" where
  "checked_host e m \<longleftrightarrow> kernel_host e m \<and> r_tr (m_cpu m) AND 7 = 0 \<and> makes_checks e"

lemma checked_host_log:
  assumes "log_step ls m m'"
  shows "checked_host e m' = checked_host e m"
proof -
  have "m_mem m' = m_mem m" using assms by (simp add: log_step_def)
  then show ?thesis
    by (simp add: checked_host_def kernel_host_def log_step_machine [OF assms] gdt_tr_base_def load64_def)
qed

text \<open>With an RPL in TR.\<close>

lemma checked_refused:
  assumes q: "equipped e m" and f: "fresh_pages e m" and k: "kernel_host e m"
    and t: "r_tr (m_cpu m) AND 7 \<noteq> 0" and c: "makes_checks e"
  shows "\<exists>m'. measure_vmlatency (platform_of e) e m = Some m' \<and> left_behind e m (Vmlaunch_refused 8) m'"
proof -
  obtain p m' vmm mi where p: "measure_vmlatency (platform_of e) e m = Some m'" "left_behind e m p m'" "guest_when e vmm mi p"
    and l: "launched (m_vmx mi) = launched (m_vmx m)" and on: "vmx_on (m_vmx mi)" "cur_vmcs (m_vmx mi) = Some (vp_pa (vmcs vmm))"
    and s: "session_start (platform_of e) e m vmm mi" and "\<exists>k. vp_pa (vmcs vmm) = port_page_pa e (e_alloc e k)"
    using equipped_reaches_launch [OF q] by blast
  note nl = fresh_pagesD [OF f \<open>\<exists>k. vp_pa (vmcs vmm) = port_page_pa e (e_alloc e k)\<close>]
  let ?pa = "vp_pa (vmcs vmm)" and ?mp = "prepared e vmm mi"
  have "entry_of e ?pa ?mp = Entry_Fail 8"
    using entry_of_checked [OF c s q k run_inv_prepared(1) [OF on, of e]] t by simp
  then have "fst (vm_enter e True ?pa ?mp) = 1" "field_of ?pa (snd (vm_enter e True ?pa ?mp)) VMCS_VM_INSTRUCTION_ERROR = 8"
    using vm_enter_fails [of e ?pa ?mp 8] nl by (simp_all add: entry_of_def prepared_launched l)
  then have "p = Vmlaunch_refused 8"
    using p(3) by (cases p) (auto simp: Let_def split_beta)
  then show ?thesis using p(1,2) by blast
qed

end
