(* ===== verification/Result_Log.thy ===== *)
theory Result_Log
  imports Results Win_Session Checked_Session Lifecycle
begin

text \<open>
  From the module's messages to the data of the plot: what the scripts make of the log of one load is the name of the
  processor and the averages that the module computed; what they make of the log of several loads, or of a load whose
  session failed, is an exception.
\<close>

section \<open>The messages are lines\<close>

lemma hex_chars: "set (digits_base 16 n) \<subseteq> set ''0123456789abcdef''"
proof -
  have "take 16 ''0123456789abcdef'' = ''0123456789abcdef''" by simp
  then show ?thesis using digit_chars(1) [of 16 n] by (simp only: order.refl simp_thms)
qed

text \<open>Neither a line feed nor a bracket, as in the numbers.\<close>

definition clean :: "string \<Rightarrow> bool" where
  "clean s \<longleftrightarrow> CHR 0x0A \<notin> set s \<and> CHR ''['' \<notin> set s"

lemma clean_append [simp]: "clean (a @ b) \<longleftrightarrow> clean a \<and> clean b"
  by (auto simp: clean_def)

lemma clean_subset: "set a \<subseteq> set b \<Longrightarrow> clean b \<Longrightarrow> clean a"
  by (auto simp: clean_def)

lemma clean_digits: "clean (digits_base 10 n)" "clean (digits_base 16 n)"
proof -
  show "clean (digits_base 16 n)" by (rule clean_subset [OF hex_chars]) (simp add: clean_def)
  have "set (digits_base 10 n) \<subseteq> set ''0123456789''"
    using decimal_digits(1) [of n] unfolding list_all_iff is_digit_def by blast
  then show "clean (digits_base 10 n)" by (rule clean_subset) (simp add: clean_def)
qed

lemma clean_replicate: "c \<noteq> CHR 0x0A \<Longrightarrow> c \<noteq> CHR ''['' \<Longrightarrow> clean (replicate k c)"
  by (simp add: clean_def)

lemma clean_hex: "clean (fmt_hex e v)" "clean (fmt_018llx e w)" "clean (fmt_lx e w)"
proof -
  have p: "clean (hex_prefix e k)" for k by (simp add: hex_prefix_def clean_def)
  show h: "clean (fmt_hex e v)" for v using p clean_digits(2) by (simp add: fmt_hex_def)
  show "clean (fmt_018llx e w)"
    using p clean_digits(2) clean_replicate [of "CHR ''0''"] by (simp add: fmt_018llx_def pad_left_def Let_def)
  show "clean (fmt_lx e w)" unfolding fmt_lx_def by (rule h)
qed

lemma clean_fmt_int: "clean (fmt_int i)"
  using clean_digits(1) by (simp add: fmt_int_def) (simp add: clean_def)

lemma clean_spaces: "clean (replicate k (CHR '' ''))"
  by (simp add: clean_replicate)

lemma reported_names: "nm \<in> set (reported_msrs c) \<Longrightarrow> clean (fst nm) \<and> starts ''IA32_'' (fst nm)"
proof -
  have "\<forall>nm \<in> set (cap_msrs @ true_ctl_msrs). clean (fst nm) \<and> starts ''IA32_'' (fst nm)"
    by (simp add: cap_msrs_def true_ctl_msrs_def clean_def)
  then show "nm \<in> set (reported_msrs c) \<Longrightarrow> clean (fst nm) \<and> starts ''IA32_'' (fst nm)"
    by (auto simp: reported_msrs_def clean_def split: if_splits)
qed

text \<open>A message is a clean text and a line feed.\<close>

definition clean_line :: "string \<Rightarrow> bool" where
  "clean_line l \<longleftrightarrow> (\<exists>b. l = b @ nl \<and> clean b)"

lemma clean_lineI: "clean b \<Longrightarrow> clean_line (b @ nl)"
  by (auto simp: clean_line_def)

lemma clean_line_one_line: "clean_line l \<Longrightarrow> one_line l"
  by (auto simp: clean_line_def one_line_def clean_def)

lemma msr_line_clean:
  assumes "nm \<in> set (reported_msrs c)"
  shows "clean_line (msr_line e c' nm)"
proof -
  let ?b = "fmt_s30 (fst nm) @ '' ('' @ fmt_hex e (unat (snd nm)) @ ''): '' @ fmt_018llx e (the (r_msrs c' (snd nm)))"
  have "clean ?b"
    using reported_names [OF assms] clean_hex clean_spaces by (simp add: fmt_s30_def pad_right_def) (simp add: clean_def)
  from clean_lineI [OF this] show ?thesis by (simp add: msr_line_def)
qed

lemma result_line_clean: "clean_line (result_line n v)"
proof -
  have "clean (fmt_6d (BIT n) @ '' - '' @ fmt_lld v)"
    using clean_fmt_int clean_spaces by (simp add: fmt_6d_def fmt_lld_def pad_left_def) (simp add: clean_def)
  from clean_lineI [OF this] show ?thesis by (simp add: result_line_def)
qed

lemma path_messages_clean: "list_all clean_line (path_messages e p)"
proof (cases p)
  case (Vmlaunch_refused n)
  have "clean (''VM instruciton error: '' @ fmt_lx e n)" using clean_hex by (simp add: clean_def)
  then show ?thesis using clean_lineI Vmlaunch_refused by (fastforce simp: clean_line_def clean_def)
next
  case (Measured r vs)
  have "clean (''Error: VM exit is not caused by CPUID. Basic exit reason '' @ fmt_int i)" for i
    using clean_fmt_int [of i] by (simp add: clean_def)
  from clean_lineI [OF this] show ?thesis using Measured by (simp add: exit_report_def Let_def)
qed (auto simp: clean_line_def clean_def)

lemma path_results_clean: "list_all clean_line (path_results p)"
  using result_line_clean by (cases p) (simp_all add: list_all_iff)

section \<open>The files\<close>

text \<open>The output of dmesg: each message of the log with a time stamp.\<close>

definition dmesg :: "(nat \<Rightarrow> string) \<Rightarrow> string list \<Rightarrow> string list" where
  "dmesg stamp ls = map (\<lambda>(k, l). stamp k @ l) (enumerate 0 ls)"

text \<open>A log in which the module has not written yet.\<close>

definition foreign_log :: "(nat \<Rightarrow> string) \<Rightarrow> string list \<Rightarrow> bool" where
  "foreign_log stamp ls \<longleftrightarrow> filter (occurs ''[vmlatency]'') (dmesg stamp ls) = []"

lemma tagged_tag: "tagged l = log_tag @ l" "log_tag = ''[vmlatency]'' @ '' ''"
  by (simp_all add: tagged_def log_tag_def)

lemma get_vmlatency_messages:
  assumes "foreign_log stamp old" and "\<And>k. stamp_ok (stamp k)"
  shows "get_vmlatency_file (dmesg stamp (old @ map tagged ls)) = concat ls"
proof -
  have t: "occurs ''[vmlatency]'' (stamp k @ tagged l)" "cut_first log_tag (strip_stamp (stamp k @ tagged l)) = l" for k l
    using occurs_append [of "''[vmlatency]''" "stamp k" "'' '' @ l"] strip_stamp_tag [OF assms(2), of k l]
    by (simp_all add: tagged_tag(1) cut_tag) (simp add: tagged_tag(2))
  have "filter (occurs ''[vmlatency]'') (map (\<lambda>(k, l). stamp k @ l) (enumerate n (map tagged ls))) =
      map (\<lambda>(k, l). stamp k @ l) (enumerate n (map tagged ls)) \<and>
    concat (map (\<lambda>l. cut_first log_tag (strip_stamp l)) (map (\<lambda>(k, l). stamp k @ l) (enumerate n (map tagged ls)))) = concat ls" for n
    by (induction ls arbitrary: n) (simp_all add: t)
  then show ?thesis
    using assms(1) by (simp add: get_vmlatency_file_def dmesg_def foreign_log_def enumerate_append_eq)
qed

lemma dump_results_messages:
  assumes "filter event_match old = []" and "list_all clean_line ls"
  shows "dump_results (old @ map tagged ls) = concat (map (\<lambda>l. butlast l @ [CHR 0x0D, CHR 0x0A]) ls)"
proof -
  have t: "event_match (tagged l)" for l
    using occurs_append [of "''vmlatency]''" "''[''" "'' '' @ l"] by (intro event_matchI) (simp add: tagged_def)
  have c: "cut_all nl (cut_all log_tag (tagged l)) = butlast l" if "clean_line l" for l
  proof -
    obtain b where b: "l = b @ nl" "clean b" using \<open>clean_line l\<close> by (auto simp: clean_line_def)
    have "CHR ''['' \<notin> set l" using b by (simp add: clean_def)
    then have "cut_all log_tag (tagged l) = l" by (simp add: tagged_tag(1) cut_tag) (simp add: log_tag_def no_occurrence(2))
    moreover have "cut_all nl (b @ nl) = b" using b(2) cut_all_append [of "CHR 0x0A" b "[]" nl] by (simp add: clean_def)
    ultimately show ?thesis by (simp add: b(1))
  qed
  have "filter event_match (map tagged ls) = map tagged ls" using t by (simp add: filter_True)
  then show ?thesis using assms c by (simp add: dump_results_def list_all_iff cong: map_cong)
qed

text \<open>Reading back a report and a result, with either end of line.\<close>

lemma latencies_skip:
  assumes "list_all (starts ''IA32_'') ls"
  shows "latencies (ls @ ls') = latencies ls'"
  using assms by (induction ls) (simp_all del: starts_Cons)

lemma latencies_results:
  assumes "line_end x" and "\<And>k. k \<in> set ks \<Longrightarrow> k < 20 \<and> vs ! k < 2 ^ 63"
  shows "latencies (map (\<lambda>k. butlast (result_line k (vs ! k)) @ x) ks) = Some (map (\<lambda>k. int (unat (vs ! k))) ks)"
  using assms(2)
proof (induction ks)
  case (Cons k ks)
  have k: "k < 20" "vs ! k < 2 ^ 63" using Cons.prems by simp_all
  obtain f where "second_field (butlast (result_line k (vs ! k)) @ x) = Some f" "py_int f = Some (int (unat (vs ! k)))"
    using result_line_read(2) [OF k assms(1)] by (auto simp: bind_Some_iff)
  moreover have "latencies (map (\<lambda>k. butlast (result_line k (vs ! k)) @ x) ks) = Some (map (\<lambda>k. int (unat (vs ! k))) ks)"
    using Cons by simp
  ultimately show ?case
    using result_line_read(1) [OF k assms(1)] by (simp only: list.map latencies.simps if_False bind.bind_lunit)
qed simp

lemma map_nth_all: "map (\<lambda>k. f (vs ! k)) [0..<length vs] = map f vs"
  by (rule nth_equalityI) simp_all

lemma starts_extend: "starts p a \<Longrightarrow> starts p (a @ b)"
  unfolding starts_def by (metis append_take_drop_id append_assoc append_eq_conv_conj)

lemma read_report:
  assumes x: "line_end x" and s: "c_string (brand_string e) = Some s" "CHR 0x0A \<notin> set s"
    and v: "length vs = 20" "\<And>k. k < 20 \<Longrightarrow> vs ! k < 2 ^ 63"
  shows "read_file (concat (map (\<lambda>l. butlast l @ x) (info_lines e m @ map (\<lambda>k. result_line k (vs ! k)) [0..<20]))) =
    Some (s @ butlast x, map (\<lambda>v. int (unat v)) vs)"
proof -
  let ?c = "m_cpu m" and ?f = "\<lambda>l. butlast l @ x"
  let ?msrs = "map ?f (map (msr_line e ?c) (reported_msrs ?c))" and ?res = "map ?f (map (\<lambda>k. result_line k (vs ! k)) [0..<20])"
  have eol: "one_line (b @ x)" if "CHR 0x0A \<notin> set b" for b
    using one_lineI [of b] one_lineI [of "b @ [CHR 0x0D]"] that x by (auto simp: line_end_def)
  have b: "one_line (butlast l @ x)" if "clean_line l" for l
    using eol [of "butlast l"] one_line_butlast [OF clean_line_one_line [OF that]] by blast
  have m: "starts ''IA32_'' (butlast (msr_line e ?c nm) @ x)" if "nm \<in> set (reported_msrs ?c)" for nm
    using starts_extend [OF conjunct2 [OF reported_names [OF that]]]
    by (simp add: msr_line_def fmt_s30_def pad_right_def butlast_append del: starts_Cons)
  have lines: "map ?f (info_lines e m @ map (\<lambda>k. result_line k (vs ! k)) [0..<20]) = (s @ x) # ?msrs @ ?res"
    by (simp add: info_lines_def s(1) butlast_append)
  have "list_all one_line ((s @ x) # ?msrs @ ?res)"
    using eol [OF s(2)] b msr_line_clean result_line_clean by (auto simp: list_all_iff)
  from readlines_concat [OF this] have r: "readlines (concat ((s @ x) # ?msrs @ ?res)) = (s @ x) # ?msrs @ ?res" .
  have "latencies (?msrs @ ?res) = latencies ?res"
    by (rule latencies_skip) (use m in \<open>auto simp: list_all_iff\<close>)
  also have "\<dots> = Some (map (\<lambda>k. int (unat (vs ! k))) [0..<20])"
    using latencies_results [OF x, of "[0..<20]" vs] v(2) by (simp add: comp_def)
  finally have l: "latencies (?msrs @ ?res) = Some (map (\<lambda>v. int (unat v)) vs)" by (simp only: map_nth_all [of "\<lambda>v. int (unat v)" vs, unfolded v(1)])
  have "butlast (s @ x) = s @ butlast x" using x by (auto simp: line_end_def butlast_append)
  then show ?thesis unfolding lines read_file_def r using l by simp
qed

section \<open>One load\<close>

text \<open>A host that is equipped stays so while messages are logged, if the kernel keeps handing out different pages.\<close>

lemma equipped_log:
  assumes "equipped e m" and "\<And>c. distinct_pages e c" and "log_step ls m m1"
  shows "equipped e m1"
  using assms(1,2) log_step_machine [OF assms(3)] by (simp add: equipped_def)

lemma equipped_good_host:
  assumes "equipped e m" and "c_string (brand_string e) = Some s"
  shows "good_host e m"
  using assms by (auto simp: equipped_def good_host_def vmx_ready_def split: option.splits)

lemma vmx_ready_answer:
  assumes "has_vmx e" and "vmx_ready m"
  shows "vmx_answer e m = (True, [])"
  using assms by (auto simp: vmx_answer_def vmx_ready_def split: option.splits)

text \<open>Where nothing fails, Linux and Mac OS log the report and the result and nothing else.\<close>

lemma gnu_load_measured:
  assumes t: "e_target e \<noteq> Windows" and q: "equipped e m" "\<And>c. distinct_pages e c" "has_vmx e"
    and f: "fresh_pages e m" and g: "checked_host e m" and s: "c_string (brand_string e) = Some s"
  shows "\<exists>vs m' m2 vmm mi. load_module e m = Some (True, m') \<and> guest_when e vmm mi (Measured 10 vs) \<and>
    log_step (info_lines e m) m m2 \<and> measure_vmlatency (platform_of e) e m2 = Some m' \<and> session_start (platform_of e) e m2 vmm mi \<and>
    klog m' = klog m @ map tagged (info_lines e m @ map (\<lambda>k. result_line k (vs ! k)) [0..<20])"
proof -
  have h: "good_host e m" "vmx_ready m" using equipped_good_host [OF q(1) s] q(1) by (simp_all add: equipped_def)
  obtain m1 where m1: "vmx_enabled (platform_of e) e m = Some (True, m1)" and l1: "log_step [] m m1"
    using port.vmx_enabled_answer [of e m] h q(3) vmx_ready_answer [OF q(3) h(2)] by (auto simp: good_host_def)
  note c1 = log_step_machine [OF l1]
  have "vmx_msrs_present (m_cpu m1)" using q(1) c1 by (simp add: equipped_def)
  then obtain m2 where m2: "print_vmx_info (platform_of e) e m1 = Some m2" and l2: "log_step (info_lines e m) m1 m2"
    using port.print_vmx_info_log [OF _ s, of m1 e] c1 by (auto simp: info_lines_def s)
  have e2: "equipped e m2" by (rule equipped_log [OF equipped_log [OF q(1,2) l1] q(2) l2])
  have f2: "fresh_pages e m2" using f c1 log_step_machine [OF l2] by (simp add: fresh_pages_def)
  obtain vs m' vmm mi where m': "measure_vmlatency (platform_of e) e m2 = Some m'" "left_behind e m2 (Measured 10 vs) m'"
    "guest_when e vmm mi (Measured 10 vs)" "session_start (platform_of e) e m2 vmm mi"
    using checked_measured [OF e2 f2] g checked_host_log [OF l1] checked_host_log [OF l2] unfolding checked_host_def by blast
  have i: "vmlatency_init (platform_of e) e m = Some (0, m')" using m1 m2 m'(1) by (simp add: vmlatency_init_def)
  have "load_module e m = Some (True, m')"
    using i t by (cases "e_target e") (simp_all add: load_module_def vmlatency_start_init KERN_SUCCESS_def)
  moreover have "klog m' = klog m @ map tagged (info_lines e m @ map (\<lambda>k. result_line k (vs ! k)) [0..<20])"
    using m'(2) log_step_ledgers(4) [OF l1] log_step_ledgers(4) [OF l2]
    by (simp add: left_behind_def exit_report_cpuid VMX_ITERATIONS_def)
  ultimately show ?thesis using m'(1,3,4) log_step_trans [OF l1 l2] by (simp only: append_Nil) blast
qed

lemma average_readable: "unat v \<le> hi \<Longrightarrow> hi < 2 ^ 44 \<Longrightarrow> v < (2 ^ 63 :: u64)"
  by (simp add: word_less_nat_alt)

lemma gnu_log_read:
  assumes t: "e_target e \<noteq> Windows" and q: "equipped e m" "\<And>c. distinct_pages e c" "has_vmx e"
    and f: "fresh_pages e m" and g: "checked_host e m"
    and s: "c_string (brand_string e) = Some s" "CHR 0x0A \<notin> set s"
    and l: "foreign_log stamp (klog m)" "\<And>k. stamp_ok (stamp k)"
    and c: "\<And>m. lo \<le> unat (e_cycles e m) \<and> unat (e_cycles e m) \<le> hi" "hi < 2 ^ 44"
  shows "\<exists>vs m' m2 vmm mi mp ml m7 m8. load_module e m = Some (True, m') \<and> length vs = 20 \<and>
    (\<forall>k < 20. lo \<le> unat (vs ! k) \<and> unat (vs ! k) \<le> hi) \<and>
    log_step (info_lines e m) m m2 \<and> measure_vmlatency (platform_of e) e m2 = Some m' \<and> session_start (platform_of e) e m2 vmm mi \<and>
    initialize_vmcs e vmm mi = Some mp \<and> do_vmlaunch e mp = Some (0, ml) \<and> log_step [] ml m7 \<and>
    measure_loop e 0 (replicate 20 None) m7 = Some (map Some vs, m8) \<and>
    (\<forall>k < 20. unat (vs ! k) =
      total_cycles e (vp_pa (vmcs vmm)) (2 ^ k) (resume_iter e (vp_pa (vmcs vmm)) (2 ^ k - 1) m7) div 2 ^ k) \<and>
    klog m' = klog m @ map tagged (info_lines e m @ map (\<lambda>k. result_line k (vs ! k)) [0..<20]) \<and>
    read_file (get_vmlatency_file (dmesg stamp (klog m'))) = Some (s, map (\<lambda>v. int (unat v)) vs)"
proof -
  obtain vs m' m2 vmm mi where m': "load_module e m = Some (True, m')" "guest_when e vmm mi (Measured 10 vs)"
    "klog m' = klog m @ map tagged (info_lines e m @ map (\<lambda>k. result_line k (vs ! k)) [0..<20])"
    and r: "log_step (info_lines e m) m m2" "measure_vmlatency (platform_of e) e m2 = Some m'" "session_start (platform_of e) e m2 vmm mi"
    using gnu_load_measured [OF t q f g s(1)] by blast
  have "host_msrs_present (m_cpu mi)"
    using port_pages.session_start_cpu [OF r(3)] q(1) host_msrs_present_cong [of "m_cpu mi" "m_cpu m"] log_step_machine(1) [OF r(1)]
    by (auto simp: equipped_def)
  note av = measured_averages [OF m'(2) r(3) this c, unfolded exit_report_cpuid VMX_ITERATIONS_def]
  have v: "length vs = 20" "\<forall>k < 20. lo \<le> unat (vs ! k) \<and> unat (vs ! k) \<le> hi"
    using guest_when_stats [OF m'(2)] guest_when_bounds [OF m'(2) c] by (simp_all add: VMX_ITERATIONS_def)
  let ?ls = "info_lines e m @ map (\<lambda>k. result_line k (vs ! k)) [0..<20]"
  have "butlast b @ nl = b" if "b \<in> set ?ls" for b
    using that one_line_butlast [OF one_lineI [OF s(2)]]
      one_line_butlast [OF clean_line_one_line [OF msr_line_clean]] one_line_butlast [OF clean_line_one_line [OF result_line_clean]]
    by (auto simp: info_lines_def s(1))
  then have u: "map (\<lambda>b. butlast b @ nl) ?ls = ?ls" by (simp only: map_idI)
  have g: "get_vmlatency_file (dmesg stamp (klog m')) = concat ?ls"
    unfolding m'(3) by (rule get_vmlatency_messages [OF l])
  have "read_file (concat (map (\<lambda>b. butlast b @ nl) ?ls)) = Some (s @ butlast nl, map (\<lambda>v. int (unat v)) vs)"
    by (rule read_report [OF _ s v(1)]) (use v(2) c(2) average_readable in \<open>auto simp: line_end_def\<close>)
  then have "read_file (get_vmlatency_file (dmesg stamp (klog m'))) = Some (s, map (\<lambda>v. int (unat v)) vs)"
    unfolding u g butlast.simps by (simp only: if_True append_Nil2 simp_thms)
  then show ?thesis using m'(1,3) v r av by blast
qed

section \<open>Windows\<close>

text \<open>The lines of the result are those of the last twenty messages, so the way of a measurement is in its log.\<close>

lemma way_of_log:
  assumes "map tagged (way_messages e w @ way_results w) = map tagged (exit_report r @ map (\<lambda>k. result_line k (vs ! k)) [0..<20])"
  shows "way_results w = map (\<lambda>k. result_line k (vs ! k)) [0..<20]"
proof -
  have "inj tagged" by (simp add: inj_def tagged_def)
  then have l: "way_messages e w @ way_results w = exit_report r @ map (\<lambda>k. result_line k (vs ! k)) [0..<20]"
    using assms by (simp only: inj_map_eq_map)
  then have n: "length (way_messages e w @ way_results w) \<ge> 20" by simp
  show ?thesis
  proof (cases "\<exists>r' vs'. w = Some (Measured r' vs')")
    case True
    then obtain r' vs' where w: "w = Some (Measured r' vs')" by blast
    have "length (way_results w) = length (map (\<lambda>k. result_line k (vs ! k)) [0..<20])" by (simp add: w VMX_ITERATIONS_def)
    then show ?thesis using l by (metis append_eq_append_conv)
  next
    case False
    then have "length (way_messages e w @ way_results w) \<le> 2"
      by (cases w; cases "the w") auto
    then show ?thesis using n by simp
  qed
qed

lemma driver_measured:
  assumes q: "equipped e m" "\<And>c. distinct_pages e c" and f: "fresh_pages e m"
    and a: "\<And>m n. enters_guest e m \<Longrightarrow> e_entry e m \<noteq> Entry_Fail n" and s: "c_string (brand_string e) = Some s"
    and d: "e_device e (os_calls (m_os m)) = (st, d)" "nt_success st"
  shows "\<exists>r vs m' vmm m5. driver_entry (platform_of e) e m = Some (st, m') \<and> guest_when e vmm m5 (Measured r vs) \<and>
    klog m' = klog m @ map tagged (info_lines e m @ exit_report r @ map (\<lambda>k. result_line k (vs ! k)) [0..<20])"
proof -
  let ?m = "device_created d m"
  have e0: "equipped e ?m"
    using q good_host_cong(2) [of ?m m] by (simp add: equipped_def device_created_frame)
  have "vmx_msrs_present (m_cpu ?m)" using e0 by (simp add: equipped_def)
  from port.print_vmx_info_log [OF this s, of e]
  obtain m1 where m1: "print_vmx_info (platform_of e) e ?m = Some m1" and l: "log_step (info_lines e m) ?m m1"
    by (auto simp: info_lines_def s device_created_frame)
  have e1: "equipped e m1" by (rule equipped_log [OF e0 q(2) l])
  have f1: "fresh_pages e m1" using f log_step_machine(2) [OF l] by (simp add: fresh_pages_def device_created_frame)
  obtain r vs m' vmm m5 where m': "measure_vmlatency (platform_of e) e m1 = Some m'" "left_behind e m1 (Measured r vs) m'"
    "guest_when e vmm m5 (Measured r vs)"
    using accepted_measures [OF e1 a f1] by blast
  have "driver_entry (platform_of e) e m = Some (st, m')"
    using driver_entry_created [OF d, of "platform_of e"] m1 m'(1) by simp
  moreover have "klog m' = klog m @ map tagged (info_lines e m @ exit_report r @ map (\<lambda>k. result_line k (vs ! k)) [0..<20])"
    using m'(2) log_step_ledgers(4) [OF l] by (simp add: left_behind_def VMX_ITERATIONS_def device_created_def klog_def)
  ultimately show ?thesis using m'(3) by blast
qed

lemma windows_log_read:
  assumes t: "e_target e = Windows" and q: "equipped e m" "\<And>c. distinct_pages e c" "has_vmx e"
    and f: "fresh_pages e m" and a: "\<And>m n. enters_guest e m \<Longrightarrow> e_entry e m \<noteq> Entry_Fail n"
    and s: "c_string (brand_string e) = Some s" "clean s"
    and d: "e_device e (os_calls (m_os m)) = (st, d)" "nt_success st"
    and w: "evlog_works e" "96 \<le> e_max_msg_ch e" "at_passive m" "filter event_match (evlog m) = []"
    and c: "\<And>m. lo \<le> unat (e_cycles e m) \<and> unat (e_cycles e m) \<le> hi" "hi < 2 ^ 44"
  shows "\<exists>r vs m'. driver_entry (platform_of e) e m = Some (st, m') \<and> length vs = 20 \<and>
    (\<forall>k < 20. lo \<le> unat (vs ! k) \<and> unat (vs ! k) \<le> hi) \<and>
    klog m' = klog m @ map tagged (info_lines e m @ exit_report r @ map (\<lambda>k. result_line k (vs ! k)) [0..<20]) \<and>
    evlog m' = evlog m @ map tagged (info_lines e m @ map (\<lambda>k. result_line k (vs ! k)) [0..<20]) \<and>
    read_file (dump_results (evlog m')) = Some (s @ [CHR 0x0D], map (\<lambda>v. int (unat v)) vs)"
proof -
  obtain r vs m' vmm m5 where m': "driver_entry (platform_of e) e m = Some (st, m')" "guest_when e vmm m5 (Measured r vs)"
    "klog m' = klog m @ map tagged (info_lines e m @ exit_report r @ map (\<lambda>k. result_line k (vs ! k)) [0..<20])"
    using driver_measured [OF q(1,2) f a s(1) d] by blast
  have v: "length vs = 20" "\<forall>k < 20. lo \<le> unat (vs ! k) \<and> unat (vs ! k) \<le> hi"
    using guest_when_stats [OF m'(2)] guest_when_bounds [OF m'(2) c] by (simp_all add: VMX_ITERATIONS_def)
  have h: "good_host e m" "vmx_ready m" using equipped_good_host [OF q(1) s(1)] q(1) by (simp_all add: equipped_def)
  obtain w' where w': "klog m' = klog m @ map tagged (info_lines e m @ way_messages e w' @ way_results w')"
    "evlog m' = evlog m @ map tagged (info_lines e m @ way_results w')"
    using win_driver_logs [OF t h(1) q(3) h(2) d w(1-3)] m'(1) by auto
  have "map tagged (way_messages e w' @ way_results w') = map tagged (exit_report r @ map (\<lambda>k. result_line k (vs ! k)) [0..<20])"
    using w'(1) m'(3) by (simp only: map_append append_assoc same_append_eq)
  from way_of_log [OF this] have e: "evlog m' = evlog m @ map tagged (info_lines e m @ map (\<lambda>k. result_line k (vs ! k)) [0..<20])"
    using w'(2) by simp
  have "list_all clean_line (info_lines e m @ map (\<lambda>k. result_line k (vs ! k)) [0..<20])"
    using clean_lineI [OF s(2)] msr_line_clean result_line_clean by (auto simp: info_lines_def s(1) list_all_iff)
  from dump_results_messages [OF w(4) this]
  have "read_file (dump_results (evlog m')) = Some (s @ butlast [CHR 0x0D, CHR 0x0A], map (\<lambda>v. int (unat v)) vs)"
    unfolding e using read_report [OF _ s(1) _ v(1), of "[CHR 0x0D, CHR 0x0A]" m] s(2) v(2) c(2) average_readable
    by (simp only: line_end_def clean_def) auto
  then show ?thesis using m'(1,3) v e by auto
qed

section \<open>Several loads\<close>

text \<open>A line that is neither of an MSR nor of a result makes the script raise an exception.\<close>

lemma latencies_bad:
  assumes "l \<in> set ls" and "\<not> starts ''IA32_'' l" and "second_field l = None"
  shows "latencies ls = None"
  using assms(1)
proof (induction ls)
  case (Cons l' ls)
  show ?case
  proof (cases "l = l'")
    case True
    then show ?thesis using assms(2,3) by (simp del: starts_Cons)
  next
    case False
    then have "latencies ls = None" using Cons by simp
    then show ?thesis by (auto simp: bind_Some_iff simp del: starts_Cons split: option.splits)
  qed
qed simp

lemma read_file_bad:
  assumes "list_all one_line (l0 # ls)" and "l \<in> set ls" and "\<not> starts ''IA32_'' l" and "second_field l = None"
  shows "read_file (concat (l0 # ls)) = None"
  unfolding read_file_def readlines_concat [OF assms(1)] using latencies_bad [OF assms(2-4)] by simp

text \<open>The loop of \<^verbatim>\<open>get_vmlatency.sh\<close>; a module that did not load is not unloaded.\<close>

fun script_loads :: "env \<Rightarrow> nat \<Rightarrow> mstate \<Rightarrow> mstate option" where
  "script_loads e 0 m = Some m"
| "script_loads e (Suc n) m = do {
     (l, m) \<leftarrow> load_module e m;
     m \<leftarrow> (if l then unload_module e m else Some m);
     script_loads e n m
   }"

text \<open>A load on a host with VMX logs a block of lines that starts with the name of the processor.\<close>

lemma load_block:
  assumes h: "loadable e m" and t: "e_target e \<noteq> Windows" and v: "fst (vmx_answer e m)"
    and s: "c_string (brand_string e) = Some s"
  shows "\<exists>ls m'. load_module e m = Some (True, m') \<and> unload_module e m' = Some m' \<and> load_effect 4 m m' \<and>
    klog m' = klog m @ map tagged ((s @ nl) # ls) \<and> list_all clean_line ls"
proof -
  obtain m' where m': "vmlatency_init (platform_of e) e m = Some (0, m')" "measured_after e (info_lines e m) m m'"
    using vmlatency_init_outcome [of e m] h v by (auto simp: loadable_def)
  have ld: "load_module e m = Some (True, m')" "unload_module e m' = Some m'"
    using m'(1) t by (cases "e_target e"; simp add: load_module_def unload_module_def vmlatency_start_init KERN_SUCCESS_def
        vmlatency_exit_def vmlatency_stop_def)+
  have "\<exists>ls. klog m' = klog m @ map tagged (info_lines e m @ ls) \<and> list_all clean_line ls"
  proof -
    obtain m1 where l: "log_step (info_lines e m) m m1" and c: "klog m' = klog m1 \<or> (\<exists>p. left_behind e m1 p m')"
      using m'(2) by (auto simp: measured_after_def)
    note k = log_step_ledgers(4) [OF l]
    from c show ?thesis
    proof
      assume "klog m' = klog m1"
      then show ?thesis using k by (intro exI [of _ "[]"]) simp
    next
      assume "\<exists>p. left_behind e m1 p m'"
      then obtain p where "left_behind e m1 p m'" by blast
      then show ?thesis using k path_messages_clean [of e p] path_results_clean [of p]
        by (intro exI [of _ "path_messages e p @ path_results p"]) (simp add: left_behind_def)
    qed
  qed
  then obtain ls where ls: "klog m' = klog m @ map tagged (info_lines e m @ ls)" "list_all clean_line ls" by blast
  have "list_all clean_line (map (msr_line e (m_cpu m)) (reported_msrs (m_cpu m)) @ ls)"
    using msr_line_clean ls(2) by (auto simp: list_all_iff)
  moreover have "klog m' = klog m @ map tagged ((s @ nl) # map (msr_line e (m_cpu m)) (reported_msrs (m_cpu m)) @ ls)"
    using ls(1) by (simp add: info_lines_def s)
  ultimately show ?thesis using measured_after_effect [OF m'(2)] ld by blast
qed

lemma vmx_answer_effect:
  assumes "load_effect k m m'"
  shows "vmx_answer e m' = vmx_answer e m"
proof -
  have "kept_cpu (m_cpu m) (m_cpu m')" using assms by (simp add: load_effect_def)
  from kept_cpu_msrs(3) [OF this] show ?thesis by (simp add: vmx_answer_def)
qed

lemma script_loads_log:
  assumes "loadable e m" and "e_target e \<noteq> Windows" and "fst (vmx_answer e m)" and "c_string (brand_string e) = Some s"
  shows "\<exists>bs m'. script_loads e n m = Some m' \<and> length bs = n \<and> list_all (list_all clean_line) bs \<and>
    klog m' = klog m @ map tagged (concat (map (Cons (s @ nl)) bs))"
  using assms(1,3)
proof (induction n arbitrary: m)
  case (Suc n)
  obtain ls m1 where m1: "load_module e m = Some (True, m1)" "unload_module e m1 = Some m1" "load_effect 4 m m1"
    "klog m1 = klog m @ map tagged ((s @ nl) # ls)" "list_all clean_line ls"
    using load_block [OF Suc.prems(1) assms(2) Suc.prems(2) assms(4)] by blast
  obtain bs m' where m': "script_loads e n m1 = Some m'" "length bs = n" "list_all (list_all clean_line) bs"
    "klog m' = klog m1 @ map tagged (concat (map (Cons (s @ nl)) bs))"
    using Suc.IH [OF loadable_effect [OF Suc.prems(1) m1(3)]] Suc.prems(2) vmx_answer_effect [OF m1(3)] by auto
  show ?case using m1 m' by (intro exI [of _ "ls # bs"] exI [of _ m']) simp
qed simp

text \<open>With the second block the file cannot be read.\<close>

lemma script_loads_unread:
  assumes h: "loadable e m" "e_target e \<noteq> Windows" "fst (vmx_answer e m)"
    and s: "c_string (brand_string e) = Some s" "CHR 0x0A \<notin> set s" "\<not> starts ''IA32_'' (s @ nl)" "cut_at '' - '' (s @ nl) = None"
    and l: "foreign_log stamp (klog m)" "\<And>k. stamp_ok (stamp k)" and n: "2 \<le> n"
  shows "\<exists>m'. script_loads e n m = Some m' \<and> read_file (get_vmlatency_file (dmesg stamp (klog m'))) = None"
proof -
  obtain bs m' where m': "script_loads e n m = Some m'" "length bs = n" "list_all (list_all clean_line) bs"
    "klog m' = klog m @ map tagged (concat (map (Cons (s @ nl)) bs))"
    using script_loads_log [OF h s(1)] by blast
  obtain b1 b2 bs' where bs: "bs = b1 # b2 # bs'"
    using n m'(2) by (cases bs; cases "tl bs") auto
  let ?ls = "concat (map (Cons (s @ nl)) bs)" and ?r = "b1 @ (s @ nl) # b2 @ concat (map (Cons (s @ nl)) bs')"
  have c: "?ls = (s @ nl) # ?r" by (simp add: bs)
  have "list_all one_line ?ls"
    using m'(3) one_lineI [OF s(2)] clean_line_one_line by (auto simp: list_all_iff)
  then have "list_all one_line ((s @ nl) # ?r)" unfolding c .
  from read_file_bad [OF this, of "s @ nl"] have "read_file (concat ?ls) = None"
    unfolding c using s(3,4) by (simp add: second_field_def)
  moreover have "get_vmlatency_file (dmesg stamp (klog m')) = concat ?ls"
    unfolding m'(4) by (rule get_vmlatency_messages [OF l])
  ultimately show ?thesis using m'(1) by auto
qed

end
