(* ===== verification/Nested_Session.thy ===== *)
theory Nested_Session
  imports Modules
begin

text \<open>
  A measurement on a processor that another monitor has already put into VMX operation.  What happens depends on the
  target and on the other monitor: the GNU branch of \<^verbatim>\<open>__vmxon\<close> reads a VMfailValid as a success, so with a current VMCS
  the session takes place and \<^verbatim>\<open>do_vmxoff\<close> ends the other monitor's operation; a VMfailInvalid, and every failure
  on Windows, is reported and leaves the other monitor in operation.
\<close>

section \<open>The host\<close>

definition nested_host :: "env \<Rightarrow> mstate \<Rightarrow> bool" where
  "nested_host e m \<longleftrightarrow>
     kernel_memory e \<and> good_pages e (port_page_pa e) \<and> distinct_pages e (os_calls (m_os m)) \<and> locks_available e \<and>
     vmx_msrs_present (m_cpu m) \<and> host_msrs_present (m_cpu m) \<and> plain_revision (m_cpu m) \<and>
     vmx_on (m_vmx m) \<and> r_cr4 (m_cpu m) AND CR4_VMXE \<noteq> 0 \<and>
     (\<forall>k. port_page_pa e (e_alloc e k) \<noteq> vmxon_ptr (m_vmx m))"

text \<open>
  Up to VMXON: the pages are obtained and have their revision identifiers, and interrupts are off in \<open>m3\<close>.
\<close>

definition at_vmxon :: "env \<Rightarrow> mstate \<Rightarrow> vm_monitor \<Rightarrow> mstate \<Rightarrow> irq_flags \<Rightarrow> mstate \<Rightarrow> bool" where
  "at_vmxon e m vmm m1 irq m3 \<longleftrightarrow>
     vmlatency_preempt_disable (platform_of e) irq_flags_uninit (regions_set e vmm m1) = Some (irq, m3) \<and>
     ledger_plus m (vmm_handles vmm) m3 \<and> (\<exists>y. m_cpu m3 = (m_cpu m)\<lparr>r_rflags := y\<rparr>) \<and> m_vmx m3 = m_vmx m \<and>
     klog m3 = klog m \<and> region_ok e (vp_pa (vmcs vmm)) m3 \<and> vp_pa (vmcs vmm) \<noteq> vmxon_ptr (m_vmx m) \<and>
     (\<exists>k. vp_pa (vmcs vmm) = port_page_pa e (e_alloc e k)) \<and>
     irq_ledger (regions_set e vmm m1) = irq_ledger m \<and> int_enabled (regions_set e vmm m1) = int_enabled m"

text \<open>The rest of the session.\<close>

definition from_vmxon :: "env \<Rightarrow> u64 option list \<Rightarrow> vm_monitor \<Rightarrow> irq_flags \<Rightarrow> mstate \<Rightarrow> (bool \<times> u64 option list \<times> mstate) option" where
  "from_vmxon e stats vmm irq m = do {
     (r, vmm, m) \<leftarrow> do_vmxon (platform_of e) e vmm m;
     if r \<noteq> 0 then do {
       m \<leftarrow> measure_out2 (platform_of e) vmm 5 irq m;
       Some (False, stats, m)
     }
     else do {
       (r, m) \<leftarrow> do_vmptrld (platform_of e) e vmm m;
       if r \<noteq> 0 then do {
         m \<leftarrow> measure_out3 (platform_of e) vmm 5 irq m;
         Some (False, stats, m)
       }
       else measure_guest (platform_of e) e vmm 5 irq stats m
     }
   }"

lemma nested_prepares:
  assumes h: "nested_host e m"
  shows "\<exists>vmm m1 irq m3. at_vmxon e m vmm m1 irq m3 \<and>
    measure_vmlatency (platform_of e) e m = do {
      (b, stats, m) \<leftarrow> from_vmxon e (replicate VMX_ITERATIONS None) vmm irq m3;
      if b then print_stats (platform_of e) 0 stats m else Some m
    }"
proof -
  note n = h [unfolded nested_host_def]
  obtain v vmm m1 irq m3 where v: "cache_vmx_capabilities e vm_monitor_zero m = Some v"
    and a: "allocate_memory (platform_of e) v m = Some (5, vmm, m1)"
    and d: "vmlatency_preempt_disable (platform_of e) irq_flags_uninit (regions_set e vmm m1) = Some (irq, m3)"
    and k: "m_vmx m3 = m_vmx m" "region_ok e (vp_pa (vmcs vmm)) m3" "\<exists>k. vp_pa (vmcs vmm) = port_page_pa e (e_alloc e k)"
    using port_pages.session_prepares [of e m, OF _ _ _ _ port_disable_total] n by blast
  have o: "ledger_plus m (vmm_handles vmm) m1" "os_step m m1" "klog m1 = klog m"
    using port.allocate_memory_outcome [of e v m] a by (auto simp: vmm_handles_def)
  have c: "m_cpu m1 = m_cpu m" "irq_ledger m1 = irq_ledger m" "dev_ledger m1 = dev_ledger m"
    using o(2) by (simp_all add: os_step_def)
  obtain b where b: "r_msrs (m_cpu m1) IA32_VMX_BASIC = Some b"
    using n c by (auto simp: vmx_msrs_present_def cap_msrs_def)
  obtain mx where s: "vmxon_setup_revision_id e vmm m1 = Some mx" "vmcs_setup_revision_id e vmm mx = Some (regions_set e vmm m1)"
    using regions_set_steps [OF b, of e vmm] by (auto simp: bind_Some_iff)
  obtain y where y: "m_cpu m3 = (m_cpu m)\<lparr>r_rflags := y\<rparr>" "page_ledger m3 = page_ledger m1" "klog m3 = klog m"
    "dev_ledger m3 = dev_ledger m"
    using port.disable_ok [OF d] c o by (auto simp: frame ledger_defs)
  have i: "irq_ledger (regions_set e vmm m1) = irq_ledger m" "int_enabled (regions_set e vmm m1) = int_enabled m"
    using c by (simp_all add: frame irq_ledger_def int_enabled_def)
  have l: "ledger_plus m (vmm_handles vmm) m3" using o(1) y(2) by (simp add: ledger_plus_def)
  have "measure_vmx (platform_of e) e vmm 5 stats m1 = from_vmxon e stats vmm irq m3" for stats
    by (simp add: measure_vmx_def s d from_vmxon_def)
  then have "measure_vmlatency (platform_of e) e m = Option.bind (from_vmxon e (replicate VMX_ITERATIONS None) vmm irq m3)
      (\<lambda>(b, stats, m). if b then print_stats (platform_of e) 0 stats m else Some m)"
    using v a by (simp add: measure_vmlatency_def)
  moreover have "vp_pa (vmcs vmm) \<noteq> vmxon_ptr (m_vmx m)" "region_ok e (vp_pa (vmcs vmm)) m3"
    using k n by auto
  ultimately show ?thesis using d l y k(1,3) i unfolding at_vmxon_def by blast
qed

section \<open>The session takes place\<close>

lemma nested_vmptrld:
  assumes "vmx_on (m_vmx m)" and "region_ok e (vp_pa (vmcs vmm)) m" and "vp_pa (vmcs vmm) \<noteq> vmxon_ptr (m_vmx m)"
  shows "do_vmptrld pf e vmm (set_vmcs_field q f x (with_vmxe m)) =
    Some (0, load_vmcs (vp_pa (vmcs vmm)) (set_vmcs_field q f x (with_vmxe m)))"
  using assms
  by (simp add: do_vmptrld_insn insn_vmptrld_def frame region_ok_def revision_ok_def phys32_def cpu_revision_def load_vmcs_def)

lemma nested_session:
  assumes h: "nested_host e m" and q: "cur_vmcs (m_vmx m) = Some q" and g: "\<not> win32 e"
    and a: "\<And>m n. enters_guest e m \<Longrightarrow> e_entry e m \<noteq> Entry_Fail n" and f: "fresh_pages e m"
  shows "\<exists>r vs m'. measure_vmlatency (platform_of e) e m = Some m' \<and> length vs = VMX_ITERATIONS \<and>
    klog m' = klog m @ map tagged (exit_report r @ map (\<lambda>k. result_line k (vs ! k)) [0..<VMX_ITERATIONS]) \<and>
    \<not> vmx_on (m_vmx m') \<and> r_cr4 (m_cpu m') = r_cr4 (m_cpu m) \<and> irq_ledger m' = irq_ledger m \<and>
    int_enabled m' = int_enabled m \<and> page_ledger m' = page_ledger m"
proof -
  let ?n = "replicate VMX_ITERATIONS None :: u64 option list"
  obtain vmm m1 irq m3 where st: "at_vmxon e m vmm m1 irq m3"
    and run: "measure_vmlatency (platform_of e) e m = Option.bind (from_vmxon e ?n vmm irq m3)
      (\<lambda>(b, stats, m). if b then print_stats (platform_of e) 0 stats m else Some m)"
    using nested_prepares [OF h] by blast
  note s = st [unfolded at_vmxon_def]
  have d: "vmlatency_preempt_disable (platform_of e) irq_flags_uninit (regions_set e vmm m1) = Some (irq, m3)"
    and l: "ledger_plus m (vmm_handles vmm) m3" and i: "irq_ledger (regions_set e vmm m1) = irq_ledger m"
      "int_enabled (regions_set e vmm m1) = int_enabled m"
    and ok: "region_ok e (vp_pa (vmcs vmm)) m3" "vp_pa (vmcs vmm) \<noteq> vmxon_ptr (m_vmx m)"
    and k: "\<exists>k. vp_pa (vmcs vmm) = port_page_pa e (e_alloc e k)"
    using s by blast+
  note nl = fresh_pagesD [OF f k]
  obtain y where c: "m_cpu m3 = (m_cpu m)\<lparr>r_rflags := y\<rparr>" "m_vmx m3 = m_vmx m" "klog m3 = klog m" using s by blast
  let ?vmm = "vmm\<lparr>old_vmxe := r_cr4 (m_cpu m3) AND CR4_VMXE, our_vmxon := True\<rparr>" and ?pc = "vp_pa (vmcs vmm)"
  let ?m4 = "set_vmcs_field q VMCS_VM_INSTRUCTION_ERROR 15 (with_vmxe m3)"
  let ?m5 = "load_vmcs ?pc ?m4"
  have on: "vmx_on (m_vmx m3)" "r_cr4 (m_cpu m) AND CR4_VMXE \<noteq> 0" "host_msrs_present (m_cpu m)"
    using h c(2) by (simp_all add: nested_host_def)
  have x: "do_vmxon (platform_of e) e vmm m3 = Some (0, ?vmm, ?m4)"
    using port.do_vmxon_nested [OF on(1) _ g] q c(2) by simp
  have ld: "do_vmptrld (platform_of e) e ?vmm ?m4 = Some (0, ?m5)"
    using nested_vmptrld [of m3 e ?vmm] on(1) ok c(2) by simp
  have m5: "m_os ?m5 = m_os m3" "m_cpu ?m5 = m_cpu (with_vmxe m3)" "launched (m_vmx ?m5) = launched (m_vmx m)"
    "vmx_on (m_vmx ?m5)" "cur_vmcs (m_vmx ?m5) = Some (vp_pa (vmcs ?vmm))" "vmxon_ptr (m_vmx ?m5) = vmxon_ptr (m_vmx m)"
    using on(1) c(2) by (simp_all add: load_vmcs_def frame)
  have cr: "vmxe_after ?vmm (r_cr4 (m_cpu ?m5)) = r_cr4 (m_cpu m)"
    using on(2) m5(2) c(1) by (simp add: vmxe_after_def frame vmxe_set)
  have pre: "pa_ok e (vp_pa (vmcs ?vmm))" "vp_pa (vmcs ?vmm) \<noteq> vmxon_ptr (m_vmx ?m5)" "our_vmxon ?vmm"
    "host_msrs_present (m_cpu ?m5)" "ledger_plus m (vmm_handles ?vmm) ?m5" "irq_ledger ?m5 = irq_ledger m3"
    using ok m5 l c(1) on(3) host_msrs_present_cong [of "m_cpu ?m5" "m_cpu m"]
    by (simp_all add: region_ok_def frame ledger_plus_def set_old_frame os_ledgers [OF m5(1)])
  have "fst (vm_enter e True (vp_pa (vmcs ?vmm)) (prepared e ?vmm ?m5)) = 0"
    by (rule vm_enter_accepted) (simp_all add: a prepared_launched m5(3) nl run_inv_enters [OF run_inv_prepared(1) [OF m5(4,5)], simplified])
  from port.guest_measured [OF m5(4,5) pre(1-5) d pre(6) this]
  obtain r vs m' x' t where o: "measure_guest (platform_of e) e ?vmm 5 irq ?n ?m5 = Some (True, map Some vs, m')"
    "guest_when e ?vmm ?m5 (Measured r vs)" "page_ledger m' = page_ledger m"
    "irq_ledger m' = irq_ledger m" "int_enabled m' = int_enabled m"
    "klog m' = klog ?m5 @ map tagged (path_messages e (Measured r vs))" "\<not> vmx_on (m_vmx m')"
    "m_cpu m' = (exit_residue (m_cpu ?m5))\<lparr>r_cr4 := vmxe_after ?vmm (r_cr4 (m_cpu ?m5)), r_rflags := x', r_tsc := t\<rparr>"
    unfolding i by blast
  have n: "length vs = VMX_ITERATIONS" by (rule guest_when_stats [OF o(2)])
  obtain m6 where m6: "print_stats (platform_of e) 0 (map Some vs) m' = Some m6"
    "log_step (map (\<lambda>k. result_line k (vs ! k)) [0..<VMX_ITERATIONS]) m' m6"
    using port.print_stats_log [OF n, of 0] by blast
  have "from_vmxon e ?n vmm irq m3 = Some (True, map Some vs, m')"
    by (simp add: from_vmxon_def x ld o(1))
  then have "measure_vmlatency (platform_of e) e m = Some m6" using run m6(1) by simp
  moreover have "m_cpu m6 = m_cpu m'" "m_vmx m6 = m_vmx m'" by (rule log_step_machine [OF m6(2)])+
  moreover have "klog m6 = klog m @ map tagged (exit_report r @ map (\<lambda>k. result_line k (vs ! k)) [0..<VMX_ITERATIONS])"
    using log_step_ledgers(4) [OF m6(2)] o(6) os_ledgers(4) [OF m5(1)] c(3) by simp
  moreover have "int_enabled m6 = int_enabled m'" using \<open>m_cpu m6 = m_cpu m'\<close> by (simp add: int_enabled_def)
  ultimately show ?thesis
    using n o(3-5,7,8) cr log_step_ledgers(1,2) [OF m6(2)] by (intro exI [of _ r] exI [of _ vs] exI [of _ m6]) simp
qed

section \<open>The session is refused\<close>

text \<open>What the failed VMXON writes: the number of the error, to the current VMCS.\<close>

definition error_in_vmcs :: "u64 \<Rightarrow> vmx_state \<Rightarrow> vmx_state" where
  "error_in_vmcs n x =
     (case cur_vmcs x of None \<Rightarrow> x
      | Some q \<Rightarrow> x\<lparr>vmcs_fields := (vmcs_fields x)(q := (vmcs_fields x q)(VMCS_VM_INSTRUCTION_ERROR := n))\<rparr>)"

lemma do_vmxon_nested_refused:
  assumes "vmx_on (m_vmx m)" and "cur_vmcs (m_vmx m) = None \<or> win32 e"
  shows "\<exists>m'. do_vmxon (platform_of e) e vmm m = Some (-1, vmm\<lparr>old_vmxe := r_cr4 (m_cpu m) AND CR4_VMXE\<rparr>, m') \<and>
    log_step [''VMXON failed'' @ nl] (snd (vm_fail 15 (with_vmxe m))) m'"
proof -
  let ?m = "snd (vm_fail 15 (with_vmxe m))"
  have "fst (vm_fail 15 (with_vmxe m)) \<in> {VMfailInvalid, VMfailValid}" and
    "fst (vm_fail 15 (with_vmxe m)) = VMfailValid \<longrightarrow> win32 e"
    using assms(2) by (auto simp: vm_fail_def frame split: option.splits)
  then have "asm_vmxon e (vp_pa (vmxon_region vmm)) (with_vmxe m) = Some (-1, ?m)"
    using insn_vmxon_on [OF assms(1)] by (auto simp: asm_vmxon_eq split_beta split: vmx_result.splits)
  moreover obtain m' where "vmlatency_printk (platform_of e) (''VMXON failed'' @ nl) ?m = Some m'"
    "log_step [''VMXON failed'' @ nl] ?m m'"
    using port.printk_log by blast
  ultimately show ?thesis by (simp add: do_vmxon_def asm_get_cr4_def Let_def set_vmxe)
qed

lemma nested_refused:
  assumes h: "nested_host e m" and q: "cur_vmcs (m_vmx m) = None \<or> win32 e"
  shows "\<exists>m'. measure_vmlatency (platform_of e) e m = Some m' \<and> klog m' = klog m @ [tagged (''VMXON failed'' @ nl)] \<and>
    vmx_on (m_vmx m') \<and> vmxon_ptr (m_vmx m') = vmxon_ptr (m_vmx m) \<and> cur_vmcs (m_vmx m') = cur_vmcs (m_vmx m) \<and>
    m_vmx m' = error_in_vmcs 15 (m_vmx m) \<and>
    (\<exists>x. m_cpu m' = (m_cpu m)\<lparr>r_rflags := x\<rparr>) \<and> irq_ledger m' = irq_ledger m \<and> int_enabled m' = int_enabled m \<and>
    page_ledger m' = page_ledger m"
proof -
  let ?n = "replicate VMX_ITERATIONS None :: u64 option list"
  obtain vmm m1 irq m3 where st: "at_vmxon e m vmm m1 irq m3"
    and run: "measure_vmlatency (platform_of e) e m = Option.bind (from_vmxon e ?n vmm irq m3)
      (\<lambda>(b, stats, m). if b then print_stats (platform_of e) 0 stats m else Some m)"
    using nested_prepares [OF h] by blast
  note s = st [unfolded at_vmxon_def]
  have d: "vmlatency_preempt_disable (platform_of e) irq_flags_uninit (regions_set e vmm m1) = Some (irq, m3)"
    and l: "ledger_plus m (vmm_handles vmm) m3" and i: "irq_ledger (regions_set e vmm m1) = irq_ledger m"
      "int_enabled (regions_set e vmm m1) = int_enabled m"
    using s by blast+
  obtain y where c: "m_cpu m3 = (m_cpu m)\<lparr>r_rflags := y\<rparr>" "m_vmx m3 = m_vmx m" "klog m3 = klog m" using s by blast
  let ?vmm = "vmm\<lparr>old_vmxe := r_cr4 (m_cpu m3) AND CR4_VMXE\<rparr>" and ?mf = "snd (vm_fail 15 (with_vmxe m3))"
  have on: "vmx_on (m_vmx m3)" "r_cr4 (m_cpu m) AND CR4_VMXE \<noteq> 0" using h c(2) by (simp_all add: nested_host_def)
  have mf: "m_os ?mf = m_os m3" "m_cpu ?mf = m_cpu (with_vmxe m3)" "vmx_on (m_vmx ?mf)"
    "vmxon_ptr (m_vmx ?mf) = vmxon_ptr (m_vmx m)" "cur_vmcs (m_vmx ?mf) = cur_vmcs (m_vmx m)"
    using on(1) c(2) by (simp_all add: vm_fail_def frame split: option.splits)
  have mx: "m_vmx ?mf = error_in_vmcs 15 (m_vmx m)"
    using c(2) by (simp add: vm_fail_def error_in_vmcs_def set_vmcs_field_def frame split: option.splits)
  obtain m4 where m4: "do_vmxon (platform_of e) e vmm m3 = Some (-1, ?vmm, m4)" and l4: "log_step [''VMXON failed'' @ nl] ?mf m4"
    using do_vmxon_nested_refused [OF on(1), of e vmm] q c(2) by auto
  note g = log_step_ledgers [OF l4] os_ledgers [OF mf(1)]
  have "ledger_plus m (vmm_handles ?vmm) m4" "irq_ledger m4 = irq_ledger m3"
    using l g by (simp_all add: ledger_plus_def set_old_frame)
  from port.out2_five [OF this(1) d this(2)]
  obtain m' x where o: "measure_out2 (platform_of e) ?vmm 5 irq m4 = Some m'" "restored m (regions_set e vmm m1) m4 m'"
    "m_vmx m' = m_vmx m4" "m_cpu m' = (m_cpu m4)\<lparr>r_rflags := x\<rparr>"
    by blast
  have "from_vmxon e ?n vmm irq m3 = Some (False, ?n, m')" by (simp add: from_vmxon_def m4 o(1))
  then have "measure_vmlatency (platform_of e) e m = Some m'" using run by simp
  moreover have "m_cpu m' = (m_cpu m)\<lparr>r_rflags := x\<rparr>"
    using o(4) log_step_machine(1) [OF l4] mf(2) c(1) vmxe_set [OF on(2)] by (simp add: with_vmxe_def cpu.equality)
  moreover have "klog m' = klog m @ [tagged (''VMXON failed'' @ nl)]"
    using o(2) g c(3) by (simp add: restored_def)
  ultimately show ?thesis
    using o(2,3) log_step_machine(2) [OF l4] mf mx i by (intro exI [of _ m']) (auto simp: restored_def)
qed

end
