(* ===== verification/Process_Data.thy ===== *)
theory Process_Data
  imports Results "HOL-Library.AList"
begin

text \<open>
  The function \<^verbatim>\<open>main\<close> of \<^verbatim>\<open>process-data.py\<close> over the texts of the result files: the table with the best file of each
  generation of processors, and the lines that it prints for the plot.  An exception is \<^const>\<open>None\<close>; an average
  is the sum and the count.
\<close>

section \<open>The table\<close>

type_synonym best = "int \<times> nat \<times> int"

definition least :: "best \<Rightarrow> int" where
  "least b = snd (snd b)"

text \<open>The generation that a file counts for, with its entry of the table.\<close>

definition kept_as :: "string \<Rightarrow> string \<Rightarrow> best \<Rightarrow> bool" where
  "kept_as text uarch b \<longleftrightarrow> (\<exists>cpu tot n lmin. process_file text = Kept cpu tot n lmin \<and> name2uarch cpu = Some uarch \<and> b = (tot, n, lmin))"

text \<open>The dictionary \<^verbatim>\<open>cpus\<close> is an association list.\<close>

definition enter_best :: "string \<Rightarrow> best \<Rightarrow> (string \<times> best) list \<Rightarrow> (string \<times> best) list" where
  "enter_best uarch b cpus =
     (case map_of cpus uarch of
        Some old \<Rightarrow> if least b < least old then AList.update uarch b cpus else cpus
      | None \<Rightarrow> AList.update uarch b cpus)"

fun collect :: "string list \<Rightarrow> (string \<times> best) list \<Rightarrow> (string \<times> best) list option" where
  "collect [] cpus = Some cpus"
| "collect (text # texts) cpus =
     (case process_file text of
        Raised \<Rightarrow> None
      | Skipped \<Rightarrow> collect texts cpus
      | Kept cpu tot n lmin \<Rightarrow> do {
          uarch \<leftarrow> name2uarch cpu;
          collect texts (enter_best uarch (tot, n, lmin) cpus)
        })"

section \<open>The output\<close>

definition architectures :: "(string \<times> string) list" where
  "architectures =
     [(''Merom'', ''Q3'' @ [CHR 0x27] @ ''06''), (''Penryn'', ''Q1'' @ [CHR 0x27] @ ''08''),
      (''Nehalem'', ''Q1'' @ [CHR 0x27] @ ''09''), (''Westmere'', ''Q1'' @ [CHR 0x27] @ ''10''),
      (''Sandy Bridge'', ''Q1'' @ [CHR 0x27] @ ''11''), (''Ivy Bridge'', ''Q2'' @ [CHR 0x27] @ ''12''),
      (''Haswell'', ''Q2'' @ [CHR 0x27] @ ''13''), (''Broadwell'', ''Q3'' @ [CHR 0x27] @ ''14''),
      (''Airmont'', ''Q1'' @ [CHR 0x27] @ ''15''), (''Skylake'', ''Q3'' @ [CHR 0x27] @ ''15''),
      (''Kaby Lake'', ''Q3'' @ [CHR 0x27] @ ''16'')]"

text \<open>\<^verbatim>\<open>%d\<close> of a quotient drops its fraction.\<close>

definition truncated :: "int \<Rightarrow> nat \<Rightarrow> int" where
  "truncated tot n = (if tot < 0 then - ((- tot) div int n) else tot div int n)"

definition plot_line :: "string \<Rightarrow> best \<Rightarrow> string" where
  "plot_line arch b = pad_right 13 (arch @ '','') @ '' '' @ fmt_int (truncated (fst b) (fst (snd b))) @ nl"

fun plot_lines :: "(string \<times> string) list \<Rightarrow> (string \<times> best) list \<Rightarrow> string list option" where
  "plot_lines [] cpus = Some []"
| "plot_lines ((arch, date) # as) cpus = do {
     b \<leftarrow> map_of cpus arch;
     ls \<leftarrow> plot_lines as cpus;
     Some (plot_line arch b # ls)
   }"

definition process_data :: "string list \<Rightarrow> string list option" where
  "process_data texts = do {
     cpus \<leftarrow> collect texts [];
     if list_all (\<lambda>(uarch, b). uarch \<in> set (map fst architectures)) cpus then plot_lines architectures cpus else None
   }"

section \<open>Each name is that of a known generation\<close>

lemma first_match_in: "first_match bs = Some u \<Longrightarrow> u \<in> set (map snd bs)"
  by (induction bs rule: first_match.induct) (auto split: if_splits)

lemma name2uarch_listed:
  assumes "name2uarch brand = Some u"
  shows "u \<in> set (map fst architectures)"
  using assms unfolding name2uarch_def Let_def
  by (auto simp: architectures_def bind_Some_iff split: if_splits)

lemma kept_as_unique: "kept_as text u b \<Longrightarrow> kept_as text u' b' \<Longrightarrow> u' = u \<and> b' = b"
  by (auto simp: kept_as_def)

section \<open>The table has the least of each generation\<close>

definition best_in :: "string set \<Rightarrow> string \<Rightarrow> best option \<Rightarrow> bool" where
  "best_in D u x \<longleftrightarrow>
     (case x of
        None \<Rightarrow> \<forall>text \<in> D. \<forall>b. \<not> kept_as text u b
      | Some b \<Rightarrow> (\<exists>text \<in> D. kept_as text u b) \<and> (\<forall>text \<in> D. \<forall>b'. kept_as text u b' \<longrightarrow> least b \<le> least b'))"

lemma map_of_enter_best:
  "map_of (enter_best uarch b cpus) u =
     (if u = uarch \<and> (\<forall>old. map_of cpus u = Some old \<longrightarrow> least b < least old) then Some b else map_of cpus u)"
  by (auto simp: enter_best_def update_conv split: option.splits)

lemma enter_best_in:
  assumes "best_in D u (map_of cpus u)" and "kept_as text uarch b"
  shows "best_in (insert text D) u (map_of (enter_best uarch b cpus) u)"
  using assms kept_as_unique [OF assms(2)]
  by (cases "map_of cpus u") (fastforce simp: best_in_def map_of_enter_best)+

lemma not_kept_in:
  assumes "best_in D u x" and "\<And>b. \<not> kept_as text u b"
  shows "best_in (insert text D) u x"
  using assms by (auto simp: best_in_def split: option.splits)

lemma collect_best:
  assumes "collect texts cpus = Some cpus'" and "\<And>u. best_in D u (map_of cpus u)"
  shows "best_in (D \<union> set texts) u (map_of cpus' u)"
  using assms
proof (induction texts arbitrary: cpus D)
  case (Cons f fs)
  show ?case
  proof (cases "process_file f")
    case Raised
    then show ?thesis using Cons.prems by simp
  next
    case Skipped
    have "best_in (insert f D) u (map_of cpus u)" for u
      using not_kept_in [OF Cons.prems(2)] Skipped by (simp add: kept_as_def)
    then show ?thesis using Cons.IH [of cpus "insert f D"] Cons.prems(1) Skipped by simp
  next
    case (Kept cpu tot n lmin)
    then obtain uarch where k: "kept_as f uarch (tot, n, lmin)" and r: "collect fs (enter_best uarch (tot, n, lmin) cpus) = Some cpus'"
      using Cons.prems(1) by (auto simp: bind_Some_iff kept_as_def)
    from Cons.IH [OF r enter_best_in [OF Cons.prems(2) k]] show ?thesis by simp
  qed
qed simp

section \<open>When the script comes to its end\<close>

definition file_fine :: "string \<Rightarrow> bool" where
  "file_fine text \<longleftrightarrow> process_file text = Skipped \<or> (\<exists>u b. kept_as text u b)"

lemma collect_returns: "collect texts cpus \<noteq> None \<longleftrightarrow> list_all file_fine texts"
proof (induction texts arbitrary: cpus)
  case (Cons f fs)
  then show ?case
    by (cases "process_file f")
      (auto simp: file_fine_def kept_as_def bind_eq_None_conv split: option.splits)
qed simp

lemma collect_keys:
  assumes "collect texts cpus = Some cpus'" and "fst ` set cpus \<subseteq> set (map fst architectures)"
  shows "fst ` set cpus' \<subseteq> set (map fst architectures)"
  using assms
proof (induction texts arbitrary: cpus)
  case (Cons f fs)
  have "fst ` set (enter_best u b cpus) \<subseteq> set (map fst architectures)" if "u \<in> set (map fst architectures)" for u b
    using that Cons.prems(2) by (auto simp: enter_best_def dom_update split: option.splits)
  note k = this
  show ?case
  proof (cases "process_file f")
    case (Kept cpu tot n lmin)
    then obtain u where "name2uarch cpu = Some u" "collect fs (enter_best u (tot, n, lmin) cpus) = Some cpus'"
      using Cons.prems(1) by (auto simp: bind_Some_iff)
    then show ?thesis using Cons.IH k name2uarch_listed by blast
  qed (use Cons in simp_all)
qed simp

lemma plot_lines_eq:
  "plot_lines as cpus = (if \<forall>a \<in> set as. map_of cpus (fst a) \<noteq> None
     then Some (map (\<lambda>a. plot_line (fst a) (the (map_of cpus (fst a)))) as) else None)"
proof (induction as)
  case (Cons a as)
  then show ?case by (cases a; cases "map_of cpus (fst a)") auto
qed simp

text \<open>The assertion in the script never fails; it fails to print where a generation has no file.\<close>

lemma process_data_eq:
  "process_data texts = Option.bind (collect texts []) (plot_lines architectures)"
proof (cases "collect texts []")
  case (Some cpus)
  then have "list_all (\<lambda>(uarch, b). uarch \<in> set (map fst architectures)) cpus"
    using collect_keys [OF Some] by (simp add: list_all_iff image_subset_iff case_prod_beta)
  then show ?thesis using Some by (simp add: process_data_def)
qed (simp add: process_data_def)

lemma process_data_outcome:
  "if list_all file_fine texts \<and> (\<forall>a \<in> set architectures. \<exists>text \<in> set texts. \<exists>b. kept_as text (fst a) b)
   then \<exists>bs. length bs = 11 \<and> process_data texts = Some (map (\<lambda>(a, b). plot_line (fst a) b) (zip architectures bs)) \<and>
     (\<forall>k < 11. best_in (set texts) (fst (architectures ! k)) (Some (bs ! k)))
   else process_data texts = None"
proof (cases "collect texts []")
  case None
  then have "\<not> list_all file_fine texts" using collect_returns by blast
  moreover have "process_data texts = None" using None by (simp add: process_data_eq)
  ultimately show ?thesis by simp
next
  case (Some cpus)
  then have f: "list_all file_fine texts" using collect_returns by blast
  have b: "best_in (set texts) u (map_of cpus u)" for u
    using collect_best [OF Some, of "{}"] by (simp add: best_in_def)
  have n: "map_of cpus u \<noteq> None \<longleftrightarrow> (\<exists>text \<in> set texts. \<exists>b. kept_as text u b)" for u
    using b [of u] by (auto simp: best_in_def split: option.splits)
  let ?bs = "map (\<lambda>a. the (map_of cpus (fst a))) architectures"
  have l: "length architectures = 11" by (simp add: architectures_def)
  have z: "map (\<lambda>(a, b). plot_line (fst a) b) (zip architectures ?bs) =
      map (\<lambda>a. plot_line (fst a) (the (map_of cpus (fst a)))) architectures"
    by (simp add: zip_map2 zip_same_conv_map o_def)
  show ?thesis
  proof (cases "\<forall>a \<in> set architectures. map_of cpus (fst a) \<noteq> None")
    case True
    have "best_in (set texts) (fst (architectures ! k)) (Some (?bs ! k))" if "k < 11" for k
    proof -
      have "map_of cpus (fst (architectures ! k)) \<noteq> None" using True l that by simp
      then show ?thesis using b [of "fst (architectures ! k)"] l that by auto
    qed
    moreover have "length ?bs = 11" using l by simp
    moreover have "process_data texts = Some (map (\<lambda>(a, b). plot_line (fst a) b) (zip architectures ?bs))"
      unfolding z using True Some by (simp add: process_data_eq plot_lines_eq)
    ultimately have o: "\<exists>bs. length bs = 11 \<and> process_data texts = Some (map (\<lambda>(a, b). plot_line (fst a) b) (zip architectures bs)) \<and>
      (\<forall>k < 11. best_in (set texts) (fst (architectures ! k)) (Some (bs ! k)))" by blast
    have c: "list_all file_fine texts \<and> (\<forall>a \<in> set architectures. \<exists>text \<in> set texts. \<exists>b. kept_as text (fst a) b)"
      using True f unfolding n by blast
    show ?thesis unfolding if_P [OF c] by (rule o)
  next
    case False
    then have "process_data texts = None" using Some by (auto simp: process_data_eq plot_lines_eq)
    moreover have "\<not> (\<forall>a \<in> set architectures. \<exists>text \<in> set texts. \<exists>b. kept_as text (fst a) b)"
      using False unfolding n .
    ultimately show ?thesis by (simp only: simp_thms if_False)
  qed
qed

end
