(* ===== verification/Example_Host.thy ===== *)
theory Example_Host
  imports Load_Frame Result_Log Nested_Session Process_Data
begin

text \<open>
  A concrete host on which the properties are instantiated.  The capability MSRs are those of the file
  \<^verbatim>\<open>results/Intel(R) Core(TM) i7-8700K CPU @ 3.70GHz.txt\<close> of the repository; the kernel hands out sixteen pages
  in turn, the guest leaves by CPUID and every VM entry takes 540 cycles; a second processor makes the checks of a VM entry.
\<close>

definition x_msrs :: "u32 \<rightharpoonup> u64" where
  "x_msrs = map_of [
     (IA32_FEATURE_CONTROL, 5), (IA32_DEBUGCTL, 0),
     (IA32_SYSENTER_CS, 0x10), (IA32_SYSENTER_ESP, 0xfffffe0000002200), (IA32_SYSENTER_EIP, 0xffffffff81a015d0),
     (IA32_FS_BASE, 0), (IA32_GS_BASE, 0xffff88827fc00000),
     (IA32_VMX_BASIC, 0x00da040000000004), (IA32_VMX_PINBASED_CTLS, 0x0000007f00000016),
     (IA32_VMX_PROCBASED_CTLS, 0xfff9fffe0401e172), (IA32_VMX_EXIT_CTLS, 0x01ffffff00036dff),
     (IA32_VMX_ENTRY_CTLS, 0x0003ffff000011ff), (IA32_VMX_MSR_MISC, 0x000000007004c1e7),
     (IA32_VMX_CR0_FIXED0, 0x80000021), (IA32_VMX_CR0_FIXED1, 0xffffffff),
     (IA32_VMX_CR4_FIXED0, 0x2000), (IA32_VMX_CR4_FIXED1, 0x3767ff), (IA32_VMX_VMCS_ENUM, 0x2e),
     (IA32_VMX_PROCBASED_CTLS2, 0x005ffcff00000000), (IA32_VMX_EPT_VPID_CAP, 0x00000f0106734141),
     (IA32_VMX_TRUE_PINBASED_CTLS, 0x0000007f00000016), (IA32_VMX_TRUE_PROCBASED_CTLS, 0xfff9fffe04006172),
     (IA32_VMX_TRUE_EXIT_CTLS, 0x01ffffff00036dfb), (IA32_VMX_TRUE_ENTRY_CTLS, 0x0003ffff000011fb),
     (IA32_VMX_VMFUNC, 1)]"

definition x_cpu :: cpu where
  "x_cpu = \<lparr>r_es = 0, r_cs = 0x10, r_ss = 0x18, r_ds = 0, r_fs = 0, r_gs = 0, r_ldtr = 0, r_tr = 0x40,
     r_gdtr = \<lparr>limit = 0x7f, base = 0xfffffe0000001000\<rparr>, r_idtr = \<lparr>limit = 0xfff, base = 0xfffffe0000000000\<rparr>,
     r_cr0 = 0x80050033, r_cr3 = 0x1234000, r_cr4 = 0x3406e0, r_dr7 = 0x400, r_rflags = 0x246, r_rsp = 0xffffc90000a7bd00,
     r_msrs = x_msrs, r_tsc = 1000000\<rparr>"

definition x_vmx :: vmx_state where
  "x_vmx = \<lparr>vmx_on = False, vmxon_ptr = 0, cur_vmcs = None, vmcs_fields = (\<lambda>_ _. 0), launched = (\<lambda>_. False),
     vm_entries = 0\<rparr>"

definition x_os :: os_state where
  "x_os = \<lparr>os_pages = {#}, os_maps = {#}, os_mdls = {#}, os_locks = {#}, os_preempt = 0, os_irql = 0, os_calls = 0,
     os_klog = [], os_evlog = [], os_devices = {#}, os_g_device = 0, os_drv_device = 0, os_drv_unload = False\<rparr>"

definition x_host :: mstate where
  "x_host = \<lparr>m_cpu = x_cpu, m_vmx = x_vmx, m_mem = (\<lambda>_. 0), m_os = x_os\<rparr>"

text \<open>CPUID: the VMX bit of leaf 1, and \<^verbatim>\<open>CPU\<close> as the brand string.\<close>

definition x_cpuid :: "u32 \<Rightarrow> u32 \<Rightarrow> u32 \<times> u32 \<times> u32 \<times> u32" where
  "x_cpuid leaf sub = (if leaf = 1 then (0, 0, 0x20, 0) else if leaf = 0x80000002 then (0x00555043, 0, 0, 0) else (0, 0, 0, 0))"

definition x_page :: "nat \<Rightarrow> u64" where
  "x_page k = [0x1000, 0x2000, 0x3000, 0x4000, 0x5000, 0x6000, 0x7000, 0x8000,
     0x9000, 0xa000, 0xb000, 0xc000, 0xd000, 0xe000, 0xf000, 0x10000] ! (k mod 16)"

definition x_lar :: "u16 \<Rightarrow> u32" where
  "x_lar s = (if s AND NOT 7 = 0x18 then 0xc09300 else if s AND NOT 7 = 0x40 then 0x8b00 else 0xa09b00)"

definition x_env :: "os_target \<Rightarrow> entry_outcome \<Rightarrow> env" where
  "x_env t out = \<lparr>e_target = t, e_cpuid = x_cpuid, e_lar = x_lar, e_lsl = (\<lambda>_. 0x206f), e_maxphyaddr = 39,
     e_v2p = (\<lambda>a. a), e_entry = (\<lambda>_. out), e_cycles = (\<lambda>_. 540), e_guest_code = 0xffffffffc0a01000,
     e_vmx_exit = 0xffffffffc0a01040, e_alloc = x_page, e_map = (\<lambda>h. h),
     e_phys = (\<lambda>h. if t = Windows then drop_bit 12 h else h), e_prepare = (\<lambda>_. True), e_lock = (\<lambda>_. 7),
     e_evlog = (\<lambda>_. True), e_max_msg_ch = 256, e_device = (\<lambda>_. (0, 0xd0))\<rparr>"

text \<open>The same kernels on a processor that makes the checks of a VM entry.\<close>

definition x_answer :: "env \<Rightarrow> mstate \<Rightarrow> entry_outcome" where
  "x_answer e m = (case cur_vmcs (m_vmx m) of None \<Rightarrow> Entry_Exit 10
     | Some pa \<Rightarrow> (let c = m_cpu m; v = vmcs_fields (m_vmx m) pa in
         if \<not> control_checks c v then Entry_Fail 7 else if \<not> host_checks e c v then Entry_Fail 8
         else if \<not> guest_checks e c v then Entry_Bad_Guest 0x80000021 else Entry_Exit 10))"

definition x_checking :: "os_target \<Rightarrow> env" where
  "x_checking t = (x_env t (Entry_Exit 10))\<lparr>e_entry := x_answer (x_env t (Entry_Exit 10))\<rparr>"

text \<open>The host with a task register whose RPL is 3.\<close>

definition x_host_rpl :: mstate where
  "x_host_rpl = x_host\<lparr>m_cpu := x_cpu\<lparr>r_tr := 0x43\<rparr>\<rparr>"

text \<open>The host in VMX operation, with a VMCS at \<open>0x2000\<close> whose host RIP is set.\<close>

definition x_in_vmx :: "env \<Rightarrow> mstate" where
  "x_in_vmx e = set_vmcs_field 0x2000 VMCS_HOST_RIP (e_vmx_exit e)
     (x_host\<lparr>m_vmx := x_vmx\<lparr>vmx_on := True, cur_vmcs := Some 0x2000\<rparr>\<rparr>)"

text \<open>A monitor with two of its pages.\<close>

definition x_vmm :: vm_monitor where
  "x_vmm = vm_monitor_zero\<lparr>vmxon_region := \<lparr>vp_p = 0x1000, vp_pa = 0x1000, vp_handle = 0x1000\<rparr>,
     vmcs := \<lparr>vp_p = 0x2000, vp_pa = 0x2000, vp_handle = 0x2000\<rparr>\<rparr>"

text \<open>The same with the capabilities of the host.\<close>

definition x_caps :: vm_monitor where
  "x_caps = x_vmm\<lparr>pinbased_allowed0 := 0x16, pinbased_allowed1 := 0x7f,
     procbased_allowed0 := 0x0401e172, procbased_allowed1 := 0xfff9fffe,
     exit_ctls_allowed0 := 0x36dfb, exit_ctls_allowed1 := 0x1ffffff,
     entry_ctls_allowed0 := 0x11fb, entry_ctls_allowed1 := 0x3ffff\<rparr>"

text \<open>A kernel that runs out of memory at the third page.\<close>

definition x_poor :: env where
  "x_poor = (x_env Linux (Entry_Exit 10))\<lparr>e_alloc := (\<lambda>k. if k < 2 then x_page k else 0)\<rparr>"

text \<open>A processor whose revision identifier has bit 28 set.\<close>

definition x_host_rev :: mstate where
  "x_host_rev = x_host\<lparr>m_cpu := x_cpu\<lparr>r_msrs := x_msrs(IA32_VMX_BASIC \<mapsto> 0x00da040010000004)\<rparr>\<rparr>"

text \<open>The host after the revision identifiers have been stored.\<close>

definition x_regions :: mstate where
  "x_regions = regions_set (x_env Linux (Entry_Exit 10)) x_vmm x_host"

text \<open>The host while another monitor is in VMX operation with a current VMCS, whose guest it has launched.\<close>

definition x_nested :: mstate where
  "x_nested = x_host\<lparr>m_cpu := x_cpu\<lparr>r_cr4 := 0x3426e0\<rparr>,
     m_vmx := x_vmx\<lparr>vmx_on := True, vmxon_ptr := 0x20000, cur_vmcs := Some 0x21000, launched := (\<lambda>pa. pa = 0x21000)\<rparr>\<rparr>"

text \<open>The host with a launch state for two pages, one of which becomes the VMCS.\<close>

definition x_stale :: mstate where
  "x_stale = x_host\<lparr>m_vmx := x_vmx\<lparr>launched := (\<lambda>pa. pa \<in> {0x2000, 0x3000})\<rparr>\<rparr>"

text \<open>Time stamps as dmesg prints them.\<close>

definition x_stamp :: "nat \<Rightarrow> string" where
  "x_stamp k = ''[  163.042] ''"

text \<open>A file of results for each generation of processors.\<close>

definition x_brands :: "string list" where
  "x_brands = map ((@) ''Intel(R) '')
     [''Core(TM)2 CPU         T5600  @ 1.83GHz'', ''Core(TM)2 Duo CPU     P8600  @ 2.40GHz'', ''Core(TM) i5 CPU 760 @ 2.80GHz'',
      ''Core(TM) i5 CPU       M 460  @ 2.53GHz'', ''Core(TM) i3-2350M CPU @ 2.30GHz'', ''Core(TM) i5-3317U CPU @ 1.70GHz'',
      ''Core(TM) i5-4200U CPU @ 1.60GHz'', ''Xeon(R) CPU E5-2699 v4 @ 2.20GHz'', ''Celeron(R) CPU  N3150  @ 1.60GHz'',
      ''Celeron(R) CPU G3900 @ 2.80GHz'', ''Core(TM) i5-7200U CPU @ 2.50GHz'']"

definition x_file :: "string \<Rightarrow> string" where
  "x_file brand = brand @ nl @ ''     1 - 540'' @ nl @ ''     2 - 550'' @ nl"

section \<open>Facts about the host\<close>

lemma x_host_parts:
  "m_cpu x_host = x_cpu" "m_vmx x_host = x_vmx" "m_os x_host = x_os" "r_msrs x_cpu = x_msrs" "os_calls x_os = 0"
  by (simp_all add: x_host_def x_cpu_def x_os_def)

lemma x_start: "klog x_host = []" "vm_entries (m_vmx x_host) = 0"
  by (simp_all add: x_host_parts klog_def) (simp_all add: x_os_def x_vmx_def)

lemma x_entry: "e_entry (x_env t out) m = out"
  by (simp add: x_env_def)

lemma x_msrs_present: "vmx_msrs_present x_cpu"
  by (simp add: vmx_msrs_present_def cap_msrs_def true_ctl_msrs_def msr_bit_def x_cpu_def x_msrs_def msr_enc)

lemma x_host_msrs: "host_msrs_present x_cpu"
  by (simp add: host_msrs_present_def x_cpu_def x_msrs_def msr_enc)

lemma x_ready: "vmx_ready x_host"
  by (simp add: vmx_ready_def x_host_def x_vmx_def with_vmxe_def cr_fixed_ok_def fixed_ok_def vmx_permitted_def
      x_cpu_def x_msrs_def msr_enc CR4_VMXE_BIT BIT_def bit_numeral_simps)

lemma x_revision: "plain_revision x_cpu"
  by (simp add: plain_revision_def x_cpu_def x_msrs_def msr_enc)

lemma x_page_nonzero: "x_page k \<in> set [0x1000, 0x2000, 0x3000, 0x4000, 0x5000, 0x6000, 0x7000, 0x8000,
     0x9000, 0xa000, 0xb000, 0xc000, 0xd000, 0xe000, 0xf000, 0x10000]"
  unfolding x_page_def by (rule nth_mem) simp

lemma x_memory: "kernel_memory (x_env t out)"
proof -
  have "x_page k \<noteq> 0" for k using x_page_nonzero [of k] by auto
  then show ?thesis by (simp add: kernel_memory_def x_env_def)
qed

lemma x_pages: "good_pages (x_env t out) (port_page_pa (x_env t out))"
proof -
  have a: "port_page_pa (x_env t out) (x_page k) = x_page k" for k
    using x_page_nonzero [of k] by (auto simp: port_page_pa_def x_env_def)
  moreover have "x_page k AND 0xfff = 0" "drop_bit 39 (x_page k) = 0" for k
    using x_page_nonzero [of k] by auto
  ultimately show ?thesis
    by (simp add: good_pages_def x_env_def maps_page_def pa_ok_def)
qed

lemma x_distinct: "distinct_pages (x_env t out) 0"
  by (simp add: distinct_pages_def x_env_def x_page_def)

lemma x_locks: "locks_available (x_env t out)"
  by (simp add: locks_available_def x_env_def)

lemma x_has_vmx: "has_vmx (x_env t out)"
  by (simp add: has_vmx_def asm_cpuid_ecx_def asm_cpuid_all_def x_env_def x_cpuid_def bit_defs BIT_def)

lemma x_chars: "char_of (67 :: nat) = CHR ''C''" "char_of (80 :: nat) = CHR ''P''" "char_of (85 :: nat) = CHR ''U''"
  by code_simp+

lemma x_brand: "c_string (brand_string (x_env t out)) = Some ''CPU''"
  by (simp add: c_string_def brand_string_def asm_cpuid_all_def x_env_def x_cpuid_def le_bytes32_def upt_rec x_chars)

lemma x_good_host: "good_host (x_env t out) x_host"
  using x_msrs_present x_host_msrs x_ready
  by (simp add: good_host_def x_host_parts x_brand vmx_ready_def) (simp add: x_msrs_def msr_enc)

lemma x_loadable: "loadable (x_env t out) x_host"
  using x_good_host x_locks x_ready x_has_vmx
  by (simp add: loadable_def vmx_ready_def) (simp add: x_env_def)

lemma x_equipped: "equipped (x_env t out) x_host"
  using x_memory x_pages x_distinct x_msrs_present x_host_msrs x_ready x_revision x_locks
  by (simp add: equipped_def x_host_parts)

lemma x_fresh: "fresh_pages e x_host"
  by (simp add: fresh_pages_def x_host_parts) (simp add: x_vmx_def)

lemma x_page_pa: "port_page_pa (x_env t out) (x_page k) = x_page k"
  using x_page_nonzero [of k] by (auto simp: port_page_pa_def x_env_def)

lemma x_stale_equipped: "equipped (x_env t out) x_stale"
  using x_equipped [of t out] by (simp add: equipped_def x_stale_def x_host_parts vmx_ready_def with_vmxe_def x_vmx_def)

lemma x_measurable: "measurable (x_env t (Entry_Exit 10)) x_host"
  using x_equipped x_fresh by (simp add: measurable_def x_env_def)

lemma x_plain: "plain_host x_cpu"
  by (simp add: plain_host_def x_cpu_def x_msrs_def msr_enc)

lemma x_has_vmcs: "has_vmcs e 0x2000 (x_in_vmx e)"
  by (simp add: has_vmcs_def x_in_vmx_def frame vmcs_fields_set)

lemma x_in_vmx_parts:
  "m_cpu (x_in_vmx e) = x_cpu" "vmx_on (m_vmx (x_in_vmx e))" "cur_vmcs (m_vmx (x_in_vmx e)) = Some 0x2000"
  by (simp_all add: x_in_vmx_def frame x_host_parts)

lemma x_caps_consistent: "consistent_ctls x_caps"
  by (simp add: consistent_ctls_def x_caps_def bit_numeral_simps)

lemma x_lookups:
  "r_msrs (m_cpu x_host) IA32_VMX_BASIC = Some 0x00da040000000004" "bit (0x00da040000000004 :: u64) 55"
  "r_msrs (m_cpu x_host) IA32_VMX_PINBASED_CTLS = Some 0x0000007f00000016"
  "r_msrs (m_cpu x_host) IA32_VMX_PROCBASED_CTLS = Some 0xfff9fffe0401e172"
  "r_msrs (m_cpu x_host) IA32_VMX_EXIT_CTLS = Some 0x01ffffff00036dff"
  "r_msrs (m_cpu x_host) IA32_VMX_ENTRY_CTLS = Some 0x0003ffff000011ff"
  "r_msrs (m_cpu x_host) IA32_VMX_TRUE_PINBASED_CTLS = Some 0x0000007f00000016"
  "r_msrs (m_cpu x_host) IA32_VMX_TRUE_EXIT_CTLS = Some 0x01ffffff00036dfb"
  "r_msrs (m_cpu x_host) IA32_VMX_TRUE_ENTRY_CTLS = Some 0x0003ffff000011fb"
  by (simp_all add: x_host_parts x_msrs_def msr_enc bit_numeral_simps)

lemma x_cache: "\<exists>v. cache_vmx_capabilities e vm_monitor_zero x_host = Some v \<and> has_true_ctls v"
  unfolding cache_closed_true [OF x_lookups] by (simp add: with_allowed_def Let_def)

lemma x_stale_session:
  "\<exists>v vmm m1. cache_vmx_capabilities (x_env t out) vm_monitor_zero x_stale = Some v \<and>
     allocate_memory (platform_of (x_env t out)) v x_stale = Some (5, vmm, m1) \<and> launched (m_vmx x_stale) (vp_pa (vmcs vmm))"
proof -
  have "vmx_msrs_present (m_cpu x_stale)" using x_msrs_present by (simp add: x_stale_def x_host_parts)
  then obtain v where v: "cache_vmx_capabilities (x_env t out) vm_monitor_zero x_stale = Some v"
    using cache_present by blast
  have c: "os_calls (m_os x_stale) = 0" by (simp add: x_stale_def x_host_parts)
  have e: "e_alloc (x_env t out) = x_page" by (simp add: x_env_def)
  obtain vmm m1 c' where a: "allocate_memory (platform_of (x_env t out)) v x_stale = Some (5, vmm, m1)" "c' \<in> {0 + 1, 0 + 2}"
    "vp_pa (vmcs vmm) = port_page_pa (x_env t out) (x_page c')"
    using port_pages.allocate_memory_pages [OF x_memory [of t out], of v x_stale] unfolding c e by blast
  have "vp_pa (vmcs vmm) \<in> {0x2000, 0x3000}" using a(2) unfolding a(3) x_page_pa by (auto simp: x_page_def)
  then show ?thesis using v a(1) by (simp add: x_stale_def)
qed

lemma x_poor_allocates:
  "\<exists>vmm m1. allocate_memory (platform_of x_poor) v x_host = Some (- int 2, vmm, m1) \<and>
     take 2 (vmm_handles vmm) = [0x1000, 0x2000]"
proof -
  have pf: "platform_of x_poor = linux_platform x_poor" by (simp add: platform_of_def x_poor_def x_env_def)
  have c: "os_calls (m_os x_host) = 0" by (simp add: x_host_parts)
  have e: "e_alloc x_poor 0 = 0x1000" "e_alloc x_poor (Suc 0) = 0x2000" "e_alloc x_poor (Suc (Suc 0)) = 0"
    by (simp_all add: x_poor_def x_page_def)
  obtain p1 m1 where a1: "allocate_vmpage (linux_platform x_poor) (vmxon_region v) x_host = Some (0, p1, m1)"
    "vp_handle p1 = 0x1000" "os_calls (m_os m1) = Suc 0"
    using linux_allocate_result [of x_poor "vmxon_region v" x_host] unfolding c e by auto
  obtain p2 m2 where a2: "allocate_vmpage (linux_platform x_poor) (vmcs v) m1 = Some (0, p2, m2)"
    "vp_handle p2 = 0x2000" "os_calls (m_os m2) = Suc (Suc 0)"
    using linux_allocate_result [of x_poor "vmcs v" m1] unfolding a1(3) e by auto
  obtain p3 m3 where a3: "allocate_vmpage (linux_platform x_poor) (io_bitmap_a v) m2 = Some (-1, p3, m3)"
    using linux_allocate_result [of x_poor "io_bitmap_a v" m2] unfolding a2(3) e by auto
  show ?thesis
    by (simp add: allocate_memory_def pf a1 a2 a3 vmm_handles_def)
qed

lemma x_host_rev_ok:
  "vmx_msrs_present (m_cpu x_host_rev)" "host_msrs_present (m_cpu x_host_rev)" "vmx_ready x_host_rev"
  "\<not> plain_revision (m_cpu x_host_rev)"
proof -
  have p: "r_msrs (m_cpu x_host_rev) = x_msrs(IA32_VMX_BASIC \<mapsto> 0x00da040010000004)" by (simp add: x_host_rev_def)
  have q: "r_msrs (m_cpu x_host_rev) n = r_msrs x_cpu n" if "n \<noteq> IA32_VMX_BASIC" for n
    using that by (simp add: p x_host_parts)
  show "host_msrs_present (m_cpu x_host_rev)"
    using x_host_msrs q by (simp add: host_msrs_present_def msr_enc)
  show "\<not> plain_revision (m_cpu x_host_rev)" by (simp add: plain_revision_def p)
  show "vmx_msrs_present (m_cpu x_host_rev)"
    by (simp add: vmx_msrs_present_def cap_msrs_def true_ctl_msrs_def msr_bit_def p x_msrs_def msr_enc)
  show "vmx_ready x_host_rev"
    using x_ready
    by (simp add: vmx_ready_def with_vmxe_def cr_fixed_ok_def x_host_rev_def x_host_parts fixed_ok_def)
      (simp add: msr_enc)
qed

lemma x_host_rev_parts:
  "os_calls (m_os x_host_rev) = 0" "klog x_host_rev = []" "r_cr4 (m_cpu x_host_rev) = 0x3406e0"
  by (simp_all add: x_host_rev_def x_host_parts klog_def) (simp_all add: x_os_def x_cpu_def)

lemma x_regions_cpu: "m_cpu x_regions = x_cpu"
  by (simp add: x_regions_def frame x_host_parts)

lemma x_regions_ready: "vmx_ready x_regions"
  using x_ready by (simp add: vmx_ready_def with_vmxe_def x_regions_def frame)

lemma x_regions_ok: "region_ok (x_env Linux (Entry_Exit 10)) (vp_pa (vmxon_region x_vmm)) x_regions"
  unfolding x_regions_def
  by (rule regions_set_ok(1)) (simp_all add: x_vmm_def x_env_def maps_page_def pa_ok_def x_host_parts x_revision)

lemma x_always_distinct: "distinct_pages (x_env t out) c"
proof -
  have "\<forall>i \<in> set [0..<16]. x_page i \<noteq> x_page (i + 1) \<and> x_page i \<noteq> x_page (i + 2)"
    by (simp add: x_page_def upt_rec)
  then have "x_page (c mod 16) \<noteq> x_page (c mod 16 + 1) \<and> x_page (c mod 16) \<noteq> x_page (c mod 16 + 2)" by simp
  moreover have k: "x_page (c mod 16 + k) = x_page (c + k)" for k by (simp add: x_page_def mod_simps)
  ultimately have "x_page c \<noteq> x_page (c + 1) \<and> x_page c \<noteq> x_page (c + 2)" by (metis k add_0_right)
  then show ?thesis by (simp add: distinct_pages_def x_env_def)
qed

lemma x_runs_guest_code: "runs_guest_code (x_env t (Entry_Exit 10))"
  by (simp add: runs_guest_code_def guest_outcomes_cpuid x_entry)

text \<open>The processor that makes the checks.\<close>

lemma x_makes_checks: "makes_checks (x_checking t)"
proof -
  let ?e = "x_env t (Entry_Exit 10)"
  have h: "host_checks (?e\<lparr>e_entry := f\<rparr>) = host_checks ?e" "guest_checks (?e\<lparr>e_entry := f\<rparr>) = guest_checks ?e" for f
    by (simp_all add: host_checks_def [abs_def] guest_checks_def [abs_def])
  show ?thesis
    by (auto simp: makes_checks_def x_checking_def x_answer_def entry_answers_def h Let_def guest_outcomes_cpuid
        split: option.splits)
qed

lemma equipped_entry: "equipped (e\<lparr>e_entry := f\<rparr>) m = equipped e m"
  by (simp add: equipped_def kernel_memory_def good_pages_def port_page_pa_def [abs_def] maps_page_def pa_ok_def
      distinct_pages_def locks_available_def)

lemma x_checking_equipped: "equipped (x_checking t) x_host"
  unfolding x_checking_def equipped_entry by (rule x_equipped)

lemma x_checking_parts:
  "e_target (x_checking t) = t" "e_lar (x_checking t) = x_lar" "e_maxphyaddr (x_checking t) = 39" "e_v2p (x_checking t) a = a"
  "e_guest_code (x_checking t) = 0xffffffffc0a01000" "e_vmx_exit (x_checking t) = 0xffffffffc0a01040"
  "e_alloc (x_checking t) = x_page" "port_page_pa (x_checking t) (x_page k) = x_page k"
  using x_page_nonzero [of k] by (auto simp: x_checking_def x_env_def port_page_pa_def)

lemma x_segments:
  "get_segment_ar (x_checking t) s = (if s AND NOT 7 = 0x18 then 0xc093 else if s AND NOT 7 = 0x40 then 0x8b else 0xa09b)"
  unfolding get_segment_ar_bits(1) x_checking_parts by (simp add: x_lar_def)

lemma x_ordinary_ctls: "ordinary_ctls (x_cpu\<lparr>r_tr := s\<rparr>)"
  by (simp add: ordinary_ctls_def ctl_msr_def msr_bit_def ordinary_ctl_def halves_of_def x_cpu_def x_msrs_def msr_enc
      bit_numeral_simps Let_def)

lemma x_kernel_cpu:
  assumes "s AND NOT 7 = 0x40"
  shows "kernel_cpu (x_checking t) (x_cpu\<lparr>r_tr := s\<rparr>)"
proof -
  have c: "canonical 0x3406e0 a \<longleftrightarrow> drop_bit 47 a = 0 \<or> drop_bit 47 a = 0x1ffff" for a
    by (simp add: canonical_def linear_width_def bit_numeral_simps mask_eq_exp_minus_1)
  have s: "kernel_cs (x_checking t) 0x10" "kernel_ss (x_checking t) 0x18" "kernel_tr (x_checking t) s"
    unfolding kernel_cs_def kernel_ss_def kernel_tr_def x_segments Let_def assms
    by (simp_all add: ar_type_def ar_dpl_def bit_numeral_simps)
  have m: "r_msrs x_cpu IA32_SYSENTER_ESP = Some 0xfffffe0000002200" "r_msrs x_cpu IA32_SYSENTER_EIP = Some 0xffffffff81a015d0"
    "r_msrs x_cpu IA32_FS_BASE = Some 0" "r_msrs x_cpu IA32_GS_BASE = Some 0xffff88827fc00000"
    by (simp_all add: x_host_parts x_msrs_def msr_enc)
  have r: "r_cr0 x_cpu = 0x80050033" "r_cr3 x_cpu = 0x1234000" "r_cr4 x_cpu = 0x3406e0" "r_rflags x_cpu = 0x246"
    "r_cs x_cpu = 0x10" "r_ss x_cpu = 0x18" "base (r_gdtr x_cpu) = 0xfffffe0000001000" "base (r_idtr x_cpu) = 0xfffffe0000000000"
    by (simp_all add: x_cpu_def)
  show ?thesis
    unfolding kernel_cpu_def by (simp add: r m s c x_checking_parts rflags_ok_def bit_numeral_simps)
qed

lemma x_kernel_host:
  assumes s: "s \<in> {0x40, 0x43}" and m: "m = x_host\<lparr>m_cpu := x_cpu\<lparr>r_tr := s\<rparr>\<rparr>"
  shows "kernel_host (x_checking t) m"
proof -
  have z: "m_mem m a = 0" for a by (simp add: m x_host_def)
  have l: "load64 e a m = 0" for e a by (simp add: load64_def load_le_def z upt_rec)
  have "canonical (r_cr4 x_cpu) (gdt_tr_base (x_checking t) m)"
    by (simp add: gdt_tr_base_def l tr_base_def canonical_def)
  moreover have "off_pages (x_checking t) (port_page_pa (x_checking t)) (0xfffffe0000001000 + ucast s + of_nat i)" if "i < 16" for i
  proof -
    let ?ps = "[0x1000, 0x2000, 0x3000, 0x4000, 0x5000, 0x6000, 0x7000, 0x8000,
      0x9000, 0xa000, 0xb000, 0xc000, 0xd000, 0xe000, 0xf000, 0x10000 :: u64]"
    have "\<forall>p \<in> set ?ps. \<not> 0xfffffe0000001000 + ucast s + of_nat i - p < 0x1000"
      if "i \<in> set [0..<16]" for i
      using that s by (simp add: upt_rec) (elim disjE; simp)
    then show ?thesis
      using x_page_nonzero that unfolding off_pages_def x_checking_parts by fastforce
  qed
  ultimately show ?thesis
    using x_kernel_cpu [of s t] x_ordinary_ctls s
    by (auto simp: kernel_host_def Let_def m list_all_iff x_checking_parts) (simp_all add: x_cpu_def)
qed

lemma x_checked_host: "checked_host (x_checking t) x_host"
proof -
  have c: "x_cpu = x_cpu\<lparr>r_tr := 0x40\<rparr>" "r_tr x_cpu = 0x40" by (simp_all add: x_cpu_def)
  have "kernel_host (x_checking t) x_host" using c(1) by (intro x_kernel_host [of "0x40"]) (simp_all add: x_host_def)
  then show ?thesis using x_makes_checks by (simp add: checked_host_def x_host_parts c(2))
qed

lemma x_checking_cycles: "e_cycles (x_checking t) m = 540"
  by (simp add: x_checking_def x_env_def)

lemma x_checking_always:
  "distinct_pages (x_checking t) c" "has_vmx (x_checking t)" "c_string (brand_string (x_checking t)) = Some ''CPU''"
  using x_always_distinct [of t "Entry_Exit 10" c] x_has_vmx [of t "Entry_Exit 10"] x_brand [of t "Entry_Exit 10"]
  by (simp_all add: x_checking_def distinct_pages_def has_vmx_def asm_cpuid_ecx_def asm_cpuid_all_def brand_string_def)

lemma x_ordinary_session:
  "ordinary_session (x_checking t) x_caps (with_vmxe (cli (x_in_vmx (x_checking t))))"
proof -
  let ?m = "with_vmxe (cli (x_in_vmx (x_checking t)))"
  have c: "m_cpu ?m = x_cpu\<lparr>r_cr4 := r_cr4 x_cpu OR CR4_VMXE, r_rflags := r_rflags x_cpu AND NOT FLAG_IF\<rparr>"
    by (simp add: with_vmxe_def cli_def x_in_vmx_parts)
  have "caps_match x_cpu x_caps"
    by (simp add: caps_match_def ctl_msr_def msr_bit_def halves_of_def x_caps_def x_cpu_def x_msrs_def msr_enc bit_numeral_simps)
  then have "caps_match (m_cpu ?m) x_caps" by (simp add: c caps_match_def ctl_msr_regs)
  moreover have "ordinary_ctls (m_cpu ?m)"
    using x_ordinary_ctls [of "0x40"] by (simp add: c ordinary_ctls_def ctl_msr_regs) (simp add: x_cpu_def ctl_msr_def msr_bit_def)
  moreover have "kernel_cpu (x_checking t) (m_cpu ?m)"
    using kernel_cpu_session [OF x_kernel_cpu [of "0x40"]] by (simp add: c) (simp add: x_cpu_def)
  moreover have "cr_fixed_ok (m_cpu ?m)"
    using x_ready unfolding c by (simp add: vmx_ready_def with_vmxe_def cr_fixed_ok_def x_host_parts)
  moreover have "gdt_tr_base (x_checking t) ?m = 0"
  proof -
    have "m_mem ?m a = 0" for a by (simp add: with_vmxe_def cli_def x_in_vmx_def x_host_def set_vmcs_field_def)
    then have "load64 e a ?m = 0" for e a by (simp add: load64_def load_le_def upt_rec)
    then show ?thesis by (simp add: gdt_tr_base_def tr_base_def)
  qed
  ultimately show ?thesis by (simp add: ordinary_session_def Let_def canonical_def)
qed

lemma x_host_rpl_ok: "equipped (x_checking t) x_host_rpl" "fresh_pages e x_host_rpl" "klog x_host_rpl = []"
  using x_checking_equipped [of t] x_fresh [of e]
  by (simp_all add: equipped_def vmx_msrs_present_def host_msrs_present_def plain_revision_def vmx_ready_def with_vmxe_def
      cr_fixed_ok_def x_host_rpl_def x_host_parts klog_def msr_bit_def fresh_pages_def) (simp add: x_os_def)

lemma x_nested_parts:
  "m_cpu x_nested = x_cpu\<lparr>r_cr4 := 0x3426e0\<rparr>" "vmx_on (m_vmx x_nested)" "vmxon_ptr (m_vmx x_nested) = 0x20000"
  "cur_vmcs (m_vmx x_nested) = Some 0x21000" "os_calls (m_os x_nested) = 0" "klog x_nested = []"
  by (simp_all add: x_nested_def x_host_parts klog_def x_vmx_def) (simp add: x_os_def)

lemma x_nested_fresh: "fresh_pages (x_env t out) x_nested" "launched (m_vmx x_nested) 0x21000"
proof -
  have "x_page k \<noteq> 0x21000" for k using x_page_nonzero [of k] by auto
  moreover have "e_alloc (x_env t out) = x_page" by (simp add: x_env_def)
  ultimately show "fresh_pages (x_env t out) x_nested" by (simp add: fresh_pages_def x_nested_def x_page_pa)
qed (simp add: x_nested_def)

lemma x_nested_host: "nested_host (x_env t out) x_nested"
proof -
  have m: "vmx_msrs_present (x_cpu\<lparr>r_cr4 := v\<rparr>)" "host_msrs_present (x_cpu\<lparr>r_cr4 := v\<rparr>)" "plain_revision (x_cpu\<lparr>r_cr4 := v\<rparr>)" for v
    using x_msrs_present x_host_msrs x_revision
    by (simp_all add: vmx_msrs_present_def host_msrs_present_def plain_revision_def msr_bit_def)
  have "(0x3426e0 :: u64) AND CR4_VMXE \<noteq> 0" by (simp add: CR4_VMXE_BIT BIT_def)
  moreover have "port_page_pa (x_env t out) (e_alloc (x_env t out) k) \<noteq> 0x20000" for k
    using x_page_nonzero [of k] by (auto simp: port_page_pa_def x_env_def)
  ultimately show ?thesis
    using x_memory x_pages x_distinct x_locks m by (simp add: nested_host_def x_nested_parts)
qed

lemma x_stamp_ok: "stamp_ok (x_stamp k)"
  unfolding stamp_ok_def x_stamp_def
  by (intro disjI2 exI [of _ "2 :: nat"] exI [of _ "''163''"] exI [of _ "''042''"]) (simp add: is_digit_def numeral_2_eq_2)

lemma x_log_foreign: "foreign_log x_stamp (klog x_host)"
  by (simp add: foreign_log_def dmesg_def x_start)

lemma x_event_log:
  "evlog_works (x_env t out)" "96 \<le> e_max_msg_ch (x_env t out)" "at_passive x_host" "evlog x_host = []"
  by (simp_all add: evlog_works_def at_passive_def evlog_def x_host_parts) (simp_all add: x_env_def x_os_def)

lemma x_brand_name:
  "CHR 0x0A \<notin> set ''CPU''" "clean ''CPU''" "\<not> starts ''IA32_'' (''CPU'' @ nl)" "cut_at '' - '' (''CPU'' @ nl) = None"
  by (simp_all add: clean_def)

section \<open>Facts about the files\<close>

lemma x_files_read: "map (process_file \<circ> x_file) x_brands = map (\<lambda>brand. Kept brand 1090 2 540) x_brands"
  by code_simp

lemma x_files_known: "map name2uarch x_brands = map (\<lambda>a. Some (fst a)) architectures"
  by code_simp

lemma x_files_fine:
  "list_all file_fine (map x_file x_brands)"
  "\<forall>a \<in> set architectures. \<exists>text \<in> set (map x_file x_brands). \<exists>b. kept_as text (fst a) b"
proof -
  have l: "length x_brands = 11" "length architectures = 11" by (simp_all add: x_brands_def architectures_def)
  have k: "kept_as (x_file (x_brands ! k)) (fst (architectures ! k)) (1090, 2, 540)" if "k < 11" for k
    using arg_cong [OF x_files_read, of "\<lambda>xs. xs ! k"] arg_cong [OF x_files_known, of "\<lambda>xs. xs ! k"] that l
    by (simp add: kept_as_def)
  show "list_all file_fine (map x_file x_brands)"
    unfolding list_all_length file_fine_def using k l by (metis length_map nth_map)
  show "\<forall>a \<in> set architectures. \<exists>text \<in> set (map x_file x_brands). \<exists>b. kept_as text (fst a) b"
  proof
    fix a
    assume "a \<in> set architectures"
    then obtain j where "j < 11" "a = architectures ! j" using l by (auto simp: in_set_conv_nth)
    then show "\<exists>text \<in> set (map x_file x_brands). \<exists>b. kept_as text (fst a) b" using k l by force
  qed
qed

end
