(* ===== verification/Primitives.thy ===== *)
theory Primitives
  imports Asm_Inlines Vmm_Api
begin

text \<open>
  \<^verbatim>\<open>win/amd64/primitives.asm\<close>: the instructions for which the Windows compiler has no intrinsic, one function each.  The
  first argument is in RCX (a selector in its low 16 bits, the others being anything, or the address of a
  descriptor), the result in RAX.  Each function computes what the GNU branch of its wrapper does.
\<close>

section \<open>Instructions\<close>

datatype segment = ES | CS | SS | DS | FS | GS

datatype prim_insn =
    Cli
  | Sgdt_rcx
  | Lgdt_rcx
  | Sldt_rax
  | Lar_rax_rcx
  | Str_rax
  | Mov_rax_seg segment
  | Prim_ret

text \<open>The registers that the functions use, the descriptor that RCX points to, and the machine.\<close>

record prim_state =
  p_rax :: u64
  p_rcx :: u64
  p_desc :: descriptor
  p_m :: mstate

fun selector :: "segment \<Rightarrow> cpu \<Rightarrow> u16" where
  "selector ES c = r_es c"
| "selector CS c = r_cs c"
| "selector SS c = r_ss c"
| "selector DS c = r_ds c"
| "selector FS c = r_fs c"
| "selector GS c = r_gs c"

fun prim_step :: "env \<Rightarrow> prim_insn \<Rightarrow> prim_state \<Rightarrow> prim_state" where
  "prim_step e Cli s = s\<lparr>p_m := cli (p_m s)\<rparr>"
| "prim_step e Sgdt_rcx s = s\<lparr>p_desc := r_gdtr (m_cpu (p_m s))\<rparr>"
| "prim_step e Lgdt_rcx s = s\<lparr>p_m := set_cpu (\<lambda>c. c\<lparr>r_gdtr := p_desc s\<rparr>) (p_m s)\<rparr>"
| "prim_step e Sldt_rax s = s\<lparr>p_rax := ucast (r_ldtr (m_cpu (p_m s)))\<rparr>"
| "prim_step e Lar_rax_rcx s = s\<lparr>p_rax := ucast (e_lar e (ucast (p_rcx s)))\<rparr>"
| "prim_step e Str_rax s = s\<lparr>p_rax := ucast (r_tr (m_cpu (p_m s)))\<rparr>"
| "prim_step e (Mov_rax_seg g) s = s\<lparr>p_rax := ucast (selector g (m_cpu (p_m s)))\<rparr>"
| "prim_step e Prim_ret s = s"

text \<open>A function runs to its \<^verbatim>\<open>ret\<close>.\<close>

fun prim_run :: "env \<Rightarrow> prim_insn list \<Rightarrow> prim_state \<Rightarrow> prim_state option" where
  "prim_run e [] s = None"
| "prim_run e (i # is) s = (if i = Prim_ret then Some s else prim_run e is (prim_step e i s))"

section \<open>The functions\<close>

definition prim_disable :: "prim_insn list" where "prim_disable = [Cli, Prim_ret]"
definition prim_get_gdt :: "prim_insn list" where "prim_get_gdt = [Sgdt_rcx, Prim_ret]"
definition prim_set_gdt :: "prim_insn list" where "prim_set_gdt = [Lgdt_rcx, Prim_ret]"
definition prim_sldt :: "prim_insn list" where "prim_sldt = [Sldt_rax, Prim_ret]"
definition prim_lar :: "prim_insn list" where "prim_lar = [Lar_rax_rcx, Prim_ret]"
definition prim_str :: "prim_insn list" where "prim_str = [Str_rax, Prim_ret]"
definition prim_get_es :: "prim_insn list" where "prim_get_es = [Mov_rax_seg ES, Prim_ret]"
definition prim_get_cs :: "prim_insn list" where "prim_get_cs = [Mov_rax_seg CS, Prim_ret]"
definition prim_get_ss :: "prim_insn list" where "prim_get_ss = [Mov_rax_seg SS, Prim_ret]"
definition prim_get_ds :: "prim_insn list" where "prim_get_ds = [Mov_rax_seg DS, Prim_ret]"
definition prim_get_fs :: "prim_insn list" where "prim_get_fs = [Mov_rax_seg FS, Prim_ret]"
definition prim_get_gs :: "prim_insn list" where "prim_get_gs = [Mov_rax_seg GS, Prim_ret]"

lemmas prim_defs = prim_disable_def prim_get_gdt_def prim_set_gdt_def prim_sldt_def prim_lar_def prim_str_def
  prim_get_es_def prim_get_cs_def prim_get_ss_def prim_get_ds_def prim_get_fs_def prim_get_gs_def

section \<open>Calls from C\<close>

text \<open>A call with any RAX and with any RCX that holds the argument; the result is cut to the C type.\<close>

definition call_u16 :: "env \<Rightarrow> prim_insn list \<Rightarrow> prim_state \<Rightarrow> u16 option" where
  "call_u16 e code s = map_option (\<lambda>s. ucast (p_rax s)) (prim_run e code s)"

definition call_u32 :: "env \<Rightarrow> prim_insn list \<Rightarrow> prim_state \<Rightarrow> u32 option" where
  "call_u32 e code s = map_option (\<lambda>s. ucast (p_rax s)) (prim_run e code s)"

lemma cut_back:
  "(ucast (ucast (x :: u16) :: u64) :: u16) = x" "(ucast (ucast (y :: u32) :: u64) :: u32) = y"
  by (rule bit_word_eqI, simp add: bit_simps)+

lemma prim_selectors:
  "call_u16 e prim_get_es s = Some (asm_get_es (p_m s))" "call_u16 e prim_get_cs s = Some (asm_get_cs (p_m s))"
  "call_u16 e prim_get_ss s = Some (asm_get_ss (p_m s))" "call_u16 e prim_get_ds s = Some (asm_get_ds (p_m s))"
  "call_u16 e prim_get_fs s = Some (asm_get_fs (p_m s))" "call_u16 e prim_get_gs s = Some (asm_get_gs (p_m s))"
  "call_u16 e prim_sldt s = Some (asm_sldt (p_m s))" "call_u16 e prim_str s = Some (asm_str (p_m s))"
  by (simp_all add: call_u16_def prim_defs insn_defs cut_back)

lemma prim_lar_eq: "call_u32 e prim_lar s = Some (asm_lar e (ucast (p_rcx s)))"
  by (simp add: call_u32_def prim_defs insn_defs cut_back)

lemma prim_gdt:
  "prim_run e prim_get_gdt s = Some (s\<lparr>p_desc := asm_get_gdt (p_m s)\<rparr>)"
  "prim_run e prim_set_gdt s = Some (s\<lparr>p_m := asm_set_gdt (p_desc s) (p_m s)\<rparr>)"
  "prim_run e prim_disable s = Some (s\<lparr>p_m := cli (p_m s)\<rparr>)"
  by (simp_all add: prim_defs insn_defs)

end
