(* ===== verification/Quiet_Session.thy ===== *)
theory Quiet_Session
  imports Modules
begin

text \<open>
  The part of a measurement that runs with a current VMCS, from \<^verbatim>\<open>initialize_vmcs\<close> to the label \<^verbatim>\<open>out4\<close>, in the steps of
  \<^verbatim>\<open>measure_vmlatency\<close>: what stays as it is through all of them.
\<close>

text \<open>Any number of calls of \<^verbatim>\<open>do_vmresume\<close> in a row, as the two loops make them.\<close>

fun resumes :: "env \<Rightarrow> nat \<Rightarrow> mstate \<Rightarrow> mstate option" where
  "resumes e 0 m = Some m"
| "resumes e (Suc k) m = do { (r, m) \<leftarrow> do_vmresume e m; resumes e k m }"

lemma resumes_iter: "has_vmcs e pa m \<Longrightarrow> resumes e k m = Some (resume_iter e pa k m)"
  by (induction k arbitrary: m) (simp_all add: do_vmresume_eq vm_enter_has_vmcs split_beta)

text \<open>Interrupts are off, and stack pointer, memory and the ledgers are as in \<open>m\<close>.\<close>

definition quiet :: "mstate \<Rightarrow> mstate \<Rightarrow> bool" where
  "quiet m x \<longleftrightarrow> \<not> int_enabled x \<and> r_rsp (m_cpu x) = r_rsp (m_cpu m) \<and> m_mem x = m_mem m \<and>
     irq_ledger x = irq_ledger m \<and> page_ledger x = page_ledger m \<and> dev_ledger x = dev_ledger m"

lemma run_inv_quiet:
  assumes "run_inv e vmm m pa x" and "\<not> int_enabled m" and "m_os x = m_os m"
  shows "quiet m x"
  using assms run_inv_rsp [OF assms(1)]
  by (auto simp: quiet_def run_inv_def untouched_def exited_def after_exit_def int_enabled_def FLAG_IF_def ledger_defs)

lemma run_inv_quiet_log:
  assumes "run_inv e vmm m pa x" and "\<not> int_enabled m" and "m_os y = m_os m" and "log_step ls y x"
  shows "quiet m x"
  using assms(2,3,4) run_inv_rsp [OF assms(1)] assms(1) log_step_ledgers [OF assms(4)] os_ledgers [OF assms(3)]
  by (auto simp: quiet_def run_inv_def untouched_def exited_def after_exit_def int_enabled_def FLAG_IF_def)

lemma resume_iter_quiet:
  assumes p: "host_msrs_present (m_cpu m)" and "\<not> int_enabled m"
    and "quiet m x" and "run_inv e vmm m pa x"
  shows "quiet m (resume_iter e pa k x)"
  using assms(3,4)
proof (induction k arbitrary: x)
  case (Suc k)
  let ?y = "snd (vm_enter e False pa x)"
  have y: "run_inv e vmm m pa ?y" "m_os ?y = m_os x" using vm_enter_keeps(1,4) [OF Suc.prems(2) p] by blast+
  have "quiet m ?y"
    using Suc.prems(1) y run_inv_rsp [OF y(1)] os_ledgers [OF y(2)] assms(2)
    by (auto simp: quiet_def run_inv_def untouched_def exited_def after_exit_def int_enabled_def FLAG_IF_def)
  then show ?case using Suc.IH y(1) by simp
qed simp

context vmm_api
begin

lemma guest_stretch:
  fixes cnt :: int and irq :: irq_flags
  assumes on: "vmx_on (m_vmx m)" "cur_vmcs (m_vmx m) = Some (vp_pa (vmcs vmm))" and p: "host_msrs_present (m_cpu m)"
    and off: "\<not> int_enabled m"
  shows "\<exists>m1 r m2 m3. initialize_vmcs e vmm m = Some m1 \<and> do_vmlaunch e m1 = Some (r, m2) \<and> quiet m m1 \<and> quiet m m2 \<and>
    (if r \<noteq> 0
     then \<exists>mp. vmlatency_printk pf (''VMLAUNCH failed'' @ nl) m2 = Some mp \<and> handle_early_exit pf e mp = Some m3 \<and>
       quiet m mp \<and> quiet m m3 \<and>
       measure_guest pf e vmm cnt irq (replicate VMX_ITERATIONS None) m = do {
         m' \<leftarrow> measure_out4 pf e vmm cnt irq (save_host_state m1) m3; Some (False, replicate VMX_ITERATIONS None, m') }
     else \<exists>q stats m4. handle_vmexit pf m2 = Some (q, m3) \<and> measure_loop e 0 (replicate VMX_ITERATIONS None) m3 = Some (stats, m4) \<and>
       resumes e (2 ^ 20 - 1) m3 = Some m4 \<and> (\<forall>k. \<exists>x. resumes e k m3 = Some x \<and> quiet m x) \<and>
       measure_guest pf e vmm cnt irq (replicate VMX_ITERATIONS None) m = do {
         m' \<leftarrow> measure_out4 pf e vmm cnt irq (save_host_state m1) m4; Some (True, stats, m') })"
proof -
  let ?pa = "vp_pa (vmcs vmm)" and ?m1 = "prepared e vmm m" and ?n = "replicate VMX_ITERATIONS None :: u64 option list"
  obtain r m2 where v: "vm_enter e True ?pa ?m1 = (r, m2)" by (cases "vm_enter e True ?pa ?m1")
  have i: "initialize_vmcs e vmm m = Some ?m1" using initialize_vmcs_writes [OF on p] by (simp add: prepared_def)
  note r1 = run_inv_prepared [OF on, of e]
  have l: "do_vmlaunch e ?m1 = Some (r, m2)" using do_vmlaunch_eq [OF run_inv_vmcs [OF r1(1)]] v by simp
  have r2: "run_inv e vmm m ?pa m2" "m_os m2 = m_os m" using vm_enter_keeps(1,4) [OF r1(1) p, of True] r1(3) v by simp_all
  have q: "quiet m ?m1" "quiet m m2" using run_inv_quiet [OF r1(1) off r1(3)] run_inv_quiet [OF r2(1) off r2(2)] by blast+
  show ?thesis
  proof (cases "r = 0")
    case False
    obtain mp where mp: "vmlatency_printk pf (''VMLAUNCH failed'' @ nl) m2 = Some mp" "log_step [''VMLAUNCH failed'' @ nl] m2 mp"
      using printk_log by blast
    have rp: "run_inv e vmm m ?pa mp" using r2(1) log_step_inv(1) [OF mp(2)] by blast
    obtain m3 ls where m3: "handle_early_exit pf e mp = Some m3" "log_step ls mp m3"
      using handle_early_exit_log [OF run_inv_vmcs [OF rp]] by blast
    have "quiet m mp" "quiet m m3"
      using run_inv_quiet_log [OF rp off r2(2) mp(2)] run_inv_quiet_log [OF _ off r2(2) log_step_trans [OF mp(2) m3(2)]]
        rp log_step_inv(1) [OF m3(2)] by blast+
    moreover have "measure_guest pf e vmm cnt irq ?n m = do {
        m' \<leftarrow> measure_out4 pf e vmm cnt irq (save_host_state ?m1) m3; Some (False, ?n, m') }"
      using False i l mp(1) m3(1) by (simp add: measure_guest_def Let_def)
    ultimately show ?thesis
      using False q i l mp(1) m3(1) by (intro exI [of _ ?m1] exI [of _ r] exI [of _ m2] exI [of _ m3]) auto
  next
    case True
    obtain b m3 ls where m3: "handle_vmexit pf m2 = Some (b, m3)" "log_step ls m2 m3"
      using handle_vmexit_log [OF run_inv_vmcs [OF r2(1)]] by blast
    have r3: "run_inv e vmm m ?pa m3" using r2(1) log_step_inv(1) [OF m3(2)] by blast
    have q3: "quiet m m3" by (rule run_inv_quiet_log [OF r3 off r2(2) m3(2)])
    note rs = resumes_iter [OF run_inv_vmcs [OF r3]]
    have "\<exists>x. resumes e k m3 = Some x \<and> quiet m x" for k using rs [of k] resume_iter_quiet [OF p off q3 r3] by blast
    moreover obtain stats where st: "measure_loop e 0 ?n m3 = Some (stats, resume_iter e ?pa (2 ^ 20 - 1) m3)"
      using measure_loop_all [OF run_inv_vmcs [OF r3]] unfolding round_state_iter by (simp add: VMX_ITERATIONS_def)
    moreover have "measure_guest pf e vmm cnt irq ?n m = do {
        m' \<leftarrow> measure_out4 pf e vmm cnt irq (save_host_state ?m1) (resume_iter e ?pa (2 ^ 20 - 1) m3); Some (True, stats, m') }"
      using True i l m3(1) st by (simp add: measure_guest_def Let_def)
    ultimately show ?thesis
      using True q i l m3(1) rs [of "2 ^ 20 - 1"]
      by (intro exI [of _ ?m1] exI [of _ r] exI [of _ m2] exI [of _ m3]) (simp del: resumes.simps)
  qed
qed

end

end
