(* ===== verification/Spec2Isabelle.thy ===== *)
theory Spec2Isabelle
  imports Example_Host Primitives Quiet_Session
begin

text \<open>
  \<^bold>\<open>vmlatency\<close>: a kernel module that measures the time of a VM entry and exit.  It is loaded into Linux, Mac OS or
  Windows, reports the VMX capabilities of the processor, sets up a VMCS whose guest mirrors the host and executes CPUID,
  and times \<open>2 ^ n\<close> VM entries in a row for \<open>n\<close> from 0 to 19.  Scripts turn its messages into a file per processor
  and plot the files.  This development models the C, C++ and assembly code of the module over a model of the
  processor and of the kernel services that it uses, and the reading of the messages by the scripts.

  \<^bold>\<open>Parts and how they interact.\<close>  The module entry points (\<^verbatim>\<open>linux/module.c\<close>, \<^verbatim>\<open>mac/module.c\<close>,
  \<^verbatim>\<open>win/module.c\<close>) call the monitor (\<^verbatim>\<open>vmm/vmx.c\<close>), which calls three layers: the five operations of
  \<^verbatim>\<open>vmm/api.h\<close>, one implementation per kernel (\<^verbatim>\<open>linux/api.c\<close>, \<^verbatim>\<open>mac/api.cpp\<close>, \<^verbatim>\<open>win/api.c\<close>); the
  instruction wrappers of \<^verbatim>\<open>vmm/asm-inlines.h\<close>, some of them in \<^verbatim>\<open>win/amd64/primitives.asm\<close> on Windows; and the two assembly functions of
  \<^verbatim>\<open>vmentry.S\<close>, with \<^verbatim>\<open>vmx_exit\<close>, where the processor arrives after a VM exit.  The guest is \<^verbatim>\<open>guest.S\<close>.
  \<^verbatim>\<open>get_vmlatency.sh\<close> and \<^verbatim>\<open>GetVmlatency.ps1\<close> load the module and make a file of its messages, which \<^verbatim>\<open>process-data.py\<close> reads.

  \<^bold>\<open>State.\<close>  \<open>mstate\<close> has four parts: \<open>cpu\<close> (the registers and MSRs that the code reads or writes, or a VM exit changes), \<open>vmx_state\<close> (VMX
  operation, current VMCS, fields and launch state of each region), physical memory by bytes, and \<open>os_state\<close> (ledgers of
  pages, mappings, MDLs and locks, preemption count and IRQL, the logs, the Windows device).  A function of the source takes and
  returns it; \<^const>\<open>None\<close> is an execution that does not come back (an exception of the processor, a fault in the
  kernel, or the use of a value that was never written).  What neither the source nor the instruction set fixes is a
  field of the parameter \<open>env\<close>: answers of the kernel's allocators, CPUID, LAR and LSL, address translation, the outcome of
  a VM entry, the cycles it takes, the addresses of \<^verbatim>\<open>guest_code\<close> and \<^verbatim>\<open>vmx_exit\<close>.

  \<^bold>\<open>Theories and sources.\<close>
    \<^item> \<open>Prelude\<close>: word types (\<^verbatim>\<open>vmm/types.h\<close>), lemma collections and shared lemmas on words and options.
    \<^item> \<open>Cpu_Defs\<close>: \<^verbatim>\<open>vmm/cpu-defs.h\<close>, one definition per macro, and the manual's layout of VMCS encodings.
    \<^item> \<open>State\<close>: the structures of \<^verbatim>\<open>vmm/vmx.h\<close> and \<^verbatim>\<open>vmm/api.h\<close>, the state, the parameters.
    \<^item> \<open>Machine\<close>: the instructions (RDMSR, MOV to CR4, VMXON to VMWRITE, VM entry and exit).
    \<^item> \<open>Asm_Inlines\<close>: \<^verbatim>\<open>vmm/asm-inlines.h\<close>, with both branches of \<^verbatim>\<open>#ifdef WIN32\<close>.
    \<^item> \<open>Printf\<close>: the conversions of the program's format strings, and reading numbers back.
    \<^item> \<open>Vmm_Api\<close>: the contract of \<^verbatim>\<open>vmm/api.h\<close> as the locale \<open>vmm_api\<close>, extended by \<open>vmm_api_total\<close>, \<open>vmm_api_pages\<close> and
      \<open>vmm_api_frame\<close>; \<open>Linux_Api\<close>, \<open>Mac_Api\<close>, \<open>Win_Api\<close>: the three ports, each an interpretation.
    \<^item> \<open>Primitives\<close>: \<^verbatim>\<open>win/amd64/primitives.asm\<close>, a list of instructions per function, and their agreement with the GNU branch.
    \<^item> \<open>Vmentry\<close>: \<^verbatim>\<open>linux/vmentry.S\<close>, \<^verbatim>\<open>mac/vmentry.S\<close> and \<^verbatim>\<open>win/amd64/vmentry.asm\<close> as programs with a step function, and the
      contract \<open>vm_enter\<close> that their two functions refine.
    \<^item> \<open>Vmx_Memory\<close>, \<open>Vmx_Caps\<close>, \<open>Vmx_Ops\<close>, \<open>Vmx_Vmcs\<close>, \<open>Vmx_Measure\<close>: the functions of \<^verbatim>\<open>vmm/vmx.c\<close>, in the order pages
      and tables, capabilities, VMXON to VMCLEAR, VMCS initialisation, measurement.  The labels \<^verbatim>\<open>out4\<close> to
      \<^verbatim>\<open>out1\<close> of \<^verbatim>\<open>measure_vmlatency\<close> are the definitions \<open>measure_out4\<close> to \<open>measure_out1\<close>; the stretches between
      them are \<open>measure_vmx\<close> and \<open>measure_guest\<close>.
    \<^item> \<open>Vmx_Run\<close>: the invariant of the VM entries and the loops as iterations of \<open>vm_enter\<close>;
      \<open>Vmx_Session\<close>: the ways through a measurement (\<open>path\<close>) and what each leaves behind, for any port;
      \<open>Vmx_Pages\<close>: from the kernel's pages to the regions that the processor accepts.
    \<^item> \<open>Modules\<close>: the entry points, with the port chosen by the target; \<open>Lifecycle\<close>: loading and unloading any number of
      times, as a relation and its invariant; \<open>Load_Frame\<close>: what a load leaves of memory and of the MDLs;
      \<open>Quiet_Session\<close>: what stays as it is from the VMCS initialisation to the label \<^verbatim>\<open>out4\<close>.
    \<^item> \<open>Vmx_Relation\<close>: what every step keeps, the measurement keeps (locales \<open>call_relation\<close>, \<open>port_relation\<close> and \<open>entry_relation\<close> on the whole state,
      \<open>vmx_calls\<close> and \<open>vmx_relation\<close> on its VMX part); \<open>Vmx_Frame\<close>: instances, and the count of the VM entries;
      \<open>Nested_Session\<close>: a measurement under another monitor's VMX operation; \<open>Guest_Code\<close>: \<^verbatim>\<open>guest.S\<close> and the measurement
      of a processor that runs it; \<open>Entry_Checks\<close>: the checks that the manual lists for a VM entry, and the VMCS of the program against
      them; \<open>Checked_Session\<close>: the measurement of a processor that makes them; \<open>Win_Session\<close>: what a session on Windows leaves in the event log and of its MDLs.
    \<^item> \<open>Results\<close>: the pipe of \<^verbatim>\<open>get_vmlatency.sh\<close>, \<^verbatim>\<open>Dump-Results\<close> of \<^verbatim>\<open>GetVmlatency.ps1\<close>, and the reading, selection and naming of
      results in \<^verbatim>\<open>process-data.py\<close>; \<open>Result_Log\<close>: these composed with the module; \<open>Process_Data\<close>: the table of
      results and the printed lines.
    \<^item> \<open>Example_Host\<close>: a host with the MSRs of one of the repository's result files, for the instances.

  \<^bold>\<open>What the lemmas show.\<close>  The lemmas of a component give each operation on every branch (\<open>..._eq\<close>, \<open>..._outcome\<close>,
  \<open>..._log\<close>).  The properties below are numbered.  C1 to C5 are about the measurement, C6 to C9, C24, C25 and
  C40 about the VMCS, C10 to C13 about the capabilities, C14, C26 and C35 about the checks of a VM entry, from the host's
  registers to the result, C15 to C17 about memory and revision identifiers,
  C18, C19, C38 and C39 about VMX operation, C20 to C23 about VM entries that fail or exit for another reason, C27 to C30 about the ports, C31, C34, C36 and C37 about the output and its way through the scripts, and C32 and C33
  about the life of the module.  Some state what
  the code does where that is not what it seems to mean: C3 (for the debug registers), C8, C13, C15, C17, C19, C20, C22, C28, C30, C34, C35 and C37.

  \<^bold>\<open>Bounds.\<close>  A call into the assembly runs with fuel 8: no path from a label to \<^verbatim>\<open>ret\<close> has more than seven instructions, and the
  refinement (C4) is proved for it without a condition on the run.  The loops are recursive functions with a measure,
  not fuel.  The counters \<^verbatim>\<open>i\<close> and \<^verbatim>\<open>n\<close> of type \<^verbatim>\<open>int\<close> are natural numbers: \<open>n\<close> stays below 20 and \<open>i\<close> below \<open>2 ^ 19\<close>.
  The time stamp counter wraps at 64 bits; averages are exact if the cycles of a round fit in 64 bits, for which
  \<open>2 ^ 44\<close> cycles per entry are enough.

  \<^bold>\<open>Relied on.\<close>  Documented behaviour of what is not in the repository appears as named predicates: \<open>vmx_msrs_present\<close>
  and \<open>host_msrs_present\<close> (the MSRs exist), \<open>vmx_ready\<close> (VMXON would be accepted), \<open>kernel_memory\<close>, \<open>good_pages\<close> and
  \<open>distinct_pages\<close> (the allocator), \<open>fresh_pages\<close> (no launch state is left for a page of the allocator), \<open>locks_available\<close>, \<open>good_host\<close>, \<open>equipped\<close>, \<open>measurable\<close>, \<open>loadable\<close>, \<open>nested_host\<close> (another monitor
  in VMX operation), \<open>kernel_host\<close> and \<open>ordinary_session\<close> (registers, segments and capabilities as a 64-bit operating system and its
  processor have them), \<open>makes_checks\<close> (the processor makes the manual's checks and then runs the instructions at the guest's RIP),
  \<open>checked_host\<close> (both, and no RPL in TR), \<open>runs_guest_code\<close> (it accepts any guest state of the program and runs them), \<open>evlog_works\<close> (the event log takes
  entries), \<open>foreign_log\<close> and \<open>stamp_ok\<close> (the rest of the kernel's log, and its time stamps).
  \<open>Example_Host\<close> satisfies all of them.

  \<^bold>\<open>Not modelled.\<close>  Arithmetic flags between VMX instructions, caches and other
  processors have no place in the state, and time passes only in VM entries.  The event log entry of the Windows port is the
  message, cut to its buffer, without the conversion to UTF-16.  Of the scripts, the parts that build, load and
  sign the module (\<open>load_module\<close> stands for \<^verbatim>\<open>insmod\<close>, \<^verbatim>\<open>kextload\<close> and the service control), the listing of
  the directory in \<^verbatim>\<open>process-data.py\<close>, and \<^verbatim>\<open>histogram.plt\<close> are left out (averages, which the script computes in floating point, are exact), as are the kernels themselves, the \<^verbatim>\<open>Makefile\<close> and the recorded results.
\<close>

section \<open>The measurement\<close>

text \<open>
  C1: On a host with memory to be had whose processor accepts VMXON and the guest, a call of
  \<^verbatim>\<open>measure_vmlatency\<close> comes back and logs twenty lines, one for each power of two, after an error line if the first VM exit was
  not caused by CPUID; it enters the guest exactly 2 to the 20 times, once by VMLAUNCH and the others by VMRESUME; and if every VM entry takes between \<open>lo\<close> and \<open>hi\<close> cycles (\<open>hi\<close> below 2 to the 44), so
  does every printed average, wherever the time stamp counter starts and wraps.
\<close>

theorem measure_measures:
  assumes "measurable e m" and "\<And>m. lo \<le> unat (e_cycles e m) \<and> unat (e_cycles e m) \<le> hi" and "hi < 2 ^ 44"
  shows "\<exists>r vs m'. measure_vmlatency (platform_of e) e m = Some m' \<and> length vs = 20 \<and>
    klog m' = klog m @ map tagged (exit_report r @ map (\<lambda>n. result_line n (vs ! n)) [0..<20]) \<and>
    vm_entries (m_vmx m') = vm_entries (m_vmx m) + 2 ^ 20 \<and>
    (\<forall>n < 20. lo \<le> unat (vs ! n) \<and> unat (vs ! n) \<le> hi)"
proof -
  obtain r vs m' vmm m5 where m: "measure_vmlatency (platform_of e) e m = Some m'"
    "left_behind e m (Measured r vs) m'" "guest_when e vmm m5 (Measured r vs)"
    using measurable_measures [OF assms(1)] by blast
  then show ?thesis
    using guest_when_bounds [OF m(3) assms(2,3)] guest_when_stats [OF m(3)] measurable_counts [OF assms(1) m(1)]
    by (auto simp: left_behind_def VMX_ITERATIONS_def)
qed

theorem measure_measures_witness:
  "\<exists>r vs m'. measure_vmlatency (platform_of (x_env Linux (Entry_Exit 10))) (x_env Linux (Entry_Exit 10)) x_host = Some m' \<and>
    length vs = 20 \<and> klog m' = klog x_host @ map tagged (exit_report r @ map (\<lambda>n. result_line n (vs ! n)) [0..<20]) \<and>
    vm_entries (m_vmx m') = vm_entries (m_vmx x_host) + 2 ^ 20 \<and>
    (\<forall>n < 20. 540 \<le> unat (vs ! n) \<and> unat (vs ! n) \<le> 540)"
  by (rule measure_measures [OF x_measurable]) (simp_all add: x_env_def)

text \<open>
  C2: On every port, a call of \<^verbatim>\<open>measure_vmlatency\<close> on a processor that has the documented MSRs and would accept
  VMXON comes back, whatever the memory, the processor's checks of the regions and of the guest, and the outcomes of
  the VM entries are: the interrupt flag, the preemption count, the IRQL, the locks and the devices are what they
  were, the processor is out of VMX operation, and all pages are given back, or fewer than five are lost because
  the allocation stopped halfway.
\<close>

theorem measure_restores_system:
  assumes "vmx_msrs_present (m_cpu m)" and "host_msrs_present (m_cpu m)" and "vmx_ready m" and "locks_available e"
  shows "\<exists>m'. measure_vmlatency (platform_of e) e m = Some m' \<and>
    int_enabled m' = int_enabled m \<and> irq_ledger m' = irq_ledger m \<and> dev_ledger m' = dev_ledger m \<and>
    \<not> vmx_on (m_vmx m') \<and> (\<exists>hs. length hs < 5 \<and> ledger_plus m hs m')"
proof -
  have off: "\<not> vmx_on (m_vmx m)" using assms(3) by (simp add: vmx_ready_def)
  obtain m' where m': "measure_vmlatency (platform_of e) e m = Some m'"
    "(\<exists>hs. length hs < 5 \<and> ledger_plus m hs m' \<and> os_step m m' \<and> klog m' = klog m) \<or> (\<exists>p. left_behind e m p m')"
    using port.measure_outcome [OF assms(1-3) port_disable_total [OF assms(4)]] by blast
  have "ledger_plus m [] m'" if "left_behind e m p m'" for p
    using that by (simp add: left_behind_def ledger_plus_def)
  then show ?thesis
    using m' off unfolding left_behind_def os_step_def int_enabled_def
    by (metis list.size(3) zero_less_numeral)
qed

theorem measure_restores_system_witness:
  "\<exists>m'. measure_vmlatency (platform_of (x_env Windows (Entry_Fail 7))) (x_env Windows (Entry_Fail 7)) x_host = Some m' \<and>
    int_enabled m' = int_enabled x_host \<and> irq_ledger m' = irq_ledger x_host \<and> dev_ledger m' = dev_ledger x_host \<and>
    \<not> vmx_on (m_vmx m') \<and> (\<exists>hs. length hs < 5 \<and> ledger_plus x_host hs m')"
  by (rule measure_restores_system) (simp_all add: x_host_parts(1) x_msrs_present x_host_msrs x_ready x_locks)



text \<open>
  C4: The assembly functions refine their contract.  With a current VMCS whose host RIP is \<^verbatim>\<open>vmx_exit\<close>, a run of the
  instructions of the target's \<^verbatim>\<open>vmentry.S\<close> or \<^verbatim>\<open>vmentry.asm\<close> from \<^verbatim>\<open>do_vmlaunch\<close> or \<^verbatim>\<open>do_vmresume\<close> comes back to its caller with
  the caller's RSP, and with 0 in EAX if control came back by a VM exit and 1 if the entry was refused.
\<close>

theorem vmentry_refines:
  assumes "has_vmcs e pa m"
  shows "do_vmlaunch e m = Some (vm_enter e True pa m) \<and> do_vmresume e m = Some (vm_enter e False pa m) \<and>
    fst (vm_enter e l pa m) \<in> {0, 1} \<and> r_rsp (m_cpu (snd (vm_enter e l pa m))) = r_rsp (m_cpu m)"
  using do_vmlaunch_eq [OF assms] do_vmresume_eq [OF assms] vm_enter_result [of e l pa m] vm_enter_rsp by simp

theorem vmentry_refines_witness:
  "let e = x_env Linux (Entry_Exit 10); m = x_in_vmx e
   in do_vmlaunch e m = Some (vm_enter e True 0x2000 m) \<and> do_vmresume e m = Some (vm_enter e False 0x2000 m) \<and>
      fst (vm_enter e True 0x2000 m) \<in> {0, 1} \<and> r_rsp (m_cpu (snd (vm_enter e True 0x2000 m))) = r_rsp (m_cpu m)"
  unfolding Let_def by (rule vmentry_refines [OF x_has_vmcs])

text \<open>
  C5: The two loops come back and record, for each \<open>n\<close>, the cycles of its 2 to the \<open>n\<close> VM entries in a row divided by 2 to the \<open>n\<close>,
  whatever the counter is at the start, if the sum of the cycles fits in 64 bits.
\<close>

theorem measure_loop_averages:
  assumes "has_vmcs e pa m"
    and "\<And>n. n < 20 \<Longrightarrow> total_cycles e pa (2 ^ n) (resume_iter e pa (2 ^ n - 1) m) < 2 ^ 64"
  shows "\<exists>vs. measure_loop e 0 (replicate 20 None) m = Some (map Some vs, resume_iter e pa (2 ^ 20 - 1) m) \<and>
    length vs = 20 \<and>
    (\<forall>n < 20. unat (vs ! n) = total_cycles e pa (2 ^ n) (resume_iter e pa (2 ^ n - 1) m) div 2 ^ n)"
proof (intro exI conjI)
  let ?vs = "map (\<lambda>n. round_stat e pa n m) [0..<20]"
  show "measure_loop e 0 (replicate 20 None) m = Some (map Some ?vs, resume_iter e pa (2 ^ 20 - 1) m)"
    using measure_loop_all [OF assms(1)] unfolding VMX_ITERATIONS_def round_state_iter by (simp only: list.map_comp o_def)
  show "length ?vs = 20" by simp
  show "\<forall>n < 20. unat (?vs ! n) = total_cycles e pa (2 ^ n) (resume_iter e pa (2 ^ n - 1) m) div 2 ^ n"
    using assms(2) round_stat_mean [of _ e pa m] unfolding round_state_iter by simp
qed

theorem measure_loop_averages_witness:
  "\<exists>vs. measure_loop (x_env Linux (Entry_Exit 10)) 0 (replicate 20 None) (x_in_vmx (x_env Linux (Entry_Exit 10))) =
      Some (map Some vs, resume_iter (x_env Linux (Entry_Exit 10)) 0x2000 (2 ^ 20 - 1) (x_in_vmx (x_env Linux (Entry_Exit 10)))) \<and>
    length vs = 20 \<and>
    (\<forall>n < 20. unat (vs ! n) = total_cycles (x_env Linux (Entry_Exit 10)) 0x2000 (2 ^ n)
      (resume_iter (x_env Linux (Entry_Exit 10)) 0x2000 (2 ^ n - 1) (x_in_vmx (x_env Linux (Entry_Exit 10)))) div 2 ^ n)"
proof (rule measure_loop_averages [OF x_has_vmcs])
  fix n :: nat
  assume "n < 20"
  then have "(2::nat) ^ n \<le> 2 ^ 20" by (intro power_increasing) simp_all
  then show "total_cycles (x_env Linux (Entry_Exit 10)) 0x2000 (2 ^ n)
      (resume_iter (x_env Linux (Entry_Exit 10)) 0x2000 (2 ^ n - 1) (x_in_vmx (x_env Linux (Entry_Exit 10)))) < 2 ^ 64"
    by (simp add: total_cycles_def entry_cycles_def x_env_def)
qed

section \<open>The VMCS\<close>

text \<open>
  C6: The host-state area.  After \<^verbatim>\<open>initialize_vmcs\<close>, a VM exit loads the selectors without their low three bits, the
  same control registers, bases and MSRs as before, a null LDTR, tables with the limit 0xffff, and
  the debug registers DR7 and IA32_DEBUGCTL at their reset values; putting back what \<^verbatim>\<open>save_host_state\<close> saved restores the tables, and
  only them.
\<close>

theorem vm_exit_restores_host:
  assumes "vmx_on (m_vmx m)" and "cur_vmcs (m_vmx m) = Some (vp_pa (vmcs vmm))" and "host_msrs_present (m_cpu m)"
  shows "\<exists>m'. initialize_vmcs e vmm m = Some m' \<and>
    (let pa = vp_pa (vmcs vmm);
         x = vm_exit pa r (tick e (set_vmcs_field pa VMCS_HOST_RSP (r_rsp (m_cpu m')) m'));
         y = restore_host_state (save_host_state m') x
     in (\<exists>t. m_cpu x = (after_exit (m_cpu m))\<lparr>r_tsc := t\<rparr>) \<and>
        (\<exists>t. m_cpu y = (exit_residue (m_cpu m))\<lparr>r_rflags := 2, r_tsc := t\<rparr>))"
proof -
  let ?m = "prepared e vmm m" and ?pa = "vp_pa (vmcs vmm)"
  let ?x = "vm_exit ?pa r (tick e (set_vmcs_field ?pa VMCS_HOST_RSP (r_rsp (m_cpu ?m)) ?m))"
  have i: "initialize_vmcs e vmm m = Some ?m"
    using initialize_vmcs_writes [OF assms] by (simp add: prepared_def)
  obtain t where t: "m_cpu ?x = (after_exit (m_cpu m))\<lparr>r_tsc := t\<rparr>"
    using vm_exit_exited [OF run_inv_prepared(1) [OF assms(1,2)] assms(3)] by (auto simp: exited_def)
  have sv: "save_host_state ?m = \<lparr>hs_gdt = r_gdtr (m_cpu m), hs_idt = r_idtr (m_cpu m)\<rparr>"
    by (simp add: save_host_state_def insn_defs prepared_def frame)
  have "m_cpu (restore_host_state (save_host_state ?m) ?x) = (exit_residue (m_cpu m))\<lparr>r_rflags := 2, r_tsc := t\<rparr>"
    unfolding restore_host_state_eq sv by (simp add: t) (simp add: after_exit_def exit_residue_def cpu.equality)
  then show ?thesis using i t by (auto simp: Let_def)
qed

theorem vm_exit_restores_host_witness:
  "\<exists>m'. initialize_vmcs (x_env Linux (Entry_Exit 10)) x_vmm (x_in_vmx (x_env Linux (Entry_Exit 10))) = Some m' \<and>
    (let pa = vp_pa (vmcs x_vmm);
         x = vm_exit pa 10 (tick (x_env Linux (Entry_Exit 10)) (set_vmcs_field pa VMCS_HOST_RSP (r_rsp (m_cpu m')) m'));
         y = restore_host_state (save_host_state m') x
     in (\<exists>t. m_cpu x = (after_exit (m_cpu (x_in_vmx (x_env Linux (Entry_Exit 10)))))\<lparr>r_tsc := t\<rparr>) \<and>
        (\<exists>t. m_cpu y = (exit_residue (m_cpu (x_in_vmx (x_env Linux (Entry_Exit 10)))))\<lparr>r_rflags := 2, r_tsc := t\<rparr>))"
  by (rule vm_exit_restores_host) (simp_all add: x_in_vmx_parts x_vmm_def x_host_msrs)

text \<open>
  C7: The guest mirrors the host: the guest-state area has the host's control registers, flags, tables, selectors (TR
  without its low bits), FS and GS bases and the stack pointer of SYSENTER, and the guest starts at \<^verbatim>\<open>guest_code\<close>.
\<close>

theorem guest_mirrors_host:
  assumes "vmx_on (m_vmx m)" and "cur_vmcs (m_vmx m) = Some pa" and "host_msrs_present (m_cpu m)"
  shows "\<exists>m'. initialize_vmcs e vmm m = Some m' \<and>
    (let g = vmcs_fields (m_vmx m') pa; c = m_cpu m
     in g VMCS_GUEST_CR0 = r_cr0 c \<and> g VMCS_GUEST_CR3 = r_cr3 c \<and> g VMCS_GUEST_CR4 = r_cr4 c \<and>
        g VMCS_GUEST_RFLAGS = r_rflags c \<and> g VMCS_GUEST_RIP = e_guest_code e \<and>
        g VMCS_GUEST_GDTR_BASE = base (r_gdtr c) \<and> g VMCS_GUEST_GDTR_LIMIT = ucast (limit (r_gdtr c)) \<and>
        g VMCS_GUEST_IDTR_BASE = base (r_idtr c) \<and> g VMCS_GUEST_IDTR_LIMIT = ucast (limit (r_idtr c)) \<and>
        map g [VMCS_GUEST_ES, VMCS_GUEST_CS, VMCS_GUEST_SS, VMCS_GUEST_DS, VMCS_GUEST_FS, VMCS_GUEST_GS, VMCS_GUEST_LDTR] =
          map ucast [r_es c, r_cs c, r_ss c, r_ds c, r_fs c, r_gs c, r_ldtr c] \<and>
        g VMCS_GUEST_TR = ucast (r_tr c) AND NOT 7 \<and> g VMCS_GUEST_TR_BASE = gdt_tr_base e m \<and>
        r_msrs c IA32_FS_BASE = Some (g VMCS_GUEST_FS_BASE) \<and> r_msrs c IA32_GS_BASE = Some (g VMCS_GUEST_GS_BASE) \<and>
        r_msrs c IA32_SYSENTER_ESP = Some (g VMCS_GUEST_IA32_SYSENTER_ESP))"
proof -
  let ?m = "vmw pa (rev (vmcs_image e vmm m)) m"
  obtain fsb gsb sesp where p: "r_msrs (m_cpu m) IA32_FS_BASE = Some fsb"
    "r_msrs (m_cpu m) IA32_GS_BASE = Some gsb" "r_msrs (m_cpu m) IA32_SYSENTER_ESP = Some sesp"
    using assms(3) by (auto simp: host_msrs_present_def)
  show ?thesis
    using initialize_vmcs_writes [OF assms, of e vmm]
    by (intro exI [of _ ?m])
      (simp only: p option.sel Let_def vmw_image_field image_guest_registers image_guest_selectors option.case list.map simp_thms)
qed

theorem guest_mirrors_host_witness:
  "\<exists>m'. initialize_vmcs (x_env Linux (Entry_Exit 10)) x_vmm (x_in_vmx (x_env Linux (Entry_Exit 10))) = Some m' \<and>
    (let g = vmcs_fields (m_vmx m') 0x2000; c = x_cpu
     in g VMCS_GUEST_CR3 = 0x1234000 \<and> g VMCS_GUEST_RIP = 0xffffffffc0a01000 \<and> g VMCS_GUEST_CS = 0x10)"
  using guest_mirrors_host [OF x_in_vmx_parts(2,3), of "x_env Linux (Entry_Exit 10)" "x_env Linux (Entry_Exit 10)" x_vmm]
  by (auto simp: x_in_vmx_parts x_host_msrs Let_def) (auto simp: x_cpu_def x_env_def)

text \<open>
  C8: The guest does not mirror the host's SYSENTER entry point: \<^verbatim>\<open>VMCS_GUEST_IA32_SYSENTER_EIP\<close> receives the stack
  pointer \<^verbatim>\<open>IA32_SYSENTER_ESP\<close>, while the host-state area has both MSRs.
\<close>

theorem guest_sysenter_eip_is_esp:
  assumes "vmx_on (m_vmx m)" and "cur_vmcs (m_vmx m) = Some pa" and "host_msrs_present (m_cpu m)"
  shows "\<exists>m'. initialize_vmcs e vmm m = Some m' \<and>
    (let g = vmcs_fields (m_vmx m') pa; r = r_msrs (m_cpu m)
     in r IA32_SYSENTER_ESP = Some (g VMCS_GUEST_IA32_SYSENTER_EIP) \<and>
        r IA32_SYSENTER_ESP = Some (g VMCS_HOST_IA32_SYSENTER_ESP) \<and>
        r IA32_SYSENTER_EIP = Some (g VMCS_HOST_IA32_SYSENTER_EIP))"
proof -
  let ?m = "vmw pa (rev (vmcs_image e vmm m)) m"
  obtain sesp seip where p: "r_msrs (m_cpu m) IA32_SYSENTER_EIP = Some seip"
    "r_msrs (m_cpu m) IA32_SYSENTER_ESP = Some sesp"
    using assms(3) by (auto simp: host_msrs_present_def)
  show ?thesis
    using initialize_vmcs_writes [OF assms, of e vmm]
    by (intro exI [of _ ?m])
      (simp only: p option.sel Let_def vmw_image_field image_guest_registers image_host_registers option.case simp_thms)
qed

theorem guest_sysenter_eip_is_esp_witness:
  "\<exists>m'. initialize_vmcs (x_env Linux (Entry_Exit 10)) x_vmm (x_in_vmx (x_env Linux (Entry_Exit 10))) = Some m' \<and>
    vmcs_fields (m_vmx m') 0x2000 VMCS_GUEST_IA32_SYSENTER_EIP = 0xfffffe0000002200 \<and>
    vmcs_fields (m_vmx m') 0x2000 VMCS_HOST_IA32_SYSENTER_EIP = 0xffffffff81a015d0"
  using guest_sysenter_eip_is_esp [OF x_in_vmx_parts(2,3), of "x_env Linux (Entry_Exit 10)" "x_env Linux (Entry_Exit 10)" x_vmm]
  by (auto simp: x_in_vmx_parts x_host_msrs Let_def) (auto simp: x_cpu_def x_msrs_def msr_enc)

text \<open>
  C9: The four control fields respect the capabilities: where the halves of the capability MSRs are consistent
  (a bit that must be 1 may be 1) and 64-bit hosts and guests are allowed, every control bit that must be 1 is 1 and every
  control bit that must be 0 is 0.
\<close>

theorem controls_are_allowed:
  assumes "vmx_on (m_vmx m)" and "cur_vmcs (m_vmx m) = Some pa" and "host_msrs_present (m_cpu m)"
    and "consistent_ctls vmm"
  shows "\<exists>m'. initialize_vmcs e vmm m = Some m' \<and>
    (let f = vmcs_fields (m_vmx m') pa
     in ctl_ok (pinbased_allowed0 vmm) (pinbased_allowed1 vmm) (f VMCS_PIN_BASED_VM_CTLS) \<and>
        ctl_ok (procbased_allowed0 vmm) (procbased_allowed1 vmm) (f VMCS_PROC_BASED_VM_CTLS) \<and>
        ctl_ok (exit_ctls_allowed0 vmm) (exit_ctls_allowed1 vmm) (f VMCS_VMEXIT_CTLS) \<and>
        ctl_ok (entry_ctls_allowed0 vmm) (entry_ctls_allowed1 vmm) (f VMCS_VMENTRY_CTLS))"
proof -
  have c: "ctl_ok (pinbased_allowed0 vmm) (pinbased_allowed1 vmm) (ucast (pinbased_allowed0 vmm AND pinbased_allowed1 vmm))"
    "ctl_ok (procbased_allowed0 vmm) (procbased_allowed1 vmm) (ucast (procbased_allowed0 vmm AND procbased_allowed1 vmm))"
    "ctl_ok (exit_ctls_allowed0 vmm) (exit_ctls_allowed1 vmm)
      (ucast (exit_ctls_allowed0 vmm AND exit_ctls_allowed1 vmm) OR VMCS_VMEXIT_CTL_HOST_ADDR_SPACE_SIZE)"
    "ctl_ok (entry_ctls_allowed0 vmm) (entry_ctls_allowed1 vmm)
      (ucast (entry_ctls_allowed0 vmm AND entry_ctls_allowed1 vmm) OR VMCS_VMENTRY_CTL_IA32E_MODE_GUEST)"
    using assms(4) unfolding consistent_ctls_def vm_ctl_bit9 by (blast intro: ctl_ok_and ctl_ok_and_bit9)+
  show ?thesis
    using initialize_vmcs_writes [OF assms(1-3), of e vmm] c
    by (intro exI [of _ "vmw pa (rev (vmcs_image e vmm m)) m"]) (simp add: vmw_image_field image_controls)
qed

theorem controls_are_allowed_witness:
  "\<exists>m'. initialize_vmcs (x_env Linux (Entry_Exit 10)) x_caps (x_in_vmx (x_env Linux (Entry_Exit 10))) = Some m' \<and>
    (let f = vmcs_fields (m_vmx m') 0x2000
     in ctl_ok 0x16 0x7f (f VMCS_PIN_BASED_VM_CTLS) \<and> ctl_ok 0x0401e172 0xfff9fffe (f VMCS_PROC_BASED_VM_CTLS) \<and>
        ctl_ok 0x36dfb 0x1ffffff (f VMCS_VMEXIT_CTLS) \<and> ctl_ok 0x11fb 0x3ffff (f VMCS_VMENTRY_CTLS))"
  using controls_are_allowed [OF x_in_vmx_parts(2,3), of "x_env Linux (Entry_Exit 10)" x_caps "x_env Linux (Entry_Exit 10)"]
  by (simp add: x_in_vmx_parts x_host_msrs x_caps_consistent) (simp add: x_caps_def)

text \<open>
  C14: The VMCS passes the checks of a VM entry.  On an ordinary host (64-bit mode, canonical bases, an operating system's segments with a 64-bit code segment, controls
  without the optional features), whatever the stack pointer is, the VMCS that \<^verbatim>\<open>initialize_vmcs\<close> builds passes all checks that the manual lists for the
  controls and the guest-state area; it passes those of the host-state area just if the selector of TR has its low three bits clear.
\<close>

theorem vmcs_passes_checks:
  assumes "vmx_on (m_vmx m)" and "cur_vmcs (m_vmx m) = Some (vp_pa (vmcs vmm))" and "host_msrs_present (m_cpu m)"
    and "ordinary_session e vmm m"
  shows "\<exists>m'. initialize_vmcs e vmm m = Some m' \<and>
    (let v = (vmcs_fields (m_vmx m') (vp_pa (vmcs vmm)))(VMCS_HOST_RSP := x)
     in only_default_ctls v \<and> control_checks (m_cpu m) v \<and> guest_checks e (m_cpu m) v \<and>
        (host_checks e (m_cpu m) v \<longleftrightarrow> r_tr (m_cpu m) AND 7 = 0))"
proof -
  have "m_cpu (prepared e vmm m) = m_cpu m" by (simp add: prepared_def frame)
  then show ?thesis
    using run_inv_passes [OF run_inv_prepared(1) [OF assms(1,2), of e] assms(4), of x] initialize_vmcs_writes [OF assms(1-3), of e vmm]
    by (auto simp: prepared_def [symmetric] passes_but_host_def Let_def)
qed

theorem vmcs_passes_checks_witness:
  "\<exists>m'. initialize_vmcs (x_checking Linux) x_caps (with_vmxe (cli (x_in_vmx (x_checking Linux)))) = Some m' \<and>
    (let v = (vmcs_fields (m_vmx m') 0x2000)(VMCS_HOST_RSP := 0x1000) in host_checks (x_checking Linux) (m_cpu m') v)"
proof -
  let ?m = "with_vmxe (cli (x_in_vmx (x_checking Linux)))"
  have m: "vmx_on (m_vmx ?m)" "cur_vmcs (m_vmx ?m) = Some (vp_pa (vmcs x_caps))" "host_msrs_present (m_cpu ?m)"
    "r_tr (m_cpu ?m) = 0x40" "vp_pa (vmcs x_caps) = 0x2000"
    using x_host_msrs
    by (simp_all add: with_vmxe_def cli_def x_in_vmx_parts x_caps_def x_vmm_def host_msrs_present_def) (simp add: x_cpu_def)
  obtain m' where m': "initialize_vmcs (x_checking Linux) x_caps ?m = Some m'"
    "host_checks (x_checking Linux) (m_cpu ?m) ((vmcs_fields (m_vmx m') 0x2000)(VMCS_HOST_RSP := 0x1000))"
    using vmcs_passes_checks [OF m(1-3) x_ordinary_session, of "0x1000"] unfolding m(4,5) by (auto simp: Let_def)
  have "m_cpu m' = m_cpu ?m"
    using m'(1) initialize_vmcs_writes [OF m(1-3), of "x_checking Linux" x_caps] by (auto simp: frame)
  then show ?thesis using m' by (simp add: Let_def)
qed

section \<open>The capabilities\<close>

text \<open>
  C10: Loading on Linux and Mac OS.  On a host whose MSRs are as documented, and, on Mac OS, where locks are to be had, the entry point comes back with 0: without VMX, or
  with VMX disabled by the firmware, after one message; otherwise after the report of the capabilities and a measurement,
  which ends with everything given back or with fewer than five pages lost.
\<close>

theorem module_init_outcome:
  assumes "good_host e m" and "locks_available e"
  shows "\<exists>m'. vmlatency_init (platform_of e) e m = Some (0, m') \<and> vmlatency_start (platform_of e) e m = Some (KERN_SUCCESS, m') \<and>
    (if fst (vmx_answer e m) then measured_after e (info_lines e m) m m' else log_step (snd (vmx_answer e m)) m m')"
  using vmlatency_init_outcome [OF assms] unfolding vmlatency_start_init KERN_SUCCESS_def by blast

theorem module_init_outcome_witness:
  "\<exists>m'. vmlatency_init (platform_of (x_env Linux (Entry_Exit 10))) (x_env Linux (Entry_Exit 10)) x_host = Some (0, m') \<and>
    measured_after (x_env Linux (Entry_Exit 10)) (info_lines (x_env Linux (Entry_Exit 10)) x_host) x_host m'"
  using module_init_outcome [of "x_env Linux (Entry_Exit 10)" x_host, OF x_good_host x_locks]
  by (auto simp: vmx_answer_def x_has_vmx x_host_parts vmx_permitted_def x_msrs_def msr_enc bit_numeral_simps)

text \<open>
  C11: The report.  Where the documented MSRs exist, \<^verbatim>\<open>print_vmx_info\<close> never reads one that does not exist: it logs the
  brand string and one line for each capability MSR of the processor, and leaves the processor alone.
\<close>

theorem print_vmx_info_report:
  assumes "vmx_msrs_present (m_cpu m)" and "c_string (brand_string e) = Some s"
  shows "\<exists>m'. print_vmx_info (platform_of e) e m = Some m' \<and> m_cpu m' = m_cpu m \<and> m_vmx m' = m_vmx m \<and>
    klog m' = klog m @ map tagged ((s @ nl) # map (msr_line e (m_cpu m)) (reported_msrs (m_cpu m)))"
  using port.print_vmx_info_log [OF assms] by (auto simp: log_step_def os_step_def)

theorem print_vmx_info_report_witness:
  "\<exists>m'. print_vmx_info (platform_of (x_env Linux (Entry_Exit 10))) (x_env Linux (Entry_Exit 10)) x_host = Some m' \<and>
    length (klog m') = 19 \<and> hd (klog m') = ''[vmlatency] CPU'' @ nl"
proof -
  have "length (reported_msrs x_cpu) = 18"
    by (simp add: reported_msrs_def cap_msrs_def true_ctl_msrs_def msr_bit_def x_cpu_def x_msrs_def msr_enc bit_numeral_simps)
  then show ?thesis
    using print_vmx_info_report [of x_host "x_env Linux (Entry_Exit 10)" "''CPU''"]
    by (auto simp: x_host_parts x_msrs_present x_brand klog_def x_os_def tagged_def)
qed

text \<open>
  C12: The cached halves.  The low half of the capability MSR of each kind of control is the cached set of bits that must be
  1, the high half the set of bits that may be 1; the TRUE MSR is used where there is one, except for the
  processor-based controls.
\<close>

theorem cache_halves:
  assumes "vmx_msrs_present (m_cpu m)"
  shows "\<exists>vmm. cache_vmx_capabilities e vm_monitor_zero m = Some vmm \<and>
    (let c = m_cpu m
     in (pinbased_allowed0 vmm, pinbased_allowed1 vmm) = halves_of (ctl_msr c IA32_VMX_TRUE_PINBASED_CTLS IA32_VMX_PINBASED_CTLS) \<and>
        (procbased_allowed0 vmm, procbased_allowed1 vmm) = halves_of (the (r_msrs c IA32_VMX_PROCBASED_CTLS)) \<and>
        (exit_ctls_allowed0 vmm, exit_ctls_allowed1 vmm) = halves_of (ctl_msr c IA32_VMX_TRUE_EXIT_CTLS IA32_VMX_EXIT_CTLS) \<and>
        (entry_ctls_allowed0 vmm, entry_ctls_allowed1 vmm) = halves_of (ctl_msr c IA32_VMX_TRUE_ENTRY_CTLS IA32_VMX_ENTRY_CTLS))"
  using cache_present [OF assms, of e vm_monitor_zero] by (auto simp: Let_def)

theorem cache_halves_witness:
  "\<exists>vmm. cache_vmx_capabilities (x_env Linux (Entry_Exit 10)) vm_monitor_zero x_host = Some vmm \<and>
    (procbased_allowed0 vmm, procbased_allowed1 vmm) = (0x0401e172, 0xfff9fffe) \<and>
    (exit_ctls_allowed0 vmm, exit_ctls_allowed1 vmm) = (0x36dfb, 0x1ffffff)"
  using cache_halves [of x_host "x_env Linux (Entry_Exit 10)"]
  by (auto simp: x_host_parts x_msrs_present Let_def ctl_msr_def msr_bit_def halves_of_def)
     (auto simp: x_cpu_def x_msrs_def msr_enc bit_numeral_simps)

text \<open>
  C13: IA32_VMX_TRUE_PROCBASED_CTLS has no influence: the capabilities are the same whatever it holds, and where bit 55
  of IA32_VMX_BASIC promises it, the monitor's copy of it is IA32_VMX_PROCBASED_CTLS.
\<close>

theorem true_procbased_ignored:
  assumes "cache_vmx_capabilities e vmm m = Some v" and "has_true_ctls v"
  shows "Some (ia32_vmx_true_procbased_ctls v) = r_msrs (m_cpu m) IA32_VMX_PROCBASED_CTLS \<and>
    cache_vmx_capabilities e vmm
      (set_cpu (\<lambda>c. c\<lparr>r_msrs := (r_msrs c)(IA32_VMX_TRUE_PROCBASED_CTLS := x)\<rparr>) m) = Some v"
proof -
  have "cache_vmx_capabilities e vmm (set_cpu (\<lambda>c. c\<lparr>r_msrs := (r_msrs c)(IA32_VMX_TRUE_PROCBASED_CTLS := x)\<rparr>) m) =
      cache_vmx_capabilities e vmm m"
    by (rule cache_cong) simp
  then show ?thesis using cache_copies_procbased [OF assms] assms(1) by simp
qed

theorem true_procbased_ignored_witness:
  "\<exists>v. cache_vmx_capabilities (x_env Linux (Entry_Exit 10)) vm_monitor_zero x_host = Some v \<and>
    ia32_vmx_true_procbased_ctls v = 0xfff9fffe0401e172 \<and>
    r_msrs (m_cpu x_host) IA32_VMX_TRUE_PROCBASED_CTLS = Some 0xfff9fffe04006172"
proof -
  obtain v where v: "cache_vmx_capabilities (x_env Linux (Entry_Exit 10)) vm_monitor_zero x_host = Some v"
    "has_true_ctls v"
    using x_cache by blast
  show ?thesis
    using true_procbased_ignored [OF v] v(1)
    by (auto simp: x_host_parts) (simp_all add: x_msrs_def msr_enc)
qed

section \<open>Memory\<close>

text \<open>
  C15: A measurement whose allocation fails after \<open>k\<close> pages keeps the \<open>k\<close> pages and their mappings for good.
\<close>

theorem partial_allocation_leaks:
  assumes "cache_vmx_capabilities e vm_monitor_zero m = Some v"
    and "allocate_memory (platform_of e) v m = Some (- int k, vmm, m1)"
  shows "measure_vmlatency (platform_of e) e m = Some m1 \<and> ledger_plus m (take k (vmm_handles vmm)) m1"
  using port.measure_no_memory [OF assms] port.allocate_free_balance [of e v m] assms(2) by auto

theorem partial_allocation_leaks_witness:
  "\<exists>m'. measure_vmlatency (platform_of x_poor) x_poor x_host = Some m' \<and>
     page_ledger m' = ({#0x1000, 0x2000#}, {#0x1000, 0x2000#})"
proof -
  obtain v where v: "cache_vmx_capabilities x_poor vm_monitor_zero x_host = Some v" using x_cache by blast
  obtain vmm m1 where a: "allocate_memory (platform_of x_poor) v x_host = Some (- int 2, vmm, m1)"
    "take 2 (vmm_handles vmm) = [0x1000, 0x2000]"
    using x_poor_allocates by blast
  show ?thesis
    using partial_allocation_leaks [OF v a(1)] a(2)
    by (auto simp: ledger_plus_def page_ledger_def x_host_parts) (simp_all add: x_os_def)
qed

text \<open>
  C16: The regions.  If the two pages are mapped, suitable and apart, and bits 28 to 31 of IA32_VMX_BASIC are clear, then
  after the two stores of the revision identifier the processor accepts both: the second store does not
  disturb the first region.
\<close>

theorem regions_ready:
  assumes "maps_page e (vp_p (vmxon_region vmm)) (vp_pa (vmxon_region vmm))"
    and "maps_page e (vp_p (vmcs vmm)) (vp_pa (vmcs vmm))"
    and "pa_ok e (vp_pa (vmxon_region vmm))" and "pa_ok e (vp_pa (vmcs vmm))"
    and "vp_pa (vmcs vmm) \<noteq> vp_pa (vmxon_region vmm)" and "plain_revision (m_cpu m)"
  shows "\<exists>m1 m2. vmxon_setup_revision_id e vmm m = Some m1 \<and> vmcs_setup_revision_id e vmm m1 = Some m2 \<and>
    region_ok e (vp_pa (vmxon_region vmm)) m2 \<and> region_ok e (vp_pa (vmcs vmm)) m2"
proof -
  obtain b where "r_msrs (m_cpu m) IA32_VMX_BASIC = Some b"
    using assms(6) by (auto simp: plain_revision_def split: option.splits)
  from regions_set_steps [OF this, of e vmm] show ?thesis
    using regions_set_ok [OF assms] by (auto simp: bind_Some_iff)
qed

theorem regions_ready_witness:
  "\<exists>m1 m2. vmxon_setup_revision_id (x_env Linux (Entry_Exit 10)) x_vmm x_host = Some m1 \<and>
    vmcs_setup_revision_id (x_env Linux (Entry_Exit 10)) x_vmm m1 = Some m2 \<and>
    region_ok (x_env Linux (Entry_Exit 10)) 0x1000 m2 \<and> region_ok (x_env Linux (Entry_Exit 10)) 0x2000 m2"
  using regions_ready [of "x_env Linux (Entry_Exit 10)" x_vmm x_host]
  by (simp add: x_host_parts x_revision x_vmm_def) (simp add: x_env_def maps_page_def pa_ok_def)

text \<open>
  C17: A revision identifier with one of bits 28 to 30 set, which the mask \<^verbatim>\<open>0x8fffffff\<close> drops, or bit 31 set, makes VMXON fail; the
  measurement logs this, and leaves CR4.VMXE set.
\<close>

theorem high_revision_refused:
  assumes "kernel_memory e" and "good_pages e (port_page_pa e)" and "distinct_pages e (os_calls (m_os m))"
    and "vmx_msrs_present (m_cpu m)" and "host_msrs_present (m_cpu m)" and "vmx_ready m" and "locks_available e"
    and "\<not> plain_revision (m_cpu m)"
  shows "\<exists>m'. measure_vmlatency (platform_of e) e m = Some m' \<and>
    klog m' = klog m @ [''[vmlatency] VMXON failed'' @ nl] \<and> r_cr4 (m_cpu m') = r_cr4 (m_cpu m) OR CR4_VMXE"
  using port_pages.measure_high_revision [OF assms(1-6) port_disable_total [OF assms(7)] assms(8)]
  by (auto simp: left_behind_def tagged_def)

theorem high_revision_refused_witness:
  "\<exists>m'. measure_vmlatency (platform_of (x_env Linux (Entry_Exit 10))) (x_env Linux (Entry_Exit 10)) x_host_rev = Some m' \<and>
    klog m' = [''[vmlatency] VMXON failed'' @ nl] \<and> r_cr4 (m_cpu m') = 0x3426e0"
  using high_revision_refused [of "x_env Linux (Entry_Exit 10)" x_host_rev, OF x_memory x_pages] x_distinct x_locks x_host_rev_ok
  by (auto simp: x_host_rev_parts CR4_VMXE_BIT BIT_def)

section \<open>VMX operation\<close>

text \<open>
  C18: VMXON and VMXOFF.  From a processor that would accept VMXON, with a good region, \<^verbatim>\<open>do_vmxon\<close> enters VMX operation
  and \<^verbatim>\<open>do_vmxoff\<close> leaves it with every register, CR4 among them, the memory and the system as before.
\<close>

theorem vmxon_vmxoff_inverse:
  assumes "vmx_ready m" and "region_ok e (vp_pa (vmxon_region vmm)) m"
  shows "\<exists>vmm' m1 m2. do_vmxon (platform_of e) e vmm m = Some (0, vmm', m1) \<and> vmx_on (m_vmx m1) \<and>
    do_vmxoff vmm' m1 = Some m2 \<and> \<not> vmx_on (m_vmx m2) \<and> m_cpu m2 = m_cpu m \<and> m_mem m2 = m_mem m \<and> m_os m2 = m_os m"
proof -
  let ?vmm = "vmm\<lparr>old_vmxe := r_cr4 (m_cpu m) AND CR4_VMXE, our_vmxon := True\<rparr>"
  let ?m1 = "enter_vmx (vp_pa (vmxon_region vmm)) (with_vmxe m)"
  have "(r_cr4 (m_cpu m) OR CR4_VMXE) AND NOT CR4_VMXE = r_cr4 (m_cpu m)" if "r_cr4 (m_cpu m) AND CR4_VMXE = 0"
    using or_and_not_cancel [OF that] .
  then show ?thesis
    using port.do_vmxon_good [OF assms] do_vmxoff_leaves [of ?vmm ?m1]
    by (auto simp: enter_vmx_def leave_vmx_def with_vmxe_def vmxe_set)
qed

theorem vmxon_vmxoff_inverse_witness:
  "\<exists>vmm' m1 m2. do_vmxon (platform_of (x_env Linux (Entry_Exit 10))) (x_env Linux (Entry_Exit 10)) x_vmm x_regions = Some (0, vmm', m1) \<and>
    do_vmxoff vmm' m1 = Some m2 \<and> m_cpu m2 = x_cpu"
  using vmxon_vmxoff_inverse [OF x_regions_ready x_regions_ok] x_regions_cpu by auto

text \<open>
  C19: Another monitor's VMX operation.  If the processor is already in VMX operation, and no launch state is left for a page that the
  kernel hands out, a measurement comes back with the pages, interrupts and CR4 as before; it writes only to pages of the kernel's
  allocator, and loses at most five MDLs.  With a current VMCS, and compiled with the GNU branch of \<^verbatim>\<open>__vmxon\<close>, the failure of VMXON
  counts as success: the session logs its twenty lines and switches the other monitor's VMX operation
  off.  Otherwise it logs that VMXON failed; of the VMX state nothing changes, but for error number 15 in the other monitor's current VMCS
  if there is one.
\<close>

theorem nested_session_outcome:
  assumes "nested_host e m" and "\<And>m n. enters_guest e m \<Longrightarrow> e_entry e m \<noteq> Entry_Fail n" and "fresh_pages e m"
  shows "\<exists>m'. measure_vmlatency (platform_of e) e m = Some m' \<and> page_ledger m' = page_ledger m \<and> irq_ledger m' = irq_ledger m \<and>
    int_enabled m' = int_enabled m \<and> r_cr4 (m_cpu m') = r_cr4 (m_cpu m) \<and> load_frame e 5 m m' \<and>
    (if cur_vmcs (m_vmx m) \<noteq> None \<and> \<not> win32 e
     then \<not> vmx_on (m_vmx m') \<and> (\<exists>r vs. length vs = 20 \<and>
       klog m' = klog m @ map tagged (exit_report r @ map (\<lambda>n. result_line n (vs ! n)) [0..<20]))
     else vmx_on (m_vmx m') \<and> vmxon_ptr (m_vmx m') = vmxon_ptr (m_vmx m) \<and> cur_vmcs (m_vmx m') = cur_vmcs (m_vmx m) \<and>
       m_vmx m' = error_in_vmcs 15 (m_vmx m) \<and> (\<exists>x. m_cpu m' = (m_cpu m)\<lparr>r_rflags := x\<rparr>) \<and>
       klog m' = klog m @ [''[vmlatency] VMXON failed'' @ nl])"
proof (cases "cur_vmcs (m_vmx m) \<noteq> None \<and> \<not> win32 e")
  case True
  then obtain q where "cur_vmcs (m_vmx m) = Some q" "\<not> win32 e" by blast
  from nested_session [OF assms(1) this assms(2,3)] show ?thesis
    using True measure_frame [of e m] unfolding VMX_ITERATIONS_def by (simp only: if_True simp_thms) blast
next
  case False
  then have "cur_vmcs (m_vmx m) = None \<or> win32 e" by blast
  from nested_refused [OF assms(1) this]
  obtain m' x where m': "measure_vmlatency (platform_of e) e m = Some m'" "klog m' = klog m @ [tagged (''VMXON failed'' @ nl)]"
    "vmx_on (m_vmx m')" "vmxon_ptr (m_vmx m') = vmxon_ptr (m_vmx m)" "cur_vmcs (m_vmx m') = cur_vmcs (m_vmx m)"
    "m_vmx m' = error_in_vmcs 15 (m_vmx m)"
    "m_cpu m' = (m_cpu m)\<lparr>r_rflags := x\<rparr>" "irq_ledger m' = irq_ledger m" "int_enabled m' = int_enabled m" "page_ledger m' = page_ledger m"
    by blast
  have "r_cr4 (m_cpu m') = r_cr4 (m_cpu m)" "klog m' = klog m @ [''[vmlatency] VMXON failed'' @ nl]"
    using m'(2,7) by (simp_all add: tagged_def)
  then show ?thesis using m' measure_frame [OF m'(1)] unfolding if_not_P [OF False] by blast
qed

theorem nested_session_outcome_witness:
  "launched (m_vmx x_nested) 0x21000 \<and>
   (\<exists>m'. measure_vmlatency (platform_of (x_env Linux (Entry_Exit 10))) (x_env Linux (Entry_Exit 10)) x_nested = Some m' \<and>
     \<not> vmx_on (m_vmx m') \<and> length (klog m') \<ge> 20) \<and>
   (\<exists>m'. measure_vmlatency (platform_of (x_env Windows (Entry_Exit 10))) (x_env Windows (Entry_Exit 10)) x_nested = Some m' \<and>
     vmx_on (m_vmx m') \<and> cur_vmcs (m_vmx m') = Some 0x21000 \<and> klog m' = [''[vmlatency] VMXON failed'' @ nl])"
proof -
  have w: "\<not> win32 (x_env Linux (Entry_Exit 10))" "win32 (x_env Windows (Entry_Exit 10))" by (simp_all add: win32_def x_env_def)
  have n: "e_entry (x_env t (Entry_Exit 10)) m \<noteq> Entry_Fail k" for t m k by (simp add: x_entry)
  show ?thesis
    using nested_session_outcome [OF x_nested_host [of Linux "Entry_Exit 10"] n x_nested_fresh(1)] w(1)
      nested_session_outcome [OF x_nested_host [of Windows "Entry_Exit 10"] n x_nested_fresh(1)] w(2) x_nested_fresh(2)
    by (auto simp: x_nested_parts)
qed

section \<open>Entries that fail\<close>

text \<open>
  C20: A guest that never runs is measured all the same.  Where the processor refuses the guest state at every VM entry,
  VMLAUNCH returns 0 to the program, every VMRESUME fails and its result is not looked at: no guest is
  entered and the twenty lines are logged.
\<close>

theorem refused_guest_is_measured:
  assumes "equipped e m" and "\<And>m. \<exists>r. e_entry e m = Entry_Bad_Guest r" and "fresh_pages e m"
  shows "\<exists>r vs m'. measure_vmlatency (platform_of e) e m = Some m' \<and> vm_entries (m_vmx m') = vm_entries (m_vmx m) \<and>
    klog m' = klog m @ map tagged (exit_report r @ map (\<lambda>n. result_line n (vs ! n)) [0..<20])"
proof -
  have n: "e_entry e m \<noteq> Entry_Fail q" "e_entry e m \<noteq> Entry_Exit q'" for m q q'
    using assms(2) by (metis entry_outcome.distinct(1,5))+
  obtain r vs m' where m: "measure_vmlatency (platform_of e) e m = Some m'" "left_behind e m (Measured r vs) m'"
    using accepted_measures [OF assms(1) n(1) assms(3)] by blast
  have "not_entered (m_vmx m) (m_vmx m')"
    using idle.measure_keeps [OF m(1)] n(2) by (simp add: no_guest_run_def)
  then show ?thesis using m by (auto simp: left_behind_def not_entered_def VMX_ITERATIONS_def)
qed

theorem refused_guest_is_measured_witness:
  "\<exists>r vs m'. measure_vmlatency (platform_of (x_env Linux (Entry_Bad_Guest 0x80000021))) (x_env Linux (Entry_Bad_Guest 0x80000021)) x_host = Some m' \<and>
    vm_entries (m_vmx m') = 0 \<and> klog m' = map tagged (exit_report r @ map (\<lambda>n. result_line n (vs ! n)) [0..<20])"
  using refused_guest_is_measured [of "x_env Linux (Entry_Bad_Guest 0x80000021)" x_host, OF x_equipped _ x_fresh]
  unfolding x_start by (simp add: x_entry)

text \<open>
  C21: A VMLAUNCH that fails with error \<open>n\<close> is reported with its number, and the session is undone: registers,
  interrupts, pages and devices are as before, but for the arithmetic flags and the time.
\<close>

theorem failed_launch_reported:
  assumes "equipped e m" and "\<And>m. e_entry e m = Entry_Fail n" and "fresh_pages e m"
  shows "\<exists>m' x t. measure_vmlatency (platform_of e) e m = Some m' \<and> m_cpu m' = (m_cpu m)\<lparr>r_rflags := x, r_tsc := t\<rparr> \<and>
    int_enabled m' = int_enabled m \<and> irq_ledger m' = irq_ledger m \<and> page_ledger m' = page_ledger m \<and> \<not> vmx_on (m_vmx m') \<and>
    klog m' = klog m @ [''[vmlatency] VMLAUNCH failed'' @ nl, ''[vmlatency] VM instruciton error: '' @ fmt_lx e n @ nl]"
  using refused_launch [OF assms(1), of n] assms(2,3) by (auto simp: left_behind_def tagged_def)

theorem failed_launch_reported_witness:
  "\<exists>m'. measure_vmlatency (platform_of (x_env Linux (Entry_Fail 7))) (x_env Linux (Entry_Fail 7)) x_host = Some m' \<and>
    klog m' = [''[vmlatency] VMLAUNCH failed'' @ nl, ''[vmlatency] VM instruciton error: 0x7'' @ nl]"
proof -
  have f: "fmt_lx (x_env Linux (Entry_Fail 7)) 7 = ''0x7''"
    by (simp add: fmt_lx_def fmt_hex_def hex_prefix_def x_env_def digits_base.simps digit_char_def)
  show ?thesis
    using failed_launch_reported [OF x_equipped x_entry x_fresh, of Linux 7]
    unfolding x_start f append_Nil by auto
qed

text \<open>
  C22: The region is never cleared before the first VMLAUNCH.  If the processor still holds a launch state for the page that the session
  allocates for its VMCS, left over from another monitor, VMLAUNCH fails with error 4 and nothing is measured, whatever the launch
  states of other pages are.
\<close>

theorem stale_launch_state_refused:
  assumes "equipped e m" and "cache_vmx_capabilities e vm_monitor_zero m = Some v"
    and "allocate_memory (platform_of e) v m = Some (5, vmm, m1)" and "launched (m_vmx m) (vp_pa (vmcs vmm))"
  shows "\<exists>m'. measure_vmlatency (platform_of e) e m = Some m' \<and>
    klog m' = klog m @ [''[vmlatency] VMLAUNCH failed'' @ nl, ''[vmlatency] VM instruciton error: '' @ fmt_lx e 4 @ nl]"
  using refused_launch [OF assms(1), of 4] assms(2-4) by (auto simp: left_behind_def tagged_def)

theorem stale_launch_state_refused_witness:
  "\<not> launched (m_vmx x_stale) 0x1000 \<and>
    (\<exists>m'. measure_vmlatency (platform_of (x_env Linux (Entry_Exit 10))) (x_env Linux (Entry_Exit 10)) x_stale = Some m' \<and>
    hd (klog m') = ''[vmlatency] VMLAUNCH failed'' @ nl)"
proof -
  obtain v vmm m1 where s: "cache_vmx_capabilities (x_env Linux (Entry_Exit 10)) vm_monitor_zero x_stale = Some v"
    "allocate_memory (platform_of (x_env Linux (Entry_Exit 10))) v x_stale = Some (5, vmm, m1)" "launched (m_vmx x_stale) (vp_pa (vmcs vmm))"
    using x_stale_session by blast
  have "klog x_stale = []" "\<not> launched (m_vmx x_stale) 0x1000" by (simp_all add: x_stale_def klog_def x_host_parts) (simp add: x_os_def)
  then show ?thesis using stale_launch_state_refused [OF x_stale_equipped s] by auto
qed

text \<open>
  C23: Handling a VM exit.  \<^verbatim>\<open>handle_vmexit\<close> returns 0 without a message if the basic exit reason, the low 16 bits of the
  field, is CPUID, and \<open>-1\<close> after a message with the reason otherwise; the processor is left alone.
\<close>

theorem handle_vmexit_result:
  assumes "has_vmcs e pa m" and "v = vmcs_fields (m_vmx m) pa VMCS_EXIT_REASON AND 0xffff"
  shows "\<exists>m'. handle_vmexit (platform_of e) m = Some (if v = 10 then 0 else -1, m') \<and> m_cpu m' = m_cpu m \<and> m_vmx m' = m_vmx m \<and>
    klog m' = klog m @ (if v = 10 then []
      else [''[vmlatency] Error: VM exit is not caused by CPUID. Basic exit reason '' @ fmt_int (uint v) @ nl])"
proof -
  obtain m' where m': "handle_vmexit (platform_of e) m = Some (if v = 10 then 0 else -1, m')" "log_step (exit_report v) m m'"
    using port.handle_vmexit_log [OF assms(1)] assms(2) by (auto simp: field_of_def exit_report_def)
  have "v AND 0xffff = v" unfolding assms(2) by (simp add: and.assoc)
  then show ?thesis using m' by (auto simp: log_step_def os_step_def exit_report_def tagged_def)
qed

theorem handle_vmexit_result_witness:
  "\<exists>m'. handle_vmexit (platform_of (x_env MacOS (Entry_Exit 10)))
      (set_vmcs_field 0x2000 VMCS_EXIT_REASON 0x80000021 (x_in_vmx (x_env MacOS (Entry_Exit 10)))) = Some (-1, m') \<and>
    klog m' = [''[vmlatency] Error: VM exit is not caused by CPUID. Basic exit reason 33'' @ nl]"
proof -
  let ?e = "x_env MacOS (Entry_Exit 10)" and ?m = "set_vmcs_field 0x2000 VMCS_EXIT_REASON 0x80000021 (x_in_vmx (x_env MacOS (Entry_Exit 10)))"
  have v: "has_vmcs ?e 0x2000 ?m" using x_has_vmcs [of ?e] by (simp add: has_vmcs_def frame vmcs_fields_set vmcs_enc)
  have f: "vmcs_fields (m_vmx ?m) 0x2000 VMCS_EXIT_REASON AND 0xffff = 33" by (simp add: vmcs_fields_set)
  have d: "fmt_int 33 = ''33''" by (simp add: fmt_int_def digits_base.simps digit_char_def)
  have k: "klog ?m = []" by (simp add: klog_def frame x_in_vmx_def x_host_parts) (simp add: x_os_def)
  show ?thesis using handle_vmexit_result [OF v refl] unfolding f k by (auto simp: d)
qed

section \<open>The VMCS, continued\<close>

text \<open>
  C24: The VMCS is initialised completely.  What \<^verbatim>\<open>initialize_vmcs\<close> leaves in a field does not depend on what the region
  held before, for every field of the header that is neither read-only nor the host's stack pointer; those fields
  are not written.
\<close>

theorem vmcs_fully_initialised:
  assumes "vmx_on (m_vmx m)" and "cur_vmcs (m_vmx m) = Some pa" and "host_msrs_present (m_cpu m)"
  shows "\<exists>m1 m2. initialize_vmcs e vmm m = Some m1 \<and>
    initialize_vmcs e vmm (set_vmx (\<lambda>x. x\<lparr>vmcs_fields := old\<rparr>) m) = Some m2 \<and>
    (\<forall>f. vmcs_fields (m_vmx m2) pa f = (if vmcs_writable f then vmcs_fields (m_vmx m1) pa f else old pa f))"
proof -
  let ?m = "set_vmx (\<lambda>x. x\<lparr>vmcs_fields := old\<rparr>) m"
  have a: "vmx_on (m_vmx ?m)" "cur_vmcs (m_vmx ?m) = Some pa" "host_msrs_present (m_cpu ?m)" using assms by simp_all
  let ?m1 = "vmw pa (rev (vmcs_image e vmm m)) m" and ?m2 = "vmw pa (rev (vmcs_image e vmm ?m)) ?m"
  have i: "image_at e vmm ?m f = image_at e vmm m f" for f by (simp only: image_at_def vmcs_image_old)
  have "vmcs_fields (m_vmx ?m2) pa f = (if vmcs_writable f then vmcs_fields (m_vmx ?m1) pa f else old pa f)" for f
    unfolding vmw_image_field i using image_at_writable [of e vmm m f] by (cases "image_at e vmm m f") simp_all
  then show ?thesis
    using initialize_vmcs_writes [OF assms, of e vmm] initialize_vmcs_writes [OF a, of e vmm] by blast
qed

theorem vmcs_fully_initialised_witness:
  "\<exists>m1 m2. initialize_vmcs (x_env Linux (Entry_Exit 10)) x_vmm (x_in_vmx (x_env Linux (Entry_Exit 10))) = Some m1 \<and>
    initialize_vmcs (x_env Linux (Entry_Exit 10)) x_vmm
      (set_vmx (\<lambda>x. x\<lparr>vmcs_fields := \<lambda>_ _. 0xdead\<rparr>) (x_in_vmx (x_env Linux (Entry_Exit 10)))) = Some m2 \<and>
    (\<forall>f. vmcs_fields (m_vmx m2) 0x2000 f = (if vmcs_writable f then vmcs_fields (m_vmx m1) 0x2000 f else 0xdead))"
  using vmcs_fully_initialised [OF x_in_vmx_parts(2,3), of "x_env Linux (Entry_Exit 10)" "x_env Linux (Entry_Exit 10)" x_vmm "\<lambda>_ _. 0xdead"]
  by (simp add: x_in_vmx_parts x_host_msrs)

text \<open>
  C25: The VMCS by the manual's numbering of its fields.  After \<^verbatim>\<open>initialize_vmcs\<close> the field with the encoding that the processor's manual gives to an area, a
  width and a number has the value that this field is to have (the segment registers in the manual's order ES, CS, SS, DS, FS, GS,
  LDTR, TR, the limits, the access rights, the bases, the controls): no name of \<^verbatim>\<open>cpu-defs.h\<close> stands for another field's encoding.  And every value
  fits the width that its encoding declares, so VMWRITE drops no bit of it.
\<close>

theorem vmcs_by_number:
  assumes "vmx_on (m_vmx m)" and "cur_vmcs (m_vmx m) = Some pa" and "host_msrs_present (m_cpu m)"
  shows "\<exists>m'. initialize_vmcs e vmm m = Some m' \<and>
    list_all (\<lambda>(a, w, ks, vs). map (vmcs_fields (m_vmx m') pa) (map (encoding a w) ks) = vs) (vmcs_table e vmm m) \<and>
    (\<forall>f. vmcs_writable f \<longrightarrow> drop_bit (enc_bits f) (vmcs_fields (m_vmx m') pa f) = 0)"
proof -
  have "list_all (\<lambda>(a, w, ks, vs). map (vmcs_fields (m_vmx (vmw pa (rev (vmcs_image e vmm m)) m)) pa) (map (encoding a w) ks) = vs) (vmcs_table e vmm m)"
    using image_table [of e vmm m] image_values unfolding list_all_iff by fast
  then show ?thesis using initialize_vmcs_writes [OF assms, of e vmm] image_fits by blast
qed

theorem vmcs_by_number_witness:
  "\<exists>m'. initialize_vmcs (x_env Linux (Entry_Exit 10)) x_vmm (x_in_vmx (x_env Linux (Entry_Exit 10))) = Some m' \<and>
    map (vmcs_fields (m_vmx m') 0x2000) [0x800, 0x802, 0x804, 0x806, 0x808, 0x80a, 0x80c, 0x80e] = [0, 0x10, 0x18, 0, 0, 0, 0, 0x40]"
proof -
  have n: "map (encoding Guest_State W16) [0..<8] = [0x800, 0x802, 0x804, 0x806, 0x808, 0x80a, 0x80c, 0x80e]" by code_simp
  obtain m' where m': "initialize_vmcs (x_env Linux (Entry_Exit 10)) x_vmm (x_in_vmx (x_env Linux (Entry_Exit 10))) = Some m'"
    "list_all (\<lambda>(a, w, ks, vs). map (vmcs_fields (m_vmx m') 0x2000) (map (encoding a w) ks) = vs)
      (vmcs_table (x_env Linux (Entry_Exit 10)) x_vmm (x_in_vmx (x_env Linux (Entry_Exit 10))))"
    using vmcs_by_number [OF x_in_vmx_parts(2,3)] by (metis x_in_vmx_parts(1) x_host_msrs)
  have "map (vmcs_fields (m_vmx m') 0x2000) (map (encoding Guest_State W16) [0..<8]) =
      [ucast (r_es x_cpu), ucast (r_cs x_cpu), ucast (r_ss x_cpu), ucast (r_ds x_cpu), ucast (r_fs x_cpu), ucast (r_gs x_cpu),
       ucast (r_ldtr x_cpu), ucast (r_tr x_cpu) AND NOT 7]"
    using m'(2) unfolding vmcs_table_def Let_def list.pred_inject prod.case x_in_vmx_parts by (elim conjE)
  then show ?thesis using m'(1) unfolding n by (auto simp: x_cpu_def)
qed

section \<open>The ports\<close>

text \<open>
  C27: Interrupts on every port.  If \<^verbatim>\<open>vmlatency_preempt_disable\<close> comes back, interrupts are off, and \<^verbatim>\<open>vmlatency_preempt_enable\<close>
  called later with the saved flags, at the same nesting, brings back the interrupt flag, the preemption
  count, the IRQL and the locks, whatever the processor's flags are by then.
\<close>

theorem interrupts_roundtrip:
  assumes "vmlatency_preempt_disable (platform_of e) f m = Some (f', m1)" and "irq_ledger m2 = irq_ledger m1"
  shows "\<not> int_enabled m1 \<and>
    (\<exists>f'' m3. vmlatency_preempt_enable (platform_of e) f' m2 = Some (f'', m3) \<and>
       int_enabled m3 = int_enabled m \<and> irq_ledger m3 = irq_ledger m \<and> m_vmx m3 = m_vmx m2 \<and> m_mem m3 = m_mem m2)"
  using port.disable_ok [OF assms(1)] port.enable_ok [OF assms] by blast

theorem interrupts_roundtrip_witness:
  "\<exists>f' m1 f'' m3. vmlatency_preempt_disable (platform_of (x_env Windows (Entry_Exit 10))) irq_flags_uninit x_host = Some (f', m1) \<and>
    \<not> int_enabled m1 \<and> vmlatency_preempt_enable (platform_of (x_env Windows (Entry_Exit 10))) f' m1 = Some (f'', m3) \<and> int_enabled m3"
proof -
  obtain f' m1 where d: "vmlatency_preempt_disable (platform_of (x_env Windows (Entry_Exit 10))) irq_flags_uninit x_host = Some (f', m1)"
    using port_disable_total [OF x_locks] by blast
  have "int_enabled x_host" by (simp add: int_enabled_def x_host_parts FLAG_IF_def) (simp add: x_cpu_def)
  then show ?thesis using interrupts_roundtrip [OF d refl] d by blast
qed

text \<open>
  C28: On Mac OS the lock is not checked: if \<^verbatim>\<open>IOSimpleLockAlloc\<close> has none to give, a session with memory does not come back.
\<close>

theorem mac_lock_unchecked:
  assumes "e_target e = MacOS" and "\<And>k. e_lock e k = 0" and "kernel_memory e" and "vmx_msrs_present (m_cpu m)"
  shows "measure_vmlatency (platform_of e) e m = None"
proof -
  obtain v where v: "cache_vmx_capabilities e vm_monitor_zero m = Some v"
    using cache_present [OF assms(4)] by blast
  obtain vmm m1 where a: "allocate_memory (platform_of e) v m = Some (5, vmm, m1)"
    using port_pages.allocate_memory_pages [OF assms(3), of v m] by blast
  have "vmlatency_preempt_disable (platform_of e) f m' = None" for f m'
    using mac_preempt_disable_returns [of e f m'] assms(1,2)
    by (cases "mac_preempt_disable e f m'") (simp_all add: platform_of_def mac_platform_def)
  then show ?thesis by (simp add: measure_vmlatency_def v a measure_vmx_def)
qed

theorem mac_lock_unchecked_witness:
  "measure_vmlatency (platform_of ((x_env MacOS (Entry_Exit 10))\<lparr>e_lock := \<lambda>_. 0\<rparr>)) ((x_env MacOS (Entry_Exit 10))\<lparr>e_lock := \<lambda>_. 0\<rparr>) x_host = None"
proof (rule mac_lock_unchecked)
  show "kernel_memory ((x_env MacOS (Entry_Exit 10))\<lparr>e_lock := \<lambda>_. 0\<rparr>)"
    using x_memory [of MacOS "Entry_Exit 10"] by (simp add: kernel_memory_def)
qed (simp_all add: x_host_parts x_msrs_present, simp add: x_env_def)

text \<open>
  C29: A new page is clean on every port, if on Mac OS the virtual range is mapped to the page.
\<close>

theorem new_page_clean:
  assumes "allocate_vmpage (platform_of e) p m = Some (0, p', m')" and "i < 0x1000"
    and "e_target e = MacOS \<Longrightarrow> maps_page e (vp_p p') (vp_pa p')"
  shows "m_mem m' (vp_pa p' + i) = 0"
proof (cases "e_target e")
  case Linux
  then show ?thesis using linux_page_clean assms(1,2) by (simp add: platform_of_def linux_platform_def)
next
  case MacOS
  then show ?thesis using mac_page_clean assms by (simp add: platform_of_def mac_platform_def)
next
  case Windows
  then show ?thesis using win_page_clean assms(1,2) by (simp add: platform_of_def win_platform_def)
qed

theorem new_page_clean_witness:
  "\<exists>p' m'. allocate_vmpage (platform_of (x_env MacOS (Entry_Exit 10))) vmpage_zero x_host = Some (0, p', m') \<and>
    m_mem m' (vp_pa p' + 0xfff) = 0"
proof -
  obtain p' m' where a: "allocate_vmpage (platform_of (x_env MacOS (Entry_Exit 10))) vmpage_zero x_host = Some (0, p', m')"
    using port_pages.alloc_succeeds [OF x_memory] by blast
  have "maps_page (x_env MacOS (Entry_Exit 10)) (vp_p p') (vp_pa p')"
    using port_pages.alloc_page [OF a] by (simp add: x_env_def port_page_pa_def maps_page_def)
  then show ?thesis using new_page_clean [OF a, where i = "0xfff"] a by auto
qed

text \<open>
  C30: On Windows the structures of the MDLs stay behind: where there is memory, a measurement gives its five pages and their mappings
  back, whichever way it goes, and leaves five MDLs.
\<close>

theorem windows_mdl_leak:
  assumes "e_target e = Windows" and "equipped e m"
  shows "\<exists>m' hs. measure_vmlatency (platform_of e) e m = Some m' \<and> page_ledger m' = page_ledger m \<and>
    length hs = 5 \<and> os_mdls (m_os m') = mset hs + os_mdls (m_os m)"
  by (rule win_session_mdls [OF assms])

theorem windows_mdl_leak_witness:
  "\<exists>m'. measure_vmlatency (platform_of (x_env Windows (Entry_Fail 7))) (x_env Windows (Entry_Fail 7)) x_host = Some m' \<and>
    page_ledger m' = ({#}, {#}) \<and> size (os_mdls (m_os m')) = 5"
proof -
  have "os_mdls (m_os x_host) = {#}" "page_ledger x_host = ({#}, {#})" by (simp_all add: page_ledger_def x_host_parts) (simp_all add: x_os_def)
  then show ?thesis using windows_mdl_leak [OF _ x_equipped, of Windows "Entry_Fail 7"] by (auto simp: x_env_def)
qed

section \<open>The result\<close>

text \<open>
  C31: What the scripts read is what the module measured.  On Linux and Mac OS, on an ordinary host whose processor makes the manual's checks (see C26), where an entry takes
  between \<open>lo\<close> and \<open>hi\<close> cycles, loading the module into a kernel whose log has no \<^verbatim>\<open>[vmlatency]\<close> line yet, and passing the log through
  the pipe of \<^verbatim>\<open>get_vmlatency.sh\<close>, gives a file in which \<^verbatim>\<open>process-data.py\<close> finds the name of the processor and the twenty
  averages: value \<open>k\<close> is the quotient by 2 to the \<open>k\<close> of the cycles of the 2 to the \<open>k\<close> VM entries of round \<open>k\<close> of the loops, which
  follow VMLAUNCH in the session of that load, and the module has logged just the report and these values.
\<close>

theorem log_read_back:
  assumes "e_target e \<noteq> Windows" and "equipped e m" and "\<And>c. distinct_pages e c" and "has_vmx e"
    and "fresh_pages e m" and "checked_host e m"
    and "c_string (brand_string e) = Some s" and "CHR 0x0A \<notin> set s"
    and "foreign_log stamp (klog m)" and "\<And>k. stamp_ok (stamp k)"
    and "\<And>m. lo \<le> unat (e_cycles e m) \<and> unat (e_cycles e m) \<le> hi" and "hi < 2 ^ 44"
  shows "\<exists>(vs :: u64 list) m' m2 vmm mi mp ml m7 m8. load_module e m = Some (True, m') \<and> length vs = 20 \<and>
    (\<forall>k < 20. lo \<le> unat (vs ! k) \<and> unat (vs ! k) \<le> hi) \<and>
    log_step (info_lines e m) m m2 \<and> measure_vmlatency (platform_of e) e m2 = Some m' \<and> session_start (platform_of e) e m2 vmm mi \<and>
    initialize_vmcs e vmm mi = Some mp \<and> do_vmlaunch e mp = Some (0, ml) \<and> log_step [] ml m7 \<and>
    measure_loop e 0 (replicate 20 None) m7 = Some (map Some vs, m8) \<and>
    (\<forall>k < 20. unat (vs ! k) =
      total_cycles e (vp_pa (vmcs vmm)) (2 ^ k) (resume_iter e (vp_pa (vmcs vmm)) (2 ^ k - 1) m7) div 2 ^ k) \<and>
    klog m' = klog m @ map tagged (info_lines e m @ map (\<lambda>k. result_line k (vs ! k)) [0..<20]) \<and>
    read_file (get_vmlatency_file (dmesg stamp (klog m'))) = Some (s, map (\<lambda>v. int (unat v)) vs)"
  by (rule gnu_log_read [OF assms])

theorem log_read_back_witness:
  "\<exists>m'. load_module (x_checking Linux) x_host = Some (True, m') \<and>
    read_file (get_vmlatency_file (dmesg x_stamp (klog m'))) = Some (''CPU'', replicate 20 540)"
proof -
  obtain vs :: "u64 list" and m' where m': "load_module (x_checking Linux) x_host = Some (True, m')" "length vs = 20"
    "\<forall>k < 20. 540 \<le> unat (vs ! k) \<and> unat (vs ! k) \<le> 540"
    "read_file (get_vmlatency_file (dmesg x_stamp (klog m'))) = Some (''CPU'', map (\<lambda>v. int (unat v)) vs)"
    using log_read_back [OF _ x_checking_equipped x_checking_always(1,2) x_fresh x_checked_host x_checking_always(3) x_brand_name(1)
        x_log_foreign x_stamp_ok, of Linux 540 540]
    unfolding x_checking_parts x_checking_cycles by fastforce
  have "vs ! k = 540" if "k < 20" for k
    using m'(3) that by (simp add: word_unat_eq_iff order.antisym)
  then have "map (\<lambda>v. int (unat v)) vs = replicate 20 540" using m'(2) by (intro nth_equalityI) simp_all
  then show ?thesis using m'(1,4) by simp
qed

text \<open>
  C34: The Windows event log.  When the driver is loaded at passive level, the event log, from which \<^verbatim>\<open>GetVmlatency.ps1\<close> makes the file, gets the
  report and the twenty lines of the result, and \<^verbatim>\<open>process-data.py\<close> reads the averages from it; but the error message about
  a VM exit that was not caused by CPUID, which is among the messages, is not in the event log, since the
  session runs at dispatch level: nothing in the file tells such averages from good ones.
\<close>

theorem event_log_results:
  assumes "e_target e = Windows" and "equipped e m" and "\<And>c. distinct_pages e c" and "has_vmx e"
    and "fresh_pages e m" and "\<And>m n. enters_guest e m \<Longrightarrow> e_entry e m \<noteq> Entry_Fail n"
    and "c_string (brand_string e) = Some s" and "clean s"
    and "e_device e (os_calls (m_os m)) = (st, d)" and "nt_success st"
    and "evlog_works e" and "96 \<le> e_max_msg_ch e" and "at_passive m" and "filter event_match (evlog m) = []"
    and "\<And>m. lo \<le> unat (e_cycles e m) \<and> unat (e_cycles e m) \<le> hi" and "hi < 2 ^ 44"
  shows "\<exists>r vs m'. driver_entry (platform_of e) e m = Some (st, m') \<and> length vs = 20 \<and>
    (\<forall>k < 20. lo \<le> unat (vs ! k) \<and> unat (vs ! k) \<le> hi) \<and>
    klog m' = klog m @ map tagged (info_lines e m @ exit_report r @ map (\<lambda>k. result_line k (vs ! k)) [0..<20]) \<and>
    evlog m' = evlog m @ map tagged (info_lines e m @ map (\<lambda>k. result_line k (vs ! k)) [0..<20]) \<and>
    read_file (dump_results (evlog m')) = Some (s @ [CHR 0x0D], map (\<lambda>v. int (unat v)) vs)"
  by (rule windows_log_read [OF assms])

theorem event_log_results_witness:
  "\<exists>(vs :: u64 list) m' d. driver_entry (platform_of (x_env Windows (Entry_Exit 1))) (x_env Windows (Entry_Exit 1)) x_host = Some (d, m') \<and>
    length vs = 20 \<and> read_file (dump_results (evlog m')) = Some (''CPU'' @ [CHR 0x0D], map (\<lambda>v. int (unat v)) vs)"
proof -
  let ?e = "x_env Windows (Entry_Exit 1)"
  obtain st d where d: "e_device ?e (os_calls (m_os x_host)) = (st, d)" "nt_success st"
    by (simp add: x_env_def nt_success_def)
  have n: "e_entry ?e m \<noteq> Entry_Fail k" for m k by (simp add: x_entry)
  have w: "e_target ?e = Windows" "filter event_match (evlog x_host) = []"
    "540 \<le> unat (e_cycles ?e m) \<and> unat (e_cycles ?e m) \<le> 540" "(540 :: nat) < 2 ^ 44" for m
    using x_event_log(4) by (simp_all add: x_env_def)
  from event_log_results [OF w(1) x_equipped x_always_distinct x_has_vmx x_fresh n x_brand x_brand_name(2) d
      x_event_log(1-3) w(2-4)]
  show ?thesis by blast
qed

text \<open>
  C37: \<^verbatim>\<open>get_vmlatency.sh\<close> loads the module twenty times and writes the messages of all loads to one file.  From two loads on the file
  repeats the name of the processor after the first block, and \<^verbatim>\<open>process-data.py\<close>, which takes every later line that
  is not of an MSR for a result, raises an exception on it.
\<close>

theorem repeated_loads_unreadable:
  assumes "loadable e m" and "e_target e \<noteq> Windows" and "fst (vmx_answer e m)"
    and "c_string (brand_string e) = Some s" and "CHR 0x0A \<notin> set s" and "\<not> starts ''IA32_'' (s @ nl)" and "cut_at '' - '' (s @ nl) = None"
    and "foreign_log stamp (klog m)" and "\<And>k. stamp_ok (stamp k)" and "2 \<le> n"
  shows "\<exists>m'. script_loads e n m = Some m' \<and> read_file (get_vmlatency_file (dmesg stamp (klog m'))) = None"
  by (rule script_loads_unread [OF assms])

theorem repeated_loads_unreadable_witness:
  "\<exists>m'. script_loads (x_env Linux (Entry_Exit 10)) 20 x_host = Some m' \<and>
    read_file (get_vmlatency_file (dmesg x_stamp (klog m'))) = None"
proof -
  have t: "e_target (x_env Linux (Entry_Exit 10)) \<noteq> Windows" by (simp add: x_env_def)
  have v: "fst (vmx_answer (x_env Linux (Entry_Exit 10)) x_host)"
    by (simp add: vmx_answer_def x_has_vmx x_host_parts vmx_permitted_def) (simp add: x_msrs_def msr_enc bit_numeral_simps)
  show ?thesis
    by (rule repeated_loads_unreadable [OF x_loadable t v x_brand x_brand_name(1,3,4) x_log_foreign x_stamp_ok]) simp
qed

text \<open>
  C36: The data of the plot.  \<^verbatim>\<open>process-data.py\<close> comes to its end just if every file is skipped or kept for a known processor, and each
  of the eleven generations has a file; it then prints a line for each generation in the order of their launch, with the
  average of one of its files, whose least value is the least of all files of that generation, and its
  assertion that every processor is of one of the eleven generations never fails.
\<close>

theorem process_data_best:
  "if list_all file_fine texts \<and> (\<forall>a \<in> set architectures. \<exists>text \<in> set texts. \<exists>b. kept_as text (fst a) b)
   then \<exists>bs. length bs = 11 \<and> process_data texts = Some (map (\<lambda>(a, b). plot_line (fst a) b) (zip architectures bs)) \<and>
     (\<forall>k < 11. (\<exists>text \<in> set texts. kept_as text (fst (architectures ! k)) (bs ! k)) \<and>
       (\<forall>text \<in> set texts. \<forall>b. kept_as text (fst (architectures ! k)) b \<longrightarrow> least (bs ! k) \<le> least b))
   else process_data texts = None"
  using process_data_outcome [of texts] by (simp only: best_in_def option.case)

theorem process_data_best_witness:
  "\<exists>out. process_data (map x_file x_brands) = Some out \<and> length out = 11"
  using process_data_best [of "map x_file x_brands", unfolded if_P [OF conjI [OF x_files_fine]]]
  by (auto simp: architectures_def)

section \<open>Loading and unloading\<close>



text \<open>
  C33: No state of that life is stuck: the next load, or the next unload, comes back.
\<close>

theorem module_life_progress:
  assumes "module_run e m0 n l m" and "loadable e m0"
  shows "\<exists>l' m'. (if l then l' = False \<and> unload_module e m = Some m' else load_module e m = Some (l', m')) \<and>
    module_run e m0 (if l then n else Suc n) l' m'"
proof -
  have i: "load_effect (4 * n) m0 m" "devices_ok e (os_devices (m_os m0)) l m"
    using module_run_inv [OF assms] by simp_all
  show ?thesis
  proof (cases l)
    case True
    then show ?thesis using unload_ok i(2) module_run.unload assms(1) by fastforce
  next
    case False
    then show ?thesis using load_ok [OF loadable_effect [OF assms(2) i(1)]] i(2) module_run.load assms(1) by fastforce
  qed
qed

theorem module_life_progress_witness:
  "\<exists>l m. load_module (x_env Linux (Entry_Fail 7)) x_host = Some (l, m) \<and> module_run (x_env Linux (Entry_Fail 7)) x_host 1 l m"
  using module_life_progress [OF module_run.start x_loadable] by fastforce

section \<open>The work of a measurement\<close>

text \<open>
  C26: From the ordinary host to the result.  If the processor makes the manual's checks at each VM entry and runs the instructions at the
  guest's RIP, those of \<^verbatim>\<open>guest.S\<close>, and the selector of TR has its low three bits clear, every VM entry of a measurement passes the checks and
  ends in the exit of CPUID: no error is reported, twenty lines are logged, and the guest is entered 2 to the 20 times.
\<close>

theorem guest_runs_cpuid:
  assumes "equipped e m" and "fresh_pages e m" and "kernel_host e m" and "r_tr (m_cpu m) AND 7 = 0"
    and "makes_checks e"
  shows "\<exists>vs m'. measure_vmlatency (platform_of e) e m = Some m' \<and> length vs = 20 \<and>
    klog m' = klog m @ map tagged (map (\<lambda>n. result_line n (vs ! n)) [0..<20]) \<and>
    vm_entries (m_vmx m') = vm_entries (m_vmx m) + 2 ^ 20"
  using checked_measured [OF assms] guest_when_stats
  by (fastforce simp: left_behind_def exit_report_cpuid VMX_ITERATIONS_def)

theorem guest_runs_cpuid_witness:
  "\<exists>m'. measure_vmlatency (platform_of (x_checking MacOS)) (x_checking MacOS) x_host = Some m' \<and>
    length (klog m') = 20 \<and> vm_entries (m_vmx m') = 1048576"
  using guest_runs_cpuid [OF x_checking_equipped x_fresh, of MacOS] x_checked_host [of MacOS]
  by (auto simp: checked_host_def x_start)

text \<open>
  C35: \<^verbatim>\<open>initialize_vmcs\<close> clears the low three bits of every selector that it writes to the host-state area but that of TR (and clears them in
  the guest's TR).  On an ordinary host whose TR has one of them set, VMLAUNCH fails with error 8, invalid host-state fields, and nothing is measured.
\<close>

theorem tr_rpl_refused:
  assumes "equipped e m" and "fresh_pages e m" and "kernel_host e m" and "r_tr (m_cpu m) AND 7 \<noteq> 0"
    and "makes_checks e"
  shows "\<exists>m'. measure_vmlatency (platform_of e) e m = Some m' \<and>
    klog m' = klog m @ [''[vmlatency] VMLAUNCH failed'' @ nl, ''[vmlatency] VM instruciton error: '' @ fmt_lx e 8 @ nl]"
  using checked_refused [OF assms] by (auto simp: left_behind_def tagged_def)

theorem tr_rpl_refused_witness:
  "\<exists>m'. measure_vmlatency (platform_of (x_checking Linux)) (x_checking Linux) x_host_rpl = Some m' \<and>
    hd (klog m') = ''[vmlatency] VMLAUNCH failed'' @ nl"
proof -
  have k: "kernel_host (x_checking Linux) x_host_rpl" by (rule x_kernel_host [of "0x43"]) (simp_all add: x_host_rpl_def)
  have r: "r_tr (m_cpu x_host_rpl) AND 7 \<noteq> 0" by (simp add: x_host_rpl_def)
  show ?thesis
    using tr_rpl_refused [OF x_host_rpl_ok(1,2) k r x_makes_checks] unfolding x_host_rpl_ok(3) by auto
qed

section \<open>Equivalences and safety\<close>



text \<open>
  C39: Interrupts stay off.  Called with interrupts disabled, \<open>measure_guest\<close> goes from the VMCS initialisation to the label \<^verbatim>\<open>out4\<close> by
  \<^verbatim>\<open>initialize_vmcs\<close>, \<^verbatim>\<open>do_vmlaunch\<close> and then either the message and \<^verbatim>\<open>handle_early_exit\<close>, or \<^verbatim>\<open>handle_vmexit\<close> and the loops with their
  \<open>2 ^ 20 - 1\<close> calls of \<^verbatim>\<open>do_vmresume\<close>.  Whatever the processor answers, after each of these steps, and after each
  call of \<^verbatim>\<open>do_vmresume\<close>, interrupts are disabled, the stack pointer is the caller's, and memory, preemption count, locks, pages and devices
  are untouched.
\<close>

theorem interrupts_stay_off:
  assumes "vmx_on (m_vmx m)" and "cur_vmcs (m_vmx m) = Some (vp_pa (vmcs vmm))" and "host_msrs_present (m_cpu m)"
    and "\<not> int_enabled m"
  shows "\<exists>m1 r m2 m3. initialize_vmcs e vmm m = Some m1 \<and> do_vmlaunch e m1 = Some (r, m2) \<and> quiet m m1 \<and> quiet m m2 \<and>
    (if r \<noteq> 0
     then \<exists>mp. vmlatency_printk (platform_of e) (''VMLAUNCH failed'' @ nl) m2 = Some mp \<and>
       handle_early_exit (platform_of e) e mp = Some m3 \<and> quiet m mp \<and> quiet m m3 \<and>
       measure_guest (platform_of e) e vmm cnt irq (replicate VMX_ITERATIONS None) m = do {
         m' \<leftarrow> measure_out4 (platform_of e) e vmm cnt irq (save_host_state m1) m3; Some (False, replicate VMX_ITERATIONS None, m') }
     else \<exists>q stats m4. handle_vmexit (platform_of e) m2 = Some (q, m3) \<and>
       measure_loop e 0 (replicate VMX_ITERATIONS None) m3 = Some (stats, m4) \<and>
       resumes e (2 ^ 20 - 1) m3 = Some m4 \<and> (\<forall>k. \<exists>x. resumes e k m3 = Some x \<and> quiet m x) \<and>
       measure_guest (platform_of e) e vmm cnt irq (replicate VMX_ITERATIONS None) m = do {
         m' \<leftarrow> measure_out4 (platform_of e) e vmm cnt irq (save_host_state m1) m4; Some (True, stats, m') })"
  by (rule port.guest_stretch [OF assms])

theorem interrupts_stay_off_witness:
  "\<exists>m1 r m2. initialize_vmcs (x_env Linux (Entry_Exit 1)) x_vmm (cli (x_in_vmx (x_env Linux (Entry_Exit 1)))) = Some m1 \<and>
    do_vmlaunch (x_env Linux (Entry_Exit 1)) m1 = Some (r, m2) \<and> \<not> int_enabled m2 \<and> r_rsp (m_cpu m2) = r_rsp x_cpu"
proof -
  let ?e = "x_env Linux (Entry_Exit 1)" and ?m = "cli (x_in_vmx (x_env Linux (Entry_Exit 1)))"
  have m: "vmx_on (m_vmx ?m)" "cur_vmcs (m_vmx ?m) = Some (vp_pa (vmcs x_vmm))" "host_msrs_present (m_cpu ?m)" "\<not> int_enabled ?m"
    "r_rsp (m_cpu ?m) = r_rsp x_cpu"
    using x_host_msrs
    by (simp_all add: cli_def x_in_vmx_parts x_vmm_def int_enabled_def host_msrs_present_def)
  from interrupts_stay_off [OF m(1-4), of ?e] show ?thesis unfolding quiet_def m(5) by blast
qed

text \<open>
  C40: The guest's segments.  ES, DS, FS, GS and LDTR are unusable; the access rights of CS and SS are those that LAR
  reports without the undefined bits, and their limits follow the granularity bit.
\<close>

theorem guest_segments:
  assumes "vmx_on (m_vmx m)" and "cur_vmcs (m_vmx m) = Some pa" and "host_msrs_present (m_cpu m)"
  shows "\<exists>m'. initialize_vmcs e vmm m = Some m' \<and>
    (let g = vmcs_fields (m_vmx m') pa; c = m_cpu m
     in list_all (\<lambda>f. g f = UNUSABLE_AR) [VMCS_GUEST_ES_ACCESS_RIGHTS, VMCS_GUEST_DS_ACCESS_RIGHTS,
          VMCS_GUEST_FS_ACCESS_RIGHTS, VMCS_GUEST_GS_ACCESS_RIGHTS, VMCS_GUEST_LDTR_ACCESS_RIGHTS] \<and>
        list_all (\<lambda>(sel, ar, lim). g ar = ucast (drop_bit 8 (e_lar e sel)) AND 0xf0ff \<and> g ar AND 0xf00 = 0 \<and> g ar < 0x10000 \<and>
            g lim = (if bit (g ar) 15 then 0xffffffff else 0xffff))
          [(r_cs c, VMCS_GUEST_CS_ACCESS_RIGHTS, VMCS_GUEST_CS_LIMIT), (r_ss c, VMCS_GUEST_SS_ACCESS_RIGHTS, VMCS_GUEST_SS_LIMIT)])"
  using initialize_vmcs_writes [OF assms, of e vmm]
  by (intro exI [of _ "vmw pa (rev (vmcs_image e vmm m)) m"])
    (simp add: vmw_image_field image_guest_segments get_segment_ar_bits(2,3,4) Let_def, simp add: get_segment_ar_bits(1))

theorem guest_segments_witness:
  "\<exists>m'. initialize_vmcs (x_env Linux (Entry_Exit 10)) x_vmm (x_in_vmx (x_env Linux (Entry_Exit 10))) = Some m' \<and>
    vmcs_fields (m_vmx m') 0x2000 VMCS_GUEST_CS_ACCESS_RIGHTS = 0xa09b \<and>
    vmcs_fields (m_vmx m') 0x2000 VMCS_GUEST_CS_LIMIT = 0xffffffff"
proof -
  have l: "e_lar (x_env Linux (Entry_Exit 10)) (r_cs x_cpu) = 0xa09b00" by (simp add: x_env_def x_lar_def) (simp add: x_cpu_def)
  have b: "bit (0xa09b :: u64) 15" by (simp add: bit_numeral_simps)
  show ?thesis
    using guest_segments [OF x_in_vmx_parts(2,3), of "x_env Linux (Entry_Exit 10)" "x_env Linux (Entry_Exit 10)" x_vmm]
    by (auto simp: x_in_vmx_parts x_host_msrs Let_def l b)
qed

end
